(* ===== verification/Prelude.thy ===== *)
theory Prelude
  imports Main "HOL-Library.Sublist"
begin

text \<open>
  Shared vocabulary of the development: identifiers and instants, the application errors of
  \<open>core/exceptions.py\<close>, the shape of a service call inside a request transaction
  (\<open>core/database.py\<close>), tables as lists of rows, PATCH values, and the lemmas on them that
  every component uses.
\<close>

section \<open>Identifiers, instants, errors\<close>

text \<open>
  A UUID is a 128-bit number that the code compares and orders (it is a keyset column), so it
  is a natural number here. An instant is a number of microseconds since the epoch, the
  resolution of Python's \<open>datetime\<close>; a date is its ordinal day number.
\<close>

type_synonym uuid = nat
type_synonym instant = int
type_synonym date = int

definition seconds :: "int \<Rightarrow> int" where
  "seconds n = n * 1000000"

definition minutes :: "int \<Rightarrow> int" where
  "minutes n = n * 60000000"

definition days :: "int \<Rightarrow> int" where
  "days n = n * 86400000000"

text \<open>
  The subclasses of \<open>AppError\<close> that the modelled code raises, then the errors that escape a
  service uncaught (a 500): a database constraint, a query for one row that finds two, a Python
  type, value or attribute error, an assertion, a Redis server that does not answer, and a loop
  that never ends.
\<close>

datatype error =
    NotFoundError string
  | ConflictError string
  | PermissionDeniedError string
  | UnauthorizedError string
  | QuotaExceededError string
  | RateLimitedError int
  | BreachedPasswordError string
  | FeatureNotConfiguredError string
  | InvalidWebhookUrlError string
  | InvalidCursorError string
  | UpstreamUnavailableError string
  | IntegrityError
  | MultipleResultsFound
  | AttributeError
  | InvalidOperation
  | ValueError
  | TypeError
  | AssertionError
  | RedisUnavailable
  | ValidationError string
  | NonTermination

definition status_code :: "error \<Rightarrow> nat" where
  "status_code e = (case e of
      NotFoundError _ \<Rightarrow> 404
    | ConflictError _ \<Rightarrow> 409
    | PermissionDeniedError _ \<Rightarrow> 403
    | UnauthorizedError _ \<Rightarrow> 401
    | QuotaExceededError _ \<Rightarrow> 403
    | RateLimitedError _ \<Rightarrow> 429
    | BreachedPasswordError _ \<Rightarrow> 422
    | FeatureNotConfiguredError _ \<Rightarrow> 501
    | InvalidWebhookUrlError _ \<Rightarrow> 422
    | InvalidCursorError _ \<Rightarrow> 400
    | UpstreamUnavailableError _ \<Rightarrow> 503
    | ValidationError _ \<Rightarrow> 422
    | IntegrityError \<Rightarrow> 500
    | MultipleResultsFound \<Rightarrow> 500
    | AttributeError \<Rightarrow> 500
    | InvalidOperation \<Rightarrow> 500
    | ValueError \<Rightarrow> 500
    | TypeError \<Rightarrow> 500
    | AssertionError \<Rightarrow> 500
    | RedisUnavailable \<Rightarrow> 500
    | NonTermination \<Rightarrow> 500)"

section \<open>Service calls\<close>

text \<open>
  A service method runs inside the request's transaction: it reads and writes the session's
  view of the database and either returns or raises. The writes made before a raise are part
  of the result; whether they survive is decided at the request boundary (theory
  \<open>Database\<close>), not here.
\<close>

type_synonym ('s, 'a) action = "'s \<Rightarrow> (error + 'a) \<times> 's"

definition ret :: "'a \<Rightarrow> ('s, 'a) action" where
  "ret a s = (Inr a, s)"

definition raise :: "error \<Rightarrow> ('s, 'a) action" where
  "raise e s = (Inl e, s)"

definition andthen :: "('s, 'a) action \<Rightarrow> ('a \<Rightarrow> ('s, 'b) action) \<Rightarrow> ('s, 'b) action" where
  "andthen m f s = (case m s of (Inl e, s') \<Rightarrow> (Inl e, s') | (Inr a, s') \<Rightarrow> f a s')"

definition gets :: "('s \<Rightarrow> 'a) \<Rightarrow> ('s, 'a) action" where
  "gets f s = (Inr (f s), s)"

definition modify :: "('s \<Rightarrow> 's) \<Rightarrow> ('s, unit) action" where
  "modify f s = (Inr (), f s)"

definition check :: "bool \<Rightarrow> error \<Rightarrow> ('s, unit) action" where
  "check b e s = (if b then (Inr (), s) else (Inl e, s))"

text \<open>A computed result of a pure function, raised when it is an error.\<close>

definition lift_res :: "error + 'a \<Rightarrow> ('s, 'a) action" where
  "lift_res r s = (r, s)"

fun for_each :: "'x list \<Rightarrow> ('x \<Rightarrow> ('s, unit) action) \<Rightarrow> ('s, unit) action" where
  "for_each [] f = ret ()"
| "for_each (x # xs) f = andthen (f x) (\<lambda>_. for_each xs f)"

named_theorems action_simps
  \<open>equations that run an action on a state\<close>

lemma action_basics [action_simps]:
  "ret a s = (Inr a, s)"
  "raise e s = (Inl e, s)"
  "gets f s = (Inr (f s), s)"
  "modify g s = (Inr (), g s)"
  "lift_res r s = (r, s)"
  by (simp_all add: ret_def raise_def gets_def modify_def lift_res_def)

lemma andthen_simps [action_simps]:
  "m s = (Inr a, s') \<Longrightarrow> andthen m f s = f a s'"
  "m s = (Inl e, s') \<Longrightarrow> andthen m f s = (Inl e, s')"
  by (simp_all add: andthen_def)

lemma andthen_gets [simp]: "andthen (gets g) f s = f (g s) s"
  by (simp add: andthen_def gets_def)

lemma andthen_modify [simp]: "andthen (modify g) f s = f () (g s)"
  by (simp add: andthen_def modify_def)

lemma andthen_ret [simp]: "andthen (ret a) f s = f a s"
  by (simp add: andthen_def ret_def)

lemma andthen_raise [simp]: "andthen (raise e) f s = (Inl e, s)"
  by (simp add: andthen_def raise_def)

lemma andthen_check [simp]:
  "andthen (check b e) f s = (if b then f () s else (Inl e, s))"
  by (simp add: andthen_def check_def)

lemma andthen_lift [simp]:
  "andthen (lift_res (Inr a)) f s = f a s"
  "andthen (lift_res (Inl e)) f s = (Inl e, s)"
  by (simp_all add: andthen_def lift_res_def)

lemma andthen_assoc: "andthen (andthen m f) g = andthen m (\<lambda>x. andthen (f x) g)"
  by (rule ext) (simp add: andthen_def split: prod.splits sum.splits)

lemma andthen_Inr_iff:
  "andthen m f s = (Inr b, t) \<longleftrightarrow> (\<exists>a s'. m s = (Inr a, s') \<and> f a s' = (Inr b, t))"
  by (auto simp: andthen_def split: prod.splits sum.splits)

lemma andthen_Inl_iff:
  "andthen m f s = (Inl e, t) \<longleftrightarrow>
     m s = (Inl e, t) \<or> (\<exists>a s'. m s = (Inr a, s') \<and> f a s' = (Inl e, t))"
  by (auto simp: andthen_def split: prod.splits sum.splits)

lemma check_iff:
  "check b e s = (Inr u, t) \<longleftrightarrow> b \<and> t = s"
  "check b e s = (Inl e', t) \<longleftrightarrow> \<not> b \<and> e' = e \<and> t = s"
  by (auto simp: check_def)

lemma basic_iff:
  "ret a s = (Inr b, t) \<longleftrightarrow> b = a \<and> t = s"
  "ret a s = (Inl e, t) \<longleftrightarrow> False"
  "raise e s = (Inr b, t) \<longleftrightarrow> False"
  "raise e s = (Inl e', t) \<longleftrightarrow> e' = e \<and> t = s"
  "gets f s = (Inr c, t) \<longleftrightarrow> c = f s \<and> t = s"
  "gets f s = (Inl e, t) \<longleftrightarrow> False"
  "modify g s = (Inr u, t) \<longleftrightarrow> t = g s"
  "modify g s = (Inl e, t) \<longleftrightarrow> False"
  "lift_res r s = (q, t) \<longleftrightarrow> q = r \<and> t = s"
  by (auto simp: ret_def raise_def gets_def modify_def lift_res_def)

lemma Inr_run: "\<not> isl (fst r) \<Longrightarrow> r = (Inr (projr (fst r)), snd r)"
  by (cases r) (auto simp: isl_def split: sum.splits elim: sumE)

lemma unit_run: "\<not> isl (fst r) \<Longrightarrow> r = (Inr (), snd r)" for r :: "(error + unit) \<times> 's"
  using Inr_run [of r] by (metis old.unit.exhaust)

lemmas action_iff = andthen_Inr_iff andthen_Inl_iff check_iff basic_iff

subsection \<open>Invariants of actions\<close>

text \<open>
  \<open>preserves I m\<close>: from a state that satisfies \<open>I\<close> the action leaves one that does, whether
  it returns or raises. The introduction rules follow the structure of an action, so that the
  invariant of a handler reduces to its writes.
\<close>

definition preserves :: "('s \<Rightarrow> bool) \<Rightarrow> ('s, 'a) action \<Rightarrow> bool" where
  "preserves I m \<longleftrightarrow> (\<forall>s. I s \<longrightarrow> I (snd (m s)))"

named_theorems preserves_intros
  \<open>introduction rules for preserves\<close>

lemma preservesD: "preserves I m \<Longrightarrow> I s \<Longrightarrow> m s = (r, t) \<Longrightarrow> I t"
  by (metis preserves_def snd_conv)

lemma preservesI: "(\<And>s r t. I s \<Longrightarrow> m s = (r, t) \<Longrightarrow> I t) \<Longrightarrow> preserves I m"
  by (metis preserves_def prod.collapse)

lemma preserves_basics [preserves_intros]:
  "preserves I (ret a)"
  "preserves I (raise e)"
  "preserves I (gets f)"
  "preserves I (check b e)"
  "preserves I (lift_res r)"
  by (auto simp: preserves_def ret_def raise_def gets_def check_def lift_res_def)

lemma preserves_modify [preserves_intros]: "(\<And>s. I s \<Longrightarrow> I (g s)) \<Longrightarrow> preserves I (modify g)"
  by (simp add: preserves_def modify_def)

lemma preserves_andthen [preserves_intros]:
  "preserves I m \<Longrightarrow> (\<And>a. preserves I (f a)) \<Longrightarrow> preserves I (andthen m f)"
  unfolding preserves_def andthen_def
  by (simp split: prod.splits sum.splits) (metis snd_conv)

lemma preserves_if [preserves_intros]:
  "(b \<Longrightarrow> preserves I m) \<Longrightarrow> (\<not> b \<Longrightarrow> preserves I n) \<Longrightarrow> preserves I (if b then m else n)"
  by simp

lemma preserves_option [preserves_intros]:
  "(x = None \<Longrightarrow> preserves I m) \<Longrightarrow> (\<And>y. x = Some y \<Longrightarrow> preserves I (f y)) \<Longrightarrow>
   preserves I (case x of None \<Rightarrow> m | Some y \<Rightarrow> f y)"
  by (cases x) auto

lemma preserves_for_each [preserves_intros]:
  "(\<And>x. x \<in> set xs \<Longrightarrow> preserves I (f x)) \<Longrightarrow> preserves I (for_each xs f)"
  by (induction xs) (auto intro!: preserves_intros)

text \<open>An action that never writes: every predicate on the state is preserved by it.\<close>

definition read_only :: "('s, 'a) action \<Rightarrow> bool" where
  "read_only m \<longleftrightarrow> (\<forall>s. snd (m s) = s)"

lemma read_onlyD: "read_only m \<Longrightarrow> m s = (r, t) \<Longrightarrow> t = s"
  by (metis read_only_def snd_conv)

lemma read_only_preserves: "read_only m \<Longrightarrow> preserves I m"
  by (simp add: read_only_def preserves_def)

lemma read_then:
  assumes "read_only m" "andthen m f s = (r, s')" "s' \<noteq> s"
  obtains x where "m s = (Inr x, s)" "f x s = (r, s')"
proof (cases "m s")
  case (Pair y t)
  with assms(1) have "t = s" by (auto dest: read_onlyD)
  with Pair assms(2,3) that show ?thesis by (cases y) (auto simp: andthen_def)
qed

named_theorems read_only_intros
  \<open>introduction rules for read_only\<close>

lemma read_only_basics [read_only_intros]:
  "read_only (ret a)"
  "read_only (raise e)"
  "read_only (gets f)"
  "read_only (check b e)"
  "read_only (lift_res r)"
  by (auto simp: read_only_def ret_def raise_def gets_def check_def lift_res_def)

lemma read_only_andthen [read_only_intros]:
  "read_only m \<Longrightarrow> (\<And>a. read_only (f a)) \<Longrightarrow> read_only (andthen m f)"
  unfolding read_only_def andthen_def
  by (simp split: prod.splits sum.splits) (metis snd_conv)

lemma read_only_if [read_only_intros]:
  "read_only m \<Longrightarrow> read_only n \<Longrightarrow> read_only (if b then m else n)"
  by simp

lemma read_only_option [read_only_intros]:
  "read_only m \<Longrightarrow> (\<And>y. read_only (f y)) \<Longrightarrow>
   read_only (case x of None \<Rightarrow> m | Some y \<Rightarrow> f y)"
  by (cases x) auto

section \<open>Tables\<close>

text \<open>
  A table is a list of rows. A query is a filter; the order of its result is that of the
  table unless the query orders it. \<open>one_or_none\<close> is SQLAlchemy's
  \<open>scalar_one_or_none\<close>, which raises when a query for one row finds two.
\<close>

definition upd_rows :: "('r \<Rightarrow> bool) \<Rightarrow> ('r \<Rightarrow> 'r) \<Rightarrow> 'r list \<Rightarrow> 'r list" where
  "upd_rows P f rows = map (\<lambda>r. if P r then f r else r) rows"

definition del_rows :: "('r \<Rightarrow> bool) \<Rightarrow> 'r list \<Rightarrow> 'r list" where
  "del_rows P rows = filter (\<lambda>r. \<not> P r) rows"

fun one_or_none :: "'r list \<Rightarrow> error + 'r option" where
  "one_or_none [] = Inr None"
| "one_or_none [r] = Inr (Some r)"
| "one_or_none (r # r' # rs) = Inl MultipleResultsFound"

lemma one_or_none_eq:
  "one_or_none rs = Inr None \<longleftrightarrow> rs = []"
  "one_or_none rs = Inr (Some r) \<longleftrightarrow> rs = [r]"
  "one_or_none rs = Inl e \<longleftrightarrow> 2 \<le> length rs \<and> e = MultipleResultsFound"
  by (cases rs rule: one_or_none.cases; auto)+

lemma set_upd_rows: "set (upd_rows P f rows) = (\<lambda>r. if P r then f r else r) ` set rows"
  by (simp add: upd_rows_def)

lemma in_upd_rows:
  "x \<in> set (upd_rows P f rows) \<longleftrightarrow>
     (\<exists>r \<in> set rows. (P r \<and> x = f r) \<or> (\<not> P r \<and> x = r))"
  by (auto simp: upd_rows_def)

lemma upd_rows_other: "x \<in> set rows \<Longrightarrow> \<not> P x \<Longrightarrow> x \<in> set (upd_rows P f rows)"
  by (auto simp: in_upd_rows)

lemma upd_rows_all:
  "(\<And>r. P r \<Longrightarrow> Q (f r)) \<Longrightarrow> (\<And>r. \<not> P r \<Longrightarrow> Q r) \<Longrightarrow> \<forall>y \<in> set (upd_rows P f rows). Q y"
  by (auto simp: upd_rows_def)

lemma in_del_rows [simp]: "x \<in> set (del_rows P rows) \<longleftrightarrow> x \<in> set rows \<and> \<not> P x"
  by (auto simp: del_rows_def)

lemma map_upd_rows [simp]: "(\<And>r. g (f r) = g r) \<Longrightarrow> map g (upd_rows P f rows) = map g rows"
  by (simp add: upd_rows_def)

lemma length_upd_rows [simp]: "length (upd_rows P f rows) = length rows"
  by (simp add: upd_rows_def)

lemma upd_rows_Nil [simp]: "upd_rows P f [] = []"
  by (simp add: upd_rows_def)

lemma find_upd_rows:
  "(\<And>r. Q (f r) = Q r) \<Longrightarrow>
   find Q (upd_rows P f rows) = map_option (\<lambda>r. if P r then f r else r) (find Q rows)"
  by (induction rows) (auto simp: upd_rows_def)

lemma filter_upd_rows:
  "(\<And>r. P r \<Longrightarrow> Q (f r) = Q r) \<Longrightarrow>
   filter Q (upd_rows P f rows) = upd_rows P f (filter Q rows)"
  by (induction rows) (auto simp: upd_rows_def)

lemma find_in: "find P xs = Some x \<Longrightarrow> x \<in> set xs \<and> P x"
  by (induction xs) (auto split: if_splits)

lemma find_app: "find P (xs @ ys) = (case find P xs of None \<Rightarrow> find P ys | Some x \<Rightarrow> Some x)"
  by (induction xs) auto

lemma find_distinct:
  assumes "distinct (map key xs)" "x \<in> set xs" "key x = k" "P x" "\<And>y. P y \<Longrightarrow> key y = k"
  shows "find P xs = Some x"
  using assms(1,2)
proof (induction xs)
  case (Cons y ys)
  show ?case
  proof (cases "P y")
    case True
    with assms have "key y = key x" by metis
    with Cons.prems have "y = x" by (auto simp: rev_image_eqI)
    with True show ?thesis by simp
  next
    case False
    with Cons assms(4) show ?thesis by auto
  qed
qed simp

lemma distinct_map_filterI: "distinct (map f xs) \<Longrightarrow> distinct (map f (filter P xs))"
  by (induction xs) auto

lemma distinct_key_eq:
  "distinct (map key xs) \<Longrightarrow> x \<in> set xs \<Longrightarrow> y \<in> set xs \<Longrightarrow> key x = key y \<Longrightarrow> x = y"
  by (induction xs) (auto simp: image_iff)

section \<open>PATCH values, options and strings\<close>

text \<open>
  A PATCH body distinguishes a field that is absent (\<open>exclude_unset\<close>) from one that is
  present, possibly with \<open>null\<close>.
\<close>

datatype 'a patch = Unset | SetTo 'a

fun patched :: "'a patch \<Rightarrow> 'a \<Rightarrow> 'a" where
  "patched Unset old = old"
| "patched (SetTo v) old = v"

text \<open>\<open>patch.get(field)\<close>: \<open>None\<close> when absent or null.\<close>

fun patch_get :: "'a option patch \<Rightarrow> 'a option" where
  "patch_get Unset = None"
| "patch_get (SetTo v) = v"

definition or_else :: "'a option \<Rightarrow> 'a \<Rightarrow> 'a" where
  "or_else x d = (case x of None \<Rightarrow> d | Some v \<Rightarrow> v)"

lemma or_else_simps [simp]: "or_else None d = d" "or_else (Some v) d = v"
  by (simp_all add: or_else_def)

text \<open>Python truthiness of an optional string: absent and empty are both false.\<close>

definition str_given :: "string option \<Rightarrow> bool" where
  "str_given x \<longleftrightarrow> x \<noteq> None \<and> x \<noteq> Some []"

lemma str_given_simps [simp]: "str_given None = False" "str_given (Some v) = (v \<noteq> [])"
  by (simp_all add: str_given_def)

text \<open>A value between single quotes, as the messages print it.\<close>

definition quoted :: "string \<Rightarrow> string" where
  "quoted v = [CHR 0x27] @ v @ [CHR 0x27]"

text \<open>
  \<open>str.lower\<close>, \<open>str.strip\<close> and \<open>str.partition\<close> on one-byte characters (HTTP headers and
  the ASCII part of an address).
\<close>

definition lower_char :: "char \<Rightarrow> char" where
  "lower_char c = (let n = of_char c :: nat in
     if 65 \<le> n \<and> n \<le> 90 then char_of (n + 32) else c)"

definition str_lower :: "string \<Rightarrow> string" where
  "str_lower s = map lower_char s"

definition is_digit :: "char \<Rightarrow> bool" where
  "is_digit c = (let n = of_char c :: nat in 48 \<le> n \<and> n \<le> 57)"

definition is_space :: "char \<Rightarrow> bool" where
  "is_space c = (let n = of_char c :: nat in
     (9 \<le> n \<and> n \<le> 13) \<or> (28 \<le> n \<and> n \<le> 32) \<or> n = 133 \<or> n = 160)"

definition str_strip :: "string \<Rightarrow> string" where
  "str_strip s = rev (dropWhile is_space (rev (dropWhile is_space s)))"

definition str_partition :: "char \<Rightarrow> string \<Rightarrow> string \<times> string" where
  "str_partition c s = (takeWhile (\<lambda>x. x \<noteq> c) s, drop 1 (dropWhile (\<lambda>x. x \<noteq> c) s))"

end
