(* ===== verification/Redis.thy ===== *)
theory Redis
  imports Prelude
begin

text \<open>
  The Redis server as the code uses it: strings and counters with a time to live, sets, and
  sorted sets of timestamps. A value is gone once its expiry is reached. \<open>r_up\<close> tells whether
  the server answers; the callers differ in what they do when it does not.
\<close>

record redis =
  r_up :: bool
  r_text :: "string \<Rightarrow> (string \<times> instant) option"
  r_count :: "string \<Rightarrow> (int \<times> instant) option"
  r_set :: "string \<Rightarrow> (string list \<times> instant) option"
  r_zset :: "string \<Rightarrow> (instant list \<times> instant) option"

definition empty_redis :: redis where
  "empty_redis = \<lparr>r_up = True, r_text = (\<lambda>_. None), r_count = (\<lambda>_. None), r_set = (\<lambda>_. None),
     r_zset = (\<lambda>_. None)\<rparr>"

text \<open>What a read sees at an instant.\<close>

definition alive :: "instant \<Rightarrow> ('v \<times> instant) option \<Rightarrow> 'v option" where
  "alive now entry = (case entry of None \<Rightarrow> None | Some (v, expires) \<Rightarrow> if now < expires then Some v else None)"

lemma alive_simps [simp]:
  "alive now None = None"
  "now < e \<Longrightarrow> alive now (Some (v, e)) = Some v"
  "e \<le> now \<Longrightarrow> alive now (Some (v, e)) = None"
  by (simp_all add: alive_def)

lemma alive_Some: "alive now entry = Some v \<longleftrightarrow> (\<exists>e. entry = Some (v, e) \<and> now < e)"
  by (auto simp: alive_def split: option.splits)

definition redis_get :: "string \<Rightarrow> instant \<Rightarrow> redis \<Rightarrow> string option" where
  "redis_get k now r = alive now (r_text r k)"

definition redis_set :: "string \<Rightarrow> string \<Rightarrow> int \<Rightarrow> instant \<Rightarrow> redis \<Rightarrow> redis" where
  "redis_set k v ttl now r = r\<lparr>r_text := (r_text r)(k := Some (v, now + seconds ttl))\<rparr>"

definition redis_getdel :: "string \<Rightarrow> instant \<Rightarrow> redis \<Rightarrow> string option \<times> redis" where
  "redis_getdel k now r = (redis_get k now r, r\<lparr>r_text := (r_text r)(k := None)\<rparr>)"

definition redis_delete :: "string list \<Rightarrow> redis \<Rightarrow> redis" where
  "redis_delete ks r = r\<lparr>r_text := (\<lambda>k. if k \<in> set ks then None else r_text r k),
     r_count := (\<lambda>k. if k \<in> set ks then None else r_count r k),
     r_set := (\<lambda>k. if k \<in> set ks then None else r_set r k)\<rparr>"

text \<open>\<open>INCR\<close> and \<open>EXPIRE\<close> in one pipeline: the new count, which lives for another window.\<close>

definition redis_incr_expire :: "string \<Rightarrow> int \<Rightarrow> instant \<Rightarrow> redis \<Rightarrow> int \<times> redis" where
  "redis_incr_expire k window now r =
     (let n = or_else (alive now (r_count r k)) 0 + 1
      in (n, r\<lparr>r_count := (r_count r)(k := Some (n, now + seconds window))\<rparr>))"

definition redis_sadd_expire :: "string \<Rightarrow> string \<Rightarrow> int \<Rightarrow> instant \<Rightarrow> redis \<Rightarrow> redis" where
  "redis_sadd_expire k v ttl now r =
     (let members = or_else (alive now (r_set r k)) []
      in r\<lparr>r_set := (r_set r)(k := Some (if v \<in> set members then members else members @ [v],
            now + seconds ttl))\<rparr>)"

definition redis_smembers :: "string \<Rightarrow> instant \<Rightarrow> redis \<Rightarrow> string list" where
  "redis_smembers k now r = or_else (alive now (r_set r k)) []"

section \<open>Single-use tokens\<close>

text \<open>
  What the code relies on of the store of its tokens: a value lives until its time to live is
  over, taking it removes it, and keys do not disturb each other.
\<close>

locale token_store =
  fixes put :: "string \<Rightarrow> string \<Rightarrow> int \<Rightarrow> instant \<Rightarrow> 's \<Rightarrow> 's"
    and take_out :: "string \<Rightarrow> instant \<Rightarrow> 's \<Rightarrow> string option \<times> 's"
  assumes take_put: "fst (take_out k now (put k v ttl at s)) = (if now < at + seconds ttl then Some v else None)"
    and take_once: "fst (take_out k later (snd (take_out k now s))) = None"
    and take_put_other: "k \<noteq> k' \<Longrightarrow> fst (take_out k' now (put k v ttl at s)) = fst (take_out k' now s)"
    and take_other: "k \<noteq> k' \<Longrightarrow> fst (take_out k' later (snd (take_out k now s))) = fst (take_out k' later s)"
begin

text \<open>A token is spent when no redemption of it is accepted at any time, unless it is put again.\<close>

definition spent :: "string \<Rightarrow> 's \<Rightarrow> bool" where
  "spent k s \<longleftrightarrow> (\<forall>now. fst (take_out k now s) = None)"

lemma spent_taken: "spent k (snd (take_out k now s))"
  by (simp add: spent_def take_once)

lemma spent_refused: "spent k s \<Longrightarrow> fst (take_out k now s) = None"
  by (simp add: spent_def)

lemma spent_take: "spent k s \<Longrightarrow> spent k (snd (take_out k' now s))"
  by (cases "k' = k") (simp_all add: spent_def take_once take_other)

lemma spent_put: "spent k s \<Longrightarrow> k' \<noteq> k \<Longrightarrow> spent k (put k' v ttl now s)"
  by (simp add: spent_def take_put_other)

end

interpretation tokens: token_store redis_set redis_getdel
  by unfold_locales (auto simp: redis_set_def redis_getdel_def redis_get_def alive_def)

end
