(* ===== verification/Permissions.thy ===== *)
theory Permissions
  imports Prelude
begin

text \<open>
  \<open>core/permissions.py\<close>: the roles, the permission constants, the static role matrix, the
  decoding of a bearer token into the request's actor and the \<open>require\<close> guard.
\<close>

section \<open>Roles and the permission matrix\<close>

datatype role =
    BUYER_RENTER | SELLER | AGENT | TEAM_LEAD | ADMIN | MARKETING
  | PLATFORM_ADMIN | PLATFORM_SUPPORT

definition all_roles :: "role list" where
  "all_roles = [BUYER_RENTER, SELLER, AGENT, TEAM_LEAD, ADMIN, MARKETING,
     PLATFORM_ADMIN, PLATFORM_SUPPORT]"

definition role_value :: "role \<Rightarrow> string" where
  "role_value r = (case r of
      BUYER_RENTER \<Rightarrow> ''buyer_renter'' | SELLER \<Rightarrow> ''seller'' | AGENT \<Rightarrow> ''agent''
    | TEAM_LEAD \<Rightarrow> ''team_lead'' | ADMIN \<Rightarrow> ''admin'' | MARKETING \<Rightarrow> ''marketing''
    | PLATFORM_ADMIN \<Rightarrow> ''platform_admin'' | PLATFORM_SUPPORT \<Rightarrow> ''platform_support'')"

text \<open>\<open>Role(value)\<close>: the enum member, or a \<open>ValueError\<close> (here \<open>None\<close>).\<close>

definition role_of_value :: "string \<Rightarrow> role option" where
  "role_of_value v = find (\<lambda>r. role_value r = v) all_roles"

definition PLATFORM_ROLES :: "role list" where
  "PLATFORM_ROLES = [PLATFORM_ADMIN, PLATFORM_SUPPORT]"

definition TENANT_ROLES :: "role list" where
  "TENANT_ROLES = filter (\<lambda>r. r \<notin> set PLATFORM_ROLES) all_roles"

definition SELF_REGISTER_ROLES :: "role list" where
  "SELF_REGISTER_ROLES = [BUYER_RENTER, SELLER]"

datatype permission =
    USER_VIEW | USER_MANAGE | LISTING_MANAGE | LISTING_PUBLISH | LEAD_MANAGE | LEAD_VIEW_ALL
  | LEAD_ASSIGN | AGENT_MANAGE | APPOINTMENT_MANAGE | CONTENT_MANAGE | REVIEW_MODERATE
  | ANALYTICS_VIEW | COMPLIANCE_MANAGE | DEAL_MANAGE | WEBHOOK_MANAGE
  | PLATFORM_TENANT_VIEW | PLATFORM_TENANT_MANAGE | PLATFORM_STAFF_MANAGE

definition ROLE_PERMISSIONS :: "role \<Rightarrow> permission list" where
  "ROLE_PERMISSIONS r = (case r of
      BUYER_RENTER \<Rightarrow> []
    | SELLER \<Rightarrow> []
    | AGENT \<Rightarrow> [LISTING_MANAGE, LEAD_MANAGE, APPOINTMENT_MANAGE, DEAL_MANAGE]
    | TEAM_LEAD \<Rightarrow> [LISTING_MANAGE, LISTING_PUBLISH, LEAD_MANAGE, LEAD_VIEW_ALL, LEAD_ASSIGN,
        AGENT_MANAGE, APPOINTMENT_MANAGE, DEAL_MANAGE, ANALYTICS_VIEW]
    | MARKETING \<Rightarrow> [LISTING_MANAGE, LEAD_MANAGE, LEAD_VIEW_ALL, LEAD_ASSIGN, AGENT_MANAGE,
        APPOINTMENT_MANAGE, CONTENT_MANAGE, REVIEW_MODERATE, ANALYTICS_VIEW]
    | ADMIN \<Rightarrow> [USER_VIEW, USER_MANAGE, LISTING_MANAGE, LISTING_PUBLISH, LEAD_MANAGE,
        LEAD_VIEW_ALL, LEAD_ASSIGN, AGENT_MANAGE, APPOINTMENT_MANAGE, CONTENT_MANAGE,
        REVIEW_MODERATE, DEAL_MANAGE, ANALYTICS_VIEW, COMPLIANCE_MANAGE, WEBHOOK_MANAGE]
    | PLATFORM_SUPPORT \<Rightarrow> [PLATFORM_TENANT_VIEW]
    | PLATFORM_ADMIN \<Rightarrow> [PLATFORM_TENANT_VIEW, PLATFORM_TENANT_MANAGE, PLATFORM_STAFF_MANAGE])"

definition platform_permission :: "permission \<Rightarrow> bool" where
  "platform_permission p \<longleftrightarrow>
     p \<in> {PLATFORM_TENANT_VIEW, PLATFORM_TENANT_MANAGE, PLATFORM_STAFF_MANAGE}"

section \<open>The authenticated actor\<close>

record actor =
  actor_id :: uuid
  actor_tenant :: "uuid option"
  actor_role :: role
  actor_jti :: string
  actor_impersonator :: "uuid option"

record token_claims =
  claim_user :: uuid
  claim_tenant :: "uuid option"
  claim_role :: string
  claim_jti :: string
  claim_impersonator :: "uuid option"

definition has_permission :: "actor \<Rightarrow> permission \<Rightarrow> bool" where
  "has_permission a p \<longleftrightarrow> p \<in> set (ROLE_PERMISSIONS (actor_role a))"

definition bearer_token :: "string \<Rightarrow> error + string" where
  "bearer_token header =
     (let (scheme, token) = str_partition (CHR '' '') header in
      if str_lower scheme \<noteq> ''bearer'' \<or> str_strip token = ''''
      then Inl (UnauthorizedError ''A bearer access token is required.'')
      else Inr (str_strip token))"

text \<open>
  \<open>decode\<close> is \<open>decode_access_token\<close>, whose work is PyJWT's: \<open>None\<close> when the signature or
  a claim is bad. \<open>denied\<close> is the Redis lookup of the token's \<open>jti\<close>: \<open>None\<close> when Redis is
  unreachable, which the code treats as not denied.
\<close>

definition get_current_user ::
  "(string \<Rightarrow> token_claims option) \<Rightarrow> (string \<Rightarrow> bool option) \<Rightarrow> uuid option \<Rightarrow> string \<Rightarrow> error + actor"
where
  "get_current_user decode denied tenant header =
     (case bearer_token header of
        Inl e \<Rightarrow> Inl e
      | Inr token \<Rightarrow>
     (case decode token of
        None \<Rightarrow> Inl (UnauthorizedError ''The access token is invalid or has expired.'')
      | Some claims \<Rightarrow>
     (case role_of_value (claim_role claims) of
        None \<Rightarrow> Inl (UnauthorizedError ''The access token is invalid or has expired.'')
      | Some role \<Rightarrow>
        if (claim_tenant claims = None) \<noteq> (role \<in> set PLATFORM_ROLES)
        then Inl (UnauthorizedError ''The access token is invalid or has expired.'')
        else if claim_tenant claims \<noteq> tenant
        then Inl (UnauthorizedError ''The access token is not valid for this site.'')
        else if (case denied (claim_jti claims) of None \<Rightarrow> False | Some d \<Rightarrow> d)
        then Inl (UnauthorizedError ''The access token has been revoked.'')
        else Inr \<lparr>actor_id = claim_user claims, actor_tenant = claim_tenant claims,
                  actor_role = role, actor_jti = claim_jti claims,
                  actor_impersonator = claim_impersonator claims\<rparr>)))"

text \<open>The route guard: the current user, who must hold every permission of the list.\<close>

definition require :: "permission list \<Rightarrow> error + actor \<Rightarrow> error + actor" where
  "require permissions user =
     (case user of
        Inl e \<Rightarrow> Inl e
      | Inr a \<Rightarrow>
          if list_ex (\<lambda>p. \<not> has_permission a p) permissions
          then Inl (PermissionDeniedError ''You do not have permission to perform this action.'')
          else Inr a)"

section \<open>Lemmas\<close>

lemma role_of_value_value [simp]: "role_of_value (role_value r) = Some r"
  by (cases r) (simp_all add: role_of_value_def all_roles_def role_value_def)

lemma role_of_value_Some: "role_of_value v = Some r \<Longrightarrow> v = role_value r"
  by (auto simp: role_of_value_def dest: find_in)

lemma platform_role_permissions:
  "p \<in> set (ROLE_PERMISSIONS r) \<Longrightarrow> platform_permission p \<longleftrightarrow> r \<in> set PLATFORM_ROLES"
  by (cases r) (auto simp: ROLE_PERMISSIONS_def platform_permission_def PLATFORM_ROLES_def)

lemma get_current_user_Inr:
  assumes "get_current_user decode denied tenant header = Inr a"
  obtains token claims where
    "bearer_token header = Inr token" "decode token = Some claims"
    "role_of_value (claim_role claims) = Some (actor_role a)"
    "claim_tenant claims = tenant" "actor_tenant a = tenant"
    "tenant = None \<longleftrightarrow> actor_role a \<in> set PLATFORM_ROLES"
    "actor_id a = claim_user claims" "actor_jti a = claim_jti claims"
    "denied (actor_jti a) \<noteq> Some True"
  using assms by (auto simp: get_current_user_def split: sum.splits option.splits if_splits)

lemma get_current_user_Inl:
  "get_current_user decode denied tenant header = Inl e \<Longrightarrow> \<exists>msg. e = UnauthorizedError msg"
  by (auto simp: get_current_user_def bearer_token_def Let_def
      split: sum.splits option.splits if_splits prod.splits)

lemma require_Inr:
  "require ps user = Inr a \<longleftrightarrow> user = Inr a \<and> (\<forall>p \<in> set ps. has_permission a p)"
  by (auto simp: require_def list_ex_iff split: sum.splits)

end
