(* ===== verification/Money.thy ===== *)
theory Money
  imports Prelude
begin

text \<open>
  \<open>common/money.py\<close>: the one rounding rule for money and the commission figure. A Python
  \<open>Decimal\<close> is a coefficient and an exponent; the operators are those of the standard
  library's \<open>decimal\<close> module in its default context (28 significant digits,
  \<open>ROUND_HALF_EVEN\<close>, \<open>InvalidOperation\<close> trapped), which is what the code computes in.
\<close>

section \<open>Decimals in the default context\<close>

datatype decimal = Dec (coef: int) (expo: int)

definition PREC :: nat where
  "PREC = 28"

fun ndigits :: "nat \<Rightarrow> nat" where
  "ndigits n = (if n < 10 then 1 else Suc (ndigits (n div 10)))"

declare ndigits.simps [simp del]

definition half_even :: "nat \<Rightarrow> nat \<Rightarrow> nat" where
  "half_even n k = (let q = n div 10 ^ k; r = n mod 10 ^ k in
     if 10 ^ k < 2 * r \<or> (2 * r = 10 ^ k \<and> odd q) then Suc q else q)"

definition half_up :: "nat \<Rightarrow> nat \<Rightarrow> nat" where
  "half_up n k = (let q = n div 10 ^ k; r = n mod 10 ^ k in
     if 10 ^ k \<le> 2 * r then Suc q else q)"

text \<open>Rounding a result to the precision of the context.\<close>

fun dec_fix :: "decimal \<Rightarrow> decimal" where
  "dec_fix (Dec c e) =
     (let d = ndigits (nat \<bar>c\<bar>) in
      if d \<le> PREC then Dec c e
      else let k = d - PREC; q = half_even (nat \<bar>c\<bar>) k in
        if ndigits q \<le> PREC then Dec (sgn c * int q) (e + int k)
        else Dec (sgn c * int (q div 10)) (e + int k + 1))"

fun dec_mul :: "decimal \<Rightarrow> decimal \<Rightarrow> decimal" where
  "dec_mul (Dec a e) (Dec b f) = dec_fix (Dec (a * b) (e + f))"

text \<open>Removal of trailing zeros until the ideal exponent of a quotient.\<close>

function strip_zeros :: "nat \<Rightarrow> int \<Rightarrow> int \<Rightarrow> nat \<times> int" where
  "strip_zeros c e ideal =
     (if e < ideal \<and> c mod 10 = 0 then strip_zeros (c div 10) (e + 1) ideal else (c, e))"
  by pat_completeness auto
termination
  by (relation "measure (\<lambda>(c, e, ideal). nat (ideal - e))") auto

declare strip_zeros.simps [simp del]

fun dec_div :: "decimal \<Rightarrow> decimal \<Rightarrow> error + decimal" where
  "dec_div (Dec a e) (Dec b f) =
     (if b = 0 then Inl InvalidOperation
      else if a = 0 then Inr (dec_fix (Dec 0 (e - f)))
      else
        let m = nat \<bar>a\<bar>; n = nat \<bar>b\<bar>;
            shift = int (ndigits n) - int (ndigits m) + int PREC + 1;
            ex = e - f - shift;
            num = (if 0 \<le> shift then m * 10 ^ nat shift else m);
            den = (if 0 \<le> shift then n else n * 10 ^ nat (- shift));
            q = num div den; r = num mod den;
            (c, ex') = (if r \<noteq> 0 then (if q mod 5 = 0 then q + 1 else q, ex)
                        else strip_zeros q ex (e - f))
        in Inr (dec_fix (Dec (sgn a * sgn b * int c) ex')))"

text \<open>\<open>value.quantize(Decimal(10) ** target, rounding=ROUND_HALF_UP)\<close>.\<close>

fun quantize_half_up :: "decimal \<Rightarrow> int \<Rightarrow> error + decimal" where
  "quantize_half_up (Dec c e) target =
     (let q = (if target \<le> e then nat \<bar>c\<bar> * 10 ^ nat (e - target)
               else half_up (nat \<bar>c\<bar>) (nat (target - e)))
      in if PREC < ndigits q then Inl InvalidOperation else Inr (Dec (sgn c * int q) target))"

section \<open>The money functions\<close>

definition to_money :: "decimal \<Rightarrow> error + decimal" where
  "to_money v = quantize_half_up v (-2)"

definition percentage_of :: "decimal \<Rightarrow> decimal \<Rightarrow> error + decimal" where
  "percentage_of base percent =
     (case dec_div (dec_mul base percent) (Dec 100 0) of
        Inl e \<Rightarrow> Inl e
      | Inr v \<Rightarrow> to_money v)"

definition commission_amount :: "decimal \<Rightarrow> decimal \<Rightarrow> error + decimal" where
  "commission_amount price rate_percent = percentage_of price rate_percent"

declare dec_fix.simps [simp del] dec_div.simps [simp del] quantize_half_up.simps [simp del]

section \<open>Digits and rounding\<close>

lemma ndigits_pos: "0 < ndigits n"
  by (subst ndigits.simps) simp

lemma ndigits_le: "0 < k \<Longrightarrow> n < 10 ^ k \<Longrightarrow> ndigits n \<le> k"
proof (induction n arbitrary: k rule: ndigits.induct)
  case (1 n)
  show ?case
  proof (cases "n < 10")
    case True
    with 1 show ?thesis by (subst ndigits.simps) simp
  next
    case False
    with "1.prems" obtain j where k: "k = Suc j" "0 < j"
      by (cases k; cases "k - 1") auto
    with "1.prems" have "n div 10 < 10 ^ j" by auto
    with "1.IH"[OF False \<open>0 < j\<close>] False k show ?thesis by (subst ndigits.simps) simp
  qed
qed

lemma ndigits_100 [simp]: "ndigits 100 = 3"
  by (simp add: ndigits.simps)

lemma dec_fix_small: "\<bar>c\<bar> < 10 ^ PREC \<Longrightarrow> dec_fix (Dec c e) = Dec c e"
proof -
  assume "\<bar>c\<bar> < 10 ^ PREC"
  then have "nat \<bar>c\<bar> < 10 ^ PREC" by (simp add: nat_less_iff)
  then have "ndigits (nat \<bar>c\<bar>) \<le> PREC" by (rule ndigits_le [rotated]) (simp add: PREC_def)
  then show ?thesis by (simp add: dec_fix.simps)
qed

lemma strip_zeros_pow:
  "e + int j \<le> ideal \<Longrightarrow> strip_zeros (m * 10 ^ j) e ideal = strip_zeros m (e + int j) ideal"
proof (induction j arbitrary: e)
  case (Suc j)
  then have "strip_zeros (m * 10 ^ Suc j) e ideal = strip_zeros (m * 10 ^ j) (e + 1) ideal"
    by (subst strip_zeros.simps) simp
  with Suc show ?case by (simp add: algebra_simps)
qed simp

lemma strip_zeros_two:
  "\<exists>c j. strip_zeros n (-7) (-5) = (c, -7 + int j) \<and> n = c * 10 ^ j \<and> j \<le> 2"
proof -
  have stop: "strip_zeros m (-5) (-5) = (m, -5)" for m by (simp add: strip_zeros.simps)
  consider "n mod 10 \<noteq> 0" | "n mod 10 = 0" "n div 10 mod 10 \<noteq> 0"
    | "n mod 10 = 0" "n div 10 mod 10 = 0" by blast
  then show ?thesis
  proof cases
    case 1
    then have "strip_zeros n (-7) (-5) = (n, -7 + int 0)" by (simp add: strip_zeros.simps)
    then show ?thesis by (intro exI [of _ n] exI [of _ 0]) simp
  next
    case 2
    then have "strip_zeros n (-7) (-5) = (n div 10, -7 + int 1)"
      by (simp add: strip_zeros.simps [of n] strip_zeros.simps [of "n div 10"])
    with 2 show ?thesis by (intro exI [of _ "n div 10"] exI [of _ 1]) auto
  next
    case 3
    then have "strip_zeros n (-7) (-5) = (n div 10 div 10, -7 + int 2)"
      by (simp add: strip_zeros.simps [of n] strip_zeros.simps [of "n div 10"] stop)
    with 3 show ?thesis by (intro exI [of _ "n div 10 div 10"] exI [of _ 2]) auto
  qed
qed

lemma half_up_add: "half_up n (Suc k) = (n + 5 * 10 ^ k) div 10 ^ Suc k"
proof -
  let ?p = "10 ^ Suc k :: nat" and ?q = "n div 10 ^ Suc k" and ?r = "n mod 10 ^ Suc k"
  have n: "n = ?q * ?p + ?r" by (rule div_mult_mod_eq [symmetric])
  have r: "?r < ?p" by simp
  have "(n + 5 * 10 ^ k) div ?p = (?q * ?p + (?r + 5 * 10 ^ k)) div ?p"
    by (metis n add.assoc)
  also have "\<dots> = ?q + (?r + 5 * 10 ^ k) div ?p" by simp
  also have "(?r + 5 * 10 ^ k) div ?p = (if ?p \<le> 2 * ?r then 1 else 0)"
  proof (cases "?p \<le> 2 * ?r")
    case True
    moreover have "?r + 5 * 10 ^ k < 2 * ?p" using r by (simp del: mod_less_divisor)
    ultimately have "(?r + 5 * 10 ^ k) div ?p = 1" by (intro div_nat_eqI) auto
    with True show ?thesis by simp
  qed simp
  finally show ?thesis by (simp add: half_up_def Let_def)
qed


lemma half_up_shift: "j \<le> 2 \<Longrightarrow> half_up c (5 - j) = (c * 10 ^ j + 50000) div 100000"
proof -
  assume "j \<le> 2"
  then consider "j = 0" | "j = 1" | "j = 2" by linarith
  then show ?thesis
  proof cases
    case 1
    then show ?thesis using half_up_add [of c 4] by simp
  next
    case 2
    have "(10 * (c + 5000)) div (10 * 10000) = (c + 5000) div 10000" by (rule div_mult_mult1) simp
    with 2 show ?thesis using half_up_add [of c 3] by (simp add: algebra_simps)
  next
    case 3
    have "(100 * (c + 500)) div (100 * 1000) = (c + 500) div 1000" by (rule div_mult_mult1) simp
    with 3 show ?thesis using half_up_add [of c 2] by (simp add: algebra_simps)
  qed
qed

section \<open>The commission figure\<close>

lemma commission_div:
  fixes n :: nat
  assumes "0 < n" "n \<le> 10 ^ 20"
  shows "dec_div (Dec (int n) (-5)) (Dec 100 0) =
    (let (c, ex) = strip_zeros n (-7) (-5) in Inr (dec_fix (Dec (int c) ex)))"
proof -
  from assms(2) have "n < 10 ^ 21" by simp
  then have d: "ndigits n \<le> 21" by (rule ndigits_le [rotated]) simp
  define s where "s = 30 - ndigits n"
  have s: "int (ndigits n) = 30 - int s" using d by (simp add: s_def)
  have strip: "strip_zeros (n * 10 ^ s) (- 7 - int s) (-5) = strip_zeros n (-7) (-5)"
    using strip_zeros_pow [of "- 7 - int s" s "-5" n] by simp
  have sh: "int (ndigits 100) - int (ndigits n) + int PREC + 1 = int (s + 2)"
    by (simp add: s PREC_def)
  have pw: "n * 10 ^ nat (int (s + 2)) = n * 10 ^ s * 100"
    by (simp only: nat_int power_add) simp
  have e: "- 5 - 0 - int (s + 2) = - 7 - int s" "(-5 :: int) - 0 = -5" by simp_all
  have c: "nat \<bar>int n\<bar> = n" "nat \<bar>100 :: int\<bar> = 100" "(0 :: int) \<le> int (s + 2)"
    "n * 10 ^ s * 100 div 100 = n * 10 ^ s" "n * 10 ^ s * 100 mod 100 = 0" by simp_all
  show ?thesis
    using assms(1)
    unfolding dec_div.simps Let_def c(1,2) sh pw e if_P [OF c(3)] c(4,5) strip
    by (simp add: strip split: prod.splits)
qed

lemma commission_exact_nat:
  fixes p r :: nat
  assumes "p \<le> 10 ^ 14" "r \<le> 10 ^ 5"
  shows "commission_amount (Dec (int p) (-2)) (Dec (int r) (-3)) =
    Inr (Dec (int ((p * r + 50000) div 100000)) (-2))"
proof -
  define n where "n = p * r"
  from assms have "p * r \<le> 10 ^ 14 * 10 ^ 5" by (rule mult_le_mono)
  then have n20: "n \<le> 10 ^ 19" by (simp add: n_def)
  have mul: "dec_mul (Dec (int p) (-2)) (Dec (int r) (-3)) = Dec (int n) (-5)"
  proof -
    have "\<bar>int n\<bar> < 10 ^ PREC"
      using n20 by (simp add: PREC_def)
    from dec_fix_small [OF this, of "-5"] show ?thesis by (simp add: n_def)
  qed
  have q: "ndigits ((n + 50000) div 100000) \<le> PREC"
    using n20 by (intro ndigits_le) (auto simp: PREC_def)
  show ?thesis
  proof (cases "n = 0")
    case True
    then have "dec_div (Dec (int n) (-5)) (Dec 100 0) = Inr (Dec 0 (-5))"
      using dec_fix_small [of 0 "-5"] by (simp add: dec_div.simps PREC_def)
    moreover have "to_money (Dec 0 (-5)) = Inr (Dec 0 (-2))"
      using q True by (simp add: to_money_def quantize_half_up.simps half_up_def)
    ultimately show ?thesis
      using True by (simp only: commission_amount_def percentage_of_def mul)
        (auto simp: n_def)
  next
    case False
    have big: "n < 10 ^ PREC" using n20 by (simp add: PREC_def)
    have quant: "quantize_half_up (dec_fix (Dec (int c) ex)) (-2) =
        Inr (Dec (int ((n + 50000) div 100000)) (-2))"
      if c: "n = c * 10 ^ j" and ex: "ex = -7 + int j" and j: "j \<le> 2" for c j ex
    proof -
      have "c \<le> n" using c by simp
      with big have "c < 10 ^ PREC" by simp
      then have fixed: "dec_fix (Dec (int c) ex) = Dec (int c) ex"
        by (intro dec_fix_small) (simp flip: of_nat_power)
      have "nat (-2 - ex) = 5 - j" using ex j by simp
      then have "half_up c (nat (-2 - ex)) = (n + 50000) div 100000"
        using half_up_shift [OF j] c by simp
      moreover have "0 < c" using False c by (cases c) auto
      ultimately show ?thesis unfolding fixed using q ex j
        by (simp add: quantize_half_up.simps)
    qed
    obtain c j where strip: "strip_zeros n (-7) (-5) = (c, -7 + int j)"
      and cj: "n = c * 10 ^ j" "j \<le> 2"
      using strip_zeros_two [of n] by blast
    have div: "dec_div (Dec (int n) (-5)) (Dec 100 0) = Inr (dec_fix (Dec (int c) (-7 + int j)))"
      using commission_div [of n] False n20 by (simp add: strip)
    show ?thesis
      unfolding commission_amount_def percentage_of_def mul div sum.case to_money_def
      using quant [OF cj(1) refl cj(2)] by (simp only: n_def)
  qed
qed

text \<open>
  C31: for every price a \<open>Numeric(14, 2)\<close> column holds (up to a million millions) and every
  percentage a \<open>Numeric(6, 3)\<close> column holds (0 to 100), the commission is computed without
  error: it is the exact percentage rounded half-up to the cent (no digit is lost to the
  28-digit context before the final rounding), and it never exceeds the price.
\<close>

theorem commission_exact:
  fixes p r :: nat
  assumes "p \<le> 10 ^ 14" and "r \<le> 10 ^ 5"
  shows "commission_amount (Dec (int p) (-2)) (Dec (int r) (-3)) =
           Inr (Dec (int ((p * r + 50000) div 100000)) (-2))
         \<and> (p * r + 50000) div 100000 \<le> p"
proof
  have "p * r \<le> p * 100000" using assms(2) by (intro mult_le_mono) auto
  then show "(p * r + 50000) div 100000 \<le> p" by linarith
qed (rule commission_exact_nat [OF assms])

theorem commission_exact_witness:
  "(12345678 :: nat) \<le> 10 ^ 14 \<and> (2375 :: nat) \<le> 10 ^ 5 \<and>
   commission_amount (Dec 12345678 (-2)) (Dec 2375 (-3)) = Inr (Dec 293210 (-2))"
  using commission_exact [of 12345678 2375] by simp

end
