(* ===== verification/Database.thy ===== *)
theory Database
  imports Permissions Money
begin

text \<open>
  The rows of the modelled tables (the \<open>models.py\<close> of each module), the session's view of the
  database, and the request boundary of \<open>core/database.py\<close>: one transaction per request,
  committed when the route returns and rolled back when it raises, with callbacks that run
  after a commit only.
\<close>

section \<open>JSON values and the tenant of a request\<close>

datatype json =
    JNull | JBool bool | JInt int | JStr string | JList "json list" | JObj "(string \<times> json) list"

type_synonym json_obj = "(string \<times> json) list"

text \<open>\<open>core/tenancy.py\<close>: the tenant a request was resolved to.\<close>

record tenant_context =
  tenant_id :: uuid
  tenant_slug :: string
  tenant_settings :: json_obj
  tenant_plan :: string

text \<open>\<open>dict.get\<close>, and the truth value Python gives to a JSON value.\<close>

definition json_get :: "string \<Rightarrow> json_obj \<Rightarrow> json option" where
  "json_get k obj = map_of obj k"

fun json_truthy :: "json option \<Rightarrow> bool" where
  "json_truthy None = False"
| "json_truthy (Some JNull) = False"
| "json_truthy (Some (JBool b)) = b"
| "json_truthy (Some (JInt n)) = (n \<noteq> 0)"
| "json_truthy (Some (JStr v)) = (v \<noteq> [])"
| "json_truthy (Some (JList xs)) = (xs \<noteq> [])"
| "json_truthy (Some (JObj kvs)) = (kvs \<noteq> [])"

section \<open>Rows\<close>

datatype user_status = ACTIVE | DISABLED

record user =
  user_id :: uuid
  user_tenant :: "uuid option"
  user_email :: string
  user_password_hash :: string
  user_role :: role
  user_status :: user_status
  user_first_name :: "string option"
  user_last_name :: "string option"
  user_locale :: string
  user_phone :: "string option"
  user_email_verified_at :: "instant option"
  user_last_login_at :: "instant option"
  user_mfa_enabled :: bool
  user_mfa_secret :: "string option"
  user_mfa_pending_secret :: "string option"
  user_mfa_enrolled_at :: "instant option"
  user_deleted_at :: "instant option"
  user_created_at :: instant

type_synonym lonlat = "int \<times> int"

datatype photo_status = PHOTO_PENDING | PHOTO_PROCESSING | PHOTO_READY | PHOTO_FAILED

record agent_profile =
  prof_id :: uuid
  prof_tenant :: uuid
  prof_user :: uuid
  prof_slug :: string
  prof_specialties :: "string list"
  prof_service_areas :: "lonlat list list option"
  prof_whatsapp_number :: "string option"
  prof_is_published :: bool
  prof_photo_key :: "string option"
  prof_photo_status :: "photo_status option"
  prof_photo_variants :: "string list"
  prof_created_at :: instant

record team =
  team_id :: uuid
  team_tenant :: uuid
  team_name :: string
  team_lead_user :: "uuid option"
  team_created_at :: instant

record team_member =
  tm_id :: uuid
  tm_tenant :: uuid
  tm_team :: uuid
  tm_user :: uuid
  tm_role_in_team :: "string option"

record tenant_usage =
  usage_listings_count :: int
  usage_agents_count :: int
  usage_storage_bytes :: int
  usage_emails_sent :: int
  usage_emails_period :: string

datatype listing_status = DRAFT | REVIEW | PUBLISHED | RESERVED | SOLD | RENTED | ARCHIVED

datatype listing_purpose = SALE | RENT | RENT_DAILY
datatype price_period = MONTH | DAY

datatype property_type =
    APARTMENT | HOUSE | VILLA | STUDIO | DUPLEX | LAND | OFFICE | RETAIL | WAREHOUSE | GARAGE
  | FARM | BUILDING | OTHER_TYPE

type_synonym i18n_text = "(string \<times> string) list"

text \<open>The descriptive columns, which no rule of the workflow reads.\<close>

record listing_facts =
  fact_property_type :: property_type
  fact_title :: i18n_text
  fact_description :: i18n_text
  fact_negotiable :: bool
  fact_beds :: "int option"
  fact_baths :: "int option"
  fact_area_built :: "decimal option"
  fact_area_land :: "decimal option"
  fact_floor :: "int option"
  fact_floors_total :: "int option"
  fact_year_built :: "int option"
  fact_features :: "string list"
  fact_address :: json_obj

record listing =
  lst_id :: uuid
  lst_tenant :: uuid
  lst_reference_code :: string
  lst_agent :: "uuid option"
  lst_status :: listing_status
  lst_purpose :: listing_purpose
  lst_facts :: listing_facts
  lst_price :: decimal
  lst_currency :: string
  lst_price_period :: "price_period option"
  lst_location :: "lonlat option"
  lst_expires_at :: "instant option"
  lst_published_at :: "instant option"
  lst_stale_flagged_at :: "instant option"
  lst_featured :: bool
  lst_created_by :: "uuid option"
  lst_deleted_at :: "instant option"
  lst_created_at :: instant

record listing_history =
  hist_tenant :: uuid
  hist_listing :: uuid
  hist_from :: listing_status
  hist_to :: listing_status
  hist_changed_by :: "uuid option"
  hist_created_at :: instant

datatype lead_source =
    LISTING_FORM | VALUATION | MORTGAGE | MARKET_REPORT | SEARCH_SIGNUP | CHAT | WHATSAPP_CLICK
  | TOUR_REQUEST | PHONE | PORTAL | AD | OTHER

datatype lead_stage = NEW | CONTACTED | QUALIFIED | TOURING | OFFER | WON | LOST

datatype activity_type =
    NOTE | CALL | EMAIL | SMS | STATUS_CHANGE | ASSIGNMENT | TOUR | NO_SHOW_ACTIVITY | SYSTEM

datatype assignment_strategy = LISTING_AGENT | ROUND_ROBIN | TERRITORY

datatype drip_stop_reason = STAGE_ADVANCED | REPLIED | SEQUENCE_COMPLETE | MANUAL

record contact =
  con_id :: uuid
  con_tenant :: uuid
  con_first_name :: "string option"
  con_last_name :: "string option"
  con_email :: "string option"
  con_phone :: "string option"
  con_whatsapp :: "string option"
  con_consent :: json_obj
  con_tags :: "string list"
  con_notes :: "string option"

record lead =
  lead_id :: uuid
  lead_tenant :: uuid
  lead_contact :: uuid
  lead_listing :: "uuid option"
  lead_agent :: "uuid option"
  lead_source :: lead_source
  lead_source_meta :: json_obj
  lead_stage :: lead_stage
  lead_score :: int
  lead_lost_reason :: "string option"
  lead_first_response_at :: "instant option"
  lead_created_at :: instant
  lead_updated_at :: instant

record lead_activity =
  act_tenant :: uuid
  act_lead :: uuid
  act_actor :: "uuid option"
  act_type :: activity_type
  act_payload :: json_obj
  act_created_at :: instant

record assignment_rule =
  rule_tenant :: uuid
  rule_strategy :: assignment_strategy
  rule_agent_pool :: "uuid list option"
  rule_max_open :: "int option"

record lead_drip_state =
  drip_tenant :: uuid
  drip_lead :: uuid
  drip_step_index :: nat
  drip_next_send_at :: instant
  drip_stopped_at :: "instant option"
  drip_stopped_reason :: "drip_stop_reason option"

datatype deal_status = OPEN | UNDER_CONTRACT | CLOSED_WON | CLOSED_LOST

datatype commission_basis = PERCENTAGE | FLAT

datatype document_status = DOC_PENDING | DOC_READY | DOC_FAILED

record deal =
  deal_id :: uuid
  deal_tenant :: uuid
  deal_owner :: uuid
  deal_title :: string
  deal_status :: deal_status
  deal_listing :: "uuid option"
  deal_lead :: "uuid option"
  deal_contact :: "uuid option"
  deal_price :: "decimal option"
  deal_currency :: string
  deal_commission_basis :: "commission_basis option"
  deal_commission_rate :: "decimal option"
  deal_commission_amount :: "decimal option"
  deal_closed_at :: "instant option"
  deal_lost_reason :: "string option"
  deal_notes :: "string option"
  deal_created_at :: instant

record deal_milestone =
  ms_id :: uuid
  ms_tenant :: uuid
  ms_deal :: uuid
  ms_title :: string
  ms_due_date :: "date option"
  ms_owner :: "uuid option"
  ms_completed_at :: "instant option"
  ms_position :: int
  ms_reminder_sent_at :: "instant option"
  ms_created_at :: instant

record deal_document =
  doc_id :: uuid
  doc_tenant :: uuid
  doc_deal :: uuid
  doc_type :: string
  doc_filename :: string
  doc_content_type :: string
  doc_storage_key :: string
  doc_size_bytes :: "int option"
  doc_sha256 :: "string option"
  doc_status :: document_status
  doc_uploaded_by :: "uuid option"
  doc_created_at :: instant

datatype appointment_status = REQUESTED | CONFIRMED | COMPLETED | CANCELLED | NO_SHOW

text \<open>A time of day is a number of microseconds after midnight.\<close>

record agent_availability =
  av_tenant :: uuid
  av_agent :: uuid
  av_day_of_week :: "int option"
  av_date :: "date option"
  av_start_time :: int
  av_end_time :: int
  av_is_block :: bool

record appointment =
  appt_id :: uuid
  appt_tenant :: uuid
  appt_agent :: uuid
  appt_listing :: "uuid option"
  appt_contact :: uuid
  appt_lead :: "uuid option"
  appt_status :: appointment_status
  appt_start_at :: instant
  appt_end_at :: instant
  appt_confirmed_at :: "instant option"
  appt_reminder_24h_sent_at :: "instant option"
  appt_reminder_1h_sent_at :: "instant option"

record auth_session =
  sess_id :: uuid
  sess_user :: uuid
  sess_tenant :: "uuid option"
  sess_refresh_token_hash :: string
  sess_family :: uuid
  sess_user_agent :: "string option"
  sess_ip :: "string option"
  sess_expires_at :: instant
  sess_revoked_at :: "instant option"
  sess_last_used_at :: "instant option"
  sess_created_at :: instant

record oauth_identity =
  oid_user :: uuid
  oid_tenant :: "uuid option"
  oid_provider :: string
  oid_subject :: string
  oid_email :: "string option"

datatype review_status = REVIEW_PENDING | REVIEW_APPROVED | REVIEW_REJECTED

record review =
  rev_id :: uuid
  rev_tenant :: uuid
  rev_agent :: "uuid option"
  rev_listing :: "uuid option"
  rev_rating :: int
  rev_title :: "string option"
  rev_body :: string
  rev_author_name :: string
  rev_author_email :: "string option"
  rev_status :: review_status
  rev_is_verified :: bool
  rev_moderated_by :: "uuid option"
  rev_moderated_at :: "instant option"
  rev_moderation_note :: "string option"
  rev_created_at :: instant

datatype page_status = PAGE_DRAFT | PAGE_PUBLISHED

datatype report_status = REPORT_DRAFT | REPORT_PUBLISHED | REPORT_READY

datatype legal_kind = PRIVACY | TERMS | FAIR_TREATMENT | LICENSE_DISCLOSURE

text \<open>
  Content rows. An explicit \<open>null\<close> in a PATCH reaches a JSONB column as the JSON value null, which
  the NOT NULL constraint admits; such a column is optional here.
\<close>

record content_page =
  page_id :: uuid
  page_tenant :: uuid
  page_slug :: string
  page_title :: "i18n_text option"
  page_blocks :: "json_obj list"
  page_seo_meta :: json_obj
  page_status :: page_status
  page_published_at :: "instant option"
  page_created_at :: instant

record legal_page =
  legal_id :: uuid
  legal_tenant :: uuid
  legal_kind :: legal_kind
  legal_version :: int
  legal_body :: i18n_text
  legal_effective_at :: instant
  legal_is_current :: bool

record neighborhood_guide =
  guide_id :: uuid
  guide_tenant :: uuid
  guide_slug :: string
  guide_name :: i18n_text
  guide_body :: "i18n_text option"
  guide_boundary :: "lonlat list list option"
  guide_seo_meta :: json_obj
  guide_status :: page_status
  guide_stats :: json_obj
  guide_stats_computed_at :: "instant option"
  guide_published_at :: "instant option"
  guide_created_at :: instant

record market_report =
  report_id :: uuid
  report_tenant :: uuid
  report_slug :: string
  report_title :: i18n_text
  report_stats :: json_obj
  report_pdf_object_key :: "string option"
  report_status :: report_status
  report_generated_at :: "instant option"
  report_published_at :: "instant option"
  report_created_at :: instant

datatype delivery_status = DELIVERY_PENDING | DELIVERED | DELIVERY_FAILED

record webhook_endpoint =
  wep_id :: uuid
  wep_tenant :: uuid
  wep_url :: string
  wep_secret :: string
  wep_events :: "string list"
  wep_is_active :: bool
  wep_description :: "string option"
  wep_consecutive_failures :: int
  wep_circuit_open :: bool
  wep_last_error :: "string option"
  wep_last_delivered_at :: "instant option"
  wep_created_at :: instant

record webhook_delivery =
  wdl_id :: uuid
  wdl_tenant :: uuid
  wdl_endpoint :: uuid
  wdl_event_type :: string
  wdl_payload :: json_obj
  wdl_status :: delivery_status
  wdl_attempts :: int
  wdl_response_status :: "int option"
  wdl_last_error :: "string option"
  wdl_delivered_at :: "instant option"
  wdl_created_at :: instant

datatype sync_status = SYNC_PENDING | SYNCED | SYNC_REMOVED | SYNC_FAILED | SYNC_PAUSED

record portal_sync_state =
  pss_id :: uuid
  pss_tenant :: uuid
  pss_listing :: uuid
  pss_portal_key :: string
  pss_remote_id :: "string option"
  pss_last_status :: sync_status
  pss_last_pushed_at :: "instant option"
  pss_last_error :: "string option"
  pss_retry_count :: int
  pss_consecutive_failures :: int
  pss_circuit_open :: bool
  pss_updated_at :: instant

text \<open>\<open>core/events.py\<close>: an outbox row, written in the transaction of the change it announces.\<close>

record outbox_event =
  ev_tenant :: uuid
  ev_type :: string
  ev_payload :: json_obj

text \<open>
  \<open>modules/notifications\<close>: the in-app row that \<open>notify\<close> writes, the durable part of a
  notification; the external channels it may also enqueue are not modelled.
\<close>

record notification =
  ntf_tenant :: uuid
  ntf_user :: uuid
  ntf_type :: string
  ntf_payload :: json_obj

section \<open>The session\<close>

datatype portal_action = PORTAL_PUSH | PORTAL_UPDATE | PORTAL_REMOVE

text \<open>\<open>integrations/portals/base.py\<close>: the payload of a listing, and the calls of an adapter.\<close>

record portal_listing =
  pl_listing_id :: uuid
  pl_reference_code :: string
  pl_title :: string
  pl_description :: string
  pl_purpose :: listing_purpose
  pl_property_type :: property_type
  pl_price :: decimal
  pl_currency :: string
  pl_beds :: "int option"
  pl_baths :: "int option"
  pl_area_built :: "decimal option"
  pl_address :: json_obj
  pl_location :: "lonlat option"
  pl_features :: "string list"
  pl_photo_urls :: "string list"
  pl_detail_url :: "string option"

datatype portal_call =
    PushCall portal_listing | UpdateCall portal_listing string | RemoveCall string

text \<open>
  Side effects outside the database: tasks handed to the broker, counters, cache versions, and
  the requests made to other servers.
\<close>

datatype side_effect =
    SendEmail string json json
  | DeleteObjects "(string \<times> string) list"
  | ProcessPhoto uuid
  | MatchPublished uuid
  | SyncListing uuid string portal_action
  | CountLead lead_source
  | BumpVersion uuid string
  | GenerateReportPdf uuid uuid
  | DeliverWebhook uuid uuid
  | PostWebhook uuid string string string string
  | FollowRedirect uuid
  | CallPortal string portal_call

record db =
  users :: "user list"
  profiles :: "agent_profile list"
  teams :: "team list"
  team_members :: "team_member list"
  usage :: "uuid \<Rightarrow> tenant_usage option"
  reference_counters :: "uuid \<times> int \<Rightarrow> nat option"
  listings :: "listing list"
  listing_histories :: "listing_history list"
  contacts :: "contact list"
  leads :: "lead list"
  activities :: "lead_activity list"
  rules :: "assignment_rule list"
  drips :: "lead_drip_state list"
  deals :: "deal list"
  milestones :: "deal_milestone list"
  documents :: "deal_document list"
  availability :: "agent_availability list"
  appointments :: "appointment list"
  sessions :: "auth_session list"
  oauth_identities :: "oauth_identity list"
  reviews :: "review list"
  content_pages :: "content_page list"
  legal_pages :: "legal_page list"
  guides :: "neighborhood_guide list"
  market_reports :: "market_report list"
  hook_endpoints :: "webhook_endpoint list"
  hook_deliveries :: "webhook_delivery list"
  sync_states :: "portal_sync_state list"
  outbox :: "outbox_event list"
  notifications :: "notification list"
  post_commit :: "side_effect list"
  sent :: "side_effect list"

definition empty_db :: db where
  "empty_db = \<lparr>users = [], profiles = [], teams = [], team_members = [], usage = (\<lambda>_. None),
     reference_counters = (\<lambda>_. None), listings = [], listing_histories = [], contacts = [],
     leads = [], activities = [], rules = [], drips = [], deals = [], milestones = [],
     documents = [], availability = [], appointments = [], sessions = [],
     oauth_identities = [], reviews = [], content_pages = [], legal_pages = [], guides = [],
     market_reports = [], hook_endpoints = [], hook_deliveries = [], sync_states = [], outbox = [], notifications = [], post_commit = [], sent = []\<rparr>"

definition on_commit :: "side_effect \<Rightarrow> (db, unit) action" where
  "on_commit callback = modify (\<lambda>s. s\<lparr>post_commit := post_commit s @ [callback]\<rparr>)"

text \<open>A task handed to the broker at once: no rollback takes it back.\<close>

definition send_now :: "side_effect \<Rightarrow> (db, unit) action" where
  "send_now x = modify (\<lambda>s. s\<lparr>sent := sent s @ [x]\<rparr>)"

definition emit_event :: "tenant_context \<Rightarrow> string \<Rightarrow> json_obj \<Rightarrow> (db, unit) action" where
  "emit_event ten event_type payload = modify (\<lambda>s. s\<lparr>outbox := outbox s @
     [\<lparr>ev_tenant = tenant_id ten, ev_type = event_type, ev_payload = payload\<rparr>]\<rparr>)"

definition notify :: "tenant_context \<Rightarrow> uuid \<Rightarrow> string \<Rightarrow> json_obj \<Rightarrow> (db, unit) action" where
  "notify ten user type payload = modify (\<lambda>s. s\<lparr>notifications := notifications s @
     [\<lparr>ntf_tenant = tenant_id ten, ntf_user = user, ntf_type = type, ntf_payload = payload\<rparr>]\<rparr>)"

text \<open>
  What the environment supplies: the text of a UUID, its parsing (\<open>None\<close> when it raises) and
  PostGIS' point-in-polygon test.
\<close>

record world =
  uuid_text :: "uuid \<Rightarrow> string"
  uuid_of_text :: "string \<Rightarrow> uuid option"
  area_contains :: "lonlat list list \<Rightarrow> lonlat \<Rightarrow> bool"

definition json_set :: "string \<Rightarrow> json \<Rightarrow> json_obj \<Rightarrow> json_obj" where
  "json_set k v obj = (if k \<in> fst ` set obj
     then map (\<lambda>(k', v'). (k', if k' = k then v else v')) obj else obj @ [(k, v)])"

text \<open>
  \<open>settings.get(key) or {}\<close>, whose \<open>get\<close> the code then calls: a truthy value that is not an
  object raises an \<open>AttributeError\<close> there.
\<close>

definition settings_namespace :: "string \<Rightarrow> json_obj \<Rightarrow> error + json_obj" where
  "settings_namespace key settings =
     (let raw = json_get key settings in
      if \<not> json_truthy raw then Inr []
      else case raw of Some (JObj obj) \<Rightarrow> Inr obj | _ \<Rightarrow> Inl AttributeError)"

text \<open>
  \<open>get_session\<close>: the route runs in one transaction. When it raises, every write of the
  database is undone and no callback runs; what was already handed to the broker stays.
\<close>

definition run_request :: "(db, 'a) action \<Rightarrow> db \<Rightarrow> (error + 'a) \<times> db" where
  "run_request m s = (case m (s\<lparr>post_commit := []\<rparr>) of
      (Inl e, t) \<Rightarrow> (Inl e, s\<lparr>sent := sent t\<rparr>)
    | (Inr a, t) \<Rightarrow> (Inr a, t\<lparr>post_commit := [], sent := sent t @ post_commit t\<rparr>))"

lemma on_commit_run [simp]:
  "on_commit c s = (Inr (), s\<lparr>post_commit := post_commit s @ [c]\<rparr>)"
  "send_now c s = (Inr (), s\<lparr>sent := sent s @ [c]\<rparr>)"
  "emit_event ten ty p s = (Inr (), s\<lparr>outbox := outbox s @
     [\<lparr>ev_tenant = tenant_id ten, ev_type = ty, ev_payload = p\<rparr>]\<rparr>)"
  by (simp_all add: on_commit_def send_now_def emit_event_def modify_def)

lemma andthen_on_commit [simp]:
  "andthen (on_commit c) f s = f () (s\<lparr>post_commit := post_commit s @ [c]\<rparr>)"
  "andthen (send_now c) f s = f () (s\<lparr>sent := sent s @ [c]\<rparr>)"
  "andthen (emit_event ten ty p) f s = f () (s\<lparr>outbox := outbox s @
     [\<lparr>ev_tenant = tenant_id ten, ev_type = ty, ev_payload = p\<rparr>]\<rparr>)"
  by (simp_all add: andthen_def)

lemma for_each_on_commit:
  "for_each xs (\<lambda>x. on_commit (f x)) s = (Inr (), s\<lparr>post_commit := post_commit s @ map f xs\<rparr>)"
  by (induction xs arbitrary: s) (simp_all add: ret_def)

lemma run_request_raise:
  assumes "m (s\<lparr>post_commit := []\<rparr>) = (Inl e, t)"
  shows "run_request m s = (Inl e, s\<lparr>sent := sent t\<rparr>)"
  by (simp add: run_request_def assms)

lemma run_request_return:
  assumes "m (s\<lparr>post_commit := []\<rparr>) = (Inr a, t)"
  shows "run_request m s = (Inr a, t\<lparr>post_commit := [], sent := sent t @ post_commit t\<rparr>)"
  by (simp add: run_request_def assms)

text \<open>An invariant of the tables (not of the callbacks) lifts from an action to its request.\<close>

lemma run_request_preserves:
  assumes inv: "preserves I m" "I s"
    and indep: "\<And>s pc. I (s\<lparr>post_commit := pc\<rparr>) = I s" "\<And>s out. I (s\<lparr>sent := out\<rparr>) = I s"
  shows "I (snd (run_request m s))"
proof -
  obtain r t where m: "m (s\<lparr>post_commit := []\<rparr>) = (r, t)" by (cases "m (s\<lparr>post_commit := []\<rparr>)")
  have t: "I t" by (rule preservesD [OF inv(1) _ m]) (simp only: indep inv(2))
  show ?thesis
  proof (cases r)
    case (Inl e)
    with m show ?thesis by (simp only: run_request_raise snd_conv indep inv(2))
  next
    case (Inr a)
    with m show ?thesis by (simp only: run_request_return snd_conv indep t)
  qed
qed

end
