(* ===== verification/Users.thy ===== *)
theory Users
  imports Database
begin

text \<open>
  \<open>modules/users\<close>: the account table, its repository, and the service that the other modules
  reach identities through. Argon2 and TOTP are third-party: a hash that the code stores is an
  argument, and \<open>verify\<close>/\<open>totp\<close> stand for \<open>verify_password\<close> and \<open>verify_totp\<close>.
\<close>

section \<open>Repository\<close>

definition user_get :: "uuid option \<Rightarrow> uuid \<Rightarrow> db \<Rightarrow> user option" where
  "user_get t i s = find (\<lambda>u. user_tenant u = t \<and> user_id u = i \<and> user_deleted_at u = None) (users s)"

definition user_get_by_email :: "uuid option \<Rightarrow> string \<Rightarrow> db \<Rightarrow> user option" where
  "user_get_by_email t email s =
     find (\<lambda>u. user_tenant u = t \<and> user_email u = email \<and> user_deleted_at u = None) (users s)"

definition user_get_including_deleted :: "uuid option \<Rightarrow> uuid \<Rightarrow> db \<Rightarrow> user option" where
  "user_get_including_deleted t i s = find (\<lambda>u. user_tenant u = t \<and> user_id u = i) (users s)"

definition list_active_by_role :: "uuid \<Rightarrow> role \<Rightarrow> db \<Rightarrow> user list" where
  "list_active_by_role t r s = sort_key user_id
     (filter (\<lambda>u. user_tenant u = Some t \<and> user_role u = r \<and> user_status u = ACTIVE
        \<and> user_deleted_at u = None) (users s))"

definition list_active_by_ids :: "uuid \<Rightarrow> uuid list \<Rightarrow> db \<Rightarrow> user list" where
  "list_active_by_ids t ids s = filter (\<lambda>u. user_tenant u = Some t \<and> user_id u \<in> set ids
     \<and> user_status u = ACTIVE \<and> user_deleted_at u = None) (users s)"

definition user_write :: "uuid \<Rightarrow> (user \<Rightarrow> user) \<Rightarrow> (db, unit) action" where
  "user_write i f = modify (\<lambda>s. s\<lparr>users := upd_rows (\<lambda>u. user_id u = i) f (users s)\<rparr>)"

section \<open>Identities\<close>

record user_identity =
  ident_id :: uuid
  ident_tenant :: "uuid option"
  ident_email :: string
  ident_role :: role
  ident_locale :: string
  ident_email_verified_at :: "instant option"
  ident_first_name :: "string option"
  ident_last_name :: "string option"
  ident_mfa_enabled :: bool

definition to_identity :: "user \<Rightarrow> user_identity" where
  "to_identity u = \<lparr>ident_id = user_id u, ident_tenant = user_tenant u, ident_email = user_email u,
     ident_role = user_role u, ident_locale = user_locale u,
     ident_email_verified_at = user_email_verified_at u, ident_first_name = user_first_name u,
     ident_last_name = user_last_name u, ident_mfa_enabled = user_mfa_enabled u\<rparr>"

definition get_identity_if_active :: "uuid option \<Rightarrow> uuid \<Rightarrow> db \<Rightarrow> user_identity option" where
  "get_identity_if_active t i s = (case user_get t i s of
      None \<Rightarrow> None
    | Some u \<Rightarrow> if user_status u \<noteq> ACTIVE then None else Some (to_identity u))"

definition get_identity_by_email :: "uuid option \<Rightarrow> string \<Rightarrow> db \<Rightarrow> user_identity option" where
  "get_identity_by_email t email s = (case user_get_by_email t email s of
      None \<Rightarrow> None
    | Some u \<Rightarrow> if user_status u \<noteq> ACTIVE then None else Some (to_identity u))"

definition email_taken :: "uuid option \<Rightarrow> string \<Rightarrow> db \<Rightarrow> bool" where
  "email_taken t email s \<longleftrightarrow> user_get_by_email t email s \<noteq> None"

definition identities_for :: "uuid \<Rightarrow> uuid list \<Rightarrow> db \<Rightarrow> uuid \<Rightarrow> user_identity option" where
  "identities_for t ids s =
     map_of (map (\<lambda>u. (user_id u, to_identity u)) (list_active_by_ids t ids s))"

definition list_active_agents :: "uuid \<Rightarrow> db \<Rightarrow> user_identity list" where
  "list_active_agents t s = map to_identity (list_active_by_role t AGENT s)"

section \<open>Accounts\<close>

definition user_get_or_404 :: "uuid option \<Rightarrow> uuid \<Rightarrow> (db, user) action" where
  "user_get_or_404 t i = andthen (gets (user_get t i)) (\<lambda>r. case r of
      None \<Rightarrow> raise (NotFoundError ''User not found.'')
    | Some u \<Rightarrow> ret u)"

text \<open>
  The unique constraint on (tenant, email), whose nulls are equal and which a soft-deleted row
  still counts for, checked by the database at flush.
\<close>

definition email_constraint_violated :: "user \<Rightarrow> db \<Rightarrow> bool" where
  "email_constraint_violated u s \<longleftrightarrow>
     list_ex (\<lambda>v. user_tenant v = user_tenant u \<and> user_email v = user_email u) (users s)"

record new_account =
  na_email :: string
  na_role :: role
  na_first_name :: "string option"
  na_last_name :: "string option"
  na_locale :: string
  na_phone :: "string option"

definition create_account ::
  "uuid option \<Rightarrow> new_account \<Rightarrow> string \<Rightarrow> uuid \<Rightarrow> instant \<Rightarrow> (db, user) action" where
  "create_account t a hashed new_id now =
     (if (t = None) \<noteq> (na_role a \<in> set PLATFORM_ROLES)
      then raise (ConflictError ''The role does not match the account scope.'')
      else andthen (gets (user_get_by_email t (na_email a))) (\<lambda>existing.
        if existing \<noteq> None
        then raise (ConflictError ''An account with this email already exists.'')
        else
          let u = \<lparr>user_id = new_id, user_tenant = t, user_email = na_email a,
                   user_password_hash = hashed, user_role = na_role a, user_status = ACTIVE,
                   user_first_name = na_first_name a, user_last_name = na_last_name a,
                   user_locale = na_locale a, user_phone = na_phone a,
                   user_email_verified_at = None, user_last_login_at = None,
                   user_mfa_enabled = False, user_mfa_secret = None,
                   user_mfa_pending_secret = None, user_mfa_enrolled_at = None,
                   user_deleted_at = None, user_created_at = now\<rparr>
          in andthen (gets (email_constraint_violated u)) (\<lambda>violated.
               if violated
               then raise (ConflictError ''An account with this email already exists.'')
               else andthen (modify (\<lambda>s. s\<lparr>users := users s @ [u]\<rparr>)) (\<lambda>_. ret u))))"

definition register_account ::
  "uuid \<Rightarrow> new_account \<Rightarrow> string \<Rightarrow> uuid \<Rightarrow> instant \<Rightarrow> (db, user_identity) action" where
  "register_account t a hashed new_id now =
     andthen (create_account (Some t) a hashed new_id now) (\<lambda>u. ret (to_identity u))"

record user_admin_update =
  uau_role :: "role patch"
  uau_status :: "user_status patch"
  uau_first_name :: "string option patch"
  uau_last_name :: "string option patch"

definition admin_update ::
  "uuid \<Rightarrow> uuid \<Rightarrow> user_admin_update \<Rightarrow> uuid \<Rightarrow> (db, unit) action" where
  "admin_update t i data actor_id' =
     andthen (user_get_or_404 (Some t) i) (\<lambda>u.
       if i = actor_id' \<and> (uau_role data \<noteq> Unset \<or> uau_status data \<noteq> Unset)
       then raise (ConflictError ''You cannot change your own role or status.'')
       else user_write i (\<lambda>u. u\<lparr>user_role := patched (uau_role data) (user_role u),
              user_status := patched (uau_status data) (user_status u),
              user_first_name := patched (uau_first_name data) (user_first_name u),
              user_last_name := patched (uau_last_name data) (user_last_name u)\<rparr>))"

definition user_soft_delete :: "uuid \<Rightarrow> uuid \<Rightarrow> uuid \<Rightarrow> instant \<Rightarrow> (db, unit) action" where
  "user_soft_delete t i actor_id' now =
     (if i = actor_id' then raise (ConflictError ''You cannot delete your own account.'')
      else andthen (user_get_or_404 (Some t) i) (\<lambda>u.
        user_write i (\<lambda>u. u\<lparr>user_deleted_at := Some now\<rparr>)))"

definition soft_delete_self :: "uuid \<Rightarrow> uuid \<Rightarrow> instant \<Rightarrow> (db, user_identity) action" where
  "soft_delete_self t i now =
     andthen (user_get_or_404 (Some t) i) (\<lambda>u.
     andthen (user_write i (\<lambda>u. u\<lparr>user_deleted_at := Some now\<rparr>)) (\<lambda>_.
     ret (to_identity u)))"

definition tombstone_prefix :: string where
  "tombstone_prefix = ''deleted+''"

text \<open>\<open>str_id\<close> is \<open>str(user.id)\<close>; \<open>unusable\<close> the hash of a random password.\<close>

definition anonymize_account ::
  "(uuid \<Rightarrow> string) \<Rightarrow> uuid \<Rightarrow> uuid \<Rightarrow> string \<Rightarrow> (db, string option) action" where
  "anonymize_account str_id t i unusable =
     andthen (gets (user_get_including_deleted (Some t) i)) (\<lambda>r. case r of
        None \<Rightarrow> ret None
      | Some u \<Rightarrow>
          if prefix tombstone_prefix (user_email u) then ret None
          else andthen (user_write i (\<lambda>u. u\<lparr>
                 user_email := tombstone_prefix @ str_id i @ ''@anonymized.invalid'',
                 user_first_name := None, user_last_name := None, user_phone := None,
                 user_password_hash := unusable, user_status := DISABLED\<rparr>)) (\<lambda>_.
               ret (Some (user_email u))))"

section \<open>Credentials and second factors\<close>

definition verify_credentials ::
  "(string \<Rightarrow> string \<Rightarrow> bool) \<Rightarrow> uuid option \<Rightarrow> string \<Rightarrow> string \<Rightarrow> instant \<Rightarrow>
   (db, user_identity option) action" where
  "verify_credentials verify t email password now =
     andthen (gets (user_get_by_email t email)) (\<lambda>r. case r of
        None \<Rightarrow> ret None
      | Some u \<Rightarrow>
          if \<not> verify password (user_password_hash u) then ret None
          else if user_status u \<noteq> ACTIVE then ret None
          else andthen (user_write (user_id u) (\<lambda>u. u\<lparr>user_last_login_at := Some now\<rparr>)) (\<lambda>_.
               ret (Some (to_identity u))))"

definition set_password :: "uuid option \<Rightarrow> uuid \<Rightarrow> string \<Rightarrow> (db, user_identity option) action" where
  "set_password t i hashed =
     andthen (gets (user_get t i)) (\<lambda>r. case r of
        None \<Rightarrow> ret None
      | Some u \<Rightarrow>
          if user_status u \<noteq> ACTIVE then ret None
          else andthen (user_write i (\<lambda>u. u\<lparr>user_password_hash := hashed\<rparr>)) (\<lambda>_.
               ret (Some (to_identity u))))"

definition begin_mfa_enrolment :: "uuid option \<Rightarrow> uuid \<Rightarrow> string \<Rightarrow> (db, string) action" where
  "begin_mfa_enrolment t i secret =
     andthen (user_get_or_404 t i) (\<lambda>u.
     andthen (user_write i (\<lambda>u. u\<lparr>user_mfa_pending_secret := Some secret\<rparr>)) (\<lambda>_. ret secret))"

definition confirm_mfa_enrolment ::
  "(string \<Rightarrow> string \<Rightarrow> bool) \<Rightarrow> uuid option \<Rightarrow> uuid \<Rightarrow> string \<Rightarrow> instant \<Rightarrow> (db, bool) action" where
  "confirm_mfa_enrolment totp t i code now =
     andthen (user_get_or_404 t i) (\<lambda>u.
       if \<not> str_given (user_mfa_pending_secret u)
       then raise (ConflictError ''Start MFA enrolment before confirming it.'')
       else if \<not> totp (or_else (user_mfa_pending_secret u) []) code then ret False
       else andthen (user_write i (\<lambda>u. u\<lparr>user_mfa_secret := user_mfa_pending_secret u,
              user_mfa_pending_secret := None, user_mfa_enabled := True,
              user_mfa_enrolled_at := Some now\<rparr>)) (\<lambda>_. ret True))"

definition verify_mfa_code ::
  "(string \<Rightarrow> string \<Rightarrow> bool) \<Rightarrow> uuid option \<Rightarrow> uuid \<Rightarrow> string \<Rightarrow> db \<Rightarrow> bool" where
  "verify_mfa_code totp t i code s = (case user_get t i s of
      None \<Rightarrow> False
    | Some u \<Rightarrow> if \<not> user_mfa_enabled u \<or> \<not> str_given (user_mfa_secret u) then False
                else totp (or_else (user_mfa_secret u) []) code)"

definition disable_mfa :: "uuid option \<Rightarrow> uuid \<Rightarrow> (db, unit) action" where
  "disable_mfa t i =
     andthen (user_get_or_404 t i) (\<lambda>u.
       user_write i (\<lambda>u. u\<lparr>user_mfa_enabled := False, user_mfa_enrolled_at := None,
         user_mfa_secret := None, user_mfa_pending_secret := None\<rparr>))"

definition check_password ::
  "(string \<Rightarrow> string \<Rightarrow> bool) \<Rightarrow> uuid option \<Rightarrow> uuid \<Rightarrow> string \<Rightarrow> db \<Rightarrow> bool" where
  "check_password verify t i password s = (case user_get t i s of
      None \<Rightarrow> False
    | Some u \<Rightarrow> verify password (user_password_hash u))"

definition mark_email_verified ::
  "uuid option \<Rightarrow> uuid \<Rightarrow> instant \<Rightarrow> (db, user_identity option) action" where
  "mark_email_verified t i now =
     andthen (gets (user_get t i)) (\<lambda>r. case r of
        None \<Rightarrow> ret None
      | Some u \<Rightarrow>
          if user_email_verified_at u = None
          then andthen (user_write i (\<lambda>u. u\<lparr>user_email_verified_at := Some now\<rparr>)) (\<lambda>_.
               ret (Some (to_identity (u\<lparr>user_email_verified_at := Some now\<rparr>))))
          else ret (Some (to_identity u)))"

section \<open>Lemmas\<close>

lemma user_get_Some:
  "user_get t i s = Some u \<Longrightarrow>
     u \<in> set (users s) \<and> user_tenant u = t \<and> user_id u = i \<and> user_deleted_at u = None"
  by (auto simp: user_get_def dest: find_in)

lemma get_identity_if_active_Some:
  assumes "get_identity_if_active t i s = Some ident"
  obtains u where "user_get t i s = Some u" "user_status u = ACTIVE" "ident = to_identity u"
    "ident_id ident = i" "ident_tenant ident = t"
  using assms user_get_Some
  by (fastforce simp: get_identity_if_active_def to_identity_def split: option.splits if_splits)

lemma identities_for_Some:
  assumes "identities_for t ids s i = Some ident"
  shows "i \<in> set ids \<and> (\<exists>u \<in> set (users s). user_id u = i \<and> user_tenant u = Some t
    \<and> user_status u = ACTIVE \<and> user_deleted_at u = None)"
  using map_of_SomeD [OF assms [unfolded identities_for_def]]
  by (auto simp: list_active_by_ids_def)

lemma user_get_or_404_simp:
  "andthen (user_get_or_404 t i) f s = (case user_get t i s of
      None \<Rightarrow> (Inl (NotFoundError ''User not found.''), s) | Some u \<Rightarrow> f u s)"
  by (simp add: user_get_or_404_def andthen_def gets_def ret_def raise_def split: option.splits)

lemma user_write_run [simp]:
  "user_write i f s = (Inr (), s\<lparr>users := upd_rows (\<lambda>u. user_id u = i) f (users s)\<rparr>)"
  "andthen (user_write i f) g s = g () (s\<lparr>users := upd_rows (\<lambda>u. user_id u = i) f (users s)\<rparr>)"
  by (simp_all add: user_write_def modify_def andthen_def)

text \<open>No two live or deleted rows of the account table share a tenant and an address.\<close>

definition users_unique :: "db \<Rightarrow> bool" where
  "users_unique s \<longleftrightarrow>
     distinct (map user_id (users s)) \<and> distinct (map (\<lambda>u. (user_tenant u, user_email u)) (users s))"

end
