(* ===== verification/Usage.thy ===== *)
theory Usage
  imports Database
begin

text \<open>
  \<open>modules/tenants/plans.py\<close> and \<open>modules/tenants/usage.py\<close>: the plan table, the per-tenant
  usage counters and the write-time quota checks that listings, agents and media make.
\<close>

section \<open>Plans\<close>

record plan_limits =
  max_listings :: "int option"
  max_agents :: "int option"
  storage_gb :: "int option"
  monthly_emails :: "int option"

definition PLANS :: "(string \<times> plan_limits) list" where
  "PLANS = [
     (''trial'', \<lparr>max_listings = Some 25, max_agents = Some 3, storage_gb = Some 1,
        monthly_emails = Some 500\<rparr>),
     (''starter'', \<lparr>max_listings = Some 100, max_agents = Some 10, storage_gb = Some 10,
        monthly_emails = Some 5000\<rparr>),
     (''growth'', \<lparr>max_listings = Some 1000, max_agents = Some 50, storage_gb = Some 100,
        monthly_emails = Some 50000\<rparr>),
     (''enterprise'', \<lparr>max_listings = None, max_agents = None, storage_gb = None,
        monthly_emails = None\<rparr>)]"

definition DEFAULT_PLAN :: plan_limits where
  "DEFAULT_PLAN = \<lparr>max_listings = Some 25, max_agents = Some 3, storage_gb = Some 1,
     monthly_emails = Some 500\<rparr>"

definition plan_limits_for :: "string \<Rightarrow> plan_limits" where
  "plan_limits_for plan = (case map_of PLANS plan of None \<Rightarrow> DEFAULT_PLAN | Some p \<Rightarrow> p)"

definition storage_bytes_limit :: "string \<Rightarrow> int option" where
  "storage_bytes_limit plan =
     map_option (\<lambda>gb. gb * 1024 * 1024 * 1024) (storage_gb (plan_limits_for plan))"

section \<open>Usage counters\<close>

definition zero_usage :: tenant_usage where
  "zero_usage = \<lparr>usage_listings_count = 0, usage_agents_count = 0, usage_storage_bytes = 0,
     usage_emails_sent = 0, usage_emails_period = []\<rparr>"

text \<open>The row, created zeroed when absent, then locked.\<close>

definition usage_get_for_update :: "uuid \<Rightarrow> (db, tenant_usage) action" where
  "usage_get_for_update t =
     andthen (modify (\<lambda>s. s\<lparr>usage := (usage s)(t := Some (or_else (usage s t) zero_usage))\<rparr>)) (\<lambda>_.
     gets (\<lambda>s. or_else (usage s t) zero_usage))"

definition usage_adjust :: "uuid \<Rightarrow> int \<Rightarrow> int \<Rightarrow> int \<Rightarrow> (db, unit) action" where
  "usage_adjust t dl da ds = modify (\<lambda>s. s\<lparr>usage := (usage s)(t := Some (case usage s t of
      None \<Rightarrow> zero_usage\<lparr>usage_listings_count := max dl 0, usage_agents_count := max da 0,
                usage_storage_bytes := max ds 0\<rparr>
    | Some u \<Rightarrow> u\<lparr>usage_listings_count := max (usage_listings_count u + dl) 0,
                usage_agents_count := max (usage_agents_count u + da) 0,
                usage_storage_bytes := max (usage_storage_bytes u + ds) 0\<rparr>))\<rparr>)"

definition bump_emails :: "uuid \<Rightarrow> int \<Rightarrow> string \<Rightarrow> (db, unit) action" where
  "bump_emails t count period = modify (\<lambda>s. s\<lparr>usage := (usage s)(t := Some (case usage s t of
      None \<Rightarrow> zero_usage\<lparr>usage_emails_sent := count, usage_emails_period := period\<rparr>
    | Some u \<Rightarrow> u\<lparr>usage_emails_sent :=
                   (if usage_emails_period u = period then usage_emails_sent u + count else count),
                 usage_emails_period := period\<rparr>))\<rparr>)"

definition usage_snapshot :: "uuid \<Rightarrow> string \<Rightarrow> db \<Rightarrow> int \<times> int \<times> int \<times> int" where
  "usage_snapshot t period s = (case usage s t of
      None \<Rightarrow> (0, 0, 0, 0)
    | Some u \<Rightarrow> (usage_listings_count u, usage_agents_count u, usage_storage_bytes u,
                 if usage_emails_period u = period then usage_emails_sent u else 0))"

definition limit_reached :: "string \<Rightarrow> string" where
  "limit_reached what = ''Your plan'' @ [CHR 0x27] @ ''s '' @ what @ '' limit has been reached.''"

definition reserve_listing :: "uuid \<Rightarrow> string \<Rightarrow> (db, unit) action" where
  "reserve_listing t plan =
     andthen (usage_get_for_update t) (\<lambda>row.
       case max_listings (plan_limits_for plan) of
         Some limit \<Rightarrow>
           if usage_listings_count row \<ge> limit
           then raise (QuotaExceededError (limit_reached ''listing''))
           else usage_adjust t 1 0 0
       | None \<Rightarrow> usage_adjust t 1 0 0)"

definition release_listings :: "uuid \<Rightarrow> (db, unit) action" where
  "release_listings t = usage_adjust t (-1) 0 0"

definition reserve_agent :: "uuid \<Rightarrow> string \<Rightarrow> (db, unit) action" where
  "reserve_agent t plan =
     andthen (usage_get_for_update t) (\<lambda>row.
       case max_agents (plan_limits_for plan) of
         Some limit \<Rightarrow>
           if usage_agents_count row \<ge> limit
           then raise (QuotaExceededError (limit_reached ''agent''))
           else usage_adjust t 0 1 0
       | None \<Rightarrow> usage_adjust t 0 1 0)"

definition release_agents :: "uuid \<Rightarrow> (db, unit) action" where
  "release_agents t = usage_adjust t 0 (-1) 0"

definition reserve_storage :: "uuid \<Rightarrow> string \<Rightarrow> int \<Rightarrow> (db, unit) action" where
  "reserve_storage t plan size_bytes =
     andthen (usage_get_for_update t) (\<lambda>row.
       case storage_bytes_limit plan of
         Some limit \<Rightarrow>
           if usage_storage_bytes row + size_bytes > limit
           then raise (QuotaExceededError (limit_reached ''storage''))
           else usage_adjust t 0 0 size_bytes
       | None \<Rightarrow> usage_adjust t 0 0 size_bytes)"

definition release_storage :: "uuid \<Rightarrow> int \<Rightarrow> (db, unit) action" where
  "release_storage t size_bytes = usage_adjust t 0 0 (- size_bytes)"

section \<open>The quota contract\<close>

definition listings_count :: "uuid \<Rightarrow> db \<Rightarrow> int" where
  "listings_count t s = (case usage s t of None \<Rightarrow> 0 | Some u \<Rightarrow> usage_listings_count u)"

definition agents_count :: "uuid \<Rightarrow> db \<Rightarrow> int" where
  "agents_count t s = (case usage s t of None \<Rightarrow> 0 | Some u \<Rightarrow> usage_agents_count u)"

definition storage_count :: "uuid \<Rightarrow> db \<Rightarrow> int" where
  "storage_count t s = (case usage s t of None \<Rightarrow> 0 | Some u \<Rightarrow> usage_storage_bytes u)"

definition usage_nonneg :: "db \<Rightarrow> bool" where
  "usage_nonneg s \<longleftrightarrow> (\<forall>t u. usage s t = Some u \<longrightarrow>
     0 \<le> usage_listings_count u \<and> 0 \<le> usage_agents_count u \<and> 0 \<le> usage_storage_bytes u)"

text \<open>
  What a client of a quota relies on, for any counter and any admissible amount: a reservation
  that succeeds raises the count by the amount and stays within the limit, one that would pass
  the limit is refused, a release lowers the count and never below zero.
\<close>

locale quota =
  fixes count :: "uuid \<Rightarrow> db \<Rightarrow> int"
    and limit :: "string \<Rightarrow> int option"
    and amount :: "int \<Rightarrow> bool"
    and reserve :: "uuid \<Rightarrow> string \<Rightarrow> int \<Rightarrow> (db, unit) action"
    and release :: "uuid \<Rightarrow> int \<Rightarrow> (db, unit) action"
  assumes amount_nonneg: "amount n \<Longrightarrow> 0 \<le> n"
    and reserve_ok: "amount n \<Longrightarrow> 0 \<le> count t s \<Longrightarrow> reserve t plan n s = (Inr u, s') \<Longrightarrow>
      count t s' = count t s + n"
    and reserve_limit: "amount n \<Longrightarrow> reserve t plan n s = (Inr u, s') \<Longrightarrow> limit plan = Some m \<Longrightarrow>
      count t s + n \<le> m"
    and reserve_refuses: "amount n \<Longrightarrow> limit plan = Some m \<Longrightarrow> m < count t s + n \<Longrightarrow>
      \<exists>e s'. reserve t plan n s = (Inl (QuotaExceededError e), s')"
    and reserve_fits: "amount n \<Longrightarrow> (\<And>m. limit plan = Some m \<Longrightarrow> count t s + n \<le> m) \<Longrightarrow>
      \<exists>s'. reserve t plan n s = (Inr (), s')"
    and reserve_other: "t' \<noteq> t \<Longrightarrow> reserve t plan n s = (r, s') \<Longrightarrow> count t' s' = count t' s"
    and release_ok: "amount n \<Longrightarrow> 0 \<le> count t s \<Longrightarrow> release t n s = (Inr u, s') \<Longrightarrow>
      count t s' = max (count t s - n) 0"
begin

text \<open>A run of reservations and releases of one tenant on one plan, refused ones included.\<close>

inductive quota_run :: "uuid \<Rightarrow> string \<Rightarrow> db \<Rightarrow> db \<Rightarrow> bool" where
  stay: "quota_run t plan s s"
| reserved: "quota_run t plan s s' \<Longrightarrow> amount n \<Longrightarrow> reserve t plan n s' = (Inr u, s'') \<Longrightarrow>
    quota_run t plan s s''"
| released: "quota_run t plan s s' \<Longrightarrow> amount n \<Longrightarrow> release t n s' = (Inr u, s'') \<Longrightarrow>
    quota_run t plan s s''"

lemma never_over:
  assumes "quota_run t plan s s'" "0 \<le> count t s" "limit plan = Some m" "count t s \<le> m"
  shows "0 \<le> count t s' \<and> count t s' \<le> m"
  using assms(1-4)
proof (induction rule: quota_run.induct)
  case (reserved t plan s s' n u s'')
  then have "count t s'' = count t s' + n" "count t s' + n \<le> m"
    using reserve_ok reserve_limit by blast+
  with reserved amount_nonneg show ?case by force
next
  case (released t plan s s' n u s'')
  then have "count t s'' = max (count t s' - n) 0" by (intro release_ok) auto
  with released amount_nonneg show ?case by force
qed auto

text \<open>A slot that was refused is granted after a release of at least that amount.\<close>

lemma release_makes_room:
  assumes "amount n" "0 \<le> count t s" "count t s \<le> m" "limit plan = Some m" "n \<le> count t s"
    "release t n s = (Inr u, s')"
  shows "\<exists>s''. reserve t plan n s' = (Inr (), s'')"
proof (rule reserve_fits [OF assms(1)])
  fix m' assume "limit plan = Some m'"
  with release_ok [OF assms(1,2,6)] assms show "count t s' + n \<le> m'" by simp
qed

end

section \<open>The counters satisfy it\<close>

named_theorems usage_simps
  \<open>the usage operations run on a state\<close>

lemma usage_get_for_update_run [usage_simps]:
  "andthen (usage_get_for_update t) f s =
     f (or_else (usage s t) zero_usage)
       (s\<lparr>usage := (usage s)(t := Some (or_else (usage s t) zero_usage))\<rparr>)"
  by (simp add: usage_get_for_update_def andthen_assoc)

lemma usage_adjust_iff:
  "usage_adjust t dl da ds s = (r, s') \<longleftrightarrow> r = Inr () \<and> s' = snd (usage_adjust t dl da ds s)"
  by (auto simp: usage_adjust_def modify_def)

lemma counts_adjust [usage_simps]:
  "listings_count t' (snd (usage_adjust t dl da ds s)) =
     (if t' = t then max (listings_count t s + dl) 0 else listings_count t' s)"
  "agents_count t' (snd (usage_adjust t dl da ds s)) =
     (if t' = t then max (agents_count t s + da) 0 else agents_count t' s)"
  "storage_count t' (snd (usage_adjust t dl da ds s)) =
     (if t' = t then max (storage_count t s + ds) 0 else storage_count t' s)"
  by (auto simp: usage_adjust_def modify_def listings_count_def agents_count_def
      storage_count_def split: option.splits)

lemma counts_touch [usage_simps]:
  "listings_count t' (s\<lparr>usage := (usage s)(t := Some (or_else (usage s t) zero_usage))\<rparr>) =
     listings_count t' s"
  "agents_count t' (s\<lparr>usage := (usage s)(t := Some (or_else (usage s t) zero_usage))\<rparr>) =
     agents_count t' s"
  "storage_count t' (s\<lparr>usage := (usage s)(t := Some (or_else (usage s t) zero_usage))\<rparr>) =
     storage_count t' s"
  by (auto simp: listings_count_def agents_count_def storage_count_def zero_usage_def
      split: option.splits)

lemma counts_row [usage_simps]:
  "usage_listings_count (or_else (usage s t) zero_usage) = listings_count t s"
  "usage_agents_count (or_else (usage s t) zero_usage) = agents_count t s"
  "usage_storage_bytes (or_else (usage s t) zero_usage) = storage_count t s"
  by (simp_all add: listings_count_def agents_count_def storage_count_def zero_usage_def
      split: option.splits)

lemma reserve_listing_run:
  "reserve_listing t plan s =
     (let s1 = s\<lparr>usage := (usage s)(t := Some (or_else (usage s t) zero_usage))\<rparr> in
      case max_listings (plan_limits_for plan) of
        Some m \<Rightarrow> if listings_count t s \<ge> m
          then (Inl (QuotaExceededError (limit_reached ''listing'')), s1)
          else usage_adjust t 1 0 0 s1
      | None \<Rightarrow> usage_adjust t 1 0 0 s1)"
  by (simp add: reserve_listing_def usage_simps raise_def Let_def split: option.splits)

lemma reserve_agent_run:
  "reserve_agent t plan s =
     (let s1 = s\<lparr>usage := (usage s)(t := Some (or_else (usage s t) zero_usage))\<rparr> in
      case max_agents (plan_limits_for plan) of
        Some m \<Rightarrow> if agents_count t s \<ge> m
          then (Inl (QuotaExceededError (limit_reached ''agent'')), s1)
          else usage_adjust t 0 1 0 s1
      | None \<Rightarrow> usage_adjust t 0 1 0 s1)"
  by (simp add: reserve_agent_def usage_simps raise_def Let_def split: option.splits)

lemma reserve_storage_run:
  "reserve_storage t plan n s =
     (let s1 = s\<lparr>usage := (usage s)(t := Some (or_else (usage s t) zero_usage))\<rparr> in
      case storage_bytes_limit plan of
        Some m \<Rightarrow> if storage_count t s + n > m
          then (Inl (QuotaExceededError (limit_reached ''storage'')), s1)
          else usage_adjust t 0 0 n s1
      | None \<Rightarrow> usage_adjust t 0 0 n s1)"
  by (simp add: reserve_storage_def usage_simps raise_def Let_def split: option.splits)

interpretation listings_quota: quota listings_count "\<lambda>plan. max_listings (plan_limits_for plan)"
  "\<lambda>n. n = 1" "\<lambda>t plan n. reserve_listing t plan" "\<lambda>t n. release_listings t"
  by unfold_locales
    (auto simp: reserve_listing_run release_listings_def Let_def usage_simps usage_adjust_iff
      split: option.splits if_splits)

interpretation agents_quota: quota agents_count "\<lambda>plan. max_agents (plan_limits_for plan)"
  "\<lambda>n. n = 1" "\<lambda>t plan n. reserve_agent t plan" "\<lambda>t n. release_agents t"
  by unfold_locales
    (auto simp: reserve_agent_run release_agents_def Let_def usage_simps usage_adjust_iff
      split: option.splits if_splits)

interpretation storage_quota: quota storage_count storage_bytes_limit
  "\<lambda>n. 0 \<le> n" reserve_storage release_storage
  by unfold_locales
    (auto simp: reserve_storage_run release_storage_def Let_def usage_simps usage_adjust_iff
      split: option.splits if_splits)

end
