(* ===== verification/Pagination.thy ===== *)
theory Pagination
  imports Prelude "HOL-Library.Product_Lexorder"
begin

text \<open>
  \<open>core/pagination.py\<close> and the keyset pages of every list endpoint: a query returns the rows
  strictly past the cursor, one more than the page holds, and the extra row tells that there
  is a next page. A cursor is base64 of the keyset of the last item; here it is that keyset,
  or \<open>Malformed\<close> when decoding it fails.
\<close>

definition DEFAULT_PAGE_SIZE :: int where
  "DEFAULT_PAGE_SIZE = 24"

definition MAX_PAGE_SIZE :: int where
  "MAX_PAGE_SIZE = 100"

definition clamp_limit :: "int option \<Rightarrow> int" where
  "clamp_limit limit = (case limit of
      None \<Rightarrow> DEFAULT_PAGE_SIZE
    | Some n \<Rightarrow> max 1 (min n MAX_PAGE_SIZE))"

datatype 'k cursor = Malformed | Keyset 'k

definition decode_keyset :: "'k cursor option \<Rightarrow> error + 'k option" where
  "decode_keyset c = (case c of
      None \<Rightarrow> Inr None
    | Some Malformed \<Rightarrow> Inl (InvalidCursorError ''The provided cursor is malformed.'')
    | Some (Keyset k) \<Rightarrow> Inr (Some k))"

text \<open>The rows past a cursor, in the query's order (descending keys), one more than the limit.\<close>

definition past :: "('r \<Rightarrow> 'k::linorder) \<Rightarrow> 'k option \<Rightarrow> 'r \<Rightarrow> bool" where
  "past key after r = (case after of None \<Rightarrow> True | Some k \<Rightarrow> key r < k)"

definition newest_first :: "('r \<Rightarrow> 'k::linorder) \<Rightarrow> 'r list \<Rightarrow> 'r list" where
  "newest_first key rows = rev (sort_key key rows)"

definition fetch_page :: "('r \<Rightarrow> 'k::linorder) \<Rightarrow> 'k option \<Rightarrow> int \<Rightarrow> 'r list \<Rightarrow> 'r list" where
  "fetch_page key after limit rows =
     take (nat (limit + 1)) (newest_first key (filter (past key after) rows))"

text \<open>What a list endpoint does with the fetched rows.\<close>

definition cut_page :: "('r \<Rightarrow> 'k) \<Rightarrow> int \<Rightarrow> 'r list \<Rightarrow> 'r list \<times> 'k cursor option" where
  "cut_page key page_size rows =
     (let items = take (nat page_size) rows
      in (items, if int (length rows) \<le> page_size then None else Some (Keyset (key (last items)))))"

section \<open>Walking the pages\<close>

lemma clamp_limit_bounds: "1 \<le> clamp_limit l \<and> clamp_limit l \<le> MAX_PAGE_SIZE"
  by (auto simp: clamp_limit_def DEFAULT_PAGE_SIZE_def MAX_PAGE_SIZE_def split: option.splits)

text \<open>
  What a client that follows the cursors relies on, for any order of the keys: the page after
  a key holds the next rows of one fixed list, which the order sorts strictly.
\<close>

locale keyset_pages =
  fixes key :: "'r \<Rightarrow> 'k"
    and before :: "'k \<Rightarrow> 'k \<Rightarrow> bool"
    and valid :: "'q \<Rightarrow> bool"
    and rows :: "'q \<Rightarrow> 'r list"
    and page :: "'q \<Rightarrow> 'k option \<Rightarrow> int \<Rightarrow> 'r list \<times> 'k cursor option"
  assumes before_trans: "before a b \<Longrightarrow> before b c \<Longrightarrow> before a c"
    and before_irrefl: "\<not> before a a"
    and rows_sorted: "valid q \<Longrightarrow> sorted_wrt before (map key (rows q))"
    and page_cut: "valid q \<Longrightarrow> 1 \<le> n \<Longrightarrow> n \<le> MAX_PAGE_SIZE \<Longrightarrow> page q after n = cut_page key n
      (take (nat (n + 1)) (filter (\<lambda>r. case after of None \<Rightarrow> True | Some k \<Rightarrow> before k (key r)) (rows q)))"
begin

text \<open>The client's loop, at most \<open>fuel\<close> pages.\<close>

fun walk :: "'q \<Rightarrow> nat \<Rightarrow> int \<Rightarrow> 'k option \<Rightarrow> 'r list" where
  "walk q 0 n after = []"
| "walk q (Suc fuel) n after =
     (case page q after n of (items, next) \<Rightarrow>
        items @ (case next of Some (Keyset k) \<Rightarrow> walk q fuel n (Some k) | _ \<Rightarrow> []))"

lemma filter_past:
  assumes "valid q" "rows q = xs @ ys" "xs \<noteq> []"
  shows "filter (\<lambda>r. before (key (last xs)) (key r)) (rows q) = ys"
proof -
  from rows_sorted [OF assms(1)] assms(2) have s: "sorted_wrt before (map key xs)"
    "\<forall>x \<in> set xs. \<forall>y \<in> set ys. before (key x) (key y)"
    by (auto simp: sorted_wrt_append)
  from assms(3) obtain us where us: "xs = us @ [last xs]" by (metis append_butlast_last_id)
  from s(1) us have "sorted_wrt before (map key us @ [key (last xs)])"
    by (metis list.simps(8,9) map_append)
  then have "\<forall>x \<in> set us. before (key x) (key (last xs))" by (simp add: sorted_wrt_append)
  then have "\<forall>x \<in> set us. \<not> before (key (last xs)) (key x)"
    using before_trans before_irrefl by blast
  then have "filter (\<lambda>r. before (key (last xs)) (key r)) xs = []"
    by (subst us) (simp add: filter_empty_conv before_irrefl)
  moreover have "\<forall>y \<in> set ys. before (key (last xs)) (key y)" using s(2) assms(3) by simp
  ultimately show ?thesis by (simp add: assms(2))
qed

definition remaining :: "'q \<Rightarrow> 'k option \<Rightarrow> 'r list" where
  "remaining q after =
     filter (\<lambda>r. case after of None \<Rightarrow> True | Some k \<Rightarrow> before k (key r)) (rows q)"

lemma walk_remaining:
  assumes "valid q" "1 \<le> n" "n \<le> MAX_PAGE_SIZE" "rows q = xs @ remaining q after" "length (remaining q after) < fuel"
  shows "walk q fuel n after = remaining q after"
  using assms(4,5)
proof (induction fuel arbitrary: xs after)
  case (Suc fuel)
  let ?ys = "remaining q after"
  have page: "page q after n = cut_page key n (take (nat (n + 1)) ?ys)"
    using page_cut [OF assms(1-3)] by (simp add: remaining_def)
  have items: "take (nat n) (take (nat (n + 1)) ?ys) = take (nat n) ?ys"
    using assms(2) by (simp add: min_def)
  show ?case
  proof (cases "int (length ?ys) \<le> n")
    case True
    then have "int (length (take (nat (n + 1)) ?ys)) \<le> n" "take (nat n) ?ys = ?ys" by auto
    then show ?thesis by (simp add: page cut_page_def Let_def items)
  next
    case False
    let ?zs = "take (nat n) ?ys"
    from False assms(2) have ne: "?zs \<noteq> []" by (cases ?ys) auto
    have split: "rows q = (xs @ ?zs) @ drop (nat n) ?ys" using Suc.prems(1) by simp
    have rest: "remaining q (Some (key (last ?zs))) = drop (nat n) ?ys"
      using filter_past [OF assms(1) split] ne by (simp add: remaining_def)
    have "length (drop (nat n) ?ys) < fuel" using Suc.prems(2) assms(2) False by simp
    with Suc.IH [of "xs @ ?zs" "Some (key (last ?zs))"] split rest
    have "walk q fuel n (Some (key (last ?zs))) = drop (nat n) ?ys" by simp
    moreover from False have "\<not> int (length (take (nat (n + 1)) ?ys)) \<le> n" by simp
    ultimately show ?thesis by (simp add: page cut_page_def Let_def items)
  qed
qed simp

text \<open>Following the cursors to the end visits every row once, in order, for any page size.\<close>

lemma walk_all: "valid q \<Longrightarrow> 1 \<le> n \<Longrightarrow> n \<le> MAX_PAGE_SIZE \<Longrightarrow> length (rows q) < fuel \<Longrightarrow> walk q fuel n None = rows q"
  using walk_remaining [of q n "[]" None fuel] by (simp add: remaining_def)

lemma page_past: "valid q \<Longrightarrow> 1 \<le> n \<Longrightarrow> n \<le> MAX_PAGE_SIZE \<Longrightarrow> r \<in> set (fst (page q (Some k) n)) \<Longrightarrow> before k (key r)"
  by (auto simp: page_cut cut_page_def Let_def dest!: in_set_takeD)

end

section \<open>The newest-first pages\<close>

lemma newest_first_filter: "newest_first key (filter P rows) = filter P (newest_first key rows)"
  by (simp only: newest_first_def filter_sort [symmetric] rev_filter)

lemma newest_first_sorted:
  assumes "distinct (map key rows)"
  shows "sorted_wrt (\<lambda>a b. b < (a :: 'k :: linorder)) (map key (newest_first key rows))"
proof -
  have "sorted (map key (sort_key key rows))" by simp
  moreover have "distinct (map key (sort_key key rows))"
    using assms by (simp add: distinct_map)
  ultimately have "sorted_wrt (<) (map key (sort_key key rows))"
    by (simp add: strict_sorted_iff)
  then show ?thesis by (simp only: newest_first_def rev_map [symmetric] sorted_wrt_rev)
qed

lemma newest_first_page:
  "fetch_page key after n rows = take (nat (n + 1))
     (filter (\<lambda>r. case after of None \<Rightarrow> True | Some k \<Rightarrow> key r < k) (newest_first key rows))"
  unfolding fetch_page_def newest_first_filter past_def [abs_def] ..

lemma newest_first_set [simp]:
  "set (newest_first key rows) = set rows" "length (newest_first key rows) = length rows"
  by (simp_all add: newest_first_def)

end
