(* ===== verification/Agents.thy ===== *)
theory Agents
  imports Users Usage Pagination
begin

text \<open>
  \<open>modules/agents\<close>: agent profiles, teams, membership, and the visibility scope that
  listings, leads, appointments and deals all delegate to. A scope is \<open>None\<close> for
  tenant-wide, or the list of user ids whose rows the actor sees.
\<close>

type_synonym scope = "uuid list option"

section \<open>Repository\<close>

definition profile_get :: "uuid \<Rightarrow> uuid \<Rightarrow> db \<Rightarrow> agent_profile option" where
  "profile_get t i s = find (\<lambda>p. prof_tenant p = t \<and> prof_id p = i) (profiles s)"

definition profile_get_by_user :: "uuid \<Rightarrow> uuid \<Rightarrow> db \<Rightarrow> agent_profile option" where
  "profile_get_by_user t u s = find (\<lambda>p. prof_tenant p = t \<and> prof_user p = u) (profiles s)"

definition profile_get_published_by_slug :: "uuid \<Rightarrow> string \<Rightarrow> db \<Rightarrow> agent_profile option" where
  "profile_get_published_by_slug t slug s =
     find (\<lambda>p. prof_tenant p = t \<and> prof_slug p = slug \<and> prof_is_published p) (profiles s)"

text \<open>\<open>st_contains\<close> is PostGIS' point-in-polygon test on a profile's service area.\<close>

definition candidate_user_ids_for_point ::
  "(lonlat list list \<Rightarrow> lonlat \<Rightarrow> bool) \<Rightarrow> uuid \<Rightarrow> lonlat \<Rightarrow> db \<Rightarrow> uuid list" where
  "candidate_user_ids_for_point st_contains t point s =
     sort (map prof_user (filter (\<lambda>p. prof_tenant p = t \<and> prof_is_published p
       \<and> (case prof_service_areas p of None \<Rightarrow> False | Some a \<Rightarrow> st_contains a point)) (profiles s)))"

definition any_territory_profile :: "uuid \<Rightarrow> db \<Rightarrow> bool" where
  "any_territory_profile t s = (0 < length (filter (\<lambda>p. prof_tenant p = t \<and> prof_is_published p
     \<and> prof_service_areas p \<noteq> None) (profiles s)))"

definition team_get :: "uuid \<Rightarrow> uuid \<Rightarrow> db \<Rightarrow> team option" where
  "team_get t i s = find (\<lambda>x. team_tenant x = t \<and> team_id x = i) (teams s)"

definition team_list :: "uuid \<Rightarrow> db \<Rightarrow> team list" where
  "team_list t s = sort_key (\<lambda>x. (team_created_at x, team_id x))
     (filter (\<lambda>x. team_tenant x = t) (teams s))"

definition member_get :: "uuid \<Rightarrow> uuid \<Rightarrow> uuid \<Rightarrow> db \<Rightarrow> team_member option" where
  "member_get t team u s =
     find (\<lambda>m. tm_tenant m = t \<and> tm_team m = team \<and> tm_user m = u) (team_members s)"

definition led_team_member_user_ids :: "uuid \<Rightarrow> uuid \<Rightarrow> db \<Rightarrow> uuid list" where
  "led_team_member_user_ids t lead_user s =
     [tm_user m. m \<leftarrow> team_members s, x \<leftarrow> teams s,
        team_id x = tm_team m \<and> team_tenant x = t \<and> tm_tenant m = t
        \<and> team_lead_user x = Some lead_user]"

section \<open>Visibility scope\<close>

definition PROFILE_ROLES :: "role list" where
  "PROFILE_ROLES = [AGENT, TEAM_LEAD]"

definition TENANT_WIDE_MANAGER_ROLES :: "role list" where
  "TENANT_WIDE_MANAGER_ROLES = [ADMIN, MARKETING]"

definition team_scope_user_ids :: "uuid \<Rightarrow> uuid \<Rightarrow> db \<Rightarrow> uuid list" where
  "team_scope_user_ids t u s = filter (\<lambda>x. x \<noteq> u) (led_team_member_user_ids t u s)"

definition scope_user_ids_for :: "uuid \<Rightarrow> actor \<Rightarrow> db \<Rightarrow> scope" where
  "scope_user_ids_for t a s =
     (if actor_role a \<in> set TENANT_WIDE_MANAGER_ROLES then None
      else if actor_role a = TEAM_LEAD then Some (actor_id a # team_scope_user_ids t (actor_id a) s)
      else Some [actor_id a])"

text \<open>Membership of an owner in a scope, the \<open>owner IN (...)\<close> clause of the repositories.\<close>

definition in_scope :: "scope \<Rightarrow> uuid option \<Rightarrow> bool" where
  "in_scope sc owner = (case sc of
      None \<Rightarrow> True
    | Some ids \<Rightarrow> (case owner of None \<Rightarrow> False | Some u \<Rightarrow> u \<in> set ids))"

section \<open>Profiles\<close>

definition can_manage :: "actor \<Rightarrow> bool" where
  "can_manage a = has_permission a AGENT_MANAGE"

definition can_manage_profile :: "uuid \<Rightarrow> actor \<Rightarrow> agent_profile \<Rightarrow> db \<Rightarrow> bool" where
  "can_manage_profile t a p s =
     (if \<not> can_manage a then False
      else if actor_role a \<in> set TENANT_WIDE_MANAGER_ROLES then True
      else if actor_role a = TEAM_LEAD
      then prof_user p \<in> set (team_scope_user_ids t (actor_id a) s)
      else False)"

definition profile_scoped_or_404 :: "tenant_context \<Rightarrow> actor \<Rightarrow> uuid \<Rightarrow> (db, agent_profile) action" where
  "profile_scoped_or_404 ten a i = (\<lambda>s. case profile_get (tenant_id ten) i s of
      None \<Rightarrow> (Inl (NotFoundError ''Agent profile not found.''), s)
    | Some p \<Rightarrow>
        if prof_user p = actor_id a \<or> can_manage_profile (tenant_id ten) a p s then (Inr p, s)
        else (Inl (NotFoundError ''Agent profile not found.''), s))"

text \<open>The unique constraints on (tenant, user) and (tenant, slug), checked at flush.\<close>

definition profile_constraint_violated :: "agent_profile \<Rightarrow> agent_profile list \<Rightarrow> bool" where
  "profile_constraint_violated p ps \<longleftrightarrow>
     list_ex (\<lambda>q. prof_tenant q = prof_tenant p
       \<and> (prof_user q = prof_user p \<or> prof_slug q = prof_slug p)) ps"

record profile_create =
  pc_user :: "uuid option"
  pc_slug :: string
  pc_specialties :: "string list"
  pc_service_areas :: "lonlat list list"
  pc_whatsapp_number :: "string option"

definition create_profile ::
  "tenant_context \<Rightarrow> actor \<Rightarrow> profile_create \<Rightarrow> uuid \<Rightarrow> instant \<Rightarrow> (db, agent_profile) action" where
  "create_profile ten a data new_id now =
     (let target = or_else (pc_user data) (actor_id a) in
      andthen (check (\<not> (target \<noteq> actor_id a \<and> \<not> can_manage a))
        (PermissionDeniedError ''You can only create your own agent profile.'')) (\<lambda>_.
      andthen (gets (get_identity_if_active (Some (tenant_id ten)) target)) (\<lambda>identity.
      case identity of
        None \<Rightarrow> raise (ConflictError ''The profile user does not exist or is not active.'')
      | Some ident \<Rightarrow>
      andthen (check (ident_role ident \<in> set PROFILE_ROLES)
        (ConflictError ''Agent profiles are for agent and team-lead accounts.'')) (\<lambda>_.
      andthen (gets (profile_get_by_user (tenant_id ten) target)) (\<lambda>existing.
      andthen (check (existing = None) (ConflictError ''This user already has an agent profile.'')) (\<lambda>_.
      andthen (reserve_agent (tenant_id ten) (tenant_plan ten)) (\<lambda>_.
        let p = \<lparr>prof_id = new_id, prof_tenant = tenant_id ten, prof_user = target,
                 prof_slug = pc_slug data, prof_specialties = pc_specialties data,
                 prof_service_areas =
                   (if pc_service_areas data = [] then None else Some (pc_service_areas data)),
                 prof_whatsapp_number = pc_whatsapp_number data, prof_is_published = False,
                 prof_photo_key = None, prof_photo_status = None, prof_photo_variants = [],
                 prof_created_at = now\<rparr>
        in andthen (gets (\<lambda>s. profile_constraint_violated p (profiles s))) (\<lambda>violated.
           andthen (check (\<not> violated)
             (ConflictError ''An agent profile with this slug or user already exists.'')) (\<lambda>_.
           andthen (modify (\<lambda>s. s\<lparr>profiles := profiles s @ [p]\<rparr>)) (\<lambda>_.
           ret p)))))))))) "

text \<open>The objects of a profile photo: the private original and the public variants.\<close>

definition photo_objects :: "string \<Rightarrow> string \<Rightarrow> agent_profile \<Rightarrow> (string \<times> string) list" where
  "photo_objects docs_bucket media_bucket p =
     (case prof_photo_key p of None \<Rightarrow> [] | Some k \<Rightarrow> if k = [] then [] else [(docs_bucket, k)])
     @ map (\<lambda>k. (media_bucket, k)) (prof_photo_variants p)"

definition enqueue_delete_objects :: "(string \<times> string) list \<Rightarrow> (db, unit) action" where
  "enqueue_delete_objects objects =
     (if objects = [] then ret () else on_commit (DeleteObjects objects))"

definition delete_profile ::
  "string \<Rightarrow> string \<Rightarrow> tenant_context \<Rightarrow> actor \<Rightarrow> uuid \<Rightarrow> (db, unit) action" where
  "delete_profile docs_bucket media_bucket ten a i =
     andthen (profile_scoped_or_404 ten a i) (\<lambda>p.
     andthen (modify (\<lambda>s. s\<lparr>profiles := del_rows (\<lambda>q. prof_id q = prof_id p) (profiles s)\<rparr>)) (\<lambda>_.
     andthen (release_agents (tenant_id ten)) (\<lambda>_.
     enqueue_delete_objects (photo_objects docs_bucket media_bucket p))))"

definition confirm_photo :: "tenant_context \<Rightarrow> actor \<Rightarrow> uuid \<Rightarrow> (db, unit) action" where
  "confirm_photo ten a i =
     andthen (profile_scoped_or_404 ten a i) (\<lambda>p.
     andthen (check (prof_photo_status p = Some PHOTO_PENDING)
       (ConflictError ''There is no pending photo upload to confirm.'')) (\<lambda>_.
     andthen (modify (\<lambda>s. s\<lparr>profiles := upd_rows (\<lambda>q. prof_id q = prof_id p)
         (\<lambda>q. q\<lparr>prof_photo_status := Some PHOTO_PROCESSING\<rparr>) (profiles s)\<rparr>)) (\<lambda>_.
     on_commit (ProcessPhoto (prof_id p)))))"

section \<open>The public directory\<close>

definition agent_get_public :: "tenant_context \<Rightarrow> string \<Rightarrow> (db, agent_profile \<times> user_identity) action" where
  "agent_get_public ten slug =
     andthen (gets (profile_get_published_by_slug (tenant_id ten) slug)) (\<lambda>r. case r of
        None \<Rightarrow> raise (NotFoundError ''Agent not found.'')
      | Some p \<Rightarrow>
     andthen (gets (get_identity_if_active (Some (tenant_id ten)) (prof_user p))) (\<lambda>identity.
       case identity of
        None \<Rightarrow> raise (NotFoundError ''Agent not found.'')
      | Some ident \<Rightarrow> ret (p, ident)))"

definition whatsapp_number_for :: "uuid \<Rightarrow> uuid \<Rightarrow> db \<Rightarrow> string option" where
  "whatsapp_number_for t u s =
     (case profile_get_by_user t u s of None \<Rightarrow> None | Some p \<Rightarrow> prof_whatsapp_number p)"

section \<open>Teams\<close>

definition team_or_404 :: "tenant_context \<Rightarrow> actor \<Rightarrow> uuid \<Rightarrow> (db, team) action" where
  "team_or_404 ten a i =
     andthen (gets (team_get (tenant_id ten) i)) (\<lambda>r. case r of
        None \<Rightarrow> raise (NotFoundError ''Team not found.'')
      | Some x \<Rightarrow>
          if actor_role a \<noteq> ADMIN \<and> team_lead_user x \<noteq> Some (actor_id a)
          then raise (NotFoundError ''Team not found.'')
          else ret x)"

definition validated_lead :: "uuid \<Rightarrow> uuid option \<Rightarrow> (db, uuid option) action" where
  "validated_lead t lead_user = (case lead_user of
      None \<Rightarrow> ret None
    | Some u \<Rightarrow> andthen (gets (get_identity_if_active (Some t) u)) (\<lambda>identity.
        if (case identity of None \<Rightarrow> True | Some ident \<Rightarrow> ident_role ident \<notin> set PROFILE_ROLES)
        then raise (ConflictError
               ''The team lead must be an active agent or team-lead account.'')
        else ret (Some u)))"

definition create_team ::
  "tenant_context \<Rightarrow> actor \<Rightarrow> string \<Rightarrow> uuid option \<Rightarrow> uuid \<Rightarrow> instant \<Rightarrow> (db, team) action" where
  "create_team ten a name lead_user new_id now =
     andthen (check (actor_role a = ADMIN) (PermissionDeniedError ''Only admins can create teams.'')) (\<lambda>_.
     andthen (validated_lead (tenant_id ten) lead_user) (\<lambda>lead_id.
       let x = \<lparr>team_id = new_id, team_tenant = tenant_id ten, team_name = name,
                team_lead_user = lead_id, team_created_at = now\<rparr>
       in andthen (modify (\<lambda>s. s\<lparr>teams := teams s @ [x]\<rparr>)) (\<lambda>_. ret x)))"

definition update_team ::
  "tenant_context \<Rightarrow> actor \<Rightarrow> uuid \<Rightarrow> uuid option patch \<Rightarrow> string option patch \<Rightarrow> (db, unit) action" where
  "update_team ten a i lead_patch name_patch =
     andthen (team_or_404 ten a i) (\<lambda>x.
     andthen (case lead_patch of
         Unset \<Rightarrow> ret ()
       | SetTo v \<Rightarrow>
           andthen (check (actor_role a = ADMIN)
             (PermissionDeniedError ''Only admins can change a team lead.'')) (\<lambda>_.
           andthen (validated_lead (tenant_id ten) v) (\<lambda>lead_id.
           modify (\<lambda>s. s\<lparr>teams := upd_rows (\<lambda>y. team_id y = team_id x)
             (\<lambda>y. y\<lparr>team_lead_user := lead_id\<rparr>) (teams s)\<rparr>)))) (\<lambda>_.
     case patch_get name_patch of
       None \<Rightarrow> ret ()
     | Some n \<Rightarrow> modify (\<lambda>s. s\<lparr>teams := upd_rows (\<lambda>y. team_id y = team_id x)
                    (\<lambda>y. y\<lparr>team_name := n\<rparr>) (teams s)\<rparr>)))"

text \<open>Deleting a team cascades to its memberships.\<close>

definition delete_team :: "tenant_context \<Rightarrow> actor \<Rightarrow> uuid \<Rightarrow> (db, unit) action" where
  "delete_team ten a i =
     andthen (check (actor_role a = ADMIN) (PermissionDeniedError ''Only admins can delete teams.'')) (\<lambda>_.
     andthen (team_or_404 ten a i) (\<lambda>x.
     modify (\<lambda>s. s\<lparr>teams := del_rows (\<lambda>y. team_id y = team_id x) (teams s),
       team_members := del_rows (\<lambda>m. tm_team m = team_id x) (team_members s)\<rparr>)))"

definition add_member ::
  "tenant_context \<Rightarrow> actor \<Rightarrow> uuid \<Rightarrow> uuid \<Rightarrow> string option \<Rightarrow> uuid \<Rightarrow> (db, team_member) action" where
  "add_member ten a i u role_in_team new_id =
     andthen (team_or_404 ten a i) (\<lambda>x.
     andthen (gets (get_identity_if_active (Some (tenant_id ten)) u)) (\<lambda>identity.
     andthen (check (case identity of None \<Rightarrow> False | Some ident \<Rightarrow> ident_role ident \<in> set PROFILE_ROLES)
       (ConflictError ''Team members must be active agent or team-lead accounts.'')) (\<lambda>_.
     andthen (gets (member_get (tenant_id ten) (team_id x) u)) (\<lambda>existing.
     andthen (check (existing = None) (ConflictError ''This user is already a member of the team.'')) (\<lambda>_.
       let m = \<lparr>tm_id = new_id, tm_tenant = tenant_id ten, tm_team = team_id x, tm_user = u,
                tm_role_in_team = role_in_team\<rparr>
       in andthen (gets (\<lambda>s. list_ex (\<lambda>y. tm_team y = team_id x \<and> tm_user y = u) (team_members s)))
            (\<lambda>violated.
          andthen (check (\<not> violated) (ConflictError ''This user is already a member of the team.'')) (\<lambda>_.
          andthen (modify (\<lambda>s. s\<lparr>team_members := team_members s @ [m]\<rparr>)) (\<lambda>_. ret m))))))))"

definition remove_member :: "tenant_context \<Rightarrow> actor \<Rightarrow> uuid \<Rightarrow> uuid \<Rightarrow> (db, unit) action" where
  "remove_member ten a i u =
     andthen (team_or_404 ten a i) (\<lambda>x.
     andthen (gets (member_get (tenant_id ten) i u)) (\<lambda>r. case r of
        None \<Rightarrow> raise (NotFoundError ''Team member not found.'')
      | Some m \<Rightarrow> modify (\<lambda>s. s\<lparr>team_members := del_rows (\<lambda>y. tm_id y = tm_id m) (team_members s)\<rparr>)))"

end
