(* ===== verification/Contracts.thy ===== *)
theory Contracts
  imports Agents
begin

text \<open>
  Two contracts that several modules share. A \<open>scoped_table\<close> is a table whose rows are
  fetched under a tenant and a visibility scope, with the 404 of the \<open>*_or_404\<close> helpers; a
  \<open>workflow\<close> is a status column that only the steps of a service move, along a transition
  graph. The modules that own the tables interpret them.
\<close>

section \<open>Scoped access\<close>

locale scoped_table =
  fixes rows :: "db \<Rightarrow> 'r list"
    and tenant_of :: "'r \<Rightarrow> uuid"
    and id_of :: "'r \<Rightarrow> uuid"
    and visible :: "scope \<Rightarrow> 'r \<Rightarrow> bool"
    and fetch :: "uuid \<Rightarrow> scope \<Rightarrow> uuid \<Rightarrow> db \<Rightarrow> 'r option"
    and or_404 :: "tenant_context \<Rightarrow> actor \<Rightarrow> uuid \<Rightarrow> (db, 'r) action"
    and missing :: error
  assumes fetch_find:
      "fetch t sc i s = find (\<lambda>r. tenant_of r = t \<and> id_of r = i \<and> visible sc r) (rows s)"
    and or_404_fetch:
      "or_404 ten a i s =
         (case fetch (tenant_id ten) (scope_user_ids_for (tenant_id ten) a s) i s of
            None \<Rightarrow> (Inl missing, s) | Some r \<Rightarrow> (Inr r, s))"
    and visible_all: "visible sc r \<Longrightarrow> visible None r"
begin

lemma fetch_Some:
  "fetch t sc i s = Some r \<Longrightarrow> r \<in> set (rows s) \<and> tenant_of r = t \<and> id_of r = i \<and> visible sc r"
  by (auto simp: fetch_find dest: find_in)

lemma fetch_row:
  "distinct (map id_of (rows s)) \<Longrightarrow> r \<in> set (rows s) \<Longrightarrow> tenant_of r = t \<Longrightarrow> visible sc r \<Longrightarrow>
   fetch t sc (id_of r) s = Some r"
  by (auto simp: fetch_find intro!: find_distinct [where key = id_of])

lemma fetch_None:
  "fetch t sc i s = None \<longleftrightarrow>
     (\<forall>r \<in> set (rows s). \<not> (tenant_of r = t \<and> id_of r = i \<and> visible sc r))"
  by (auto simp: fetch_find find_None_iff)

lemma found:
  "or_404 ten a i s = (Inr r, s') \<Longrightarrow>
     s' = s \<and> r \<in> set (rows s) \<and> tenant_of r = tenant_id ten \<and> id_of r = i
     \<and> visible (scope_user_ids_for (tenant_id ten) a s) r"
  by (auto simp: or_404_fetch split: option.splits dest: fetch_Some)

lemma read: "read_only (or_404 ten a i)"
  by (auto simp: read_only_def or_404_fetch split: option.splits)

text \<open>
  Missing, deleted, foreign and out-of-scope rows give one and the same answer: the caller
  cannot tell them apart.
\<close>

lemma no_oracle:
  assumes "\<And>r. r \<in> set (rows s) \<Longrightarrow> tenant_of r = tenant_id ten \<Longrightarrow> id_of r = i \<Longrightarrow>
    \<not> visible (scope_user_ids_for (tenant_id ten) a s) r"
  shows "or_404 ten a i s = (Inl missing, s)"
proof -
  from assms have "fetch (tenant_id ten) (scope_user_ids_for (tenant_id ten) a s) i s = None"
    by (auto simp: fetch_None)
  then show ?thesis by (simp add: or_404_fetch)
qed

lemma or_404_iff:
  "or_404 ten a i s = (Inr r, s') \<longleftrightarrow>
     s' = s \<and> fetch (tenant_id ten) (scope_user_ids_for (tenant_id ten) a s) i s = Some r"
  "or_404 ten a i s = (Inl e, s') \<longleftrightarrow>
     s' = s \<and> e = missing
     \<and> fetch (tenant_id ten) (scope_user_ids_for (tenant_id ten) a s) i s = None"
  by (auto simp: or_404_fetch split: option.splits)

lemma andthen_or_404:
  "andthen (or_404 ten a i) f s =
     (case fetch (tenant_id ten) (scope_user_ids_for (tenant_id ten) a s) i s of
        None \<Rightarrow> (Inl missing, s) | Some r \<Rightarrow> f r s)"
  by (simp add: andthen_def or_404_fetch split: option.splits)

end

section \<open>Workflows\<close>

locale workflow =
  fixes allowed :: "'st \<Rightarrow> 'st list"
    and initial :: 'st
    and status_of :: "db \<Rightarrow> uuid \<Rightarrow> 'st option"
    and step :: "db \<Rightarrow> db \<Rightarrow> bool"
  assumes step_moves: "step s s' \<Longrightarrow> status_of s i = Some a \<Longrightarrow> status_of s' i = Some b \<Longrightarrow>
      b = a \<or> b \<in> set (allowed a)"
    and step_creates: "step s s' \<Longrightarrow> status_of s i = None \<Longrightarrow> status_of s' i = Some b \<Longrightarrow>
      b = initial"
begin

inductive leads_to :: "'st \<Rightarrow> 'st \<Rightarrow> bool" where
  here: "leads_to a a"
| move: "leads_to a b \<Longrightarrow> c \<in> set (allowed b) \<Longrightarrow> leads_to a c"

inductive run :: "db \<Rightarrow> db \<Rightarrow> bool" where
  start: "run s s"
| more: "run s s' \<Longrightarrow> step s' s'' \<Longrightarrow> run s s''"

lemma leads_to_trans:
  assumes "leads_to b c" "leads_to a b" shows "leads_to a c"
  using assms by (induction rule: leads_to.induct) (auto intro: leads_to.intros)

text \<open>A row that never disappears during a run only moves along the graph.\<close>

inductive kept_run :: "uuid \<Rightarrow> db \<Rightarrow> db \<Rightarrow> bool" where
  kept_start: "status_of s i \<noteq> None \<Longrightarrow> kept_run i s s"
| kept_more: "kept_run i s s' \<Longrightarrow> step s' s'' \<Longrightarrow> status_of s'' i \<noteq> None \<Longrightarrow> kept_run i s s''"

lemma kept_run_leads:
  assumes "kept_run i s s'"
  shows "\<exists>a b. status_of s i = Some a \<and> status_of s' i = Some b \<and> leads_to a b"
  using assms
proof (induction rule: kept_run.induct)
  case (kept_more i s s' s'')
  then obtain a b c where abc: "status_of s i = Some a" "status_of s' i = Some b"
    "status_of s'' i = Some c" "leads_to a b" by blast
  with step_moves [OF kept_more.hyps(2) abc(2,3)] show ?case
    by (auto intro: leads_to.intros)
qed (auto intro: leads_to.intros)

text \<open>A status without exits is final.\<close>

lemma leads_to_final: "leads_to a b \<Longrightarrow> allowed a = [] \<Longrightarrow> b = a"
  by (induction rule: leads_to.induct) auto

lemma final_stays:
  assumes "kept_run i s s'" "status_of s i = Some a" "allowed a = []"
  shows "status_of s' i = Some a"
  using kept_run_leads [OF assms(1)] assms(2,3) leads_to_final by force

text \<open>Whatever a run leaves behind started its life in the initial status.\<close>

lemma run_from_initial:
  assumes "run s s'" "status_of s' i = Some b" "status_of s i = None"
  shows "leads_to initial b"
proof -
  have "\<forall>i b. status_of s i = None \<longrightarrow> status_of s' i = Some b \<longrightarrow> leads_to initial b"
    using assms(1)
  proof (induction rule: run.induct)
    case (more s s' s'')
    show ?case
    proof (intro allI impI)
      fix i b assume i: "status_of s i = None" "status_of s'' i = Some b"
      show "leads_to initial b"
      proof (cases "status_of s' i")
        case None
        with step_creates [OF more.hyps(2)] i show ?thesis by (auto intro: leads_to.here)
      next
        case (Some a)
        with more.IH i have "leads_to initial a" by blast
        moreover from step_moves [OF more.hyps(2) Some i(2)] have "b = a \<or> b \<in> set (allowed a)" .
        ultimately show ?thesis by (auto intro: leads_to.move)
      qed
    qed
  qed auto
  with assms show ?thesis by blast
qed

end

section \<open>Values the witnesses run on\<close>

definition sample_tenant :: tenant_context where
  "sample_tenant = \<lparr>tenant_id = 1, tenant_slug = ''dar-immo'', tenant_settings = [],
     tenant_plan = ''trial''\<rparr>"

definition sample_admin :: actor where
  "sample_admin = \<lparr>actor_id = 10, actor_tenant = Some 1, actor_role = ADMIN, actor_jti = ''j1'',
     actor_impersonator = None\<rparr>"

definition sample_agent :: actor where
  "sample_agent = \<lparr>actor_id = 11, actor_tenant = Some 1, actor_role = AGENT, actor_jti = ''j2'',
     actor_impersonator = None\<rparr>"

definition sample_user :: "uuid \<Rightarrow> role \<Rightarrow> user" where
  "sample_user i r = \<lparr>user_id = i, user_tenant = Some 1, user_email = [char_of i],
     user_password_hash = ''h'', user_role = r, user_status = ACTIVE, user_first_name = None,
     user_last_name = None, user_locale = ''fr'', user_phone = None,
     user_email_verified_at = None, user_last_login_at = None, user_mfa_enabled = False,
     user_mfa_secret = None, user_mfa_pending_secret = None, user_mfa_enrolled_at = None,
     user_deleted_at = None, user_created_at = 0\<rparr>"

definition sample_db :: db where
  "sample_db = empty_db\<lparr>users := [sample_user 10 ADMIN, sample_user 11 AGENT]\<rparr>"

definition sample_world :: world where
  "sample_world = \<lparr>uuid_text = (\<lambda>i. [char_of i]), uuid_of_text = (\<lambda>s. case s of
     [c] \<Rightarrow> Some (of_char c) | _ \<Rightarrow> None), area_contains = (\<lambda>_ _. False)\<rparr>"

end
