(* ===== verification/Listings.thy ===== *)
theory Listings
  imports Contracts
begin

text \<open>
  \<open>modules/listings\<close>: ownership-scoped inventory, reference codes, the publishing workflow
  with its history, the portal fan-out of \<open>modules/syndication\<close>, the public lookups and the
  accessors other modules call.
\<close>

section \<open>Reference codes\<close>

definition digit_char :: "nat \<Rightarrow> char" where
  "digit_char n = char_of (48 + n)"

fun show_nat :: "nat \<Rightarrow> string" where
  "show_nat n = (if n < 10 then [digit_char n] else show_nat (n div 10) @ [digit_char (n mod 10)])"

declare show_nat.simps [simp del]

text \<open>The format \<open>{number:05d}\<close>.\<close>

definition pad5 :: "nat \<Rightarrow> string" where
  "pad5 n = replicate (5 - length (show_nat n)) (digit_char 0) @ show_nat n"

definition is_alnum :: "char \<Rightarrow> bool" where
  "is_alnum c = (let n = of_char c :: nat in
     (48 \<le> n \<and> n \<le> 57) \<or> (65 \<le> n \<and> n \<le> 90) \<or> (97 \<le> n \<and> n \<le> 122))"

definition upper_char :: "char \<Rightarrow> char" where
  "upper_char c = (let n = of_char c :: nat in
     if 97 \<le> n \<and> n \<le> 122 then char_of (n - 32) else c)"

definition reference_prefix :: "string \<Rightarrow> string" where
  "reference_prefix slug =
     (let letters = map upper_char (take 3 (filter is_alnum slug))
      in if letters = [] then ''LST'' else letters)"

definition reference_code :: "string \<Rightarrow> nat \<Rightarrow> nat \<Rightarrow> string" where
  "reference_code slug year number =
     reference_prefix slug @ ''-'' @ show_nat year @ ''-'' @ pad5 number"

section \<open>Repository\<close>

definition listing_base :: "uuid \<Rightarrow> scope \<Rightarrow> listing \<Rightarrow> bool" where
  "listing_base t sc l \<longleftrightarrow> lst_tenant l = t \<and> lst_deleted_at l = None
     \<and> (sc = None \<or> in_scope sc (lst_agent l) \<or> in_scope sc (lst_created_by l))"

definition listing_get :: "uuid \<Rightarrow> scope \<Rightarrow> uuid \<Rightarrow> db \<Rightarrow> listing option" where
  "listing_get t sc i s = find (\<lambda>l. listing_base t sc l \<and> lst_id l = i) (listings s)"

text \<open>\<open>parse_uuid\<close> is \<open>uuid.UUID(text)\<close>, \<open>None\<close> when it raises.\<close>

definition get_published_by_ref_or_id ::
  "(string \<Rightarrow> uuid option) \<Rightarrow> uuid \<Rightarrow> string \<Rightarrow> db \<Rightarrow> error + listing option" where
  "get_published_by_ref_or_id parse_uuid t ref_or_id s =
     one_or_none (filter (\<lambda>l. listing_base t None l \<and> lst_status l = PUBLISHED
       \<and> (lst_reference_code l = ref_or_id \<or> parse_uuid ref_or_id = Some (lst_id l))) (listings s))"

definition published_by_ids :: "uuid \<Rightarrow> uuid list \<Rightarrow> db \<Rightarrow> listing list" where
  "published_by_ids t ids s = (if ids = [] then []
     else filter (\<lambda>l. listing_base t None l \<and> lst_status l = PUBLISHED \<and> lst_id l \<in> set ids) (listings s))"

definition scoped_listing_ids :: "uuid \<Rightarrow> scope \<Rightarrow> db \<Rightarrow> uuid list" where
  "scoped_listing_ids t sc s = map lst_id (filter (listing_base t sc) (listings s))"

definition counts_by_status_for_agent ::
  "uuid \<Rightarrow> uuid \<Rightarrow> db \<Rightarrow> listing_status \<Rightarrow> nat" where
  "counts_by_status_for_agent t u s st = length (filter (\<lambda>l. lst_tenant l = t
     \<and> lst_agent l = Some u \<and> lst_deleted_at l = None \<and> lst_status l = st) (listings s))"

definition next_reference_number :: "uuid \<Rightarrow> nat \<Rightarrow> (db, nat) action" where
  "next_reference_number t year = (\<lambda>s.
     let n = (case reference_counters s (t, int year) of None \<Rightarrow> 1 | Some v \<Rightarrow> v + 1)
     in (Inr n, s\<lparr>reference_counters := (reference_counters s)((t, int year) := Some n)\<rparr>))"

definition listing_history_of :: "uuid \<Rightarrow> uuid \<Rightarrow> db \<Rightarrow> listing_history list" where
  "listing_history_of t i s = rev (sort_key hist_created_at
     (filter (\<lambda>h. hist_tenant h = t \<and> hist_listing h = i) (listing_histories s)))"

definition listing_write :: "uuid \<Rightarrow> (listing \<Rightarrow> listing) \<Rightarrow> (db, unit) action" where
  "listing_write i f = modify (\<lambda>s. s\<lparr>listings := upd_rows (\<lambda>l. lst_id l = i) f (listings s)\<rparr>)"

text \<open>The unique constraint on (tenant, reference code), checked by the database at flush.\<close>

definition reference_taken :: "listing \<Rightarrow> db \<Rightarrow> bool" where
  "reference_taken l s \<longleftrightarrow> list_ex (\<lambda>m. lst_tenant m = lst_tenant l
     \<and> lst_reference_code m = lst_reference_code l) (listings s)"

definition listing_add :: "listing \<Rightarrow> (db, listing) action" where
  "listing_add l =
     andthen (gets (reference_taken l)) (\<lambda>taken.
     andthen (check (\<not> taken) IntegrityError) (\<lambda>_.
     andthen (modify (\<lambda>s. s\<lparr>listings := listings s @ [l]\<rparr>)) (\<lambda>_. ret l)))"

section \<open>Scoping and rights\<close>

definition listing_or_404 :: "tenant_context \<Rightarrow> actor \<Rightarrow> uuid \<Rightarrow> (db, listing) action" where
  "listing_or_404 ten a i =
     andthen (gets (scope_user_ids_for (tenant_id ten) a)) (\<lambda>sc.
     andthen (gets (listing_get (tenant_id ten) sc i)) (\<lambda>r. case r of
        None \<Rightarrow> raise (NotFoundError ''Listing not found.'')
      | Some l \<Rightarrow> ret l))"

definition MANAGES_ALL_ROLES :: "role list" where
  "MANAGES_ALL_ROLES = [ADMIN, TEAM_LEAD, MARKETING]"

definition resolve_agent :: "uuid \<Rightarrow> actor \<Rightarrow> uuid option \<Rightarrow> (db, uuid) action" where
  "resolve_agent t a agent = (case agent of
      None \<Rightarrow> ret (actor_id a)
    | Some g \<Rightarrow>
        if g = actor_id a then ret (actor_id a)
        else andthen (check (actor_role a \<in> set MANAGES_ALL_ROLES)
          (PermissionDeniedError ''You can only create listings assigned to yourself.'')) (\<lambda>_.
        andthen (gets (get_identity_if_active (Some t) g)) (\<lambda>identity.
        andthen (check (identity \<noteq> None)
          (ConflictError ''The assigned agent does not exist or is not active.'')) (\<lambda>_.
        ret g))))"

definition can_publish :: "actor \<Rightarrow> tenant_context \<Rightarrow> error + bool" where
  "can_publish a ten =
     (if has_permission a LISTING_PUBLISH then Inr True
      else if actor_role a \<noteq> AGENT then Inr False
      else case settings_namespace ''listings'' (tenant_settings ten) of
          Inl e \<Rightarrow> Inl e
        | Inr obj \<Rightarrow> Inr (json_truthy (json_get ''agent_self_publish'' obj)))"

section \<open>Portal syndication\<close>

definition KNOWN_PORTALS :: "string list" where
  "KNOWN_PORTALS = [''mock'']"

definition portal_config :: "json_obj \<Rightarrow> string \<Rightarrow> json_obj" where
  "portal_config settings key =
     (case json_get ''syndication'' settings of
        Some (JObj obj) \<Rightarrow> (case json_get key obj of Some (JObj cfg) \<Rightarrow> cfg | _ \<Rightarrow> [])
      | _ \<Rightarrow> [])"

definition is_portal_enabled :: "json_obj \<Rightarrow> string \<Rightarrow> bool" where
  "is_portal_enabled settings key \<longleftrightarrow>
     key \<in> set KNOWN_PORTALS \<and> json_truthy (json_get ''enabled'' (portal_config settings key))"

definition enabled_portal_keys :: "json_obj \<Rightarrow> string list" where
  "enabled_portal_keys settings = filter (is_portal_enabled settings) KNOWN_PORTALS"

definition enqueue_listing_sync ::
  "tenant_context \<Rightarrow> uuid \<Rightarrow> portal_action \<Rightarrow> (db, unit) action" where
  "enqueue_listing_sync ten i act =
     for_each (enabled_portal_keys (tenant_settings ten)) (\<lambda>key. on_commit (SyncListing i key act))"

definition syndication_action :: "listing_status \<Rightarrow> listing_status \<Rightarrow> portal_action option" where
  "syndication_action from to =
     (if to = PUBLISHED then Some PORTAL_UPDATE
      else if from = PUBLISHED then Some PORTAL_REMOVE
      else None)"

definition enqueue_syndication ::
  "tenant_context \<Rightarrow> uuid \<Rightarrow> portal_action option \<Rightarrow> (db, unit) action" where
  "enqueue_syndication ten i act = (case act of
      None \<Rightarrow> ret () | Some x \<Rightarrow> enqueue_listing_sync ten i x)"

section \<open>Create, update, delete, duplicate\<close>

record listing_create =
  lc_purpose :: listing_purpose
  lc_facts :: listing_facts
  lc_price :: decimal
  lc_currency :: string
  lc_location :: "lonlat option"
  lc_agent :: "uuid option"
  lc_expires_at :: "instant option"

definition purpose_price_period :: "listing_purpose \<Rightarrow> price_period option" where
  "purpose_price_period p = (case p of SALE \<Rightarrow> None | RENT \<Rightarrow> Some MONTH | RENT_DAILY \<Rightarrow> Some DAY)"

text \<open>The row a creation inserts.\<close>

definition new_listing ::
  "tenant_context \<Rightarrow> actor \<Rightarrow> listing_create \<Rightarrow> uuid \<Rightarrow> string \<Rightarrow> uuid \<Rightarrow> instant \<Rightarrow> listing" where
  "new_listing ten a data agent code new_id now =
     \<lparr>lst_id = new_id, lst_tenant = tenant_id ten, lst_reference_code = code,
      lst_agent = Some agent, lst_status = DRAFT, lst_purpose = lc_purpose data,
      lst_facts = lc_facts data, lst_price = lc_price data, lst_currency = lc_currency data,
      lst_price_period = purpose_price_period (lc_purpose data),
      lst_location = lc_location data, lst_expires_at = lc_expires_at data,
      lst_published_at = None, lst_stale_flagged_at = None, lst_featured = False,
      lst_created_by = Some (actor_id a), lst_deleted_at = None, lst_created_at = now\<rparr>"

definition listing_create_for ::
  "tenant_context \<Rightarrow> actor \<Rightarrow> listing_create \<Rightarrow> uuid \<Rightarrow> nat \<Rightarrow> instant \<Rightarrow> (db, listing) action" where
  "listing_create_for ten a data new_id year now =
     andthen (resolve_agent (tenant_id ten) a (lc_agent data)) (\<lambda>agent.
     andthen (reserve_listing (tenant_id ten) (tenant_plan ten)) (\<lambda>_.
     andthen (next_reference_number (tenant_id ten) year) (\<lambda>number.
       listing_add (new_listing ten a data agent
         (reference_code (tenant_slug ten) year number) new_id now))))"

record listing_update =
  lu_property_type :: "property_type patch"
  lu_title :: "i18n_text patch"
  lu_description :: "i18n_text patch"
  lu_price :: "decimal patch"
  lu_currency :: "string patch"
  lu_negotiable :: "bool patch"
  lu_beds :: "int option patch"
  lu_baths :: "int option patch"
  lu_area_built :: "decimal option patch"
  lu_area_land :: "decimal option patch"
  lu_floor :: "int option patch"
  lu_floors_total :: "int option patch"
  lu_year_built :: "int option patch"
  lu_features :: "string list patch"
  lu_address :: "json_obj option patch"
  lu_location :: "lonlat option patch"
  lu_agent :: "uuid option patch"
  lu_expires_at :: "instant option patch"
  lu_featured :: "bool patch"

text \<open>
  The fields left in \<open>patch\<close> after \<open>agent_id\<close>, \<open>address\<close> and \<open>location\<close> were taken out
  of it: the code tests this remainder for emptiness.
\<close>

definition plain_fields_set :: "listing_update \<Rightarrow> bool" where
  "plain_fields_set d \<longleftrightarrow> lu_property_type d \<noteq> Unset \<or> lu_title d \<noteq> Unset
     \<or> lu_description d \<noteq> Unset \<or> lu_price d \<noteq> Unset \<or> lu_currency d \<noteq> Unset
     \<or> lu_negotiable d \<noteq> Unset \<or> lu_beds d \<noteq> Unset \<or> lu_baths d \<noteq> Unset
     \<or> lu_area_built d \<noteq> Unset \<or> lu_area_land d \<noteq> Unset \<or> lu_floor d \<noteq> Unset
     \<or> lu_floors_total d \<noteq> Unset \<or> lu_year_built d \<noteq> Unset \<or> lu_features d \<noteq> Unset
     \<or> lu_expires_at d \<noteq> Unset \<or> lu_featured d \<noteq> Unset"

definition patch_facts :: "listing_update \<Rightarrow> listing_facts \<Rightarrow> listing_facts" where
  "patch_facts d f = \<lparr>
     fact_property_type = patched (lu_property_type d) (fact_property_type f),
     fact_title = patched (lu_title d) (fact_title f),
     fact_description = patched (lu_description d) (fact_description f),
     fact_negotiable = patched (lu_negotiable d) (fact_negotiable f),
     fact_beds = patched (lu_beds d) (fact_beds f),
     fact_baths = patched (lu_baths d) (fact_baths f),
     fact_area_built = patched (lu_area_built d) (fact_area_built f),
     fact_area_land = patched (lu_area_land d) (fact_area_land f),
     fact_floor = patched (lu_floor d) (fact_floor f),
     fact_floors_total = patched (lu_floors_total d) (fact_floors_total f),
     fact_year_built = patched (lu_year_built d) (fact_year_built f),
     fact_features = patched (lu_features d) (fact_features f),
     fact_address = (case lu_address d of Unset \<Rightarrow> fact_address f | SetTo v \<Rightarrow> or_else v [])\<rparr>"

text \<open>An explicit null unassigns; it never falls into the default of a creation.\<close>

definition updated_agent ::
  "tenant_context \<Rightarrow> actor \<Rightarrow> listing \<Rightarrow> uuid option patch \<Rightarrow> (db, uuid option) action" where
  "updated_agent ten a l agent_patch = (case agent_patch of
      Unset \<Rightarrow> ret (lst_agent l)
    | SetTo None \<Rightarrow>
        andthen (check (actor_role a \<in> set MANAGES_ALL_ROLES)
          (PermissionDeniedError (''Only managers can unassign a listing'' @ [CHR 0x27] @ ''s agent.'')))
          (\<lambda>_. ret None)
    | SetTo (Some g) \<Rightarrow>
        andthen (resolve_agent (tenant_id ten) a (Some g)) (\<lambda>g'. ret (Some g')))"

definition listing_update_for ::
  "tenant_context \<Rightarrow> actor \<Rightarrow> uuid \<Rightarrow> listing_update \<Rightarrow> (db, unit) action" where
  "listing_update_for ten a i d =
     andthen (listing_or_404 ten a i) (\<lambda>l.
     andthen (check (lu_featured d = Unset \<or> actor_role a \<in> set MANAGES_ALL_ROLES)
       (PermissionDeniedError ''Only managers can feature a listing.'')) (\<lambda>_.
     andthen (updated_agent ten a l (lu_agent d)) (\<lambda>agent.
     andthen (listing_write (lst_id l) (\<lambda>r. r\<lparr>lst_agent := agent,
         lst_facts := patch_facts d (lst_facts r),
         lst_price := patched (lu_price d) (lst_price r),
         lst_currency := patched (lu_currency d) (lst_currency r),
         lst_location := patched (lu_location d) (lst_location r),
         lst_expires_at := patched (lu_expires_at d) (lst_expires_at r),
         lst_featured := patched (lu_featured d) (lst_featured r),
         lst_stale_flagged_at := (if plain_fields_set d then None else lst_stale_flagged_at r)\<rparr>)) (\<lambda>_.
     if plain_fields_set d \<and> lst_status l = PUBLISHED
     then enqueue_syndication ten (lst_id l) (Some PORTAL_UPDATE)
     else ret ()))))"

definition UNDELETABLE_STATUSES :: "listing_status list" where
  "UNDELETABLE_STATUSES = [PUBLISHED, RESERVED, SOLD, RENTED]"

definition listing_soft_delete ::
  "tenant_context \<Rightarrow> actor \<Rightarrow> uuid \<Rightarrow> instant \<Rightarrow> (db, unit) action" where
  "listing_soft_delete ten a i now =
     andthen (listing_or_404 ten a i) (\<lambda>l.
     andthen (check (lst_status l \<notin> set UNDELETABLE_STATUSES)
       (ConflictError ''Archive this listing before deleting it.'')) (\<lambda>_.
     andthen (listing_write (lst_id l) (\<lambda>r. r\<lparr>lst_deleted_at := Some now\<rparr>)) (\<lambda>_.
     release_listings (tenant_id ten))))"

definition copied_listing ::
  "tenant_context \<Rightarrow> actor \<Rightarrow> listing \<Rightarrow> string \<Rightarrow> uuid \<Rightarrow> instant \<Rightarrow> listing" where
  "copied_listing ten a src code new_id now =
     \<lparr>lst_id = new_id, lst_tenant = tenant_id ten, lst_reference_code = code,
      lst_agent = lst_agent src, lst_status = DRAFT, lst_purpose = lst_purpose src,
      lst_facts = lst_facts src, lst_price = lst_price src, lst_currency = lst_currency src,
      lst_price_period = lst_price_period src,
      lst_location = lst_location src, lst_expires_at = None,
      lst_published_at = None, lst_stale_flagged_at = None, lst_featured = False,
      lst_created_by = Some (actor_id a), lst_deleted_at = None, lst_created_at = now\<rparr>"

definition listing_duplicate ::
  "tenant_context \<Rightarrow> actor \<Rightarrow> uuid \<Rightarrow> uuid \<Rightarrow> nat \<Rightarrow> instant \<Rightarrow> (db, listing) action" where
  "listing_duplicate ten a i new_id year now =
     andthen (listing_or_404 ten a i) (\<lambda>src.
     andthen (reserve_listing (tenant_id ten) (tenant_plan ten)) (\<lambda>_.
     andthen (next_reference_number (tenant_id ten) year) (\<lambda>number.
       listing_add (copied_listing ten a src
         (reference_code (tenant_slug ten) year number) new_id now))))"

section \<open>The publishing workflow\<close>

definition ALLOWED_TRANSITIONS :: "listing_status \<Rightarrow> listing_status list" where
  "ALLOWED_TRANSITIONS st = (case st of
      DRAFT \<Rightarrow> [REVIEW, PUBLISHED, ARCHIVED]
    | REVIEW \<Rightarrow> [DRAFT, PUBLISHED, ARCHIVED]
    | PUBLISHED \<Rightarrow> [RESERVED, SOLD, RENTED, ARCHIVED]
    | RESERVED \<Rightarrow> [PUBLISHED, SOLD, RENTED, ARCHIVED]
    | SOLD \<Rightarrow> [ARCHIVED]
    | RENTED \<Rightarrow> [ARCHIVED]
    | ARCHIVED \<Rightarrow> [DRAFT])"

definition EVENT_LISTING_PUBLISHED :: string where
  "EVENT_LISTING_PUBLISHED = ''listing.published''"

definition listing_status_value :: "listing_status \<Rightarrow> string" where
  "listing_status_value st = (case st of
      DRAFT \<Rightarrow> ''draft'' | REVIEW \<Rightarrow> ''review'' | PUBLISHED \<Rightarrow> ''published''
    | RESERVED \<Rightarrow> ''reserved'' | SOLD \<Rightarrow> ''sold'' | RENTED \<Rightarrow> ''rented''
    | ARCHIVED \<Rightarrow> ''archived'')"

definition listing_transition ::
  "(uuid \<Rightarrow> string) \<Rightarrow> tenant_context \<Rightarrow> actor \<Rightarrow> uuid \<Rightarrow> listing_status \<Rightarrow> instant \<Rightarrow> (db, unit) action" where
  "listing_transition str_id ten a i target now =
     andthen (listing_or_404 ten a i) (\<lambda>l.
     andthen (check (target \<in> set (ALLOWED_TRANSITIONS (lst_status l)))
       (ConflictError (''A listing cannot go from '' @ quoted (listing_status_value (lst_status l))
         @ '' to '' @ quoted (listing_status_value target) @ ''.''))) (\<lambda>_.
     andthen (if target = PUBLISHED
              then andthen (lift_res (can_publish a ten)) (\<lambda>ok. check ok
                (PermissionDeniedError ''Publishing requires review by someone with publish rights.''))
              else ret ()) (\<lambda>_.
     andthen (listing_write (lst_id l) (\<lambda>r. (if target = PUBLISHED
         then r\<lparr>lst_status := target, lst_published_at := Some now\<rparr>
         else r\<lparr>lst_status := target, lst_stale_flagged_at := None\<rparr>))) (\<lambda>_.
     andthen (modify (\<lambda>s. s\<lparr>listing_histories := listing_histories s @
         [\<lparr>hist_tenant = tenant_id ten, hist_listing = lst_id l, hist_from = lst_status l,
           hist_to = target, hist_changed_by = Some (actor_id a), hist_created_at = now\<rparr>]\<rparr>)) (\<lambda>_.
     andthen (if target = PUBLISHED
              then andthen (emit_event ten EVENT_LISTING_PUBLISHED
                     [(''listingId'', JStr (str_id (lst_id l))),
                      (''referenceCode'', JStr (lst_reference_code l))]) (\<lambda>_.
                   on_commit (MatchPublished (lst_id l)))
              else ret ()) (\<lambda>_.
     enqueue_syndication ten (lst_id l) (syndication_action (lst_status l) target)))))))"

section \<open>Accessors of the other modules\<close>

definition listing_exists :: "uuid \<Rightarrow> uuid \<Rightarrow> db \<Rightarrow> bool" where
  "listing_exists t i s \<longleftrightarrow> listing_get t None i s \<noteq> None"

definition agent_for :: "uuid \<Rightarrow> uuid \<Rightarrow> db \<Rightarrow> uuid option" where
  "agent_for t i s = (case listing_get t None i s of None \<Rightarrow> None | Some l \<Rightarrow> lst_agent l)"

definition point_for :: "uuid \<Rightarrow> uuid \<Rightarrow> db \<Rightarrow> lonlat option" where
  "point_for t i s = (case listing_get t None i s of None \<Rightarrow> None | Some l \<Rightarrow> lst_location l)"

definition listing_get_public ::
  "(string \<Rightarrow> uuid option) \<Rightarrow> tenant_context \<Rightarrow> string \<Rightarrow> (db, listing) action" where
  "listing_get_public parse_uuid ten ref_or_id = (\<lambda>s.
     case get_published_by_ref_or_id parse_uuid (tenant_id ten) ref_or_id s of
       Inl e \<Rightarrow> (Inl e, s)
     | Inr None \<Rightarrow> (Inl (NotFoundError ''Listing not found.''), s)
     | Inr (Some l) \<Rightarrow> (Inr l, s))"

section \<open>The nightly staleness sweep\<close>

definition listing_is_stale :: "int \<Rightarrow> instant \<Rightarrow> listing \<Rightarrow> bool" where
  "listing_is_stale stale_after_days now l \<longleftrightarrow>
     (case lst_expires_at l of
        Some e \<Rightarrow> e \<le> now
      | None \<Rightarrow> (case lst_published_at l of None \<Rightarrow> False | Some p \<Rightarrow> p \<le> now - days stale_after_days))"

definition flag_tenant :: "int \<Rightarrow> uuid \<Rightarrow> instant \<Rightarrow> (db, nat) action" where
  "flag_tenant stale_after_days t now = (\<lambda>s.
     let due = (\<lambda>l. lst_tenant l = t \<and> lst_deleted_at l = None \<and> lst_status l = PUBLISHED
                  \<and> lst_stale_flagged_at l = None \<and> listing_is_stale stale_after_days now l)
     in (Inr (length (filter due (listings s))),
         s\<lparr>listings := upd_rows due (\<lambda>l. l\<lparr>lst_stale_flagged_at := Some now\<rparr>) (listings s)\<rparr>))"

end
