(* ===== verification/Calendar.thy ===== *)
theory Calendar
  imports Listings
begin

text \<open>
  The parts of Python's \<open>datetime\<close> that the tour calendar uses: the ordinal of a date and its
  weekday, the civil date of an ordinal in the proleptic Gregorian calendar, the texts of an
  instant, and a time zone as the two conversions between local and universal time. The zone
  data base itself is a parameter; plain UTC is defined here.
\<close>

text \<open>The ordinal of 1970-01-01, where instants start.\<close>

definition EPOCH_DAY :: date where
  "EPOCH_DAY = 719163"

definition weekday :: "date \<Rightarrow> int" where
  "weekday d = (d + 6) mod 7"

text \<open>Year, month and day of an ordinal, by 400-year eras that start on the first of March.\<close>

definition civil :: "date \<Rightarrow> int \<times> int \<times> int" where
  "civil d =
     (let z = d + 305; era = z div 146097; doe = z mod 146097;
          yoe = (doe - doe div 1460 + doe div 36524 - doe div 146096) div 365;
          doy = doe - (365 * yoe + yoe div 4 - yoe div 100);
          mp = (5 * doy + 2) div 153;
          month = (if mp < 10 then mp + 3 else mp - 9)
      in (yoe + era * 400 + (if month \<le> 2 then 1 else 0), month, doy - (153 * mp + 2) div 5 + 1))"

definition padded :: "nat \<Rightarrow> int \<Rightarrow> string" where
  "padded w n = (let t = show_nat (nat n) in replicate (w - length t) CHR ''0'' @ t)"

definition date_text :: "date \<Rightarrow> string" where
  "date_text d = (case civil d of (y, m, dd) \<Rightarrow> padded 4 y @ ''-'' @ padded 2 m @ ''-'' @ padded 2 dd)"

definition instant_date :: "instant \<Rightarrow> date" where
  "instant_date i = EPOCH_DAY + i div days 1"

definition clock_text :: "instant \<Rightarrow> string" where
  "clock_text i = (let m = (i mod days 1) div minutes 1 in padded 2 (m div 60) @ '':'' @ padded 2 (m mod 60))"

text \<open>\<open>isoformat()\<close> of an aware UTC datetime, and \<open>strftime("%Y-%m-%d %H:%M UTC")\<close>.\<close>

definition iso_text :: "instant \<Rightarrow> string" where
  "iso_text i = (let us = i mod minutes 1; frac = us mod seconds 1 in
     date_text (instant_date i) @ ''T'' @ clock_text i @ '':'' @ padded 2 (us div seconds 1)
       @ (if frac = 0 then [] else ''.'' @ padded 6 frac) @ ''+00:00'')"

definition minute_text :: "instant \<Rightarrow> string" where
  "minute_text i = date_text (instant_date i) @ '' '' @ clock_text i @ '' UTC''"

section \<open>Time zones\<close>

record time_zone =
  zone_instant :: "date \<Rightarrow> int \<Rightarrow> instant"
  zone_date :: "instant \<Rightarrow> date"

definition utc :: time_zone where
  "utc = \<lparr>zone_instant = (\<lambda>d t. (d - EPOCH_DAY) * days 1 + t), zone_date = instant_date\<rparr>"

end
