(* ===== verification/Lockout.thy ===== *)
theory Lockout
  imports Redis Calendar
begin

text \<open>
  \<open>core/lockout.py\<close>: failed logins counted per account and per address, each key locked with a
  doubling delay once it has reached its threshold. \<open>sha\<close> is the hexadecimal SHA-256 of the
  standard library.
\<close>

record lockout_settings =
  login_max_failed_attempts :: int
  login_ip_max_failed_attempts :: int
  login_lockout_base_seconds :: int
  login_lockout_max_seconds :: int
  login_failure_window_seconds :: int

definition account_key :: "(string \<Rightarrow> string) \<Rightarrow> string \<Rightarrow> string \<Rightarrow> string" where
  "account_key sha tenant email =
     ''auth:lockout:user:'' @ tenant @ '':'' @ take 32 (sha (str_lower email))"

definition ip_key :: "string \<Rightarrow> string" where
  "ip_key ip = ''auth:lockout:ip:'' @ ip"

definition lock_key :: "string \<Rightarrow> string" where
  "lock_key k = k @ '':locked''"

definition backoff_seconds :: "int \<Rightarrow> int \<Rightarrow> lockout_settings \<Rightarrow> int" where
  "backoff_seconds failures threshold st =
     (let over = max 0 (failures - threshold);
          delay = login_lockout_base_seconds st * 2 ^ nat over
      in min delay (login_lockout_max_seconds st))"

definition is_locked :: "string \<Rightarrow> string \<Rightarrow> instant \<Rightarrow> redis \<Rightarrow> bool" where
  "is_locked account ip now r =
     (if \<not> r_up r then False
      else list_ex (\<lambda>k. redis_get (lock_key k) now r \<noteq> None) [account, ip])"

text \<open>\<open>redis.set(key + ":locked", int(time.time()), ex=delay)\<close>, for a key at its threshold.\<close>

definition lock_if_over :: "lockout_settings \<Rightarrow> string \<Rightarrow> int \<Rightarrow> int \<Rightarrow> instant \<Rightarrow> redis \<Rightarrow> redis" where
  "lock_if_over st k failures threshold now r =
     (if failures < threshold then r
      else redis_set (lock_key k) (show_nat (nat (now div seconds 1)))
             (backoff_seconds failures threshold st) now r)"

definition record_failure :: "lockout_settings \<Rightarrow> string \<Rightarrow> string \<Rightarrow> instant \<Rightarrow> redis \<Rightarrow> redis" where
  "record_failure st account ip now r =
     (if \<not> r_up r then r
      else case redis_incr_expire account (login_failure_window_seconds st) now r of (n, r1) \<Rightarrow>
           (case redis_incr_expire ip (login_failure_window_seconds st) now r1 of (m, r2) \<Rightarrow>
              lock_if_over st ip m (login_ip_max_failed_attempts st) now
                (lock_if_over st account n (login_max_failed_attempts st) now r2)))"

definition reset :: "string \<Rightarrow> string \<Rightarrow> redis \<Rightarrow> redis" where
  "reset account ip r =
     (if \<not> r_up r then r
      else redis_delete [account, lock_key account, ip, lock_key ip] r)"

section \<open>Which keys there are\<close>

text \<open>
  A digest is hexadecimal, and an address never ends like a lock key: no counter shares its key
  with a lock.
\<close>

definition hex_digest :: "(string \<Rightarrow> string) \<Rightarrow> bool" where
  "hex_digest sha \<longleftrightarrow> (\<forall>x. 32 \<le> length (sha x) \<and> set (sha x) \<subseteq> set ''0123456789abcdef'')"

definition address :: "string \<Rightarrow> bool" where
  "address ip \<longleftrightarrow> \<not> suffix '':locked'' ip"

definition lock_class :: "(string \<Rightarrow> string) \<Rightarrow> lockout_settings \<Rightarrow> string \<Rightarrow> int \<Rightarrow> bool" where
  "lock_class sha st k threshold \<longleftrightarrow>
     (\<exists>t e. k = account_key sha t e \<and> threshold = login_max_failed_attempts st)
   \<or> (\<exists>ip. k = ip_key ip \<and> address ip \<and> threshold = login_ip_max_failed_attempts st)"

lemma account_ip_distinct [simp]:
  "account_key sha t e \<noteq> ip_key ip" "ip_key ip \<noteq> account_key sha t e"
  by (simp_all add: account_key_def ip_key_def)

lemma lock_key_eq [simp]: "lock_key k = lock_key k' \<longleftrightarrow> k = k'"
  by (simp add: lock_key_def)

lemma lock_class_threshold:
  "lock_class sha st (account_key sha t e) thr \<longleftrightarrow> thr = login_max_failed_attempts st"
  "address ip \<Longrightarrow> lock_class sha st (ip_key ip) thr \<longleftrightarrow> thr = login_ip_max_failed_attempts st"
  by (auto simp: lock_class_def) (auto simp: ip_key_def)?

lemma digest_not_locked:
  assumes "hex_digest sha" shows "a @ take 32 (sha x) \<noteq> k' @ '':locked''"
proof
  assume eq: "a @ take 32 (sha x) = k' @ '':locked''"
  define d where "d = take 32 (sha x)"
  have d: "length d = 32" "set d \<subseteq> set ''0123456789abcdef''"
    using assms set_take_subset [of 32 "sha x"] by (force simp: d_def hex_digest_def)+
  have end_d: "suffix d (k' @ '':locked'')" using eq by (metis d_def suffixI)
  have end_l: "suffix '':locked'' (k' @ '':locked'')" by (rule suffixI) (rule refl)
  have "suffix '':locked'' d" by (rule suffix_length_suffix [OF end_l end_d]) (simp add: d(1))
  then have "CHR ''k'' \<in> set d" by (auto simp: suffix_def)
  with d(2) show False by auto
qed

lemma lock_class_no_lock:
  assumes "hex_digest sha" "lock_class sha st k thr" "lock_class sha st k' thr'"
  shows "k \<noteq> lock_key k'" "lock_key k' \<noteq> k"
proof -
  show "k \<noteq> lock_key k'"
  proof (cases "\<exists>t e. k = account_key sha t e")
    case True
    then obtain t e where k: "k = account_key sha t e" by blast
    show ?thesis
      using digest_not_locked [OF assms(1), of "''auth:lockout:user:'' @ t @ '':''" "str_lower e" k']
      by (simp only: k account_key_def lock_key_def append.assoc not_False_eq_True)
  next
    case False
    with assms(2) obtain ip where k: "k = ip_key ip" "address ip" by (auto simp: lock_class_def)
    from assms(3) [unfolded lock_class_def] show ?thesis
      using k by (auto simp: lock_key_def ip_key_def account_key_def address_def suffix_def)
  qed
  then show "lock_key k' \<noteq> k" by (rule not_sym)
qed

section \<open>How long a lock can be\<close>

lemma backoff_step:
  assumes "threshold \<le> failures" "0 \<le> login_lockout_base_seconds st" "0 \<le> login_lockout_max_seconds st"
  shows "backoff_seconds (failures + 1) threshold st \<le> 2 * backoff_seconds failures threshold st"
proof -
  have n: "nat (failures + 1 - threshold) = Suc (nat (failures - threshold))" using assms(1) by simp
  define x where "x = login_lockout_base_seconds st * 2 ^ nat (failures - threshold)"
  have "0 \<le> x" using assms(2) by (simp add: x_def)
  then show ?thesis using assms
    using n unfolding backoff_seconds_def Let_def max_def
    by (simp add: mult.left_commute [of _ 2] flip: x_def)
qed

text \<open>
  For a counted key: a lock set so far ends within two failure windows, and a live counter at
  its threshold comes with the lock its last failure set.
\<close>

definition key_inv :: "lockout_settings \<Rightarrow> string \<Rightarrow> int \<Rightarrow> instant \<Rightarrow> redis \<Rightarrow> bool" where
  "key_inv st k threshold now r \<longleftrightarrow>
     (\<forall>v e. r_text r (lock_key k) = Some (v, e) \<longrightarrow>
        e < now + seconds (2 * login_failure_window_seconds st))
   \<and> (\<forall>n e. r_count r k = Some (n, e) \<longrightarrow> threshold \<le> n \<longrightarrow>
        (\<exists>v. r_text r (lock_key k) = Some (v, e - seconds (login_failure_window_seconds st)
                + seconds (backoff_seconds n threshold st))))"

definition lock_inv :: "(string \<Rightarrow> string) \<Rightarrow> lockout_settings \<Rightarrow> instant \<Rightarrow> redis \<Rightarrow> bool" where
  "lock_inv sha st now r \<longleftrightarrow> (\<forall>k thr. lock_class sha st k thr \<longrightarrow> key_inv st k thr now r)"

text \<open>Settings under which the bound holds; the defaults are 5, 50, 60, 3600 and 900.\<close>

definition sane :: "lockout_settings \<Rightarrow> bool" where
  "sane st \<longleftrightarrow> 1 \<le> login_max_failed_attempts st \<and> 1 \<le> login_ip_max_failed_attempts st
     \<and> 0 \<le> login_lockout_base_seconds st \<and> 0 \<le> login_lockout_max_seconds st
     \<and> login_lockout_base_seconds st < 2 * login_failure_window_seconds st"

lemma key_inv_later: "key_inv st k thr now r \<Longrightarrow> now \<le> later \<Longrightarrow> key_inv st k thr later r"
  by (fastforce simp: key_inv_def)

lemma lock_inv_later: "lock_inv sha st now r \<Longrightarrow> now \<le> later \<Longrightarrow> lock_inv sha st later r"
  by (auto simp: lock_inv_def intro: key_inv_later)

lemma key_inv_cong:
  "r_text r' (lock_key k) = r_text r (lock_key k) \<Longrightarrow> r_count r' k = r_count r k \<Longrightarrow>
   key_inv st k thr now r' = key_inv st k thr now r"
  by (simp add: key_inv_def)

text \<open>One key of \<open>record_failure\<close>: the count, then the lock.\<close>

lemma key_inv_failure:
  assumes inv: "key_inv st k thr now r" and st: "sane st" and thr: "1 \<le> thr"
    and unlocked: "redis_get (lock_key k) now r = None"
    and n: "n = or_else (alive now (r_count r k)) 0 + 1"
    and count: "r_count r' k = Some (n, now + seconds (login_failure_window_seconds st))"
    and lock: "r_text r' (lock_key k) = (if n < thr then r_text r (lock_key k)
        else Some (v, now + seconds (backoff_seconds n thr st)))"
  shows "key_inv st k thr now r'"
proof -
  let ?w = "login_failure_window_seconds st"
  have small: "backoff_seconds n thr st < 2 * ?w" if "thr \<le> n"
  proof (cases "n = thr")
    case True
    with st show ?thesis by (auto simp: backoff_seconds_def sane_def min_def Let_def)
  next
    case False
    with that n thr obtain m e where m: "r_count r k = Some (m, e)" "now < e" "n = m + 1"
      by (cases "alive now (r_count r k)") (auto simp: alive_Some)
    with that False have "thr \<le> m" by simp
    with inv m obtain v where v: "r_text r (lock_key k)
        = Some (v, e - seconds ?w + seconds (backoff_seconds m thr st))" by (auto simp: key_inv_def)
    with unlocked have "e - seconds ?w + seconds (backoff_seconds m thr st) \<le> now"
      by (auto simp: redis_get_def alive_def split: if_splits)
    with m(2) have "backoff_seconds m thr st < ?w" by (simp add: seconds_def)
    with backoff_step [OF \<open>thr \<le> m\<close>, of st] st m(3) show ?thesis by (auto simp: sane_def)
  qed
  then show ?thesis using inv lock count by (auto simp: key_inv_def seconds_def split: if_splits)
qed

lemma record_failure_effect:
  assumes "r_up r" "account \<noteq> ip" "lock_key account \<noteq> ip" "lock_key ip \<noteq> account"
  shows "r_count (record_failure st account ip now r) k =
      (if k \<in> {account, ip} then Some (or_else (alive now (r_count r k)) 0 + 1, now + seconds (login_failure_window_seconds st))
       else r_count r k)"
    and "k \<notin> {account, ip} \<Longrightarrow>
      r_text (record_failure st account ip now r) (lock_key k) = r_text r (lock_key k)"
    and "\<exists>v. r_text (record_failure st account ip now r) (lock_key account) =
      (let n = or_else (alive now (r_count r account)) 0 + 1; thr = login_max_failed_attempts st
       in if n < thr then r_text r (lock_key account) else Some (v, now + seconds (backoff_seconds n thr st)))"
    and "\<exists>v. r_text (record_failure st account ip now r) (lock_key ip) =
      (let n = or_else (alive now (r_count r ip)) 0 + 1; thr = login_ip_max_failed_attempts st
       in if n < thr then r_text r (lock_key ip) else Some (v, now + seconds (backoff_seconds n thr st)))"
  using assms(1,2)
  by (auto simp: record_failure_def redis_incr_expire_def lock_if_over_def redis_set_def Let_def)

lemma lock_inv_record_failure:
  assumes inv: "lock_inv sha st now r" and st: "sane st" and sha: "hex_digest sha"
    and ip: "address a" and open': "\<not> is_locked (account_key sha t email) (ip_key a) now r"
  shows "lock_inv sha st now (record_failure st (account_key sha t email) (ip_key a) now r)"
proof (cases "r_up r")
  case True
  let ?acc = "account_key sha t email" and ?ip = "ip_key a"
  have cls: "lock_class sha st ?acc (login_max_failed_attempts st)"
    "lock_class sha st ?ip (login_ip_max_failed_attempts st)"
    using ip by (simp_all add: lock_class_threshold)
  have open1: "redis_get (lock_key ?acc) now r = None" and open2: "redis_get (lock_key ?ip) now r = None"
    using open' True by (auto simp: is_locked_def)
  note eff = record_failure_effect [OF True, of ?acc ?ip, OF account_ip_distinct(1)
      lock_class_no_lock(2) [OF sha cls(2,1)] lock_class_no_lock(2) [OF sha cls(1,2)]]
  show ?thesis
    unfolding lock_inv_def
  proof (intro allI impI)
    fix k thr assume c: "lock_class sha st k thr"
    with inv have old: "key_inv st k thr now r" by (simp add: lock_inv_def)
    consider "k = ?acc" | "k = ?ip" | "k \<notin> {?acc, ?ip}" by blast
    then show "key_inv st k thr now (record_failure st ?acc ?ip now r)"
    proof cases
      case 1
      with c have thr: "thr = login_max_failed_attempts st" by (simp add: lock_class_threshold)
      from eff(3) obtain v where v: "r_text (record_failure st ?acc ?ip now r) (lock_key ?acc) =
        (let n = or_else (alive now (r_count r ?acc)) 0 + 1; thr = login_max_failed_attempts st
         in if n < thr then r_text r (lock_key ?acc) else Some (v, now + seconds (backoff_seconds n thr st)))" ..
      show ?thesis
        by (rule key_inv_failure [OF old st _ _ refl, where v=v])
          (use st v open1 in \<open>simp_all add: 1 thr eff(1) sane_def Let_def\<close>)
    next
      case 2
      with c ip have thr: "thr = login_ip_max_failed_attempts st" by (simp add: lock_class_threshold)
      from eff(4) obtain v where v: "r_text (record_failure st ?acc ?ip now r) (lock_key ?ip) =
        (let n = or_else (alive now (r_count r ?ip)) 0 + 1; thr = login_ip_max_failed_attempts st
         in if n < thr then r_text r (lock_key ?ip) else Some (v, now + seconds (backoff_seconds n thr st)))" ..
      show ?thesis
        by (rule key_inv_failure [OF old st _ _ refl, where v=v])
          (use st v open2 in \<open>simp_all add: 2 thr eff(1) sane_def Let_def\<close>)
    next
      case 3
      with old eff(1) [where k=k and st=st] eff(2) [where k=k and st=st] show ?thesis by (simp add: key_inv_def)
    qed
  qed
qed (use inv in \<open>simp add: record_failure_def\<close>)

lemma lock_inv_reset:
  assumes inv: "lock_inv sha st now r" and sha: "hex_digest sha" and ip: "address a"
  shows "lock_inv sha st now (reset (account_key sha t email) (ip_key a) r)"
proof -
  have cls: "lock_class sha st (account_key sha t email) (login_max_failed_attempts st)"
    "lock_class sha st (ip_key a) (login_ip_max_failed_attempts st)"
    using ip by (simp_all add: lock_class_threshold)
  have "key_inv st k thr now (reset (account_key sha t email) (ip_key a) r)"
    if "lock_class sha st k thr" for k thr
    using that inv lock_class_no_lock [OF sha that cls(1)] lock_class_no_lock [OF sha that cls(2)]
      lock_class_no_lock [OF sha cls(1) that] lock_class_no_lock [OF sha cls(2) that]
    by (auto simp: lock_inv_def key_inv_def reset_def redis_delete_def)
  then show ?thesis by (simp add: lock_inv_def)
qed

text \<open>A lock that holds now is over two failure windows later, if nothing else happens.\<close>

lemma lock_inv_released:
  assumes "lock_inv sha st now r" "address a"
    and "now + seconds (2 * login_failure_window_seconds st) \<le> later"
  shows "\<not> is_locked (account_key sha t email) (ip_key a) later r"
proof -
  have "redis_get (lock_key k) later r = None" if "lock_class sha st k thr" for k thr
    using that assms(1,3) by (fastforce simp: lock_inv_def key_inv_def redis_get_def alive_def split: option.splits)
  then show ?thesis using assms(2) by (auto simp: is_locked_def lock_class_threshold) 
qed

section \<open>Attempts that overlap\<close>

text \<open>
  A failed attempt sends three commands of its own: the look at the locks, the pipeline that
  counts, and one \<open>SET\<close> per key at its threshold, from the counts it got back. Other attempts
  run in between. \<open>ls_pending\<close> holds the keys whose \<open>SET\<close> is still to come, with the count that
  the attempt saw; \<open>ls_counted\<close> is the number of failures counted for a key so far.
\<close>

definition count_failure ::
  "lockout_settings \<Rightarrow> string \<Rightarrow> string \<Rightarrow> instant \<Rightarrow> redis \<Rightarrow> (int \<times> int) \<times> redis" where
  "count_failure st account ip now r =
     (case redis_incr_expire account (login_failure_window_seconds st) now r of (n, r1) \<Rightarrow>
     (case redis_incr_expire ip (login_failure_window_seconds st) now r1 of (m, r2) \<Rightarrow> ((n, m), r2)))"

lemma record_failure_commands:
  "r_up r \<Longrightarrow> count_failure st account ip now r = ((n, m), r') \<Longrightarrow>
   record_failure st account ip now r =
     lock_if_over st ip m (login_ip_max_failed_attempts st) now
       (lock_if_over st account n (login_max_failed_attempts st) now r')"
  by (simp add: record_failure_def count_failure_def split: prod.splits)

record lockout_state =
  ls_redis :: redis
  ls_pending :: "(string \<times> int \<times> int) list"
  ls_counted :: "string \<Rightarrow> int"

inductive attempt_step ::
  "(string \<Rightarrow> string) \<Rightarrow> lockout_settings \<Rightarrow> instant \<Rightarrow> lockout_state \<Rightarrow> lockout_state \<Rightarrow> bool"
  for sha st now x where
  counted: "r_up (ls_redis x) \<Longrightarrow> address ip \<Longrightarrow>
    count_failure st (account_key sha t email) (ip_key ip) now (ls_redis x) = ((n, m), r) \<Longrightarrow>
    attempt_step sha st now x (x\<lparr>ls_redis := r,
      ls_pending := ls_pending x @ [(account_key sha t email, n, login_max_failed_attempts st),
        (ip_key ip, m, login_ip_max_failed_attempts st)],
      ls_counted := (ls_counted x)(account_key sha t email := ls_counted x (account_key sha t email) + 1,
        ip_key ip := ls_counted x (ip_key ip) + 1)\<rparr>)"
| set_lock: "r_up (ls_redis x) \<Longrightarrow> ls_pending x = a @ (k, n, thr) # b \<Longrightarrow>
    attempt_step sha st now x (x\<lparr>ls_redis := lock_if_over st k n thr now (ls_redis x), ls_pending := a @ b\<rparr>)"
| gave_up: "ls_pending x = a @ c # b \<Longrightarrow> attempt_step sha st now x (x\<lparr>ls_pending := a @ b\<rparr>)"
| succeeded: "address ip \<Longrightarrow>
    attempt_step sha st now x (x\<lparr>ls_redis := reset (account_key sha t email) (ip_key ip) (ls_redis x)\<rparr>)"
| outage: "attempt_step sha st now x (x\<lparr>ls_redis := (ls_redis x)\<lparr>r_up := up\<rparr>\<rparr>)"

inductive attempts :: "(string \<Rightarrow> string) \<Rightarrow> lockout_settings \<Rightarrow> instant \<Rightarrow> lockout_state \<Rightarrow> bool"
  for sha st where
  none: "attempts sha st t \<lparr>ls_redis = empty_redis, ls_pending = [], ls_counted = (\<lambda>_. 0)\<rparr>"
| next_attempt: "attempts sha st t x \<Longrightarrow> t \<le> now \<Longrightarrow> attempt_step sha st now x y \<Longrightarrow> attempts sha st now y"

text \<open>A count, a pending \<open>SET\<close> and a lock all go back to failures that were counted.\<close>

definition accounted :: "(string \<Rightarrow> string) \<Rightarrow> lockout_settings \<Rightarrow> instant \<Rightarrow> lockout_state \<Rightarrow> bool" where
  "accounted sha st now x \<longleftrightarrow>
     (\<forall>k. 0 \<le> ls_counted x k)
   \<and> (\<forall>k n e. r_count (ls_redis x) k = Some (n, e) \<longrightarrow> n \<le> ls_counted x k)
   \<and> (\<forall>(k, n, thr) \<in> set (ls_pending x). lock_class sha st k thr \<and> n \<le> ls_counted x k)
   \<and> (\<forall>k v e. r_text (ls_redis x) (lock_key k) = Some (v, e) \<longrightarrow>
        (\<exists>thr. lock_class sha st k thr \<and> thr \<le> ls_counted x k)
        \<and> e \<le> now + seconds (login_lockout_max_seconds st))"

lemma backoff_capped: "backoff_seconds n thr st \<le> login_lockout_max_seconds st"
  by (simp add: backoff_seconds_def Let_def)

lemma accounted_step:
  assumes "attempt_step sha st now x y" and inv: "accounted sha st t x" and "t \<le> now"
  shows "accounted sha st now y"
proof -
  have later: "accounted sha st now x" using inv \<open>t \<le> now\<close> unfolding accounted_def by fastforce
  from assms(1) show ?thesis
  proof cases
    case (counted ip tn email n m r)
    let ?acc = "account_key sha tn email" and ?ip = "ip_key ip"
    have n: "n = or_else (alive now (r_count (ls_redis x) ?acc)) 0 + 1"
      "m = or_else (alive now (r_count (ls_redis x) ?ip)) 0 + 1"
      "r_text r = r_text (ls_redis x)"
      "r_count r = (r_count (ls_redis x))(?acc := Some (n, now + seconds (login_failure_window_seconds st)),
         ?ip := Some (m, now + seconds (login_failure_window_seconds st)))"
      using counted(4) by (auto simp: count_failure_def redis_incr_expire_def Let_def)
    have old: "or_else (alive now (r_count (ls_redis x) k)) 0 \<le> ls_counted x k" for k
      using later by (cases "alive now (r_count (ls_redis x) k)") (auto simp: accounted_def alive_Some)
    have cls: "lock_class sha st ?acc (login_max_failed_attempts st)"
      "lock_class sha st ?ip (login_ip_max_failed_attempts st)"
      using counted(3) by (simp_all add: lock_class_threshold)
    show ?thesis
      using later cls old [of ?acc] old [of ?ip]
      unfolding counted(1) accounted_def by (fastforce simp: n)
  next
    case (set_lock a k n thr b)
    have p: "lock_class sha st k thr" "n \<le> ls_counted x k"
      using later set_lock(3) by (auto simp: accounted_def)
    have locked: "r_text (lock_if_over st k n thr now (ls_redis x)) (lock_key j) = Some (v, e) \<Longrightarrow>
        (\<exists>thr. lock_class sha st j thr \<and> thr \<le> ls_counted x j) \<and> e \<le> now + seconds (login_lockout_max_seconds st)"
      for j v e
      using later p backoff_capped [of n thr st]
      by (auto simp: accounted_def lock_if_over_def redis_set_def seconds_def split: if_splits)
    have "r_count (lock_if_over st k n thr now (ls_redis x)) = r_count (ls_redis x)"
      by (simp add: lock_if_over_def redis_set_def)
    with later locked set_lock(3) show ?thesis unfolding set_lock(1) by (auto simp: accounted_def)
  next
    case (gave_up a c b)
    with later show ?thesis by (auto simp: accounted_def)
  next
    case (succeeded ip tn email)
    with later show ?thesis
      by (auto simp: accounted_def reset_def redis_delete_def split: if_splits)
  next
    case (outage up)
    with later show ?thesis by (auto simp: accounted_def)
  qed
qed

lemma attempts_accounted: "attempts sha st t x \<Longrightarrow> accounted sha st t x"
proof (induction rule: attempts.induct)
  case (none t)
  then show ?case by (simp add: accounted_def empty_redis_def)
qed (blast intro: accounted_step)

text \<open>
  C32: however failed logins, successful ones and outages of Redis overlap, command by command, no
  lock outlives the configured maximum counted from now, and a lock is there only when at least
  as many failures as its threshold were counted for the account, or for the address; and an
  attempt that saw the threshold reached locks its key for exactly the back-off of its count.
\<close>

theorem locks_bounded:
  assumes "attempts sha st t x" and "address ip"
  shows "(is_locked (account_key sha tn email) (ip_key ip) now (ls_redis x) \<longrightarrow>
        now < t + seconds (login_lockout_max_seconds st)
      \<and> (login_max_failed_attempts st \<le> ls_counted x (account_key sha tn email)
         \<or> login_ip_max_failed_attempts st \<le> ls_counted x (ip_key ip)))
    \<and> (\<forall>(k, n, thr) \<in> set (ls_pending x). thr \<le> n \<longrightarrow>
        (redis_get (lock_key k) now (lock_if_over st k n thr at (ls_redis x)) \<noteq> None
         \<longleftrightarrow> now < at + seconds (min (login_lockout_base_seconds st * 2 ^ nat (n - thr))
              (login_lockout_max_seconds st))))"
proof
  from attempts_accounted [OF assms(1)] have inv: "accounted sha st t x" .
  have "now < t + seconds (login_lockout_max_seconds st) \<and> thr \<le> ls_counted x k"
    if "redis_get (lock_key k) now (ls_redis x) \<noteq> None" "lock_class sha st k thr" for k thr
  proof -
    from that(1) obtain v e where e: "r_text (ls_redis x) (lock_key k) = Some (v, e)" "now < e"
      by (auto simp: redis_get_def alive_Some)
    with inv obtain thr' where "lock_class sha st k thr'" "thr' \<le> ls_counted x k"
      "e \<le> t + seconds (login_lockout_max_seconds st)" unfolding accounted_def by blast
    moreover from that(2) this(1) have "thr' = thr"
      by (auto simp: lock_class_def) (auto simp: account_key_def ip_key_def)?
    ultimately show ?thesis using e(2) by simp
  qed
  from this [of "account_key sha tn email" "login_max_failed_attempts st"]
    this [of "ip_key ip" "login_ip_max_failed_attempts st"] assms(2)
  show "is_locked (account_key sha tn email) (ip_key ip) now (ls_redis x) \<longrightarrow>
        now < t + seconds (login_lockout_max_seconds st)
      \<and> (login_max_failed_attempts st \<le> ls_counted x (account_key sha tn email)
         \<or> login_ip_max_failed_attempts st \<le> ls_counted x (ip_key ip))"
    by (auto simp: is_locked_def lock_class_threshold split: if_splits)
qed (auto simp: redis_get_def lock_if_over_def redis_set_def alive_def backoff_seconds_def Let_def max_def)

text \<open>Two overlapping attempts, each against a limit of one: both count before either locks.\<close>

definition strict_lockout :: lockout_settings where
  "strict_lockout = \<lparr>login_max_failed_attempts = 1, login_ip_max_failed_attempts = 3,
     login_lockout_base_seconds = 60, login_lockout_max_seconds = 3600, login_failure_window_seconds = 900\<rparr>"

definition quiet_lockout :: lockout_state where
  "quiet_lockout = \<lparr>ls_redis = empty_redis, ls_pending = [], ls_counted = (\<lambda>_. 0)\<rparr>"

definition count_attempt :: "lockout_state \<Rightarrow> lockout_state" where
  "count_attempt x = (let acc = account_key id ''t'' ''e'' in
     case count_failure strict_lockout acc (ip_key ''9'') 0 (ls_redis x) of ((n, m), r) \<Rightarrow>
       x\<lparr>ls_redis := r, ls_pending := ls_pending x @ [(acc, n, 1), (ip_key ''9'', m, 3)],
         ls_counted := (ls_counted x)(acc := ls_counted x acc + 1, ip_key ''9'' := ls_counted x (ip_key ''9'') + 1)\<rparr>)"

lemma count_attempt_step: "r_up (ls_redis x) \<Longrightarrow> attempt_step id strict_lockout 0 x (count_attempt x)"
  using attempt_step.counted [of x "''9''" strict_lockout id "''t''" "''e''" 0]
  by (simp add: count_attempt_def Let_def strict_lockout_def address_def suffix_def split: prod.splits)

theorem locks_bounded_witness:
  "map (\<lambda>(k, n, thr). (n, thr)) (ls_pending (count_attempt (count_attempt quiet_lockout))) = [(1, 1), (1, 3), (2, 1), (2, 3)]
   \<and> redis_get (lock_key (account_key id ''t'' ''e'')) (seconds 119)
       (lock_if_over strict_lockout (account_key id ''t'' ''e'') 2 1 0 (ls_redis (count_attempt (count_attempt quiet_lockout)))) \<noteq> None"
proof
  let ?x = "count_attempt (count_attempt quiet_lockout)"
  show p: "map (\<lambda>(k, n, thr). (n, thr)) (ls_pending ?x) = [(1, 1), (1, 3), (2, 1), (2, 3)]" by code_simp
  have up: "r_up (ls_redis quiet_lockout)" "r_up (ls_redis (count_attempt quiet_lockout))" by code_simp+
  have "attempts id strict_lockout 0 quiet_lockout" unfolding quiet_lockout_def by (rule attempts.none)
  from attempts.next_attempt [OF this _ count_attempt_step [OF up(1)]]
  have "attempts id strict_lockout 0 (count_attempt quiet_lockout)" by simp
  from attempts.next_attempt [OF this _ count_attempt_step [OF up(2)]]
  have run: "attempts id strict_lockout 0 ?x" by simp
  have "address ''9''" by (simp add: address_def suffix_def)
  note bound = locks_bounded [OF run this, THEN conjunct2, of "seconds 119" 0]
  have "ls_pending ?x ! 2 = (account_key id ''t'' ''e'', 2, 1)" "2 < length (ls_pending ?x)" by code_simp+
  then have "(account_key id ''t'' ''e'', 2, 1) \<in> set (ls_pending ?x)" by (metis nth_mem)
  with bound show "redis_get (lock_key (account_key id ''t'' ''e'')) (seconds 119)
       (lock_if_over strict_lockout (account_key id ''t'' ''e'') 2 1 0 (ls_redis ?x)) \<noteq> None"
    by (fastforce simp: strict_lockout_def seconds_def)
qed

end
