(* ===== verification/Auth.thy ===== *)
theory Auth
  imports Lockout Users
begin

text \<open>
  \<open>modules/auth\<close>: refresh sessions and their rotation, login with lockout and second factor,
  access-token revocation, password reset, email verification and social login, with the
  routes of \<open>modules/users/router.py\<close> that log a user out. A call works on the request's view of
  the database, on the committed database (which one path writes in a transaction of its own)
  and on Redis, whose writes no rollback takes back.

  Argon2, TOTP, the breach corpus and the OAuth exchange are parameters, as is SHA-256; what a
  call draws at random is an argument (\<open>draw\<close>). An access token is the claims and the lifetime
  that PyJWT signs.
\<close>

section \<open>State, settings and what the environment supplies\<close>

record auth_state =
  a_db :: db
  a_committed :: db
  a_redis :: redis

record auth_settings =
  access_token_ttl_seconds :: int
  refresh_token_ttl_days :: int
  password_reset_ttl_seconds :: int
  email_verification_ttl_seconds :: int
  mfa_pending_token_ttl_seconds :: int
  oauth_redirect_base_url :: string
  lockout_config :: lockout_settings

record auth_world =
  aw_world :: world
  aw_sha :: "string \<Rightarrow> string"
  aw_verify :: "string \<Rightarrow> string \<Rightarrow> bool"
  aw_totp :: "string \<Rightarrow> string \<Rightarrow> bool"
  aw_breached :: "string \<Rightarrow> bool"
  aw_provider :: "string \<Rightarrow> bool"
  aw_settings :: auth_settings

record draw =
  dr_session :: uuid
  dr_family :: uuid
  dr_user :: uuid
  dr_refresh :: string
  dr_jti :: string
  dr_code :: string
  dr_password_hash :: string

record client_info =
  ci_user_agent :: "string option"
  ci_ip :: "string option"

type_synonym 'a auth_action = "(auth_state, 'a) action"

definition on_db :: "(db, 'a) action \<Rightarrow> 'a auth_action" where
  "on_db m = (\<lambda>s. case m (a_db s) of (r, t) \<Rightarrow> (r, s\<lparr>a_db := t\<rparr>))"

text \<open>
  A Redis command outside any handler: when the server is down the exception reaches the client
  as a 500. Inside \<open>try ... except Exception\<close> it is logged and the call goes on.
\<close>

definition on_redis :: "(redis \<Rightarrow> 'a \<times> redis) \<Rightarrow> 'a auth_action" where
  "on_redis f = (\<lambda>s. if r_up (a_redis s)
     then (case f (a_redis s) of (a, r) \<Rightarrow> (Inr a, s\<lparr>a_redis := r\<rparr>)) else (Inl RedisUnavailable, s))"

definition soft_redis :: "(redis \<Rightarrow> redis) \<Rightarrow> unit auth_action" where
  "soft_redis f = (\<lambda>s. if r_up (a_redis s) then (Inr (), s\<lparr>a_redis := f (a_redis s)\<rparr>) else (Inr (), s))"

definition hash_token :: "auth_world \<Rightarrow> string \<Rightarrow> string" where
  "hash_token w token = aw_sha w token"

definition jti_denylist_key :: "string \<Rightarrow> string" where
  "jti_denylist_key jti = ''auth:jti:deny:'' @ jti"

definition user_jtis_key :: "auth_world \<Rightarrow> uuid \<Rightarrow> string" where
  "user_jtis_key w user = ''auth:jti:all:'' @ uuid_text (aw_world w) user"

definition RESET_KEY :: "string \<Rightarrow> string" where "RESET_KEY h = ''auth:reset:'' @ h"
definition VERIFY_KEY :: "string \<Rightarrow> string" where "VERIFY_KEY h = ''auth:verify:'' @ h"
definition MFA_KEY :: "string \<Rightarrow> string" where "MFA_KEY h = ''auth:mfa:'' @ h"
definition OAUTH_STATE_KEY :: "string \<Rightarrow> string" where "OAUTH_STATE_KEY h = ''auth:oauth:'' @ h"

definition OAUTH_STATE_TTL_SECONDS :: int where "OAUTH_STATE_TTL_SECONDS = 600"

text \<open>The lookup of \<open>get_current_user\<close>: \<open>None\<close> when Redis does not answer.\<close>

definition jti_denied :: "instant \<Rightarrow> redis \<Rightarrow> string \<Rightarrow> bool option" where
  "jti_denied now r jti =
     (if r_up r then Some (redis_get (jti_denylist_key jti) now r \<noteq> None) else None)"

section \<open>The session table\<close>

definition session_by_token_hash :: "uuid option \<Rightarrow> string \<Rightarrow> db \<Rightarrow> auth_session option" where
  "session_by_token_hash t h s =
     find (\<lambda>x. sess_tenant x = t \<and> sess_refresh_token_hash x = h) (sessions s)"

definition session_get :: "uuid option \<Rightarrow> uuid \<Rightarrow> db \<Rightarrow> auth_session option" where
  "session_get t i s = find (\<lambda>x. sess_tenant x = t \<and> sess_id x = i) (sessions s)"

definition revoke_family :: "uuid option \<Rightarrow> uuid \<Rightarrow> instant \<Rightarrow> db \<Rightarrow> db" where
  "revoke_family t family now s = s\<lparr>sessions := upd_rows
     (\<lambda>x. sess_tenant x = t \<and> sess_family x = family \<and> sess_revoked_at x = None)
     (\<lambda>x. x\<lparr>sess_revoked_at := Some now\<rparr>) (sessions s)\<rparr>"

definition revoke_all_for_user :: "uuid option \<Rightarrow> uuid \<Rightarrow> instant \<Rightarrow> db \<Rightarrow> db" where
  "revoke_all_for_user t user now s = s\<lparr>sessions := upd_rows
     (\<lambda>x. sess_tenant x = t \<and> sess_user x = user \<and> sess_revoked_at x = None)
     (\<lambda>x. x\<lparr>sess_revoked_at := Some now\<rparr>) (sessions s)\<rparr>"

definition list_active_for_user :: "uuid option \<Rightarrow> uuid \<Rightarrow> instant \<Rightarrow> db \<Rightarrow> auth_session list" where
  "list_active_for_user t user now s = rev (sort_key sess_created_at (filter
     (\<lambda>x. sess_tenant x = t \<and> sess_user x = user \<and> sess_revoked_at x = None \<and> now < sess_expires_at x)
     (sessions s)))"

definition session_write :: "uuid \<Rightarrow> (auth_session \<Rightarrow> auth_session) \<Rightarrow> db \<Rightarrow> db" where
  "session_write i f s = s\<lparr>sessions := upd_rows (\<lambda>x. sess_id x = i) f (sessions s)\<rparr>"

section \<open>Issuing\<close>

record issued_tokens =
  issued_user :: user_identity
  issued_claims :: token_claims
  issued_expires :: instant
  issued_refresh :: string

datatype login_result = LoggedIn issued_tokens | MfaChallenge string int

definition create_access_token ::
  "user_identity \<Rightarrow> string \<Rightarrow> int \<Rightarrow> uuid option \<Rightarrow> instant \<Rightarrow> token_claims \<times> instant" where
  "create_access_token ident jti ttl impersonator now =
     (\<lparr>claim_user = ident_id ident, claim_tenant = ident_tenant ident,
       claim_role = role_value (ident_role ident), claim_jti = jti, claim_impersonator = impersonator\<rparr>,
      now + seconds ttl)"

definition track_jti :: "auth_world \<Rightarrow> uuid \<Rightarrow> string \<Rightarrow> instant \<Rightarrow> unit auth_action" where
  "track_jti w user jti now = soft_redis (redis_sadd_expire (user_jtis_key w user) jti
     (access_token_ttl_seconds (aw_settings w)) now)"

text \<open>The insert, with the table's unique constraints on the id and the token hash.\<close>

definition add_session :: "auth_session \<Rightarrow> (db, unit) action" where
  "add_session row = (\<lambda>s.
     if list_ex (\<lambda>x. sess_id x = sess_id row \<or> sess_refresh_token_hash x = sess_refresh_token_hash row)
          (sessions s)
     then (Inl IntegrityError, s) else (Inr (), s\<lparr>sessions := sessions s @ [row]\<rparr>))"

definition issue :: "auth_world \<Rightarrow> draw \<Rightarrow> instant \<Rightarrow> user_identity \<Rightarrow> client_info \<Rightarrow> uuid option \<Rightarrow>
   issued_tokens auth_action" where
  "issue w d now ident client family =
     andthen (on_db (add_session
       \<lparr>sess_id = dr_session d, sess_user = ident_id ident, sess_tenant = ident_tenant ident,
        sess_refresh_token_hash = hash_token w (dr_refresh d),
        sess_family = or_else family (dr_family d), sess_user_agent = ci_user_agent client,
        sess_ip = ci_ip client,
        sess_expires_at = now + days (refresh_token_ttl_days (aw_settings w)),
        sess_revoked_at = None, sess_last_used_at = Some now, sess_created_at = now\<rparr>)) (\<lambda>_.
     case create_access_token ident (dr_jti d) (access_token_ttl_seconds (aw_settings w)) None now of
       (claims, expires) \<Rightarrow>
     andthen (track_jti w (ident_id ident) (dr_jti d) now) (\<lambda>_.
     ret \<lparr>issued_user = ident, issued_claims = claims, issued_expires = expires,
          issued_refresh = dr_refresh d\<rparr>))"

text \<open>
  \<open>PlatformAdminService.impersonate\<close> of \<open>tenants/admin.py\<close>: a token for the tenant's first
  active admin. \<open>status_of\<close> reads the tenants table; the row of the audit log is left out.
  Unlike \<open>issue\<close>, it keeps no session and does not track the token's \<open>jti\<close>.
\<close>

definition impersonate :: "int \<Rightarrow> draw \<Rightarrow> instant \<Rightarrow> (uuid \<Rightarrow> string option) \<Rightarrow> uuid \<Rightarrow> uuid \<Rightarrow>
   (token_claims \<times> instant) auth_action" where
  "impersonate ttl d now status_of t staff = (case status_of t of
      None \<Rightarrow> raise (NotFoundError ''Tenant not found.'')
    | Some status \<Rightarrow>
        if status = ''suspended'' then raise (ConflictError ''Cannot impersonate into a suspended tenant.'')
        else andthen (gets (\<lambda>s. list_active_by_role t ADMIN (a_db s))) (\<lambda>admins. case admins of
            [] \<Rightarrow> raise (ConflictError ''This tenant has no admin account to impersonate.'')
          | u # _ \<Rightarrow> ret (create_access_token (to_identity u) (dr_jti d) ttl (Some staff) now)))"

section \<open>Mails\<close>

definition send_auth_email :: "string \<Rightarrow> string \<Rightarrow> string \<Rightarrow> unit auth_action" where
  "send_auth_email to subject body = on_db (send_now (SendEmail to (JStr subject) (JStr body)))"

definition newline :: string where "newline = [CHR 0x0A]"

definition send_email_verification :: "auth_world \<Rightarrow> draw \<Rightarrow> instant \<Rightarrow> user_identity \<Rightarrow> unit auth_action" where
  "send_email_verification w d now ident =
     (if ident_email_verified_at ident \<noteq> None then ret ()
      else andthen (on_redis (\<lambda>r. ((), redis_set (VERIFY_KEY (hash_token w (dr_code d)))
               (uuid_text (aw_world w) (ident_id ident))
               (email_verification_ttl_seconds (aw_settings w)) now r))) (\<lambda>_.
           send_auth_email (ident_email ident) ''Verify your email''
             (''Use this code to verify your email address:'' @ newline @ newline @ ''code: '' @
              dr_code d @ newline)))"

section \<open>Registration and login\<close>

definition reject_breached_password :: "auth_world \<Rightarrow> string \<Rightarrow> unit auth_action" where
  "reject_breached_password w password =
     (if aw_breached w password then raise (BreachedPasswordError
        ''This password has appeared in a known data breach. Please choose a different one.'')
      else ret ())"

definition register_user :: "auth_world \<Rightarrow> draw \<Rightarrow> instant \<Rightarrow> uuid \<Rightarrow> new_account \<Rightarrow> string \<Rightarrow>
   client_info \<Rightarrow> issued_tokens auth_action" where
  "register_user w d now t data password client =
     andthen (reject_breached_password w password) (\<lambda>_.
     andthen (on_db (register_account t data (dr_password_hash d) (dr_user d) now)) (\<lambda>ident.
     andthen (send_email_verification w d now ident) (\<lambda>_.
     issue w d now ident client None)))"

definition tenant_part :: "auth_world \<Rightarrow> uuid option \<Rightarrow> string" where
  "tenant_part w t = (case t of None \<Rightarrow> [] | Some i \<Rightarrow> uuid_text (aw_world w) i)"

definition start_mfa_challenge :: "auth_world \<Rightarrow> draw \<Rightarrow> instant \<Rightarrow> user_identity \<Rightarrow> login_result auth_action" where
  "start_mfa_challenge w d now ident =
     (let ttl = mfa_pending_token_ttl_seconds (aw_settings w) in
      andthen (on_redis (\<lambda>r. ((), redis_set (MFA_KEY (hash_token w (dr_code d)))
         (tenant_part w (ident_tenant ident) @ '':'' @ uuid_text (aw_world w) (ident_id ident)) ttl now r)))
        (\<lambda>_. ret (MfaChallenge (dr_code d) ttl)))"

definition bad_login :: error where
  "bad_login = UnauthorizedError ''Invalid email or password.''"

definition lock_scope :: "auth_world \<Rightarrow> uuid option \<Rightarrow> string" where
  "lock_scope w t = (case t of None \<Rightarrow> ''platform'' | Some i \<Rightarrow> uuid_text (aw_world w) i)"

definition login :: "auth_world \<Rightarrow> draw \<Rightarrow> instant \<Rightarrow> uuid option \<Rightarrow> string \<Rightarrow> string \<Rightarrow> client_info \<Rightarrow>
   login_result auth_action" where
  "login w d now t email password client =
     (let account = account_key (aw_sha w) (lock_scope w t) email;
          ip = ip_key (or_else (ci_ip client) ''unknown'');
          st = lockout_config (aw_settings w) in
      andthen (gets (\<lambda>s. is_locked account ip now (a_redis s))) (\<lambda>locked.
        if locked then raise bad_login
        else andthen (on_db (verify_credentials (aw_verify w) t email password now)) (\<lambda>found. case found of
            None \<Rightarrow> andthen (modify (\<lambda>s. s\<lparr>a_redis := record_failure st account ip now (a_redis s)\<rparr>)) (\<lambda>_.
              raise bad_login)
          | Some ident \<Rightarrow>
              andthen (modify (\<lambda>s. s\<lparr>a_redis := reset account ip (a_redis s)\<rparr>)) (\<lambda>_.
              if ident_mfa_enabled ident then start_mfa_challenge w d now ident
              else andthen (issue w d now ident client None) (\<lambda>tokens. ret (LoggedIn tokens))))))"

definition verify_mfa :: "auth_world \<Rightarrow> draw \<Rightarrow> instant \<Rightarrow> uuid option \<Rightarrow> string \<Rightarrow> string \<Rightarrow> client_info \<Rightarrow>
   issued_tokens auth_action" where
  "verify_mfa w d now t mfa_token code client =
     andthen (on_redis (redis_getdel (MFA_KEY (hash_token w mfa_token)) now)) (\<lambda>raw. case raw of
        None \<Rightarrow> raise (UnauthorizedError ''The verification session has expired. Please sign in again.'')
      | Some v \<Rightarrow> (case str_partition (CHR '':'') v of (tenant, user) \<Rightarrow>
          if tenant \<noteq> tenant_part w t
          then raise (UnauthorizedError ''The verification session is invalid.'')
          else (case uuid_of_text (aw_world w) user of
              None \<Rightarrow> raise ValueError
            | Some i \<Rightarrow>
              andthen (gets (\<lambda>s. verify_mfa_code (aw_totp w) t i code (a_db s))) (\<lambda>ok.
                if \<not> ok then raise (UnauthorizedError ''That code is not valid. Please sign in again.'')
                else andthen (gets (\<lambda>s. get_identity_if_active t i (a_db s))) (\<lambda>found. case found of
                    None \<Rightarrow> raise (UnauthorizedError ''The verification session is invalid.'')
                  | Some ident \<Rightarrow> issue w d now ident client None)))))"

section \<open>Refresh\<close>

definition bad_refresh :: error where
  "bad_refresh = UnauthorizedError ''The refresh token is invalid.''"

text \<open>
  \<open>_revoke_family_committed\<close>: a transaction of its own, which the rollback of the request does
  not undo.
\<close>

definition revoke_family_committed :: "uuid option \<Rightarrow> uuid \<Rightarrow> instant \<Rightarrow> unit auth_action" where
  "revoke_family_committed t family now = modify (\<lambda>s. s\<lparr>
     a_db := revoke_family t family now (a_db s),
     a_committed := revoke_family t family now (a_committed s)\<rparr>)"

text \<open>What follows the lookup of the presented token, given the row it found.\<close>

definition rotate_session :: "auth_world \<Rightarrow> draw \<Rightarrow> instant \<Rightarrow> uuid option \<Rightarrow> auth_session \<Rightarrow> client_info \<Rightarrow>
   issued_tokens auth_action" where
  "rotate_session w d now t session client =
     (if sess_revoked_at session \<noteq> None
      then andthen (revoke_family_committed t (sess_family session) now) (\<lambda>_. raise bad_refresh)
      else if sess_expires_at session \<le> now
      then raise (UnauthorizedError ''The refresh token has expired.'')
      else andthen (gets (\<lambda>s. get_identity_if_active t (sess_user session) (a_db s))) (\<lambda>found. case found of
          None \<Rightarrow> raise bad_refresh
        | Some ident \<Rightarrow>
            andthen (on_db (modify (session_write (sess_id session)
              (\<lambda>x. x\<lparr>sess_last_used_at := Some now, sess_revoked_at := Some now\<rparr>)))) (\<lambda>_.
            issue w d now ident client (Some (sess_family session)))))"

definition refresh :: "auth_world \<Rightarrow> draw \<Rightarrow> instant \<Rightarrow> uuid option \<Rightarrow> string option \<Rightarrow> client_info \<Rightarrow>
   issued_tokens auth_action" where
  "refresh w d now t presented client =
     (if \<not> str_given presented then raise (UnauthorizedError ''A refresh token is required.'')
      else andthen (gets (\<lambda>s. session_by_token_hash t (hash_token w (or_else presented [])) (a_db s)))
        (\<lambda>found. case found of
          None \<Rightarrow> raise bad_refresh
        | Some session \<Rightarrow> rotate_session w d now t session client))"

section \<open>Logout\<close>

definition denylist_jti :: "auth_world \<Rightarrow> string \<Rightarrow> instant \<Rightarrow> unit auth_action" where
  "denylist_jti w jti now = soft_redis (redis_set (jti_denylist_key jti) ''1''
     (access_token_ttl_seconds (aw_settings w)) now)"

definition logout :: "auth_world \<Rightarrow> instant \<Rightarrow> uuid option \<Rightarrow> string option \<Rightarrow> string \<Rightarrow> unit auth_action" where
  "logout w now t presented jti =
     andthen (if str_given presented
       then andthen (gets (\<lambda>s. session_by_token_hash t (hash_token w (or_else presented [])) (a_db s)))
         (\<lambda>found. case found of
            None \<Rightarrow> ret ()
          | Some session \<Rightarrow> if sess_revoked_at session \<noteq> None then ret ()
              else on_db (modify (session_write (sess_id session) (\<lambda>x. x\<lparr>sess_revoked_at := Some now\<rparr>))))
       else ret ()) (\<lambda>_.
     denylist_jti w jti now)"

definition deny_all :: "auth_world \<Rightarrow> string list \<Rightarrow> instant \<Rightarrow> redis \<Rightarrow> redis" where
  "deny_all w jtis now r = foldl (\<lambda>r jti. redis_set (jti_denylist_key jti) ''1''
     (access_token_ttl_seconds (aw_settings w)) now r) r jtis"

definition revoke_jtis :: "auth_world \<Rightarrow> uuid \<Rightarrow> instant \<Rightarrow> redis \<Rightarrow> redis" where
  "revoke_jtis w user now r =
     (let jtis = redis_smembers (user_jtis_key w user) now r in
      if jtis = [] then r else redis_delete [user_jtis_key w user] (deny_all w jtis now r))"

definition revoke_tracked_jtis :: "auth_world \<Rightarrow> uuid \<Rightarrow> instant \<Rightarrow> unit auth_action" where
  "revoke_tracked_jtis w user now = soft_redis (revoke_jtis w user now)"

definition force_logout_user :: "auth_world \<Rightarrow> instant \<Rightarrow> uuid option \<Rightarrow> uuid \<Rightarrow> unit auth_action" where
  "force_logout_user w now t user =
     andthen (on_db (modify (revoke_all_for_user t user now))) (\<lambda>_.
     revoke_tracked_jtis w user now)"

definition logout_all :: "auth_world \<Rightarrow> instant \<Rightarrow> uuid option \<Rightarrow> uuid \<Rightarrow> string \<Rightarrow> unit auth_action" where
  "logout_all w now t user jti =
     andthen (force_logout_user w now t user) (\<lambda>_. denylist_jti w jti now)"

section \<open>Password reset and email verification\<close>

definition forgot_password :: "auth_world \<Rightarrow> draw \<Rightarrow> instant \<Rightarrow> uuid option \<Rightarrow> string \<Rightarrow> unit auth_action" where
  "forgot_password w d now t email =
     andthen (gets (\<lambda>s. get_identity_by_email t email (a_db s))) (\<lambda>found. case found of
        None \<Rightarrow> ret ()
      | Some ident \<Rightarrow>
          andthen (on_redis (\<lambda>r. ((), redis_set (RESET_KEY (hash_token w (dr_code d)))
             (uuid_text (aw_world w) (ident_id ident))
             (password_reset_ttl_seconds (aw_settings w)) now r))) (\<lambda>_.
          send_auth_email (ident_email ident) ''Reset your password''
            (''Use this code to reset your password (valid 30 minutes):'' @ newline @ newline @
             ''code: '' @ dr_code d @ newline)))"

definition consume_token :: "auth_world \<Rightarrow> string \<Rightarrow> instant \<Rightarrow> uuid auth_action" where
  "consume_token w k now = andthen (on_redis (redis_getdel k now)) (\<lambda>found. case found of
      None \<Rightarrow> raise (UnauthorizedError ''The token is invalid or has expired.'')
    | Some v \<Rightarrow> (case uuid_of_text (aw_world w) v of None \<Rightarrow> raise ValueError | Some i \<Rightarrow> ret i))"

definition reset_password :: "auth_world \<Rightarrow> draw \<Rightarrow> instant \<Rightarrow> uuid option \<Rightarrow> string \<Rightarrow> string \<Rightarrow>
   unit auth_action" where
  "reset_password w d now t token new_password =
     andthen (reject_breached_password w new_password) (\<lambda>_.
     andthen (consume_token w (RESET_KEY (hash_token w token)) now) (\<lambda>user.
     andthen (on_db (set_password t user (dr_password_hash d))) (\<lambda>found. case found of
        None \<Rightarrow> raise (UnauthorizedError ''The reset token is invalid or has expired.'')
      | Some ident \<Rightarrow> force_logout_user w now t user)))"

definition resend_email_verification :: "auth_world \<Rightarrow> draw \<Rightarrow> instant \<Rightarrow> uuid option \<Rightarrow> uuid \<Rightarrow>
   unit auth_action" where
  "resend_email_verification w d now t user =
     andthen (gets (\<lambda>s. get_identity_if_active t user (a_db s))) (\<lambda>found. case found of
        None \<Rightarrow> ret () | Some ident \<Rightarrow> send_email_verification w d now ident)"

definition verify_email :: "auth_world \<Rightarrow> instant \<Rightarrow> uuid option \<Rightarrow> string \<Rightarrow> unit auth_action" where
  "verify_email w now t token =
     andthen (consume_token w (VERIFY_KEY (hash_token w token)) now) (\<lambda>user.
     andthen (on_db (mark_email_verified t user now)) (\<lambda>found. case found of
        None \<Rightarrow> raise (UnauthorizedError ''The verification token is invalid or has expired.'')
      | Some ident \<Rightarrow> ret ()))"

section \<open>The session list\<close>

definition list_sessions :: "auth_world \<Rightarrow> instant \<Rightarrow> uuid option \<Rightarrow> uuid \<Rightarrow> string option \<Rightarrow> db \<Rightarrow>
   (auth_session \<times> bool) list" where
  "list_sessions w now t user presented s =
     (let current = (if str_given presented then Some (hash_token w (or_else presented [])) else None)
      in map (\<lambda>row. (row, Some (sess_refresh_token_hash row) = current)) (list_active_for_user t user now s))"

definition revoke_session :: "instant \<Rightarrow> uuid option \<Rightarrow> uuid \<Rightarrow> uuid \<Rightarrow> unit auth_action" where
  "revoke_session now t user i =
     andthen (gets (\<lambda>s. session_get t i (a_db s))) (\<lambda>found. case found of
        None \<Rightarrow> raise (NotFoundError ''Session not found.'')
      | Some row \<Rightarrow>
          if sess_user row \<noteq> user then raise (NotFoundError ''Session not found.'')
          else if sess_revoked_at row \<noteq> None then ret ()
          else on_db (modify (session_write (sess_id row) (\<lambda>x. x\<lparr>sess_revoked_at := Some now\<rparr>))))"

section \<open>Second factors\<close>

definition auth_begin_mfa :: "uuid option \<Rightarrow> uuid \<Rightarrow> string \<Rightarrow> string auth_action" where
  "auth_begin_mfa t user secret = on_db (begin_mfa_enrolment t user secret)"

definition auth_confirm_mfa :: "auth_world \<Rightarrow> instant \<Rightarrow> uuid option \<Rightarrow> uuid \<Rightarrow> string \<Rightarrow> unit auth_action" where
  "auth_confirm_mfa w now t user code =
     andthen (on_db (confirm_mfa_enrolment (aw_totp w) t user code now)) (\<lambda>ok.
       if \<not> ok then raise (UnauthorizedError ''That code is not valid. Please try again.'') else ret ())"

definition auth_disable_mfa :: "auth_world \<Rightarrow> uuid option \<Rightarrow> uuid \<Rightarrow> string \<Rightarrow> unit auth_action" where
  "auth_disable_mfa w t user password =
     andthen (gets (\<lambda>s. check_password (aw_verify w) t user password (a_db s))) (\<lambda>ok.
       if \<not> ok then raise (UnauthorizedError ''The password is incorrect.'')
       else on_db (disable_mfa t user))"

section \<open>Social login\<close>

record oauth_profile =
  op_subject :: string
  op_email :: "string option"
  op_email_verified :: bool
  op_first_name :: "string option"
  op_last_name :: "string option"

definition oauth_provider :: "auth_world \<Rightarrow> string \<Rightarrow> unit auth_action" where
  "oauth_provider w provider =
     (if aw_provider w provider then ret ()
      else raise (FeatureNotConfiguredError
        (''Social sign-in with '' @ quoted provider @ '' is not configured on this deployment.'')))"

definition oauth_redirect_uri :: "auth_world \<Rightarrow> string \<Rightarrow> string" where
  "oauth_redirect_uri w provider =
     rev (dropWhile (\<lambda>c. c = CHR ''/'') (rev (oauth_redirect_base_url (aw_settings w)))) @
     ''/api/v1/auth/oauth/'' @ provider @ ''/callback''"

text \<open>\<open>url\<close> is the provider's \<open>authorization_url\<close>, from the redirect address and the state.\<close>

definition start_oauth :: "auth_world \<Rightarrow> (string \<Rightarrow> string \<Rightarrow> string) \<Rightarrow> draw \<Rightarrow> instant \<Rightarrow> uuid option \<Rightarrow> string \<Rightarrow>
   (string \<times> string) auth_action" where
  "start_oauth w url d now t provider =
     andthen (oauth_provider w provider) (\<lambda>_.
     andthen (on_redis (\<lambda>r. ((), redis_set (OAUTH_STATE_KEY (hash_token w (dr_code d)))
        (tenant_part w t @ '':'' @ provider) OAUTH_STATE_TTL_SECONDS now r))) (\<lambda>_.
     ret (url (oauth_redirect_uri w provider) (dr_code d), dr_code d)))"

definition oauth_by_subject :: "uuid option \<Rightarrow> string \<Rightarrow> string \<Rightarrow> db \<Rightarrow> oauth_identity option" where
  "oauth_by_subject t provider subject s = find (\<lambda>x. oid_tenant x = t \<and> oid_provider x = provider
     \<and> oid_subject x = subject) (oauth_identities s)"

text \<open>The insert, with the unique constraint on (tenant, provider, subject).\<close>

definition add_oauth_identity :: "oauth_identity \<Rightarrow> (db, unit) action" where
  "add_oauth_identity row = (\<lambda>s.
     if oauth_by_subject (oid_tenant row) (oid_provider row) (oid_subject row) s \<noteq> None
     then (Inl IntegrityError, s) else (Inr (), s\<lparr>oauth_identities := oauth_identities s @ [row]\<rparr>))"

definition social_account :: "oauth_profile \<Rightarrow> string \<Rightarrow> new_account" where
  "social_account profile email = \<lparr>na_email = email, na_role = BUYER_RENTER,
     na_first_name = op_first_name profile, na_last_name = op_last_name profile,
     na_locale = ''fr'', na_phone = None\<rparr>"

definition link_or_create_oauth_account :: "draw \<Rightarrow> instant \<Rightarrow> uuid \<Rightarrow> string \<Rightarrow> oauth_profile \<Rightarrow>
   (db, user_identity) action" where
  "link_or_create_oauth_account d now t provider profile =
     andthen (gets (oauth_by_subject (Some t) provider (op_subject profile))) (\<lambda>link. case link of
       Some l \<Rightarrow> andthen (gets (get_identity_if_active (Some t) (oid_user l))) (\<lambda>found. case found of
           None \<Rightarrow> raise (UnauthorizedError ''This account is no longer active.'')
         | Some ident \<Rightarrow> ret ident)
     | None \<Rightarrow>
       if \<not> str_given (op_email profile)
       then raise (ConflictError ''The provider did not supply an email address.'')
       else let email = or_else (op_email profile) [] in
       andthen (gets (get_identity_by_email (Some t) email)) (\<lambda>existing.
       if existing \<noteq> None \<and> \<not> op_email_verified profile
       then raise (ConflictError
         ''An account already exists for this email. Sign in with your password instead.'')
       else andthen (gets (email_taken (Some t) email)) (\<lambda>taken.
       if existing = None \<and> taken
       then raise (ConflictError ''This account is not active. Contact your agency administrator.'')
       else
       andthen (case existing of
           Some ident \<Rightarrow> ret ident
         | None \<Rightarrow> register_account t (social_account profile email) (dr_password_hash d) (dr_user d) now)
         (\<lambda>ident.
       andthen (add_oauth_identity \<lparr>oid_user = ident_id ident, oid_tenant = Some t,
          oid_provider = provider, oid_subject = op_subject profile, oid_email = op_email profile\<rparr>) (\<lambda>_.
       andthen (if op_email_verified profile then mark_email_verified (Some t) (ident_id ident) now else ret None)
         (\<lambda>_. ret ident))))))"

text \<open>\<open>exchanged\<close> is what the provider answers to the code, \<open>None\<close> for an \<open>OAuthError\<close>.\<close>

definition complete_oauth :: "auth_world \<Rightarrow> draw \<Rightarrow> instant \<Rightarrow> uuid \<Rightarrow> string \<Rightarrow> oauth_profile option \<Rightarrow> string \<Rightarrow>
   client_info \<Rightarrow> issued_tokens auth_action" where
  "complete_oauth w d now t provider exchanged state client =
     andthen (oauth_provider w provider) (\<lambda>_.
     andthen (on_redis (redis_getdel (OAUTH_STATE_KEY (hash_token w state)) now)) (\<lambda>stored. case stored of
        None \<Rightarrow> raise (UnauthorizedError ''The sign-in attempt has expired. Please try again.'')
      | Some v \<Rightarrow>
          if v \<noteq> uuid_text (aw_world w) t @ '':'' @ provider
          then raise (UnauthorizedError ''The sign-in attempt is invalid.'')
          else (case exchanged of
              None \<Rightarrow> raise (UnauthorizedError ''Sign-in with this provider failed. Please try again.'')
            | Some profile \<Rightarrow>
                andthen (on_db (link_or_create_oauth_account d now t provider profile)) (\<lambda>ident.
                issue w d now ident client None))))"

section \<open>Routes of the users module that log a user out\<close>

definition update_user_route :: "auth_world \<Rightarrow> instant \<Rightarrow> uuid \<Rightarrow> uuid \<Rightarrow> user_admin_update \<Rightarrow> uuid \<Rightarrow> unit auth_action" where
  "update_user_route w now t user data admin =
     andthen (on_db (admin_update t user data admin)) (\<lambda>_.
       if uau_role data \<noteq> Unset \<or> (uau_status data \<noteq> Unset \<and> uau_status data \<noteq> SetTo ACTIVE)
       then force_logout_user w now (Some t) user else ret ())"

definition delete_user_route :: "auth_world \<Rightarrow> instant \<Rightarrow> uuid \<Rightarrow> uuid \<Rightarrow> uuid \<Rightarrow> unit auth_action" where
  "delete_user_route w now t user admin =
     andthen (on_db (user_soft_delete t user admin now)) (\<lambda>_. force_logout_user w now (Some t) user)"

section \<open>The request\<close>

text \<open>
  One request: its view starts from the committed database; a return commits the view, a raise
  leaves the committed database as the call's own transactions made it. Mails handed to the
  broker and Redis stay in both cases.
\<close>

definition run_auth :: "'a auth_action \<Rightarrow> auth_state \<Rightarrow> (error + 'a) \<times> auth_state" where
  "run_auth m s = (case m (s\<lparr>a_db := a_committed s\<rparr>) of
      (Inl e, t) \<Rightarrow> (let c = (a_committed t)\<lparr>sent := sent (a_db t)\<rparr> in (Inl e, t\<lparr>a_db := c, a_committed := c\<rparr>))
    | (Inr a, t) \<Rightarrow> (Inr a, t\<lparr>a_committed := a_db t\<rparr>))"

end
