(* ===== verification/Auth_Tokens.thy ===== *)
theory Auth_Tokens
  imports Auth
begin

text \<open>
  The histories of the authentication service, and what holds in Redis after any of them: locks
  are short, a tracked access token stays within reach, a redeemed code stays redeemed.
\<close>

section \<open>Invariants of Redis\<close>

lemma preserves_on_db [preserves_intros]:
  "(\<And>s db. I s \<Longrightarrow> I (s\<lparr>a_db := db\<rparr>)) \<Longrightarrow> preserves I (on_db m)"
  by (auto simp: preserves_def on_db_def split: prod.splits)

lemma preserves_prod [preserves_intros]:
  "(\<And>a b. p = (a, b) \<Longrightarrow> preserves I (f a b)) \<Longrightarrow> preserves I (case p of (a, b) \<Rightarrow> f a b)"
  by (cases p) simp

lemma preserves_Let [preserves_intros]: "preserves I (f x) \<Longrightarrow> preserves I (let y = x in f y)"
  by simp

text \<open>
  What a predicate on Redis needs to survive every call: it holds on as time passes, and through
  each command that the service sends. \<open>ok\<close> constrains the codes that are drawn.
\<close>

definition code_keys :: "string \<Rightarrow> string list" where
  "code_keys h = [RESET_KEY h, VERIFY_KEY h, MFA_KEY h, OAUTH_STATE_KEY h]"

text \<open>
  A step of the service at an instant: a request with any arguments and outcome, Redis going
  down or coming back, or another module's commit that leaves the session table alone. \<open>P\<close>
  constrains what a request draws, in the state it starts from.
\<close>

definition caller_address :: "client_info \<Rightarrow> string" where
  "caller_address client = or_else (ci_ip client) ''unknown''"

inductive auth_step :: "auth_world \<Rightarrow> (draw \<Rightarrow> auth_state \<Rightarrow> bool) \<Rightarrow> instant \<Rightarrow> auth_state \<Rightarrow> auth_state \<Rightarrow> bool"
  for w P now s where
  step_register: "P d s \<Longrightarrow> auth_step w P now s (snd (run_auth (register_user w d now t data pw client) s))"
| step_login: "P d s \<Longrightarrow> address (caller_address client) \<Longrightarrow>
    auth_step w P now s (snd (run_auth (login w d now tn email pw client) s))"
| step_mfa: "P d s \<Longrightarrow> auth_step w P now s (snd (run_auth (verify_mfa w d now tn ticket code client) s))"
| step_refresh: "P d s \<Longrightarrow> auth_step w P now s (snd (run_auth (refresh w d now tn presented client) s))"
| step_logout: "auth_step w P now s (snd (run_auth (logout w now tn presented jti) s))"
| step_logout_all: "auth_step w P now s (snd (run_auth (logout_all w now tn user jti) s))"
| step_forgot: "P d s \<Longrightarrow> auth_step w P now s (snd (run_auth (forgot_password w d now tn email) s))"
| step_reset: "P d s \<Longrightarrow> auth_step w P now s (snd (run_auth (reset_password w d now tn token pw) s))"
| step_resend: "P d s \<Longrightarrow> auth_step w P now s (snd (run_auth (resend_email_verification w d now tn user) s))"
| step_verify: "auth_step w P now s (snd (run_auth (verify_email w now tn token) s))"
| step_revoke: "auth_step w P now s (snd (run_auth (revoke_session now tn user i) s))"
| step_begin_mfa: "auth_step w P now s (snd (run_auth (auth_begin_mfa tn user secret) s))"
| step_confirm_mfa: "auth_step w P now s (snd (run_auth (auth_confirm_mfa w now tn user code) s))"
| step_disable_mfa: "auth_step w P now s (snd (run_auth (auth_disable_mfa w tn user pw) s))"
| step_start_oauth: "P d s \<Longrightarrow> auth_step w P now s (snd (run_auth (start_oauth w url d now tn provider) s))"
| step_oauth: "P d s \<Longrightarrow>
    auth_step w P now s (snd (run_auth (complete_oauth w d now t provider exchanged state client) s))"
| step_update_user: "auth_step w P now s (snd (run_auth (update_user_route w now t user patch admin) s))"
| step_delete_user: "auth_step w P now s (snd (run_auth (delete_user_route w now t user admin) s))"
| step_outage: "auth_step w P now s (s\<lparr>a_redis := (a_redis s)\<lparr>r_up := b\<rparr>\<rparr>)"
| step_elsewhere: "sessions db = sessions (a_committed s) \<Longrightarrow>
    auth_step w P now s (s\<lparr>a_db := db, a_committed := db\<rparr>)"

text \<open>A history from one instant to another, its clock never going back.\<close>

inductive auth_run :: "auth_world \<Rightarrow> (draw \<Rightarrow> auth_state \<Rightarrow> bool) \<Rightarrow> instant \<Rightarrow> auth_state \<Rightarrow> instant \<Rightarrow>
   auth_state \<Rightarrow> bool" for w P where
  run_start: "auth_run w P t s t s"
| run_step: "auth_run w P t s t' s' \<Longrightarrow> t' \<le> now \<Longrightarrow> auth_step w P now s' s'' \<Longrightarrow> auth_run w P t s now s''"

lemma run_auth_redis:
  assumes "preserves (\<lambda>s. R (a_redis s)) m" "R (a_redis s)"
  shows "R (a_redis (snd (run_auth m s)))"
proof -
  obtain r t where m: "m (s\<lparr>a_db := a_committed s\<rparr>) = (r, t)" by fastforce
  from preservesD [OF assms(1) _ this] assms(2) have "R (a_redis t)" by simp
  with m show ?thesis by (auto simp: run_auth_def Let_def split: sum.splits)
qed

locale redis_invariant =
  fixes w :: auth_world and ok :: "draw \<Rightarrow> bool" and R :: "instant \<Rightarrow> redis \<Rightarrow> bool"
  assumes later: "R now r \<Longrightarrow> now \<le> then' \<Longrightarrow> R then' r"
    and up: "R now r \<Longrightarrow> R now (r\<lparr>r_up := b\<rparr>)"
    and put_code: "R now r \<Longrightarrow> ok d \<Longrightarrow> k \<in> set (code_keys (hash_token w (dr_code d))) \<Longrightarrow>
      R now (redis_set k v ttl now r)"
    and take_code: "R now r \<Longrightarrow> k \<in> set (code_keys h) \<Longrightarrow> R now (snd (redis_getdel k now r))"
    and deny: "R now r \<Longrightarrow>
      R now (redis_set (jti_denylist_key jti) v (access_token_ttl_seconds (aw_settings w)) now r)"
    and track: "R now r \<Longrightarrow>
      R now (redis_sadd_expire (user_jtis_key w u) jti (access_token_ttl_seconds (aw_settings w)) now r)"
    and revoke: "R now r \<Longrightarrow> jtis = redis_smembers (user_jtis_key w u) now r \<Longrightarrow>
      R now (redis_delete [user_jtis_key w u] (deny_all w jtis now r))"
    and failure: "R now r \<Longrightarrow> address ip \<Longrightarrow>
      \<not> is_locked (account_key (aw_sha w) sc email) (ip_key ip) now r \<Longrightarrow>
      R now (record_failure (lockout_config (aw_settings w)) (account_key (aw_sha w) sc email) (ip_key ip) now r)"
    and success: "R now r \<Longrightarrow> address ip \<Longrightarrow>
      R now (reset (account_key (aw_sha w) sc email) (ip_key ip) r)"
begin

lemma kept_soft: "(\<And>r. R now r \<Longrightarrow> R now (f r)) \<Longrightarrow> preserves (\<lambda>s. R now (a_redis s)) (soft_redis f)"
  by (simp add: preserves_def soft_redis_def)

lemma kept_redis:
  "(\<And>r. R now r \<Longrightarrow> R now (snd (f r))) \<Longrightarrow> preserves (\<lambda>s. R now (a_redis s)) (on_redis f)"
  by (auto simp: preserves_def on_redis_def split: prod.splits) (metis snd_conv)

lemma kept_take:
  "k \<in> set (code_keys h) \<Longrightarrow> preserves (\<lambda>s. R now (a_redis s)) (on_redis (redis_getdel k now))"
  by (rule kept_redis) (rule take_code)

lemma kept_put:
  "ok d \<Longrightarrow> k \<in> set (code_keys (hash_token w (dr_code d))) \<Longrightarrow>
   preserves (\<lambda>s. R now (a_redis s)) (on_redis (\<lambda>r. ((), redis_set k v ttl now r)))"
  by (rule kept_redis) (simp add: put_code)

lemma kept_issue: "preserves (\<lambda>s. R now (a_redis s)) (issue w d now ident client family)"
  unfolding issue_def track_jti_def by (intro preserves_intros kept_soft track) auto

lemma kept_verification:
  "ok d \<Longrightarrow> preserves (\<lambda>s. R now (a_redis s)) (send_email_verification w d now ident)"
  unfolding send_email_verification_def send_auth_email_def
  by (intro preserves_intros kept_put) (auto simp: code_keys_def)

lemma kept_consume:
  "k \<in> set (code_keys h) \<Longrightarrow> preserves (\<lambda>s. R now (a_redis s)) (consume_token w k now)"
  unfolding consume_token_def by (intro preserves_intros kept_take)

lemma kept_denylist: "preserves (\<lambda>s. R now (a_redis s)) (denylist_jti w jti now)"
  unfolding denylist_jti_def by (intro kept_soft deny)

lemma kept_force_logout: "preserves (\<lambda>s. R now (a_redis s)) (force_logout_user w now t user)"
  unfolding force_logout_user_def revoke_tracked_jtis_def
  by (intro preserves_intros kept_soft) (auto simp: revoke_jtis_def Let_def intro: revoke)

lemma kept_login:
  assumes "ok d" "address (caller_address client)"
  shows "preserves (\<lambda>s. R now (a_redis s)) (login w d now t email password client)"
proof (rule preservesI)
  fix s r s'
  assume inv: "R now (a_redis s)" and run: "login w d now t email password client s = (r, s')"
  let ?acc = "account_key (aw_sha w) (lock_scope w t) email"
  let ?ip = "ip_key (caller_address client)"
  obtain q s1 where ver: "on_db (verify_credentials (aw_verify w) t email password now) s = (q, s1)" by fastforce
  then have same: "a_redis s1 = a_redis s" by (auto simp: on_db_def split: prod.splits)
  show "R now (a_redis s')"
  proof (cases "is_locked ?acc ?ip now (a_redis s)")
    case True
    with run inv show ?thesis by (simp add: login_def caller_address_def [symmetric] Let_def raise_def)
  next
    case False
    define good where "good ident =
      (if ident_mfa_enabled ident then start_mfa_challenge w d now ident
       else andthen (issue w d now ident client None) (\<lambda>tokens. ret (LoggedIn tokens)))" for ident
    have good: "preserves (\<lambda>s. R now (a_redis s)) (good ident)" for ident
      unfolding good_def start_mfa_challenge_def Let_def
      by (intro preserves_intros kept_issue kept_put [OF assms(1)]) (simp add: code_keys_def)
    have red: "login w d now t email password client s = (case (q, s1) of
        (Inl e, s1) \<Rightarrow> (Inl e, s1)
      | (Inr None, s1) \<Rightarrow> (Inl bad_login, s1\<lparr>a_redis :=
           record_failure (lockout_config (aw_settings w)) ?acc ?ip now (a_redis s1)\<rparr>)
      | (Inr (Some ident), s1) \<Rightarrow> good ident (s1\<lparr>a_redis := reset ?acc ?ip (a_redis s1)\<rparr>))"
      using False ver by (simp add: login_def caller_address_def [symmetric] Let_def andthen_def [of "on_db _"] good_def raise_def
          split: sum.splits option.splits)
    show ?thesis
    proof (cases q)
      case (Inl e)
      with red run inv same show ?thesis by simp
    next
      case (Inr found)
      show ?thesis
      proof (cases found)
        case None
        with red run Inr same failure [OF inv assms(2) False] show ?thesis by auto
      next
        case (Some ident)
        with red run Inr have "good ident (s1\<lparr>a_redis := reset ?acc ?ip (a_redis s1)\<rparr>) = (r, s')" by simp
        from preservesD [OF good _ this] same success [OF inv assms(2)] show ?thesis by simp
      qed
    qed
  qed
qed

lemma kept_step:
  assumes "auth_step w P now s s'" "\<And>d s. P d s \<Longrightarrow> ok d" "R now (a_redis s)"
  shows "R now (a_redis s')"
  using assms(1)
proof cases
  case (step_register d t data pw client)
  show ?thesis
    unfolding step_register(1) register_user_def reject_breached_password_def
    by (rule run_auth_redis [where R = "R now", OF _ assms(3)], intro preserves_intros kept_verification kept_issue)
      (auto intro: assms(2) [OF step_register(2)])
next
  case (step_login d client tn email pw)
  show ?thesis unfolding step_login(1)
    by (rule run_auth_redis [where R = "R now", OF _ assms(3)],
        rule kept_login [OF assms(2) [OF step_login(2)] step_login(3)])
next
  case (step_mfa d tn ticket code client)
  show ?thesis unfolding step_mfa(1) verify_mfa_def
    by (rule run_auth_redis [where R = "R now", OF _ assms(3)], intro preserves_intros kept_issue kept_take)
      (auto simp: code_keys_def)
next
  case (step_refresh d tn presented client)
  show ?thesis unfolding step_refresh(1) refresh_def rotate_session_def revoke_family_committed_def
    by (rule run_auth_redis [where R = "R now", OF _ assms(3)], intro preserves_intros kept_issue) auto
next
  case (step_logout tn presented jti)
  show ?thesis unfolding step_logout logout_def
    by (rule run_auth_redis [where R = "R now", OF _ assms(3)], intro preserves_intros kept_denylist) auto
next
  case (step_logout_all tn user jti)
  show ?thesis unfolding step_logout_all logout_all_def
    by (rule run_auth_redis [where R = "R now", OF _ assms(3)], intro preserves_intros kept_denylist kept_force_logout)
next
  case (step_forgot d tn email)
  show ?thesis unfolding step_forgot(1) forgot_password_def send_auth_email_def
    by (rule run_auth_redis [where R = "R now", OF _ assms(3)], intro preserves_intros kept_put [OF assms(2) [OF step_forgot(2)]])
      (auto simp: code_keys_def)
next
  case (step_reset d tn token pw)
  show ?thesis unfolding step_reset(1) reset_password_def reject_breached_password_def
    by (rule run_auth_redis [where R = "R now", OF _ assms(3)], intro preserves_intros kept_force_logout kept_consume)
      (auto simp: code_keys_def)
next
  case (step_resend d tn user)
  show ?thesis unfolding step_resend(1) resend_email_verification_def
    by (rule run_auth_redis [where R = "R now", OF _ assms(3)], intro preserves_intros kept_verification assms(2) [OF step_resend(2)])
next
  case (step_verify tn token)
  show ?thesis unfolding step_verify verify_email_def
    by (rule run_auth_redis [where R = "R now", OF _ assms(3)], intro preserves_intros kept_consume) (auto simp: code_keys_def)
next
  case (step_revoke tn user i)
  show ?thesis unfolding step_revoke revoke_session_def
    by (rule run_auth_redis [where R = "R now", OF _ assms(3)], intro preserves_intros) auto
next
  case (step_begin_mfa tn user secret)
  show ?thesis unfolding step_begin_mfa auth_begin_mfa_def
    by (rule run_auth_redis [where R = "R now", OF _ assms(3)], intro preserves_intros) auto
next
  case (step_confirm_mfa tn user code)
  show ?thesis unfolding step_confirm_mfa auth_confirm_mfa_def
    by (rule run_auth_redis [where R = "R now", OF _ assms(3)], intro preserves_intros) auto
next
  case (step_disable_mfa tn user pw)
  show ?thesis unfolding step_disable_mfa auth_disable_mfa_def
    by (rule run_auth_redis [where R = "R now", OF _ assms(3)], intro preserves_intros) auto
next
  case (step_start_oauth d url tn provider)
  show ?thesis unfolding step_start_oauth(1) start_oauth_def oauth_provider_def
    by (rule run_auth_redis [where R = "R now", OF _ assms(3)], intro preserves_intros kept_put [OF assms(2) [OF step_start_oauth(2)]])
      (auto simp: code_keys_def)
next
  case (step_oauth d t provider exchanged state client)
  show ?thesis unfolding step_oauth(1) complete_oauth_def oauth_provider_def
    by (rule run_auth_redis [where R = "R now", OF _ assms(3)], intro preserves_intros kept_issue kept_take) (auto simp: code_keys_def)
next
  case (step_update_user t user patch admin)
  show ?thesis unfolding step_update_user update_user_route_def
    by (rule run_auth_redis [where R = "R now", OF _ assms(3)], intro preserves_intros kept_force_logout) auto
next
  case (step_delete_user t user admin)
  show ?thesis unfolding step_delete_user delete_user_route_def
    by (rule run_auth_redis [where R = "R now", OF _ assms(3)], intro preserves_intros kept_force_logout) auto
next
  case (step_outage b)
  with assms(3) show ?thesis by (simp add: up)
next
  case (step_elsewhere db)
  with assms(3) show ?thesis by simp
qed

lemma kept_run:
  assumes "auth_run w P t s t' s'" "\<And>d s. P d s \<Longrightarrow> ok d" "R t (a_redis s)"
  shows "t \<le> t' \<and> R t' (a_redis s')"
  using assms(1,3)
proof induction
  case (run_step t s t' s' now s'')
  then have t: "t \<le> t'" and R: "R t' (a_redis s')" by simp_all
  have "R now (a_redis s'')"
    by (rule kept_step [OF run_step(3) assms(2) later [OF R run_step(2)]])
  with t run_step(2) show ?case by simp
qed simp

end

section \<open>Three of them\<close>

lemma lock_class_prefix: "lock_class sha st k thr \<Longrightarrow> \<exists>x. k = ''auth:lockout:'' @ x"
  by (auto simp: lock_class_def account_key_def ip_key_def)

lemma lockout_keys_apart:
  assumes "lock_class sha st k thr"
  shows "h \<in> set (code_keys c) \<Longrightarrow> lock_key k \<noteq> h" "h \<in> set (code_keys c) \<Longrightarrow> k \<noteq> h"
    "lock_key k \<noteq> jti_denylist_key jti" "lock_key k \<noteq> user_jtis_key w u" "k \<noteq> user_jtis_key w u"
  using lock_class_prefix [OF assms]
  by (auto simp: code_keys_def RESET_KEY_def VERIFY_KEY_def MFA_KEY_def OAUTH_STATE_KEY_def lock_key_def
      jti_denylist_key_def user_jtis_key_def)

definition lockout_free :: "string \<Rightarrow> bool" where
  "lockout_free k \<longleftrightarrow> (\<forall>x. k \<noteq> ''auth:lockout:'' @ x)"

lemma lockout_free_keys [simp]:
  "lockout_free (jti_denylist_key jti)" "lockout_free (user_jtis_key w u)" "lockout_free (RESET_KEY h)"
  by (simp_all add: lockout_free_def jti_denylist_key_def user_jtis_key_def RESET_KEY_def)

text \<open>What the commands do to the key they do not name.\<close>

lemma deny_all_fields:
  "(\<forall>jti. k \<noteq> jti_denylist_key jti) \<Longrightarrow> r_text (deny_all w jtis now r) k = r_text r k"
  "r_count (deny_all w jtis now r) = r_count r" "r_set (deny_all w jtis now r) = r_set r"
  by (induction jtis arbitrary: r) (simp_all add: deny_all_def redis_set_def)

lemma record_failure_text:
  "lockout_free k \<Longrightarrow>
   r_text (record_failure st (account_key sha t e) (ip_key ip) now r) k = r_text r k"
  by (auto simp: record_failure_def redis_incr_expire_def lock_if_over_def redis_set_def Let_def
      lock_key_def account_key_def ip_key_def lockout_free_def)

lemma record_failure_set: "r_set (record_failure st a b now r) = r_set r"
  by (simp add: record_failure_def redis_incr_expire_def lock_if_over_def redis_set_def Let_def)

lemma reset_fields:
  "lockout_free k \<Longrightarrow> r_text (reset (account_key sha t e) (ip_key ip) r) k = r_text r k"
  "lockout_free k \<Longrightarrow> r_set (reset (account_key sha t e) (ip_key ip) r) k = r_set r k"
  by (auto simp: reset_def redis_delete_def lock_key_def account_key_def ip_key_def lockout_free_def)

text \<open>Locks stay short.\<close>

definition locks_inv :: "auth_world \<Rightarrow> instant \<Rightarrow> redis \<Rightarrow> bool" where
  "locks_inv w now r \<longleftrightarrow> (sane (lockout_config (aw_settings w)) \<and> hex_digest (aw_sha w) \<longrightarrow>
     lock_inv (aw_sha w) (lockout_config (aw_settings w)) now r)"

lemma lock_inv_cong:
  assumes "\<And>k thr. lock_class sha st k thr \<Longrightarrow> r_text r' (lock_key k) = r_text r (lock_key k)"
    and "\<And>k thr. lock_class sha st k thr \<Longrightarrow> r_count r' k = r_count r k"
  shows "lock_inv sha st now r' = lock_inv sha st now r"
  unfolding lock_inv_def using key_inv_cong [OF assms] by blast

interpretation locks: redis_invariant w "\<lambda>_. True" "locks_inv w" for w :: auth_world
proof unfold_locales
  fix now r b assume "locks_inv w now r"
  then show "locks_inv w now (r\<lparr>r_up := b\<rparr>)" unfolding locks_inv_def by (subst lock_inv_cong) auto
next
  fix now r d k v ttl
  assume "locks_inv w now r" "k \<in> set (code_keys (hash_token w (dr_code d)))"
  then show "locks_inv w now (redis_set k v ttl now r)" unfolding locks_inv_def
    by (subst lock_inv_cong) (auto simp: redis_set_def dest: lockout_keys_apart)
next
  fix now r k h assume "locks_inv w now r" "k \<in> set (code_keys h)"
  then show "locks_inv w now (snd (redis_getdel k now r))" unfolding locks_inv_def
    by (subst lock_inv_cong) (auto simp: redis_getdel_def dest: lockout_keys_apart)
next
  fix now r jti v ttl assume "locks_inv w now r"
  then show "locks_inv w now (redis_set (jti_denylist_key jti) v ttl now r)" unfolding locks_inv_def
    by (subst lock_inv_cong) (auto simp: redis_set_def dest: lockout_keys_apart)
next
  fix now r u jti ttl assume "locks_inv w now r"
  then show "locks_inv w now (redis_sadd_expire (user_jtis_key w u) jti ttl now r)" unfolding locks_inv_def
    by (subst lock_inv_cong) (auto simp: redis_sadd_expire_def Let_def)
next
  fix now r jtis u assume "locks_inv w now r"
  then show "locks_inv w now (redis_delete [user_jtis_key w u] (deny_all w jtis now r))" unfolding locks_inv_def
    by (subst lock_inv_cong) (auto simp: redis_delete_def deny_all_fields(2,3) intro!: deny_all_fields(1) dest: lockout_keys_apart)
qed (auto simp: locks_inv_def intro: lock_inv_later lock_inv_record_failure lock_inv_reset)

text \<open>A tracked access token stays within reach of a forced logout, or denied.\<close>

definition reachable_token :: "auth_world \<Rightarrow> uuid \<Rightarrow> string \<Rightarrow> instant \<Rightarrow> instant \<Rightarrow> redis \<Rightarrow> bool" where
  "reachable_token w user jti until now r \<longleftrightarrow>
     until \<le> now + seconds (access_token_ttl_seconds (aw_settings w)) \<and>
     (until \<le> now
      \<or> (\<exists>v e. r_text r (jti_denylist_key jti) = Some (v, e) \<and> until \<le> e)
      \<or> (\<exists>members e. r_set r (user_jtis_key w user) = Some (members, e) \<and> jti \<in> set members \<and> until \<le> e))"

definition denied_token :: "auth_world \<Rightarrow> string \<Rightarrow> instant \<Rightarrow> instant \<Rightarrow> redis \<Rightarrow> bool" where
  "denied_token w jti until now r \<longleftrightarrow>
     until \<le> now + seconds (access_token_ttl_seconds (aw_settings w)) \<and>
     (until \<le> now \<or> (\<exists>v e. r_text r (jti_denylist_key jti) = Some (v, e) \<and> until \<le> e))"

lemma denied_key [simp]:
  "h \<in> set (code_keys c) \<Longrightarrow> h \<noteq> jti_denylist_key jti" "h \<in> set (code_keys c) \<Longrightarrow> jti_denylist_key jti \<noteq> h"
  "jti_denylist_key jti \<noteq> user_jtis_key w u" "user_jtis_key w u \<noteq> jti_denylist_key jti"
  "jti_denylist_key jti = jti_denylist_key jti' \<longleftrightarrow> jti = jti'"
  by (auto simp: code_keys_def RESET_KEY_def VERIFY_KEY_def MFA_KEY_def OAUTH_STATE_KEY_def
      jti_denylist_key_def user_jtis_key_def)

lemma deny_all_denies:
  "jti \<in> set jtis \<Longrightarrow> r_text (deny_all w jtis now r) (jti_denylist_key jti)
     = Some (''1'', now + seconds (access_token_ttl_seconds (aw_settings w)))"
  "jti \<notin> set jtis \<Longrightarrow> r_text (deny_all w jtis now r) (jti_denylist_key jti) = r_text r (jti_denylist_key jti)"
proof -
  have snoc: "deny_all w (js @ [j]) now r = redis_set (jti_denylist_key j) ''1''
     (access_token_ttl_seconds (aw_settings w)) now (deny_all w js now r)" for js j
    by (simp add: deny_all_def)
  have "r_text (deny_all w jtis now r) (jti_denylist_key jti) = (if jti \<in> set jtis
     then Some (''1'', now + seconds (access_token_ttl_seconds (aw_settings w))) else r_text r (jti_denylist_key jti))"
    by (induction jtis rule: rev_induct) (auto simp: snoc redis_set_def, simp add: deny_all_def)
  then show "jti \<in> set jtis \<Longrightarrow> r_text (deny_all w jtis now r) (jti_denylist_key jti)
     = Some (''1'', now + seconds (access_token_ttl_seconds (aw_settings w)))"
    "jti \<notin> set jtis \<Longrightarrow> r_text (deny_all w jtis now r) (jti_denylist_key jti) = r_text r (jti_denylist_key jti)"
    by simp_all
qed

interpretation tracked: redis_invariant w "\<lambda>_. True" "reachable_token w user jti until"
  for w :: auth_world and user :: uuid and jti :: string and until :: instant
proof unfold_locales
  fix now r u jti'
  assume "reachable_token w user jti until now r"
  then show "reachable_token w user jti until now (redis_sadd_expire (user_jtis_key w u) jti'
      (access_token_ttl_seconds (aw_settings w)) now r)"
    by (cases "alive now (r_set r (user_jtis_key w u))")
      (auto simp: reachable_token_def redis_sadd_expire_def Let_def alive_def split: if_splits)
next
  fix now r jtis u
  assume inv: "reachable_token w user jti until now r" and jtis: "jtis = redis_smembers (user_jtis_key w u) now r"
  show "reachable_token w user jti until now (redis_delete [user_jtis_key w u] (deny_all w jtis now r))"
  proof (cases "jti \<in> set jtis")
    case True
    with inv show ?thesis by (simp add: reachable_token_def redis_delete_def deny_all_denies)
  next
    case False
    with inv jtis show ?thesis
      by (auto simp: reachable_token_def redis_delete_def deny_all_denies deny_all_fields(3)
          redis_smembers_def alive_def split: option.splits if_splits)
  qed
qed (auto simp: reachable_token_def redis_set_def redis_getdel_def record_failure_text record_failure_set reset_fields)

interpretation denied: redis_invariant w "\<lambda>_. True" "denied_token w jti until"
  for w :: auth_world and jti :: string and until :: instant
proof unfold_locales
  fix now r jtis u
  assume inv: "denied_token w jti until now r" and jtis: "jtis = redis_smembers (user_jtis_key w u) now r"
  then show "denied_token w jti until now (redis_delete [user_jtis_key w u] (deny_all w jtis now r))"
    by (cases "jti \<in> set jtis") (simp_all add: denied_token_def redis_delete_def deny_all_denies)
qed (auto simp: denied_token_def redis_set_def redis_getdel_def redis_sadd_expire_def Let_def
    record_failure_text reset_fields)

text \<open>A redeemed reset code stays redeemed, unless a later draw repeats it.\<close>

lemma reset_key_apart [simp]:
  "RESET_KEY h \<noteq> jti_denylist_key jti" "jti_denylist_key jti \<noteq> RESET_KEY h"
  "RESET_KEY h \<noteq> user_jtis_key w u" "user_jtis_key w u \<noteq> RESET_KEY h"
  "c \<noteq> h \<Longrightarrow> k \<in> set (code_keys c) \<Longrightarrow> k \<noteq> RESET_KEY h"
  by (auto simp: code_keys_def RESET_KEY_def VERIFY_KEY_def MFA_KEY_def OAUTH_STATE_KEY_def
      jti_denylist_key_def user_jtis_key_def)

interpretation spent_code: redis_invariant w "\<lambda>d. hash_token w (dr_code d) \<noteq> h" "\<lambda>now. tokens.spent (RESET_KEY h)"
  for w :: auth_world and h :: string
proof unfold_locales
  fix now r d k v ttl
  assume "tokens.spent (RESET_KEY h) r" "hash_token w (dr_code d) \<noteq> h"
    "k \<in> set (code_keys (hash_token w (dr_code d)))"
  then show "tokens.spent (RESET_KEY h) (redis_set k v ttl now r)"
    by (intro tokens.spent_put) auto
next
  fix now r k h' assume "tokens.spent (RESET_KEY h) r"
  then show "tokens.spent (RESET_KEY h) (snd (redis_getdel k now r))" by (rule tokens.spent_take)
next
  fix now r jti v assume "tokens.spent (RESET_KEY h) r"
  then show "tokens.spent (RESET_KEY h) (redis_set (jti_denylist_key jti) v
      (access_token_ttl_seconds (aw_settings w)) now r)" by (rule tokens.spent_put) simp
next
  fix now r jtis u assume "tokens.spent (RESET_KEY h) r"
  then show "tokens.spent (RESET_KEY h) (redis_delete [user_jtis_key w u] (deny_all w jtis now r))"
    by (simp add: tokens.spent_def redis_getdel_def redis_get_def redis_delete_def deny_all_fields(1))
qed (simp_all add: tokens.spent_def redis_getdel_def redis_get_def redis_sadd_expire_def Let_def
    record_failure_text reset_fields(1))

end
