(* ===== verification/Auth_Desk.thy ===== *)
theory Auth_Desk
  imports Auth_Tokens
begin

text \<open>
  What holds in the session table after any history of the authentication service, and the
  properties of the service as a whole.
\<close>

section \<open>Invariants of the session table\<close>

text \<open>Calls that leave the session table alone.\<close>

definition keeps_sessions :: "(db, 'a) action \<Rightarrow> bool" where
  "keeps_sessions m \<longleftrightarrow> (\<forall>X. preserves (\<lambda>s. sessions s = X) m)"

lemma keeps_sessions_users:
  "keeps_sessions (user_write i f)"
  "keeps_sessions (verify_credentials verify tn email pw now)"
  "keeps_sessions (register_account t data hashed i now)"
  "keeps_sessions (set_password tn i hashed)"
  "keeps_sessions (mark_email_verified tn i now)"
  "keeps_sessions (begin_mfa_enrolment tn i secret)"
  "keeps_sessions (confirm_mfa_enrolment totp tn i code now)"
  "keeps_sessions (disable_mfa tn i)"
  "keeps_sessions (admin_update t i patch admin)"
  "keeps_sessions (user_soft_delete t i admin now)"
  "keeps_sessions (link_or_create_oauth_account d now t provider profile)"
  "keeps_sessions (send_now e)"
proof -
  have w: "preserves (\<lambda>s. sessions s = X) (user_write i f)" for X i f
    by (simp add: preserves_def)
  have ca: "preserves (\<lambda>s. sessions s = X) (create_account tn a hashed new_id now)" for X tn a hashed new_id now
    unfolding create_account_def Let_def by (intro preserves_intros) auto
  have me: "preserves (\<lambda>s. sessions s = X) (mark_email_verified tn i now)" for X tn i now
    unfolding mark_email_verified_def by (intro preserves_intros w)
  have oa: "preserves (\<lambda>s. sessions s = X) (add_oauth_identity row)" for X row
    by (simp add: preserves_def add_oauth_identity_def)
  have ra: "preserves (\<lambda>s. sessions s = X) (register_account t a hashed new_id now)" for X t a hashed new_id now
    unfolding register_account_def by (intro preserves_intros ca)
  show "keeps_sessions (user_write i f)" "keeps_sessions (mark_email_verified tn i now)"
    "keeps_sessions (register_account t data hashed i now)"
    by (simp_all add: keeps_sessions_def w me ra)
  show "keeps_sessions (verify_credentials verify tn email pw now)" "keeps_sessions (set_password tn i hashed)"
    unfolding keeps_sessions_def verify_credentials_def set_password_def
    by (intro allI preserves_intros w)+
  show "keeps_sessions (begin_mfa_enrolment tn i secret)" "keeps_sessions (confirm_mfa_enrolment totp tn i code now)"
    "keeps_sessions (disable_mfa tn i)" "keeps_sessions (admin_update t i patch admin)"
    "keeps_sessions (user_soft_delete t i admin now)"
    unfolding keeps_sessions_def begin_mfa_enrolment_def confirm_mfa_enrolment_def disable_mfa_def
      admin_update_def user_soft_delete_def user_get_or_404_def
    by (intro allI preserves_intros w)+
  show "keeps_sessions (link_or_create_oauth_account d now t provider profile)"
    unfolding keeps_sessions_def link_or_create_oauth_account_def Let_def
    by (intro allI preserves_intros w ra me oa)
  show "keeps_sessions (send_now e)" by (simp add: keeps_sessions_def preserves_def)
qed

text \<open>A triple: from \<open>I\<close>, the call ends in \<open>Q\<close>.\<close>

definition ensures :: "('s \<Rightarrow> bool) \<Rightarrow> ('s \<Rightarrow> bool) \<Rightarrow> ('s, 'a) action \<Rightarrow> bool" where
  "ensures I Q m \<longleftrightarrow> (\<forall>s. I s \<longrightarrow> Q (snd (m s)))"

lemma ensures_preserves: "preserves I m \<Longrightarrow> (\<And>s. I s \<Longrightarrow> Q s) \<Longrightarrow> ensures I Q m"
  by (simp add: ensures_def preserves_def)

lemma ensures_andthen:
  "preserves I m \<Longrightarrow> (\<And>a. ensures I Q (f a)) \<Longrightarrow> (\<And>s. I s \<Longrightarrow> Q s) \<Longrightarrow> ensures I Q (andthen m f)"
  unfolding ensures_def preserves_def andthen_def
  by (simp split: prod.splits sum.splits) (metis snd_conv)

lemma ensures_then:
  "ensures I Q m \<Longrightarrow> (\<And>a. preserves Q (f a)) \<Longrightarrow> ensures I Q (andthen m f)"
  unfolding ensures_def preserves_def andthen_def
  by (simp split: prod.splits sum.splits) (metis snd_conv)

lemma ensures_last:
  "ensures I Q m \<Longrightarrow> (\<And>a. read_only (f a)) \<Longrightarrow> ensures I Q (andthen m f)"
  unfolding ensures_def read_only_def andthen_def
  by (simp split: prod.splits sum.splits) (metis snd_conv)

lemma ensures_if: "(b \<Longrightarrow> ensures I Q m) \<Longrightarrow> (\<not> b \<Longrightarrow> ensures I Q n) \<Longrightarrow> ensures I Q (if b then m else n)"
  by simp

lemma ensures_option:
  "(x = None \<Longrightarrow> ensures I Q m) \<Longrightarrow> (\<And>y. x = Some y \<Longrightarrow> ensures I Q (f y)) \<Longrightarrow>
   ensures I Q (case x of None \<Rightarrow> m | Some y \<Rightarrow> f y)"
  by (cases x) auto

lemma ensures_prod: "(\<And>a b. p = (a, b) \<Longrightarrow> ensures I Q (f a b)) \<Longrightarrow> ensures I Q (case p of (a, b) \<Rightarrow> f a b)"
  by (cases p) simp

lemmas ensures_intros = ensures_andthen ensures_if ensures_option ensures_prod

text \<open>
  What a predicate on the session table needs to survive every call: revoking rows, starting a
  fresh family, and replacing a live row by a new one of its family.
\<close>

definition revokes :: "(auth_session \<Rightarrow> auth_session) \<Rightarrow> bool" where
  "revokes g \<longleftrightarrow> (\<forall>x. sess_family (g x) = sess_family x \<and> sess_tenant (g x) = sess_tenant x
     \<and> sess_user (g x) = sess_user x \<and> sess_revoked_at (g x) \<noteq> None)"

lemma revokes_stamp [simp]: "revokes (\<lambda>x. x\<lparr>sess_revoked_at := Some now\<rparr>)"
  "revokes (\<lambda>x. x\<lparr>sess_last_used_at := l, sess_revoked_at := Some now\<rparr>)"
  by (simp_all add: revokes_def)

definition fresh_family :: "draw \<Rightarrow> auth_state \<Rightarrow> bool" where
  "fresh_family d s \<longleftrightarrow> list_all (\<lambda>x. sess_family x \<noteq> dr_family d) (sessions (a_committed s))"

locale session_invariant =
  fixes S :: "auth_session list \<Rightarrow> bool"
  assumes revoked: "S ss \<Longrightarrow> revokes g \<Longrightarrow> S (upd_rows P' g ss)"
    and started: "S ss \<Longrightarrow> sess_family row \<notin> sess_family ` set ss \<Longrightarrow> S (ss @ [row])"
    and continued: "S ss \<Longrightarrow> x \<in> set ss \<Longrightarrow> sess_revoked_at x = None \<Longrightarrow> sess_family row = sess_family x \<Longrightarrow>
      sess_tenant row = sess_tenant x \<Longrightarrow> revokes g \<Longrightarrow>
      S (upd_rows (\<lambda>y. sess_id y = sess_id x) g ss @ [row])"
begin

definition held :: "auth_state \<Rightarrow> bool" where
  "held s \<longleftrightarrow> S (sessions (a_db s)) \<and> S (sessions (a_committed s))"

definition held_fresh :: "uuid \<Rightarrow> auth_state \<Rightarrow> bool" where
  "held_fresh f s \<longleftrightarrow> held s \<and> f \<notin> sess_family ` set (sessions (a_db s))"

lemma held_on_db: "keeps_sessions m \<Longrightarrow> preserves held (on_db m)"
  by (auto simp: preserves_def keeps_sessions_def held_def on_db_def split: prod.splits) (metis snd_conv)

lemma fresh_on_db: "keeps_sessions m \<Longrightarrow> preserves (held_fresh f) (on_db m)"
  by (auto simp: preserves_def keeps_sessions_def held_def held_fresh_def on_db_def split: prod.splits)
    (metis snd_conv imageI)+

lemma held_redis: "preserves held (on_redis g)" "preserves (held_fresh f) (on_redis g)"
  "preserves held (soft_redis h)" "preserves (held_fresh f) (soft_redis h)"
  by (auto simp: preserves_def held_def held_fresh_def on_redis_def soft_redis_def split: prod.splits)

lemma held_revoke: "revokes g \<Longrightarrow> preserves held (on_db (modify (session_write i g)))"
  by (simp add: preserves_def held_def on_db_def modify_def session_write_def revoked)

lemma held_revoke_all: "preserves held (on_db (modify (revoke_all_for_user tn user now)))"
  by (simp add: preserves_def held_def on_db_def modify_def revoke_all_for_user_def revoked)

lemma held_revoke_family: "preserves held (revoke_family_committed tn f now)"
  by (simp add: preserves_def held_def revoke_family_committed_def modify_def revoke_family_def revoked)

lemma held_fresh_held: "held_fresh f s \<Longrightarrow> held s"
  by (simp add: held_fresh_def)

lemma held_issue: "ensures (held_fresh (dr_family d)) held (issue w d now ident client None)"
proof -
  have "ensures (held_fresh (dr_family d)) held (on_db (add_session row))" if "sess_family row = dr_family d" for row
    using that by (simp add: ensures_def held_fresh_def held_def on_db_def add_session_def started)
  moreover have "preserves held (track_jti w u jti now)" for u jti by (simp add: track_jti_def held_redis)
  ultimately show ?thesis
    unfolding issue_def create_access_token_def
    by (intro ensures_then) (auto intro: preserves_intros)
qed

lemma held_force_logout: "preserves held (force_logout_user w now tn user)"
  unfolding force_logout_user_def revoke_tracked_jtis_def
  by (intro preserves_intros held_revoke_all held_redis)

lemma held_consume: "preserves held (consume_token w k now)"
  unfolding consume_token_def by (intro preserves_intros held_redis)

lemma held_denylist: "preserves held (denylist_jti w jti now)"
  unfolding denylist_jti_def by (rule held_redis)

lemma held_verification: "preserves held (send_email_verification w d now ident)"
  "preserves (held_fresh f) (send_email_verification w d now ident)"
  unfolding send_email_verification_def send_auth_email_def
  by (intro preserves_intros held_redis held_on_db fresh_on_db keeps_sessions_users)+

lemma held_replace:
  assumes inv: "held s" and x: "x \<in> set (sessions (a_db s))" "sess_revoked_at x = None"
    and tn: "ident_tenant ident = sess_tenant x" and g: "revokes g"
  shows "held (snd (andthen (on_db (modify (session_write (sess_id x) g)))
     (\<lambda>_. issue w d now ident client (Some (sess_family x))) s))"
proof -
  define s1 where "s1 = s\<lparr>a_db := session_write (sess_id x) g (a_db s)\<rparr>"
  have add: "ensures (\<lambda>s. s = s1) held (on_db (add_session row))"
    if "sess_family row = sess_family x" "sess_tenant row = sess_tenant x" for row
    using inv x that g
    by (auto simp: ensures_def held_def on_db_def add_session_def s1_def session_write_def revoked
        intro: continued)
  have track: "preserves held (track_jti w u jti now)" for u jti by (simp add: track_jti_def held_redis)
  have "ensures (\<lambda>s. s = s1) held (issue w d now ident client (Some (sess_family x)))"
    unfolding issue_def create_access_token_def
    by (intro ensures_then add) (auto simp: tn intro: preserves_intros track)
  then show ?thesis by (simp add: ensures_def andthen_def on_db_def modify_def s1_def)
qed

lemma held_refresh: "preserves held (refresh w d now tn presented client)"
proof (cases "str_given presented")
  case True
  have rot: "held (snd (rotate_session w d now tn x client s))"
    if inv: "held s" and found: "session_by_token_hash tn h (a_db s) = Some x" for s x h
  proof -
    from found have x: "x \<in> set (sessions (a_db s))" "sess_tenant x = tn"
      by (auto simp: session_by_token_hash_def dest: find_in)
    consider "sess_revoked_at x \<noteq> None"
      | "sess_revoked_at x = None" "get_identity_if_active tn (sess_user x) (a_db s) = None \<or> sess_expires_at x \<le> now"
      | ident where "sess_revoked_at x = None" "get_identity_if_active tn (sess_user x) (a_db s) = Some ident"
        "\<not> sess_expires_at x \<le> now" by fastforce
    then show ?thesis
    proof cases
      case 1
      have "preserves held (andthen (revoke_family_committed tn (sess_family x) now) (\<lambda>_. raise bad_refresh
          :: issued_tokens auth_action))"
        by (intro preserves_intros held_revoke_family)
      with inv 1 show ?thesis by (simp add: rotate_session_def preserves_def)
    next
      case 2
      with inv show ?thesis by (auto simp: rotate_session_def raise_def)
    next
      case (3 ident)
      from 3(2) have "ident_tenant ident = tn" by (rule get_identity_if_active_Some)
      with held_replace [OF inv x(1) 3(1) _ revokes_stamp(2)] x(2) 3 show ?thesis by (simp add: rotate_session_def)
    qed
  qed
  show ?thesis unfolding preserves_def
  proof (intro allI impI)
    fix s assume "held s"
    with True rot show "held (snd (refresh w d now tn presented client s))"
      by (auto simp: refresh_def raise_def split: option.splits)
  qed
qed (simp add: refresh_def preserves_intros)

lemma held_request:
  assumes "ensures I held m" "I (s\<lparr>a_db := a_committed s\<rparr>)"
  shows "held (snd (run_auth m s))"
proof -
  obtain r t where m: "m (s\<lparr>a_db := a_committed s\<rparr>) = (r, t)" by fastforce
  with assms have "held t" by (metis ensures_def snd_conv)
  with m show ?thesis by (auto simp: run_auth_def Let_def held_def split: sum.splits)
qed

lemma held_start: "held s \<Longrightarrow> held (s\<lparr>a_db := a_committed s\<rparr>)"
  by (simp add: held_def)

lemma held_start_fresh: "held s \<Longrightarrow> fresh_family d s \<Longrightarrow> held_fresh (dr_family d) (s\<lparr>a_db := a_committed s\<rparr>)"
  by (auto simp: held_def held_fresh_def fresh_family_def list_all_iff)

lemma held_preserving: "preserves held m \<Longrightarrow> held s \<Longrightarrow> held (snd (run_auth m s))"
  by (rule held_request [OF ensures_preserves [of held] held_start])

lemma held_starting:
  "ensures (held_fresh (dr_family d)) held m \<Longrightarrow> held s \<Longrightarrow> fresh_family d s \<Longrightarrow> held (snd (run_auth m s))"
  using held_request [where I = "held_fresh (dr_family d)"] held_start_fresh by blast

lemma fresh_basics:
  "ensures (held_fresh f) held (raise e)" "ensures (held_fresh f) held (ret a)"
  "preserves (held_fresh f) (gets g)" "preserves (held_fresh f) (raise e)" "preserves (held_fresh f) (ret a)"
  by (simp_all add: ensures_def preserves_def raise_def ret_def gets_def held_fresh_held)

lemma fresh_modify_redis: "preserves (held_fresh f) (modify (\<lambda>s. s\<lparr>a_redis := h s\<rparr>))"
  by (simp add: preserves_def modify_def held_fresh_def held_def)

lemma fresh_register: "ensures (held_fresh (dr_family d)) held (register_user w d now t data pw client)"
  unfolding register_user_def reject_breached_password_def
  by (intro ensures_intros held_issue held_verification(2) fresh_on_db keeps_sessions_users)
    (auto simp: held_fresh_held fresh_basics)

lemma fresh_login: "ensures (held_fresh (dr_family d)) held (login w d now tn email pw client)"
  unfolding login_def Let_def start_mfa_challenge_def
  by (intro ensures_intros fresh_basics fresh_modify_redis fresh_on_db keeps_sessions_users held_redis
        ensures_last [OF held_issue] read_only_intros)
    (auto simp: held_fresh_held)

lemma fresh_mfa: "ensures (held_fresh (dr_family d)) held (verify_mfa w d now tn ticket code client)"
  unfolding verify_mfa_def
  by (intro ensures_intros fresh_basics held_redis held_issue) (auto simp: held_fresh_held)

lemma fresh_oauth: "ensures (held_fresh (dr_family d)) held (complete_oauth w d now t provider exchanged state client)"
  unfolding complete_oauth_def oauth_provider_def
  by (intro ensures_intros fresh_on_db keeps_sessions_users held_redis held_issue)
    (auto simp: held_fresh_held fresh_basics)

lemma held_step:
  assumes "auth_step w fresh_family now s s'" "held s"
  shows "held s'"
  using assms(1)
proof cases
  case (step_register d t data pw client)
  show ?thesis unfolding step_register(1) by (rule held_starting [OF fresh_register assms(2) step_register(2)])
next
  case (step_login d client tn email pw)
  show ?thesis unfolding step_login(1) by (rule held_starting [OF fresh_login assms(2) step_login(2)])
next
  case (step_mfa d tn ticket code client)
  show ?thesis unfolding step_mfa(1) by (rule held_starting [OF fresh_mfa assms(2) step_mfa(2)])
next
  case (step_refresh d tn presented client)
  show ?thesis unfolding step_refresh(1) by (rule held_preserving [OF held_refresh assms(2)])
next
  case (step_logout tn presented jti)
  show ?thesis unfolding step_logout logout_def
    by (intro held_preserving assms(2) preserves_intros held_revoke held_denylist) simp
next
  case (step_logout_all tn user jti)
  show ?thesis unfolding step_logout_all logout_all_def
    by (intro held_preserving assms(2) preserves_intros held_force_logout held_denylist)
next
  case (step_forgot d tn email)
  show ?thesis unfolding step_forgot(1) forgot_password_def send_auth_email_def
    by (intro held_preserving assms(2) preserves_intros held_redis held_on_db keeps_sessions_users)
next
  case (step_reset d tn token pw)
  show ?thesis unfolding step_reset(1) reset_password_def reject_breached_password_def
    by (intro held_preserving assms(2) preserves_intros held_consume held_force_logout held_on_db keeps_sessions_users)
next
  case (step_resend d tn user)
  show ?thesis unfolding step_resend(1) resend_email_verification_def
    by (intro held_preserving assms(2) preserves_intros held_verification)
next
  case (step_verify tn token)
  show ?thesis unfolding step_verify verify_email_def
    by (intro held_preserving assms(2) preserves_intros held_consume held_on_db keeps_sessions_users)
next
  case (step_revoke tn user i)
  show ?thesis unfolding step_revoke revoke_session_def
    by (intro held_preserving assms(2) preserves_intros held_revoke) simp
next
  case (step_begin_mfa tn user secret)
  show ?thesis unfolding step_begin_mfa auth_begin_mfa_def
    by (intro held_preserving assms(2) preserves_intros held_on_db keeps_sessions_users)
next
  case (step_confirm_mfa tn user code)
  show ?thesis unfolding step_confirm_mfa auth_confirm_mfa_def
    by (intro held_preserving assms(2) preserves_intros held_on_db keeps_sessions_users)
next
  case (step_disable_mfa tn user pw)
  show ?thesis unfolding step_disable_mfa auth_disable_mfa_def
    by (intro held_preserving assms(2) preserves_intros held_on_db keeps_sessions_users)
next
  case (step_start_oauth d url tn provider)
  show ?thesis unfolding step_start_oauth(1) start_oauth_def oauth_provider_def
    by (intro held_preserving assms(2) preserves_intros held_redis)
next
  case (step_oauth d t provider exchanged state client)
  show ?thesis unfolding step_oauth(1) by (rule held_starting [OF fresh_oauth assms(2) step_oauth(2)])
next
  case (step_update_user t user patch admin)
  show ?thesis unfolding step_update_user update_user_route_def
    by (intro held_preserving assms(2) preserves_intros held_force_logout held_on_db keeps_sessions_users)
next
  case (step_delete_user t user admin)
  show ?thesis unfolding step_delete_user delete_user_route_def
    by (intro held_preserving assms(2) preserves_intros held_force_logout held_on_db keeps_sessions_users)
next
  case (step_outage b)
  with assms(2) show ?thesis by (simp add: held_def)
next
  case (step_elsewhere db)
  with assms(2) show ?thesis by (simp add: held_def)
qed

lemma held_run: "auth_run w fresh_family t s t' s' \<Longrightarrow> held s \<Longrightarrow> held s'"
  by (induction rule: auth_run.induct) (auto intro: held_step)

end

section \<open>Families\<close>

definition live :: "auth_session \<Rightarrow> bool" where
  "live x \<longleftrightarrow> sess_revoked_at x = None"

definition live_in_family :: "uuid \<Rightarrow> auth_session list \<Rightarrow> auth_session list" where
  "live_in_family f ss = filter (\<lambda>x. sess_family x = f \<and> live x) ss"

definition one_live :: "auth_session list \<Rightarrow> bool" where
  "one_live ss \<longleftrightarrow> (\<forall>f. length (live_in_family f ss) \<le> 1)"


lemma stamped_rows:
  "y \<in> set (upd_rows P (\<lambda>x. x\<lparr>sess_revoked_at := Some now\<rparr>) ss) \<Longrightarrow> live y \<Longrightarrow> y \<in> set ss \<and> \<not> P y"
  by (auto simp: upd_rows_def live_def split: if_splits)

lemma live_in_family_revoked:
  "revokes g \<Longrightarrow> live_in_family f (upd_rows P g ss) = filter (\<lambda>x. \<not> P x) (live_in_family f ss)"
  by (induction ss) (auto simp: live_in_family_def upd_rows_def revokes_def live_def)


interpretation families: session_invariant one_live
proof unfold_locales
  fix ss g P assume "one_live ss" "revokes g"
  then show "one_live (upd_rows P g ss)"
    unfolding one_live_def by (metis live_in_family_revoked length_filter_le le_trans)
next
  fix ss and row :: auth_session assume "one_live ss" "sess_family row \<notin> sess_family ` set ss"
  moreover from this(2) have "live_in_family (sess_family row) ss = []"
    by (auto simp: live_in_family_def filter_empty_conv image_iff)
  ultimately show "one_live (ss @ [row])" by (auto simp: one_live_def live_in_family_def)
next
  fix ss x and row :: auth_session and g
  assume one: "one_live ss" and x: "x \<in> set ss" "sess_revoked_at x = None"
    and row: "sess_family row = sess_family x" and g: "revokes g"
  let ?ss = "upd_rows (\<lambda>y. sess_id y = sess_id x) g ss"
  from x have "x \<in> set (live_in_family (sess_family x) ss)" by (simp add: live_in_family_def live_def)
  moreover from one have "length (live_in_family (sess_family x) ss) \<le> 1" by (simp add: one_live_def)
  ultimately have "live_in_family (sess_family x) ss = [x]"
    by (cases "live_in_family (sess_family x) ss") auto
  then have "live_in_family (sess_family x) ?ss = []" by (simp add: live_in_family_revoked [OF g])
  moreover have "length (live_in_family f ?ss) \<le> 1" for f
    using one unfolding one_live_def live_in_family_revoked [OF g] by (metis length_filter_le le_trans)
  ultimately show "one_live (?ss @ [row])"
    by (auto simp: one_live_def live_in_family_def row)
qed


text \<open>
  The rows of a login chain share a family, and at every moment at most one of them is live,
  after any history of requests that do not overlap and start fresh families, on any account.
  The presented session is read without a lock: requests that overlap are left out, and
  \<open>racing_refreshes_fork_the_family\<close> shows what they do.
\<close>

lemma one_live_session_per_family:
  assumes "auth_run w fresh_family t s t' s'" and "sessions (a_committed s) = []" and "sessions (a_db s) = []"
  shows "length (live_in_family f (sessions (a_committed s'))) \<le> 1"
proof -
  have "families.held s" using assms(2,3) by (simp add: families.held_def one_live_def live_in_family_def)
  from families.held_run [OF assms(1) this] show ?thesis by (simp add: families.held_def one_live_def)
qed


text \<open>
  Requests that do not overlap: a failure is only counted when the lock of the last one is over,
  so with sane settings every lock is over after two failure windows of quiet, for any account
  and any address, whatever attempts came before and however Redis failed in between. Attempts
  that overlap can push a lock up to the configured maximum (\<open>Lockout.locks_bounded\<close>).
\<close>

lemma serial_locks_stay_short:
  assumes "auth_run w P t s t' s'" and "a_redis s = empty_redis"
    and "sane (lockout_config (aw_settings w))" and "hex_digest (aw_sha w)" and "address ip"
    and "t' + seconds (2 * login_failure_window_seconds (lockout_config (aw_settings w))) \<le> later"
  shows "\<not> is_locked (account_key (aw_sha w) scope email) (ip_key ip) later (a_redis s')"
proof -
  have "locks_inv w t (a_redis s)"
    by (simp add: assms(2) locks_inv_def lock_inv_def key_inv_def empty_redis_def)
  from locks.kept_run [OF assms(1) _ this] assms(3,4)
  have "lock_inv (aw_sha w) (lockout_config (aw_settings w)) t' (a_redis s')" by (simp add: locks_inv_def)
  from lock_inv_released [OF this assms(5,6)] show ?thesis .
qed

section \<open>Forced logout\<close>

text \<open>The calls that hand out tokens, and those that log an account out everywhere.\<close>

inductive issuing :: "auth_world \<Rightarrow> instant \<Rightarrow> auth_state \<Rightarrow> issued_tokens \<Rightarrow> auth_state \<Rightarrow> bool" for w now s tok s' where
  "run_auth (register_user w d now t data pw client) s = (Inr tok, s') \<Longrightarrow> issuing w now s tok s'"
| "run_auth (login w d now tn email pw client) s = (Inr (LoggedIn tok), s') \<Longrightarrow> issuing w now s tok s'"
| "run_auth (verify_mfa w d now tn ticket code client) s = (Inr tok, s') \<Longrightarrow> issuing w now s tok s'"
| "run_auth (refresh w d now tn presented client) s = (Inr tok, s') \<Longrightarrow> issuing w now s tok s'"
| "run_auth (complete_oauth w d now t provider exchanged state client) s = (Inr tok, s') \<Longrightarrow>
     issuing w now s tok s'"

definition reset_code_for :: "auth_world \<Rightarrow> instant \<Rightarrow> string \<Rightarrow> redis \<Rightarrow> uuid option" where
  "reset_code_for w now token r = (case redis_get (RESET_KEY (hash_token w token)) now r of
      None \<Rightarrow> None | Some v \<Rightarrow> uuid_of_text (aw_world w) v)"

inductive logs_out :: "auth_world \<Rightarrow> instant \<Rightarrow> uuid option \<Rightarrow> uuid \<Rightarrow> auth_state \<Rightarrow> auth_state \<Rightarrow> bool"
  for w now tn user s s' where
  "run_auth (logout_all w now tn user jti) s = (Inr (), s') \<Longrightarrow> logs_out w now tn user s s'"
| "run_auth (reset_password w d now tn token pw) s = (Inr (), s') \<Longrightarrow>
     reset_code_for w now token (a_redis s) = Some user \<Longrightarrow> logs_out w now tn user s s'"
| "run_auth (update_user_route w now t user patch admin) s = (Inr (), s') \<Longrightarrow> tn = Some t \<Longrightarrow>
     uau_role patch \<noteq> Unset \<or> uau_status patch = SetTo DISABLED \<Longrightarrow> logs_out w now tn user s s'"
| "run_auth (delete_user_route w now t user admin) s = (Inr (), s') \<Longrightarrow> tn = Some t \<Longrightarrow>
     logs_out w now tn user s s'"

text \<open>A triple on the returns of a call.\<close>

definition yields :: "('s \<Rightarrow> bool) \<Rightarrow> ('s, 'a) action \<Rightarrow> ('a \<Rightarrow> 's \<Rightarrow> bool) \<Rightarrow> bool" where
  "yields I m Q \<longleftrightarrow> (\<forall>s a t. I s \<longrightarrow> m s = (Inr a, t) \<longrightarrow> Q a t)"

lemma yieldsD: "yields I m Q \<Longrightarrow> I s \<Longrightarrow> m s = (Inr a, t) \<Longrightarrow> Q a t"
  by (simp add: yields_def)

lemma yields_andthen: "preserves I m \<Longrightarrow> (\<And>a. yields I (f a) Q) \<Longrightarrow> yields I (andthen m f) Q"
  by (force simp: yields_def preserves_def andthen_Inr_iff)

lemma yields_raise: "yields I (raise e) Q"
  by (simp add: yields_def raise_def)

lemma yields_if: "(b \<Longrightarrow> yields I m Q) \<Longrightarrow> (\<not> b \<Longrightarrow> yields I n Q) \<Longrightarrow> yields I (if b then m else n) Q"
  by simp

lemma yields_option:
  "(x = None \<Longrightarrow> yields I m Q) \<Longrightarrow> (\<And>y. x = Some y \<Longrightarrow> yields I (f y) Q) \<Longrightarrow>
   yields I (case x of None \<Rightarrow> m | Some y \<Rightarrow> f y) Q"
  by (cases x) auto

lemma yields_prod: "(\<And>a b. p = (a, b) \<Longrightarrow> yields I (f a b) Q) \<Longrightarrow> yields I (case p of (a, b) \<Rightarrow> f a b) Q"
  by (cases p) simp

lemmas yields_intros = yields_andthen yields_raise yields_if yields_option yields_prod

text \<open>Redis stays up during a request.\<close>

definition redis_up :: "auth_state \<Rightarrow> bool" where
  "redis_up s \<longleftrightarrow> r_up (a_redis s)"

lemma up_on_db: "preserves redis_up (on_db m)"
  by (auto simp: preserves_def redis_up_def on_db_def split: prod.splits)

lemma up_put: "preserves redis_up (on_redis (\<lambda>r. ((), redis_set k v ttl now r)))"
  by (simp add: preserves_def redis_up_def on_redis_def redis_set_def)

lemma up_take: "preserves redis_up (on_redis (redis_getdel k now))"
  by (simp add: preserves_def redis_up_def on_redis_def redis_getdel_def)

lemma up_lockout: "preserves redis_up (modify (\<lambda>s. s\<lparr>a_redis := reset a b (a_redis s)\<rparr>))"
  "preserves redis_up (modify (\<lambda>s. s\<lparr>a_redis := record_failure st a b now (a_redis s)\<rparr>))"
  by (simp_all add: preserves_def redis_up_def modify_def reset_def redis_delete_def record_failure_def
      redis_incr_expire_def lock_if_over_def redis_set_def Let_def)

definition in_reach :: "auth_world \<Rightarrow> instant \<Rightarrow> issued_tokens \<Rightarrow> redis \<Rightarrow> bool" where
  "in_reach w now tok r = reachable_token w (ident_id (issued_user tok)) (claim_jti (issued_claims tok))
     (issued_expires tok) now r"

lemma on_db_redis: "on_db m s = (r, t) \<Longrightarrow> a_redis t = a_redis s"
  by (auto simp: on_db_def split: prod.splits)

lemma tracked_in_reach: "r_up r \<Longrightarrow> reachable_token w user jti (now + seconds (access_token_ttl_seconds (aw_settings w))) now
   (redis_sadd_expire (user_jtis_key w user) jti (access_token_ttl_seconds (aw_settings w)) now r)"
  by (auto simp: reachable_token_def redis_sadd_expire_def Let_def)

lemma issue_tracks: "yields redis_up (issue w d now ident client family) (\<lambda>tok s. in_reach w now tok (a_redis s))"
  unfolding yields_def
proof (intro allI impI)
  fix s tok t assume up: "redis_up s" and run: "issue w d now ident client family s = (Inr tok, t)"
  obtain u s1 where add: "a_redis s1 = a_redis s"
    and rest: "andthen (track_jti w (ident_id ident) (dr_jti d) now) (\<lambda>_. ret \<lparr>issued_user = ident,
      issued_claims = fst (create_access_token ident (dr_jti d) (access_token_ttl_seconds (aw_settings w)) None now),
      issued_expires = now + seconds (access_token_ttl_seconds (aw_settings w)),
      issued_refresh = dr_refresh d\<rparr>) s1 = (Inr tok, t)"
    using run unfolding issue_def andthen_Inr_iff [of "on_db _"]
    by (elim exE conjE) (drule on_db_redis, simp add: create_access_token_def)
  from add up have "r_up (a_redis s1)" by (simp add: redis_up_def)
  with rest tracked_in_reach [OF this, of w "ident_id ident" "dr_jti d" now] show "in_reach w now tok (a_redis t)"
    by (simp add: andthen_def track_jti_def soft_redis_def ret_def in_reach_def create_access_token_def) fastforce
qed

lemma yields_request:
  assumes "yields I m Q" "I (s\<lparr>a_db := a_committed s\<rparr>)" "run_auth m s = (Inr a, s')"
  obtains t where "Q a t" "s' = t\<lparr>a_committed := a_db t\<rparr>"
proof -
  obtain r t where m: "m (s\<lparr>a_db := a_committed s\<rparr>) = (r, t)" by fastforce
  with assms(3) have r: "r = Inr a" and s': "s' = t\<lparr>a_committed := a_db t\<rparr>"
    by (auto simp: run_auth_def Let_def split: sum.splits)
  from yieldsD [OF assms(1,2) m [unfolded r]] s' show thesis by (rule that)
qed

lemma in_reach_request:
  assumes "yields redis_up m (\<lambda>a s. Q a (a_redis s))" "redis_up s" "run_auth m s = (Inr a, s')"
  shows "Q a (a_redis s')"
  by (rule yields_request [OF assms(1) _ assms(3)]) (use assms(2) in \<open>simp_all add: redis_up_def\<close>)

lemma login_tokens: "yields redis_up (andthen (issue w d now ident client None) (\<lambda>tok. ret (LoggedIn tok)))
   (\<lambda>a s. \<forall>tok. a = LoggedIn tok \<longrightarrow> in_reach w now tok (a_redis s))"
  using issue_tracks [of w d now ident client None] by (fastforce simp: yields_def andthen_Inr_iff basic_iff)

lemma mfa_no_tokens: "yields I (start_mfa_challenge w d now ident) (\<lambda>a s. \<forall>tok. a = LoggedIn tok \<longrightarrow> Q tok s)"
  by (auto simp: yields_def start_mfa_challenge_def Let_def andthen_Inr_iff basic_iff)

lemma issuing_tracks: "issuing w now s tok s' \<Longrightarrow> redis_up s \<Longrightarrow> in_reach w now tok (a_redis s')"
proof (induction rule: issuing.cases)
  case (1 d t data pw client)
  show ?case
    by (rule in_reach_request [OF _ 1(2) 1(1)], unfold register_user_def reject_breached_password_def
          send_email_verification_def send_auth_email_def)
      (intro yields_intros preserves_intros up_on_db up_put issue_tracks)
next
  case (2 d tn email pw client)
  have "yields redis_up (login w d now tn email pw client)
      (\<lambda>a s. \<forall>tok. a = LoggedIn tok \<longrightarrow> in_reach w now tok (a_redis s))"
    unfolding login_def Let_def
    by (intro yields_intros login_tokens mfa_no_tokens preserves_intros up_on_db up_lockout)
  from in_reach_request [OF this 2(2) 2(1)] show ?case by simp
next
  case (3 d tn ticket code client)
  show ?case
    by (rule in_reach_request [OF _ 3(2) 3(1)], unfold verify_mfa_def)
      (intro yields_intros preserves_intros up_take issue_tracks)
next
  case (4 d tn presented client)
  show ?case
    by (rule in_reach_request [OF _ 4(2) 4(1)], unfold refresh_def rotate_session_def revoke_family_committed_def)
      (intro yields_intros preserves_intros up_on_db issue_tracks, simp add: redis_up_def)
next
  case (5 d t provider exchanged state client)
  show ?case
    by (rule in_reach_request [OF _ 5(2) 5(1)], unfold complete_oauth_def oauth_provider_def)
      (intro yields_intros preserves_intros up_on_db up_take issue_tracks)
qed

lemma yields_bind: "yields I m J \<Longrightarrow> (\<And>a. yields (J a) (f a) Q) \<Longrightarrow> yields I (andthen m f) Q"
  by (fastforce simp: yields_def andthen_Inr_iff)

lemma yields_then: "yields I m (\<lambda>_. Q) \<Longrightarrow> (\<And>a. preserves Q (f a)) \<Longrightarrow> yields I (andthen m f) (\<lambda>_. Q)"
  unfolding yields_def andthen_Inr_iff by (blast intro: preservesD)

definition logged_out :: "uuid option \<Rightarrow> uuid \<Rightarrow> auth_session list \<Rightarrow> bool" where
  "logged_out tn user ss \<longleftrightarrow> filter (\<lambda>x. sess_tenant x = tn \<and> sess_user x = user \<and> live x) ss = []"

text \<open>Before a forced logout, and after it.\<close>

definition tracked_state :: "auth_world \<Rightarrow> instant \<Rightarrow> uuid \<Rightarrow> string \<Rightarrow> instant \<Rightarrow> auth_state \<Rightarrow> bool" where
  "tracked_state w now user jti until s \<longleftrightarrow> redis_up s \<and> reachable_token w user jti until now (a_redis s)"

definition out_state :: "auth_world \<Rightarrow> instant \<Rightarrow> uuid option \<Rightarrow> uuid \<Rightarrow> string \<Rightarrow> instant \<Rightarrow> auth_state \<Rightarrow> bool" where
  "out_state w now tn user jti until s \<longleftrightarrow>
     denied_token w jti until now (a_redis s) \<and> logged_out tn user (sessions (a_db s))"

lemma revoke_all_logs_out: "logged_out tn user (sessions (revoke_all_for_user tn user now db))"
proof -
  have "\<not> (sess_tenant y = tn \<and> sess_user y = user \<and> live y)"
    if "y \<in> set (sessions (revoke_all_for_user tn user now db))" for y
    using stamped_rows [OF that [unfolded revoke_all_for_user_def, simplified]] by (auto simp: live_def)
  then show ?thesis by (auto simp: logged_out_def filter_empty_conv)
qed

lemma revoking_denies:
  assumes "reachable_token w user jti until now r"
  shows "denied_token w jti until now (revoke_jtis w user now r)"
proof -
  define jtis where "jtis = redis_smembers (user_jtis_key w user) now r"
  have key: "r_text (redis_delete [user_jtis_key w user] r') (jti_denylist_key jti) = r_text r' (jti_denylist_key jti)" for r'
    by (simp add: redis_delete_def)
  show ?thesis
  proof (cases "jti \<in> set jtis")
    case True
    with assms show ?thesis
      by (auto simp: revoke_jtis_def denied_token_def reachable_token_def Let_def key deny_all_denies simp flip: jtis_def)
  next
    case False
    with assms have "denied_token w jti until now r"
      by (auto simp: denied_token_def reachable_token_def jtis_def redis_smembers_def alive_def
          split: option.splits if_splits)
    with False show ?thesis by (simp add: revoke_jtis_def denied_token_def Let_def key deny_all_denies flip: jtis_def)
  qed
qed

lemma force_logout_out:
  "yields (tracked_state w now user jti until) (force_logout_user w now tn user)
     (\<lambda>_. out_state w now tn user jti until)"
  using revoking_denies revoke_all_logs_out
  by (simp add: yields_def force_logout_user_def revoke_tracked_jtis_def soft_redis_def on_db_def modify_def
      andthen_def tracked_state_def redis_up_def out_state_def)

lemma tracked_on_db: "preserves (tracked_state w now user jti until) (on_db m)"
  by (auto simp: preserves_def tracked_state_def redis_up_def on_db_def split: prod.splits)

lemma consume_code:
  "yields (\<lambda>s. tracked_state w now user jti until s \<and> reset_code_for w now token (a_redis s) = Some u)
     (consume_token w (RESET_KEY (hash_token w token)) now)
     (\<lambda>i s. i = u \<and> tracked_state w now user jti until s)"
  by (auto simp: yields_def consume_token_def andthen_Inr_iff on_redis_def redis_getdel_def redis_get_def
      reset_code_for_def tracked_state_def redis_up_def reachable_token_def basic_iff
      split: option.splits if_splits)

lemma logs_out_effect:
  assumes "logs_out w now tn user s s'" "redis_up s" "reachable_token w user jti until now (a_redis s)"
  shows "denied_token w jti until now (a_redis s') \<and> logged_out tn user (sessions (a_committed s'))"
proof -
  let ?I = "tracked_state w now user jti until" and ?Q = "out_state w now tn user jti until"
  have start: "?I (s\<lparr>a_db := a_committed s\<rparr>)" using assms(2,3) by (simp add: tracked_state_def redis_up_def)
  have finish: ?thesis if "?Q t" "s' = t\<lparr>a_committed := a_db t\<rparr>" for t
    using that by (simp add: out_state_def)
  from assms(1) show ?thesis
  proof cases
    case (1 jti')
    have "preserves ?Q (denylist_jti w jti' now)"
      using denied.deny by (simp add: preserves_def denylist_jti_def soft_redis_def out_state_def)
    then have "yields ?I (logout_all w now tn user jti') (\<lambda>_. ?Q)"
      unfolding logout_all_def by (intro yields_then force_logout_out)
    from yields_request [OF this start 1] finish show ?thesis by blast
  next
    case (2 d token pw)
    have code: "yields (\<lambda>s. i = user \<and> ?I s) (andthen (on_db (set_password tn i (dr_password_hash d)))
        (\<lambda>found. case found of
          None \<Rightarrow> raise (UnauthorizedError ''The reset token is invalid or has expired.'')
        | Some ident \<Rightarrow> force_logout_user w now tn i)) (\<lambda>_. ?Q)" for i
    proof (cases "i = user")
      case True
      have "yields ?I (andthen (on_db (set_password tn i (dr_password_hash d)))
        (\<lambda>found. case found of
          None \<Rightarrow> raise (UnauthorizedError ''The reset token is invalid or has expired.'')
        | Some ident \<Rightarrow> force_logout_user w now tn i)) (\<lambda>_. ?Q)"
        unfolding True by (intro yields_andthen tracked_on_db yields_option yields_raise force_logout_out)
      with True show ?thesis by simp
    qed (simp add: yields_def)
    have "yields (\<lambda>s. ?I s \<and> reset_code_for w now token (a_redis s) = Some user)
       (reset_password w d now tn token pw) (\<lambda>_. ?Q)"
      unfolding reset_password_def reject_breached_password_def
      by (rule yields_andthen [OF _ yields_bind [OF consume_code code]]) (intro preserves_intros)
    from yields_request [OF this _ 2(1)] start 2(2) finish show ?thesis by fastforce
  next
    case (3 t patch admin)
    have "yields ?I (update_user_route w now t user patch admin) (\<lambda>_. ?Q)"
      unfolding update_user_route_def using 3(3) force_logout_out 3(2)
      by (intro yields_andthen tracked_on_db) auto
    from yields_request [OF this start 3(1)] finish show ?thesis by blast
  next
    case (4 t admin)
    have "yields ?I (delete_user_route w now t user admin) (\<lambda>_. ?Q)"
      unfolding delete_user_route_def using force_logout_out 4(2)
      by (intro yields_andthen tracked_on_db) auto
    from yields_request [OF this start 4(1)] finish show ?thesis by blast
  qed
qed

text \<open>
  C4: a logout-all, a completed password reset, a disabling, a demotion or a deletion reaches every
  access token that registration, login, the second factor, a refresh or a social login gave the
  account while Redis answered: when Redis also answers at the logout, the token is refused from
  then on whenever Redis answers, whatever requests came in between and come afterwards, and no
  session of the account is left. Requests do not overlap. Tokens of an impersonation are left
  out: no logout reaches them (\<open>impersonation_outlives_forced_logout\<close>).
\<close>

theorem forced_logout_reaches_tokens:
  assumes "issuing w t0 s0 tok s1" and "redis_up s0" and "auth_run w P t0 s1 t1 s2"
    and "t1 \<le> now" and "logs_out w now tn (ident_id (issued_user tok)) s2 s3" and "redis_up s2"
    and "auth_run w P' now s3 t2 s4" and "redis_up s4" and "t2 \<le> later" and "later < issued_expires tok"
  shows "filter (\<lambda>x. sess_tenant x = tn \<and> sess_user x = ident_id (issued_user tok) \<and> live x)
       (sessions (a_committed s3)) = []
    \<and> get_current_user decode (jti_denied later (a_redis s4)) tenant header
       \<noteq> Inr (a\<lparr>actor_jti := claim_jti (issued_claims tok)\<rparr>)"
proof -
  let ?jti = "claim_jti (issued_claims tok)" and ?until = "issued_expires tok"
  from issuing_tracks [OF assms(1,2)]
  have "reachable_token w (ident_id (issued_user tok)) ?jti ?until t0 (a_redis s1)" by (simp add: in_reach_def)
  with tracked.kept_run [OF assms(3)] tracked.later assms(4)
  have "reachable_token w (ident_id (issued_user tok)) ?jti ?until now (a_redis s2)" by blast
  from logs_out_effect [OF assms(5,6) this]
  have out: "denied_token w ?jti ?until now (a_redis s3)"
    "logged_out tn (ident_id (issued_user tok)) (sessions (a_committed s3))" by simp_all
  from denied.kept_run [OF assms(7) _ out(1)] denied.later assms(9)
  have "denied_token w ?jti ?until later (a_redis s4)" by blast
  with assms(8,10) have "jti_denied later (a_redis s4) ?jti = Some True"
    by (auto simp: denied_token_def jti_denied_def redis_up_def redis_get_def alive_def)
  then have "get_current_user decode (jti_denied later (a_redis s4)) tenant header \<noteq> Inr (a\<lparr>actor_jti := ?jti\<rparr>)"
    by (metis get_current_user_Inr actor.select_convs(4) actor.surjective actor.update_convs(4))
  with out(2) show ?thesis by (simp add: logged_out_def)
qed

section \<open>Reset codes\<close>

lemma yields_kept: "preserves Q m \<Longrightarrow> yields Q m (\<lambda>_. Q)"
  by (auto simp: yields_def dest: preservesD)

lemma reset_spends:
  "yields (\<lambda>_. True) (reset_password w d now tn token pw) (\<lambda>_ s. tokens.spent (RESET_KEY (hash_token w token)) (a_redis s))"
proof -
  let ?k = "RESET_KEY (hash_token w token)"
  let ?Q = "\<lambda>s. tokens.spent ?k (a_redis s)"
  have consume: "yields (\<lambda>_. True) (consume_token w ?k now) (\<lambda>_. ?Q)"
    using tokens.spent_taken [of ?k now]
    by (auto simp: yields_def consume_token_def andthen_Inr_iff on_redis_def basic_iff
        split: prod.splits option.splits if_splits) (metis snd_conv)+
  show ?thesis
    unfolding reset_password_def reject_breached_password_def
    by (intro yields_andthen yields_then [OF consume] preserves_intros spent_code.kept_force_logout) auto
qed

lemma spent_code_refused:
  assumes "tokens.spent (RESET_KEY (hash_token w token)) (a_redis s)"
  shows "isl (fst (run_auth (reset_password w d now tn token pw) s))
    \<and> users (a_committed (snd (run_auth (reset_password w d now tn token pw) s))) = users (a_committed s)"
proof -
  obtain r' where gone: "redis_getdel (RESET_KEY (hash_token w token)) now (a_redis s) = (None, r')"
    using tokens.spent_refused [OF assms, of now] by (metis prod.collapse)
  have "\<exists>e t. reset_password w d now tn token pw (s\<lparr>a_db := a_committed s\<rparr>) = (Inl e, t)
      \<and> a_committed t = a_committed s"
    using gone by (simp add: reset_password_def reject_breached_password_def consume_token_def on_redis_def
        andthen_def raise_def ret_def)
  then show ?thesis by (auto simp: run_auth_def Let_def)
qed

text \<open>
  C33: a password-reset code resets at most one password: once it has been redeemed it is refused
  for ever and changes no account, whatever happens in between, unless a later draw repeats it.
\<close>

theorem reset_code_works_once:
  assumes "run_auth (reset_password w d now tn token pw) s = (Inr (), s1)"
    and "auth_run w (\<lambda>d s. hash_token w (dr_code d) \<noteq> hash_token w token) now s1 t' s2"
  shows "isl (fst (run_auth (reset_password w d' later tn' token pw') s2))
    \<and> users (a_committed (snd (run_auth (reset_password w d' later tn' token pw') s2))) = users (a_committed s2)"
proof -
  have "tokens.spent (RESET_KEY (hash_token w token)) (a_redis s1)"
    by (rule yields_request [OF reset_spends _ assms(1)]) simp_all
  with spent_code.kept_run [OF assms(2)] show ?thesis by (intro spent_code_refused) blast
qed

section \<open>The service at work\<close>

definition demo_auth :: "(string \<Rightarrow> string) \<Rightarrow> auth_world" where
  "demo_auth sha = \<lparr>aw_world = \<lparr>uuid_text = (\<lambda>i. replicate i CHR ''i''),
       uuid_of_text = (\<lambda>v. Some (length v)), area_contains = (\<lambda>_ _. False)\<rparr>,
     aw_sha = sha, aw_verify = (=), aw_totp = (=), aw_breached = (\<lambda>_. False), aw_provider = (\<lambda>_. False),
     aw_settings = \<lparr>access_token_ttl_seconds = 900, refresh_token_ttl_days = 30,
       password_reset_ttl_seconds = 1800, email_verification_ttl_seconds = 86400,
       mfa_pending_token_ttl_seconds = 300, oauth_redirect_base_url = [],
       lockout_config = \<lparr>login_max_failed_attempts = 1, login_ip_max_failed_attempts = 3,
         login_lockout_base_seconds = 60, login_lockout_max_seconds = 3600,
         login_failure_window_seconds = 900\<rparr>\<rparr>\<rparr>"

definition demo_user :: user where
  "demo_user = \<lparr>user_id = 5, user_tenant = Some 1, user_email = ''1'', user_password_hash = ''2'',
     user_role = AGENT, user_status = ACTIVE, user_first_name = None, user_last_name = None,
     user_locale = ''fr'', user_phone = None, user_email_verified_at = None, user_last_login_at = None,
     user_mfa_enabled = False, user_mfa_secret = None, user_mfa_pending_secret = None,
     user_mfa_enrolled_at = None, user_deleted_at = None, user_created_at = 0\<rparr>"

definition demo_state :: auth_state where
  "demo_state = (let db = empty_db\<lparr>users := [demo_user]\<rparr>
     in \<lparr>a_db = db, a_committed = db, a_redis = empty_redis\<rparr>)"

definition demo_draw :: "nat \<Rightarrow> string \<Rightarrow> draw" where
  "demo_draw n v = \<lparr>dr_session = n, dr_family = n + 100, dr_user = n + 200, dr_refresh = ''r'' @ v,
     dr_jti = ''j'' @ v, dr_code = ''c'' @ v, dr_password_hash = ''h'' @ v\<rparr>"

definition demo_client :: client_info where
  "demo_client = \<lparr>ci_user_agent = None, ci_ip = Some ''9''\<rparr>"

definition demo_login :: "string \<Rightarrow> login_result auth_action" where
  "demo_login pw = login (demo_auth id) (demo_draw 1 ''1'') 0 (Some 1) ''1'' pw demo_client"

definition demo_logged_in :: auth_state where
  "demo_logged_in = snd (run_auth (demo_login ''2'') demo_state)"

definition demo_refresh :: "nat \<Rightarrow> string \<Rightarrow> string \<Rightarrow> issued_tokens auth_action" where
  "demo_refresh n v token = refresh (demo_auth id) (demo_draw n v) 2 (Some 1) (Some token) demo_client"

definition demo_refreshed :: auth_state where
  "demo_refreshed = snd (run_auth (demo_refresh 2 ''2'' ''r1'') demo_logged_in)"

lemma demo_login_run: "auth_run (demo_auth id) fresh_family 0 demo_state 0 demo_logged_in"
proof -
  have "fresh_family (demo_draw 1 ''1'') demo_state" "address (caller_address demo_client)" by code_simp+
  then have "auth_step (demo_auth id) fresh_family 0 demo_state demo_logged_in"
    unfolding demo_logged_in_def demo_login_def by (rule step_login)
  from run_step [OF run_start _ this] show ?thesis by simp
qed

lemma demo_run: "auth_run (demo_auth id) fresh_family 0 demo_state 2 demo_refreshed"
proof -
  have "fresh_family (demo_draw 2 ''2'') demo_logged_in" by code_simp
  then have "auth_step (demo_auth id) fresh_family 2 demo_logged_in demo_refreshed"
    unfolding demo_refreshed_def demo_refresh_def by (rule step_refresh)
  from run_step [OF demo_login_run _ this] show ?thesis by simp
qed

lemma one_live_session_per_family_at_work:
  "length (live_in_family 101 (sessions (a_committed demo_refreshed))) \<le> 1
   \<and> map (\<lambda>x. (sess_family x, live x)) (sessions (a_committed demo_refreshed)) = [(101, False), (101, True)]"
proof -
  have "sessions (a_committed demo_state) = []" "sessions (a_db demo_state) = []" by code_simp+
  from one_live_session_per_family [OF demo_run this]
  have "length (live_in_family 101 (sessions (a_committed demo_refreshed))) \<le> 1" .
  moreover have "map (\<lambda>x. (sess_family x, live x)) (sessions (a_committed demo_refreshed)) = [(101, False), (101, True)]"
    by code_simp
  ultimately show ?thesis ..
qed


lemma serial_locks_stay_short_at_work:
  "is_locked (account_key (aw_sha (demo_auth (\<lambda>_. replicate 64 CHR ''a''))) (replicate 1 CHR ''i'') ''1'') (ip_key ''9'') 0
     (a_redis (snd (run_auth (login (demo_auth (\<lambda>_. replicate 64 CHR ''a'')) (demo_draw 1 ''1'') 0 (Some 1) ''1'' ''x'' demo_client) demo_state)))
   \<and> \<not> is_locked (account_key (aw_sha (demo_auth (\<lambda>_. replicate 64 CHR ''a''))) (replicate 1 CHR ''i'') ''1'') (ip_key ''9'') (seconds 1800)
     (a_redis (snd (run_auth (login (demo_auth (\<lambda>_. replicate 64 CHR ''a'')) (demo_draw 1 ''1'') 0 (Some 1) ''1'' ''x'' demo_client) demo_state)))"
proof -
  let ?w = "demo_auth (\<lambda>_. replicate 64 CHR ''a'')"
  let ?s = "snd (run_auth (login ?w (demo_draw 1 ''1'') 0 (Some 1) ''1'' ''x'' demo_client) demo_state)"
  have "address (caller_address demo_client)" by code_simp
  then have "auth_step ?w (\<lambda>_ _. True) 0 demo_state ?s" by (intro step_login) simp
  from run_step [OF run_start _ this] have run: "auth_run ?w (\<lambda>_ _. True) 0 demo_state 0 ?s" by simp
  have red: "a_redis demo_state = empty_redis" by (simp add: demo_state_def Let_def)
  have sane: "sane (lockout_config (aw_settings ?w))" "address ''9''" by code_simp+
  have hex: "hex_digest (aw_sha ?w)" by (auto simp: hex_digest_def demo_auth_def)
  have "0 + seconds (2 * login_failure_window_seconds (lockout_config (aw_settings ?w))) \<le> seconds 1800"
    by (simp add: demo_auth_def)
  from serial_locks_stay_short [OF run red sane(1) hex sane(2) this]
  have "\<not> is_locked (account_key (aw_sha ?w) (replicate 1 CHR ''i'') ''1'') (ip_key ''9'') (seconds 1800) (a_redis ?s)" .
  moreover have "is_locked (account_key (aw_sha ?w) (replicate 1 CHR ''i'') ''1'') (ip_key ''9'') 0 (a_redis ?s)"
    by code_simp
  ultimately show ?thesis by blast
qed

definition demo_token :: issued_tokens where
  "demo_token = \<lparr>issued_user = to_identity demo_user,
     issued_claims = \<lparr>claim_user = 5, claim_tenant = Some 1, claim_role = ''agent'', claim_jti = ''j1'',
       claim_impersonator = None\<rparr>,
     issued_expires = seconds 900, issued_refresh = ''r1''\<rparr>"

definition demo_out :: auth_state where
  "demo_out = snd (run_auth (logout_all (demo_auth id) 3 (Some 1) 5 ''j1'') demo_refreshed)"

theorem forced_logout_reaches_tokens_witness:
  "filter (\<lambda>x. sess_tenant x = Some 1 \<and> sess_user x = 5 \<and> live x) (sessions (a_committed demo_out)) = []
   \<and> get_current_user (\<lambda>_. Some (issued_claims demo_token)) (jti_denied 4 (a_redis demo_out)) (Some 1) ''Bearer x''
       \<noteq> Inr \<lparr>actor_id = 5, actor_tenant = Some 1, actor_role = AGENT, actor_jti = ''j1'', actor_impersonator = None\<rparr>
   \<and> get_current_user (\<lambda>_. Some (issued_claims demo_token)) (jti_denied 4 (a_redis demo_refreshed)) (Some 1) ''Bearer x''
       = Inr \<lparr>actor_id = 5, actor_tenant = Some 1, actor_role = AGENT, actor_jti = ''j1'', actor_impersonator = None\<rparr>"
proof -
  have "fst (run_auth (demo_login ''2'') demo_state) = Inr (LoggedIn demo_token)" by code_simp
  then have "run_auth (demo_login ''2'') demo_state = (Inr (LoggedIn demo_token), demo_logged_in)"
    by (simp add: demo_logged_in_def prod_eq_iff)
  then have iss: "issuing (demo_auth id) 0 demo_state demo_token demo_logged_in"
    unfolding demo_login_def by (rule issuing.intros(2))
  have "fresh_family (demo_draw 2 ''2'') demo_logged_in" by code_simp
  then have "auth_step (demo_auth id) fresh_family 2 demo_logged_in demo_refreshed"
    unfolding demo_refreshed_def demo_refresh_def by (rule step_refresh)
  from run_step [OF run_start _ this] have run: "auth_run (demo_auth id) fresh_family 0 demo_logged_in 2 demo_refreshed"
    by simp
  have "fst (run_auth (logout_all (demo_auth id) 3 (Some 1) 5 ''j1'') demo_refreshed) = Inr ()" by code_simp
  then have "run_auth (logout_all (demo_auth id) 3 (Some 1) 5 ''j1'') demo_refreshed = (Inr (), demo_out)"
    by (simp add: demo_out_def prod_eq_iff)
  then have out: "logs_out (demo_auth id) 3 (Some 1) (ident_id (issued_user demo_token)) demo_refreshed demo_out"
    by (intro logs_out.intros(1)) (simp add: demo_token_def to_identity_def demo_user_def)
  have up: "redis_up demo_state" "redis_up demo_refreshed" "redis_up demo_out" by code_simp+
  from forced_logout_reaches_tokens [OF iss up(1) run _ out up(2) run_start up(3), of 4
      "\<lambda>_. Some (issued_claims demo_token)" "Some 1" "''Bearer x''"
      "\<lparr>actor_id = 5, actor_tenant = Some 1, actor_role = AGENT, actor_jti = [], actor_impersonator = None\<rparr>"]
  have "filter (\<lambda>x. sess_tenant x = Some 1 \<and> sess_user x = 5 \<and> live x) (sessions (a_committed demo_out)) = []
   \<and> get_current_user (\<lambda>_. Some (issued_claims demo_token)) (jti_denied 4 (a_redis demo_out)) (Some 1) ''Bearer x''
       \<noteq> Inr \<lparr>actor_id = 5, actor_tenant = Some 1, actor_role = AGENT, actor_jti = ''j1'', actor_impersonator = None\<rparr>"
    by (simp add: demo_token_def to_identity_def demo_user_def seconds_def)
  moreover have "get_current_user (\<lambda>_. Some (issued_claims demo_token)) (jti_denied 4 (a_redis demo_refreshed)) (Some 1) ''Bearer x''
       = Inr \<lparr>actor_id = 5, actor_tenant = Some 1, actor_role = AGENT, actor_jti = ''j1'', actor_impersonator = None\<rparr>"
    by code_simp
  ultimately show ?thesis by blast
qed

definition demo_forgot :: auth_state where
  "demo_forgot = snd (run_auth (forgot_password (demo_auth id) (demo_draw 4 ''4'') 5 (Some 1) ''1'') demo_state)"

definition demo_reset :: "instant \<Rightarrow> unit auth_action" where
  "demo_reset now = reset_password (demo_auth id) (demo_draw 6 ''6'') now (Some 1) ''c4'' ''p''"

theorem reset_code_works_once_witness:
  "fst (run_auth (demo_reset 6) demo_forgot) = Inr ()
   \<and> isl (fst (run_auth (demo_reset 7) (snd (run_auth (demo_reset 6) demo_forgot))))
   \<and> map user_password_hash (users (a_committed (snd (run_auth (demo_reset 6) demo_forgot)))) = [''h6'']"
proof -
  have ok: "fst (run_auth (demo_reset 6) demo_forgot) = Inr ()" by code_simp
  then have "run_auth (demo_reset 6) demo_forgot = (Inr (), snd (run_auth (demo_reset 6) demo_forgot))"
    by (simp add: prod_eq_iff)
  from reset_code_works_once [OF this [unfolded demo_reset_def] run_start]
  have "isl (fst (run_auth (demo_reset 7) (snd (run_auth (demo_reset 6) demo_forgot))))"
    unfolding demo_reset_def by blast
  moreover have "map user_password_hash (users (a_committed (snd (run_auth (demo_reset 6) demo_forgot)))) = [''h6'']"
    by code_simp
  ultimately show ?thesis using ok by blast
qed

section \<open>Where the code falls short\<close>

text \<open>
  Impersonating an account writes nothing to Redis, so a forced logout of the account finds
  nothing to deny: deleting the account leaves the token good until it expires.
\<close>

lemma impersonation_not_tracked:
  "run_auth (impersonate ttl d now status_of t staff) s = (r, s') \<Longrightarrow> a_redis s' = a_redis s"
  by (auto simp: run_auth_def impersonate_def raise_def ret_def andthen_def gets_def Let_def
      split: option.splits if_splits list.splits)

definition demo_admin_state :: auth_state where
  "demo_admin_state = (let db = empty_db\<lparr>users := [demo_user\<lparr>user_role := ADMIN\<rparr>]\<rparr>
     in \<lparr>a_db = db, a_committed = db, a_redis = empty_redis\<rparr>)"

definition demo_impersonated :: "(error + token_claims \<times> instant) \<times> auth_state" where
  "demo_impersonated = run_auth (impersonate 900 (demo_draw 1 ''1'') 0 (\<lambda>_. Some ''active'') 1 7) demo_admin_state"

definition demo_deleted :: "(error + unit) \<times> auth_state" where
  "demo_deleted = run_auth (delete_user_route (demo_auth id) 3 1 5 6) (snd demo_impersonated)"

lemma impersonation_outlives_forced_logout:
  "fst demo_deleted = Inr ()
   \<and> list_active_by_role 1 ADMIN (a_committed (snd demo_deleted)) = []
   \<and> (case fst demo_impersonated of Inl e \<Rightarrow> False | Inr (claims, expires) \<Rightarrow> 4 < expires \<and>
        get_current_user (\<lambda>_. Some claims) (jti_denied 4 (a_redis (snd demo_deleted))) (Some 1) ''Bearer x''
          = Inr \<lparr>actor_id = 5, actor_tenant = Some 1, actor_role = ADMIN, actor_jti = ''j1'', actor_impersonator = Some 7\<rparr>)"
  by code_simp

text \<open>
  The row of a refresh token is read without a lock. Two requests that read it before either has
  written both rotate it, and the family is left with two live sessions.
\<close>

lemma racing_refreshes_fork_the_family:
  "case session_by_token_hash (Some 1) (hash_token (demo_auth id) ''r1'') (a_committed demo_logged_in) of
     None \<Rightarrow> False
   | Some row \<Rightarrow>
      (case run_auth (rotate_session (demo_auth id) (demo_draw 2 ''2'') 2 (Some 1) row demo_client) demo_logged_in of
         (first, s) \<Rightarrow>
      (case run_auth (rotate_session (demo_auth id) (demo_draw 3 ''3'') 2 (Some 1) row demo_client) s of
         (second, s') \<Rightarrow> \<not> isl first \<and> \<not> isl second
           \<and> length (live_in_family 101 (sessions (a_committed s'))) = 2))"
  by code_simp

text \<open>
  A right password clears the counter of the address too. An address that may fail three times
  tries any number of accounts by logging into an account of its own after every second failure.
\<close>

definition demo_spray :: "auth_state \<Rightarrow> auth_state" where
  "demo_spray s = (let try = (\<lambda>email pw n s. snd (run_auth (login (demo_auth id) (demo_draw n email) 0 (Some 1) email pw demo_client) s))
     in try ''1'' ''2'' 1 (try ''b'' [] 1 (try ''a'' [] 1 s)))"

lemma spraying_is_never_locked:
  "\<not> is_locked (account_key id ''i'' ''c'') (ip_key ''9'') 0 (a_redis (demo_spray demo_state))"
  "r_count (a_redis (demo_spray demo_state)) (ip_key ''9'') = None"
  by code_simp+

end
