(* ===== verification/Rate_Limit.thy ===== *)
theory Rate_Limit
  imports Redis Permissions
begin

text \<open>
  \<open>core/rate_limit.py\<close>: the sliding-window log over a sorted set of hits, the per-endpoint
  limiter that degrades open, and the address of the caller behind trusted proxies. Parsing an
  address and the test of an address against a network (after unwrapping an IPv4-mapped one) are
  the standard library's \<open>ipaddress\<close>, parameters here. Times are microseconds after the epoch,
  so that the range from 0 that Redis removes is everything up to its bound; the window is in
  seconds. The set's members are unique, so a set of hits is the sorted list of their times.
\<close>

section \<open>The sliding window\<close>

definition consume :: "string \<Rightarrow> int \<Rightarrow> int \<Rightarrow> instant \<Rightarrow> redis \<Rightarrow> (bool \<times> int) \<times> redis" where
  "consume k limit window_seconds now r =
     (let kept = filter (\<lambda>h. now - seconds window_seconds < h) (or_else (alive now (r_zset r k)) []);
          hits = insort now kept;
          r' = r\<lparr>r_zset := (r_zset r)(k := Some (hits, now + seconds window_seconds))\<rparr>
      in if int (length hits) \<le> limit then ((True, 0), r')
         else let oldest = hd hits
              in ((False, max 1 ((seconds window_seconds - (now - oldest)) div seconds 1 + 1)), r'))"

section \<open>The caller's address\<close>

definition comma :: char where
  "comma = CHR '',''"

fun split_comma :: "string \<Rightarrow> string \<Rightarrow> string list" where
  "split_comma acc [] = [acc]"
| "split_comma acc (c # cs) = (if c = comma then acc # split_comma [] cs else split_comma (acc @ [c]) cs)"

definition parts_of :: "string \<Rightarrow> string list" where
  "parts_of header = filter (\<lambda>p. p \<noteq> []) (map str_strip (split_comma [] header))"

text \<open>The standard library's addresses and networks.\<close>

record net_lib =
  nl_address :: "string \<Rightarrow> bool"
  nl_network :: "string \<Rightarrow> bool"
  nl_contains :: "string \<Rightarrow> string \<Rightarrow> bool"

definition trusted_networks :: "net_lib \<Rightarrow> string \<Rightarrow> string list" where
  "trusted_networks nl cidrs = filter (nl_network nl) (parts_of cidrs)"

definition is_trusted_proxy :: "net_lib \<Rightarrow> string \<Rightarrow> string list \<Rightarrow> bool" where
  "is_trusted_proxy nl peer networks =
     (if networks = [] then False
      else if \<not> nl_address nl peer then False
      else list_ex (\<lambda>n. nl_contains nl n peer) networks)"

definition forwarded_client :: "net_lib \<Rightarrow> string \<Rightarrow> int \<Rightarrow> string option" where
  "forwarded_client nl header hops =
     (let parts = parts_of header; index = int (length parts) - hops in
      if index < 0 \<or> int (length parts) \<le> index then None
      else let candidate = parts ! nat index
           in if nl_address nl candidate then Some candidate else None)"

definition client_ip :: "net_lib \<Rightarrow> string \<Rightarrow> int \<Rightarrow> string option \<Rightarrow> string option \<Rightarrow> string" where
  "client_ip nl cidrs hops client forwarded =
     (let peer = or_else client ''unknown'' in
      case forwarded of
        None \<Rightarrow> peer
      | Some header \<Rightarrow>
          if header = [] then peer
          else if \<not> is_trusted_proxy nl peer (trusted_networks nl cidrs) then peer
          else (case forwarded_client nl header hops of
              None \<Rightarrow> peer | Some c \<Rightarrow> if c = [] then peer else c))"

section \<open>The limiters\<close>

definition rate_limit_key :: "string \<Rightarrow> string \<Rightarrow> string \<Rightarrow> string" where
  "rate_limit_key key_prefix tenant caller = ''ratelimit:'' @ key_prefix @ '':'' @ tenant @ '':'' @ caller"

definition rate_limit ::
  "string \<Rightarrow> int \<Rightarrow> int \<Rightarrow> string \<Rightarrow> string \<Rightarrow> instant \<Rightarrow> (redis, unit) action" where
  "rate_limit key_prefix limit window_seconds tenant caller now = (\<lambda>r.
     if \<not> r_up r then (Inr (), r)
     else case consume (rate_limit_key key_prefix tenant caller) limit window_seconds now r of
       ((ok, retry_after), r') \<Rightarrow> if ok then (Inr (), r') else (Inl (RateLimitedError retry_after), r'))"

definition auth_rate_limit ::
  "string \<Rightarrow> int \<Rightarrow> int \<Rightarrow> string \<Rightarrow> string \<Rightarrow> instant \<Rightarrow> (redis, unit) action" where
  "auth_rate_limit act limit window_seconds = rate_limit (''auth:'' @ act) limit window_seconds"

definition GLOBAL_LIMIT_EXEMPT_PREFIXES :: "string list" where
  "GLOBAL_LIMIT_EXEMPT_PREFIXES = [''/healthz'', ''/readyz'', ''/internal'']"

text \<open>Whether a request passes the middleware, and with which \<open>Retry-After\<close> it is refused.\<close>

definition global_limit :: "int \<Rightarrow> bool \<Rightarrow> string \<Rightarrow> string \<Rightarrow> instant \<Rightarrow> (redis, unit) action" where
  "global_limit limit is_http path caller now = (\<lambda>r.
     if \<not> is_http \<or> list_ex (\<lambda>p. prefix p path) GLOBAL_LIMIT_EXEMPT_PREFIXES \<or> \<not> r_up r then (Inr (), r)
     else case consume (''ratelimit:global:'' @ caller) limit 60 now r of
       ((ok, retry_after), r') \<Rightarrow> if ok then (Inr (), r') else (Inl (RateLimitedError retry_after), r'))"

section \<open>The log it refines\<close>

text \<open>
  The specification keeps every hit of a key for ever and counts those of the last window. The
  abstraction forgets nothing: a concrete set represents a log when it holds, in order, the hits
  that any later call can still count.
\<close>

definition spec_ok :: "int \<Rightarrow> int \<Rightarrow> instant \<Rightarrow> instant list \<Rightarrow> bool" where
  "spec_ok limit window now log \<longleftrightarrow>
     int (length (filter (\<lambda>h. now - seconds window < h) (log @ [now]))) \<le> limit"

definition represents :: "string \<Rightarrow> int \<Rightarrow> instant \<Rightarrow> instant list \<Rightarrow> redis \<Rightarrow> bool" where
  "represents k window now log r \<longleftrightarrow> sorted log \<and> (\<forall>h \<in> set log. h \<le> now)
     \<and> (\<forall>later \<ge> now. filter (\<lambda>h. later - seconds window < h) (or_else (alive later (r_zset r k)) [])
          = filter (\<lambda>h. later - seconds window < h) log)"

lemma insort_last: "sorted xs \<Longrightarrow> \<forall>x \<in> set xs. x \<le> y \<Longrightarrow> insort y xs = xs @ [y :: int]"
proof (induction xs)
  case (Cons x xs)
  show ?case
  proof (cases "y \<le> x")
    case True
    from Cons.prems True have "x = y" "\<forall>z \<in> set xs. z = y" by force+
    from replicate_length_same [OF this(2)] have "y # xs = xs @ [y]"
      using replicate_append_same [of "length xs" y] by metis
    with \<open>x = y\<close> show ?thesis by (cases xs) simp_all
  qed (use Cons in simp)
qed simp

lemma consume_step:
  assumes rep: "represents k window t log r" and now: "t \<le> now" and window: "0 < window"
    and run: "consume k limit window now r = ((ok, retry), r')"
  shows "ok = spec_ok limit window now log" and "represents k window now (log @ [now]) r'"
proof -
  let ?recent = "\<lambda>now. filter (\<lambda>h. now - seconds window < h)"
  from rep now have kept: "?recent now (or_else (alive now (r_zset r k)) []) = ?recent now log"
    and log: "sorted log" "\<forall>h \<in> set log. h \<le> now" by (auto simp: represents_def)
  have w: "0 < seconds window" using window by (simp add: seconds_def)
  have hits: "insort now (?recent now log) = ?recent now (log @ [now])"
    using log w by (simp add: insort_last sorted_wrt_filter)
  define now_in where "now_in = ?recent now (log @ [now])"
  from run have ok: "ok = (int (length now_in) \<le> limit)"
    and r': "r_zset r' k = Some (?recent now (log @ [now]), now + seconds window)"
    unfolding consume_def Let_def kept hits now_in_def [symmetric] by (auto split: if_splits)
  from ok show "ok = spec_ok limit window now log" by (simp add: spec_ok_def now_in_def)
  show "represents k window now (log @ [now]) r'"
    unfolding represents_def
  proof (intro conjI allI impI)
    fix later assume later: "now \<le> later"
    show "?recent later (or_else (alive later (r_zset r' k)) []) = ?recent later (log @ [now])"
    proof (cases "later < now + seconds window")
      case True
      have "?recent later (?recent now xs) = ?recent later xs" for xs
        using later by (auto intro!: filter_cong)
      with True show ?thesis by (simp add: r' or_else_def del: filter_append)
    next
      case False
      with log(2) have "?recent later (log @ [now]) = []" by (auto simp: filter_empty_conv)
      with False show ?thesis by (simp add: r' or_else_def del: filter_append)
    qed
  qed (use log in \<open>auto simp: sorted_append\<close>)
qed

text \<open>The answers of the limiter and of the specification to a sequence of hits.\<close>

fun limiter_run :: "string \<Rightarrow> int \<Rightarrow> int \<Rightarrow> instant list \<Rightarrow> redis \<Rightarrow> bool list" where
  "limiter_run k limit window [] r = []"
| "limiter_run k limit window (now # hits) r =
     (case consume k limit window now r of ((ok, _), r') \<Rightarrow> ok # limiter_run k limit window hits r')"

fun spec_run :: "int \<Rightarrow> int \<Rightarrow> instant list \<Rightarrow> instant list \<Rightarrow> bool list" where
  "spec_run limit window [] log = []"
| "spec_run limit window (now # hits) log =
     spec_ok limit window now log # spec_run limit window hits (log @ [now])"

lemma limiter_run_spec:
  assumes "represents k window t log r" "sorted (t # hits)" "0 < window"
  shows "limiter_run k limit window hits r = spec_run limit window hits log"
  using assms
proof (induction hits arbitrary: t log r)
  case (Cons now hits)
  obtain ok retry r' where run: "consume k limit window now r = ((ok, retry), r')" by (metis prod_cases3 surj_pair)
  from Cons.prems have "t \<le> now" by simp
  note step = consume_step [OF Cons.prems(1) this Cons.prems(3) run]
  from Cons.IH [OF step(2)] Cons.prems step(1) show ?case by (simp add: run)
qed simp

text \<open>
  C5: the rate limiter refines its specification: on any sequence of hits at non-decreasing
  times, from a key without a history, it admits a hit exactly when no more than the limit,
  this one included and refused ones counted, fall into the window that ends with it, although
  it drops old entries and lets the key expire.
\<close>

theorem limiter_refines_log:
  assumes "sorted hits" and "0 < window" and "r_zset r k = None"
  shows "limiter_run k limit window hits r = spec_run limit window hits []"
proof (cases hits)
  case (Cons t ts)
  have "represents k window t [] r" by (simp add: represents_def assms(3) or_else_def)
  from limiter_run_spec [OF this _ assms(2), of hits] assms(1) Cons show ?thesis by simp
qed simp

theorem limiter_refines_log_witness:
  "limiter_run ''k'' 2 60 [0, 1, 2, seconds 60, seconds 120] empty_redis = [True, True, False, False, True]"
proof -
  have "sorted [0, 1, 2, seconds 60, seconds 120]" by (simp add: seconds_def)
  from limiter_refines_log [OF this, of 60 empty_redis "''k''" 2] show ?thesis
    by (simp add: empty_redis_def spec_ok_def seconds_def)
qed

text \<open>
  The advice of a refusal falls short when refused hits pile up: a client that waits as long as
  it was told is refused again.
\<close>

lemma retry_after_too_short:
  "fst (consume ''k'' 1 60 (seconds 2) (snd (consume ''k'' 1 60 (seconds 1) (snd (consume ''k'' 1 60 0 empty_redis)))))
     = (False, 59)"
  "limiter_run ''k'' 1 60 [0, seconds 1, seconds 2, seconds (2 + 59)] empty_redis = [True, False, False, False]"
  by (simp_all add: consume_def Let_def seconds_def empty_redis_def)

end
