(* ===== verification/I18n.thy ===== *)
theory I18n
  imports Database
begin

text \<open>
  \<open>core/i18n.py\<close>: the locale of a response and the one value it picks from an i18n field.
  Strings are their UTF-8 bytes.
\<close>

definition SUPPORTED_LOCALES :: "string list" where
  "SUPPORTED_LOCALES = [''ar'', ''fr'', ''en'']"

definition DEFAULT_LOCALE :: string where
  "DEFAULT_LOCALE = ''fr''"

definition FALLBACK_CHAIN :: "string list" where
  "FALLBACK_CHAIN = [''fr'', ''en'', ''ar'']"

fun split_on :: "char \<Rightarrow> string \<Rightarrow> string list" where
  "split_on c [] = [[]]"
| "split_on c (x # xs) = (if x = c then [] # split_on c xs
     else case split_on c xs of [] \<Rightarrow> [[x]] | p # ps \<Rightarrow> (x # p) # ps)"

definition language_code :: "string \<Rightarrow> string" where
  "language_code part = take 2 (str_lower (str_strip (hd (split_on (CHR '';'') part))))"

definition negotiate_locale :: "string option \<Rightarrow> string option \<Rightarrow> string" where
  "negotiate_locale explicit accept_language =
     (if str_given explicit \<and> or_else explicit [] \<in> set SUPPORTED_LOCALES then or_else explicit []
      else if str_given accept_language
      then (case find (\<lambda>code. code \<in> set SUPPORTED_LOCALES)
              (map language_code (split_on (CHR '','') (or_else accept_language []))) of
              Some code \<Rightarrow> code | None \<Rightarrow> DEFAULT_LOCALE)
      else DEFAULT_LOCALE)"

definition pick_localized :: "i18n_text \<Rightarrow> string \<Rightarrow> string option" where
  "pick_localized vals locale =
     (if vals = [] then None
      else case find (\<lambda>l. str_given (map_of vals l)) (locale # FALLBACK_CHAIN) of
          None \<Rightarrow> None | Some l \<Rightarrow> map_of vals l)"

section \<open>Lemmas\<close>

lemma negotiate_supported: "negotiate_locale e a \<in> set SUPPORTED_LOCALES"
  by (auto simp: negotiate_locale_def DEFAULT_LOCALE_def SUPPORTED_LOCALES_def
      split: option.splits dest: find_in)

lemma pick_complete:
  assumes "l \<in> set SUPPORTED_LOCALES" "str_given (map_of vals l)"
  shows "\<exists>v. pick_localized vals locale = Some v \<and> v \<noteq> []"
proof -
  from assms(1) have "l \<in> set (locale # FALLBACK_CHAIN)"
    by (auto simp: SUPPORTED_LOCALES_def FALLBACK_CHAIN_def)
  then obtain l' where l': "find (\<lambda>l. str_given (map_of vals l)) (locale # FALLBACK_CHAIN) = Some l'"
    using assms(2) by (metis find_None_iff not_Some_eq)
  from find_in [OF l'] obtain v where "map_of vals l' = Some v" "v \<noteq> []"
    by (auto simp: str_given_def)
  moreover from assms(2) have "vals \<noteq> []" by (auto simp: str_given_def)
  ultimately show ?thesis by (simp add: pick_localized_def l' del: find.simps)
qed

lemma pick_requested:
  "map_of vals l = Some v \<Longrightarrow> v \<noteq> [] \<Longrightarrow> pick_localized vals l = Some v"
  by (auto simp: pick_localized_def)

section \<open>Properties\<close>

text \<open>
  an i18n field never shows a hole where another language has content: when any supported
  locale has a non-empty text the pick is a non-empty text, it is the requested locale's own
  text when that one is non-empty, and the negotiated locale is always a supported one.
\<close>

lemma localized_no_hole:
  assumes "l \<in> set SUPPORTED_LOCALES" and "str_given (map_of vals l)"
  shows "(\<exists>v. pick_localized vals (negotiate_locale e a) = Some v \<and> v \<noteq> [])
    \<and> pick_localized vals l = map_of vals l
    \<and> negotiate_locale e a \<in> set SUPPORTED_LOCALES"
  using pick_complete [OF assms] pick_requested [of vals l] negotiate_supported assms(2)
  by (cases "map_of vals l") auto

lemma localized_no_hole_at_work:
  "pick_localized [(''ar'', ''dar''), (''en'', [])] (negotiate_locale (Some ''de'') (Some ''en-GB, fr;q=0.5'')) = Some ''dar''"
proof -
  from localized_no_hole [of "''ar''" "[(''ar'', ''dar''), (''en'', [])]" "Some ''de''"
      "Some ''en-GB, fr;q=0.5''"]
  obtain v where v: "pick_localized [(''ar'', ''dar''), (''en'', [])]
      (negotiate_locale (Some ''de'') (Some ''en-GB, fr;q=0.5'')) = Some v" "v \<noteq> []"
    by (auto simp: SUPPORTED_LOCALES_def)
  then show ?thesis by (auto simp: pick_localized_def split: option.splits if_splits)
qed

end
