(* ===== verification/Leads.thy ===== *)
theory Leads
  imports Listings I18n
begin

text \<open>
  \<open>modules/leads\<close> and \<open>integrations/ai/scoring.py\<close>: capture and contact dedupe, scoring, the
  assignment engine, the pipeline, drip sequences, the accessors of other modules, and the
  sweeps of \<open>workers/tasks/leads.py\<close>. One call reads the clock once (\<open>now\<close>).
\<close>

section \<open>Values\<close>

definition lead_source_value :: "lead_source \<Rightarrow> string" where
  "lead_source_value x = (case x of
      LISTING_FORM \<Rightarrow> ''listing_form'' | VALUATION \<Rightarrow> ''valuation'' | MORTGAGE \<Rightarrow> ''mortgage''
    | MARKET_REPORT \<Rightarrow> ''market_report'' | SEARCH_SIGNUP \<Rightarrow> ''search_signup'' | CHAT \<Rightarrow> ''chat''
    | WHATSAPP_CLICK \<Rightarrow> ''whatsapp_click'' | TOUR_REQUEST \<Rightarrow> ''tour_request''
    | PHONE \<Rightarrow> ''phone'' | PORTAL \<Rightarrow> ''portal'' | AD \<Rightarrow> ''ad'' | OTHER \<Rightarrow> ''other'')"

definition lead_stage_value :: "lead_stage \<Rightarrow> string" where
  "lead_stage_value x = (case x of
      NEW \<Rightarrow> ''new'' | CONTACTED \<Rightarrow> ''contacted'' | QUALIFIED \<Rightarrow> ''qualified''
    | TOURING \<Rightarrow> ''touring'' | OFFER \<Rightarrow> ''offer'' | WON \<Rightarrow> ''won'' | LOST \<Rightarrow> ''lost'')"

definition DRIP_ACTIVE_STAGES :: "lead_stage list" where
  "DRIP_ACTIVE_STAGES = [NEW, CONTACTED]"

definition SOURCE_WEIGHT :: "lead_source \<Rightarrow> int" where
  "SOURCE_WEIGHT x = (case x of
      PHONE \<Rightarrow> 40 | LISTING_FORM \<Rightarrow> 30 | PORTAL \<Rightarrow> 25 | VALUATION \<Rightarrow> 25 | WHATSAPP_CLICK \<Rightarrow> 30
    | TOUR_REQUEST \<Rightarrow> 35 | CHAT \<Rightarrow> 20 | MORTGAGE \<Rightarrow> 15 | MARKET_REPORT \<Rightarrow> 15
    | SEARCH_SIGNUP \<Rightarrow> 15 | AD \<Rightarrow> 10 | OTHER \<Rightarrow> 5)"

section \<open>Scoring\<close>

record lead_features =
  source_weight :: int
  attached_to_listing :: bool
  engagement_count :: int
  days_since_last_activity :: int
  no_show_count :: int

definition rules_score :: "lead_features \<Rightarrow> int" where
  "rules_score f =
     (let score = source_weight f + (if attached_to_listing f then 15 else 0)
            + min (engagement_count f * 5) 25
            - min (days_since_last_activity f) 20
            - no_show_count f * 15
      in max 0 (min 100 score))"

section \<open>Repository\<close>

definition contact_get :: "uuid \<Rightarrow> uuid \<Rightarrow> db \<Rightarrow> contact option" where
  "contact_get t i s = find (\<lambda>c. con_tenant c = t \<and> con_id c = i) (contacts s)"

definition email_matches :: "uuid \<Rightarrow> string \<Rightarrow> contact \<Rightarrow> bool" where
  "email_matches t email c \<longleftrightarrow> con_tenant c = t
     \<and> (case con_email c of None \<Rightarrow> False | Some e \<Rightarrow> str_lower e = str_lower email)"

definition find_contact_for_dedupe ::
  "uuid \<Rightarrow> string option \<Rightarrow> string option \<Rightarrow> db \<Rightarrow> error + contact option" where
  "find_contact_for_dedupe t email phone s =
     (case (case email of
              None \<Rightarrow> Inr None
            | Some e \<Rightarrow> one_or_none (filter (email_matches t e) (contacts s))) of
        Inl err \<Rightarrow> Inl err
      | Inr (Some c) \<Rightarrow> Inr (Some c)
      | Inr None \<Rightarrow> (case phone of
            None \<Rightarrow> Inr None
          | Some p \<Rightarrow> one_or_none (filter (\<lambda>c. con_tenant c = t \<and> con_phone c = Some p) (contacts s))))"

definition contacts_by_ids :: "uuid \<Rightarrow> uuid list \<Rightarrow> db \<Rightarrow> contact list" where
  "contacts_by_ids t ids s = filter (\<lambda>c. con_tenant c = t \<and> con_id c \<in> set ids) (contacts s)"

definition contacts_by_email :: "uuid \<Rightarrow> string \<Rightarrow> db \<Rightarrow> contact list" where
  "contacts_by_email t email s = filter (email_matches t email) (contacts s)"

definition lead_get :: "uuid \<Rightarrow> scope \<Rightarrow> uuid \<Rightarrow> db \<Rightarrow> lead option" where
  "lead_get t sc i s =
     find (\<lambda>l. lead_tenant l = t \<and> in_scope sc (lead_agent l) \<and> lead_id l = i) (leads s)"

record lead_filters =
  lf_stage :: "lead_stage option"
  lf_agent :: "uuid option"
  lf_source :: "lead_source option"
  lf_listing :: "uuid option"

definition lead_matches :: "uuid \<Rightarrow> scope \<Rightarrow> lead_filters \<Rightarrow> lead \<Rightarrow> bool" where
  "lead_matches t sc f l \<longleftrightarrow> lead_tenant l = t \<and> in_scope sc (lead_agent l)
     \<and> (lf_stage f = None \<or> lf_stage f = Some (lead_stage l))
     \<and> (lf_agent f = None \<or> lf_agent f = lead_agent l)
     \<and> (lf_source f = None \<or> lf_source f = Some (lead_source l))
     \<and> (lf_listing f = None \<or> lf_listing f = lead_listing l)"

definition lead_key :: "lead \<Rightarrow> instant \<times> uuid" where
  "lead_key l = (lead_created_at l, lead_id l)"

definition list_leads ::
  "uuid \<Rightarrow> scope \<Rightarrow> lead_filters \<Rightarrow> uuid option \<Rightarrow> (instant \<times> uuid) option \<Rightarrow> int \<Rightarrow> db \<Rightarrow> lead list" where
  "list_leads t sc f contact after limit s =
     fetch_page lead_key after limit (filter (\<lambda>l. lead_matches t sc f l
       \<and> (contact = None \<or> contact = Some (lead_contact l))) (leads s))"

definition count_leads :: "uuid \<Rightarrow> scope \<Rightarrow> lead_filters \<Rightarrow> db \<Rightarrow> nat" where
  "count_leads t sc f s = length (filter (lead_matches t sc f) (leads s))"

definition open_lead_count :: "uuid \<Rightarrow> db \<Rightarrow> uuid \<Rightarrow> int" where
  "open_lead_count t s u = int (length (filter (\<lambda>l. lead_tenant l = t \<and> lead_agent l = Some u
     \<and> lead_stage l \<notin> {WON, LOST}) (leads s)))"

definition list_activities_for_lead :: "uuid \<Rightarrow> uuid \<Rightarrow> db \<Rightarrow> lead_activity list" where
  "list_activities_for_lead t i s = rev (sort_key act_created_at
     (filter (\<lambda>a. act_tenant a = t \<and> act_lead a = i) (activities s)))"

definition get_assignment_rule :: "uuid \<Rightarrow> db \<Rightarrow> assignment_rule option" where
  "get_assignment_rule t s = find (\<lambda>r. rule_tenant r = t) (rules s)"

definition upsert_assignment_rule ::
  "uuid \<Rightarrow> assignment_strategy \<Rightarrow> uuid list option \<Rightarrow> int option \<Rightarrow> (db, unit) action" where
  "upsert_assignment_rule t strategy pool max_open = modify (\<lambda>s.
     let r = \<lparr>rule_tenant = t, rule_strategy = strategy, rule_agent_pool = pool, rule_max_open = max_open\<rparr>
     in s\<lparr>rules := (if get_assignment_rule t s = None then rules s @ [r]
                    else upd_rows (\<lambda>x. rule_tenant x = t) (\<lambda>_. r) (rules s))\<rparr>)"

definition get_drip_state :: "uuid \<Rightarrow> uuid \<Rightarrow> db \<Rightarrow> lead_drip_state option" where
  "get_drip_state t i s = find (\<lambda>d. drip_tenant d = t \<and> drip_lead d = i) (drips s)"

definition list_due_drips :: "uuid \<Rightarrow> instant \<Rightarrow> nat \<Rightarrow> db \<Rightarrow> lead_drip_state list" where
  "list_due_drips t now limit s = take limit (sort_key drip_next_send_at
     (filter (\<lambda>d. drip_tenant d = t \<and> drip_stopped_at d = None \<and> drip_next_send_at d \<le> now) (drips s)))"

definition stop_drip :: "uuid \<Rightarrow> uuid \<Rightarrow> drip_stop_reason \<Rightarrow> instant \<Rightarrow> (db, unit) action" where
  "stop_drip t i reason now = modify (\<lambda>s. s\<lparr>drips :=
     upd_rows (\<lambda>d. drip_tenant d = t \<and> drip_lead d = i \<and> drip_stopped_at d = None)
       (\<lambda>d. d\<lparr>drip_stopped_at := Some now, drip_stopped_reason := Some reason\<rparr>) (drips s)\<rparr>)"

definition lost_leads_before :: "uuid \<Rightarrow> instant \<Rightarrow> nat \<Rightarrow> db \<Rightarrow> lead list" where
  "lost_leads_before t before limit s = take limit (sort_key lead_updated_at
     (filter (\<lambda>l. lead_tenant l = t \<and> lead_stage l = LOST \<and> lead_updated_at l \<le> before) (leads s)))"

text \<open>An UPDATE stamps \<open>updated_at\<close>; a flush of an unchanged row emits none.\<close>

definition touched :: "instant \<Rightarrow> (lead \<Rightarrow> lead) \<Rightarrow> lead \<Rightarrow> lead" where
  "touched now f l = (if f l = l then l else (f l)\<lparr>lead_updated_at := now\<rparr>)"

definition lead_write :: "uuid \<Rightarrow> instant \<Rightarrow> (lead \<Rightarrow> lead) \<Rightarrow> (db, unit) action" where
  "lead_write i now f = modify (\<lambda>s. s\<lparr>leads := upd_rows (\<lambda>l. lead_id l = i) (touched now f) (leads s)\<rparr>)"

definition contact_write :: "uuid \<Rightarrow> (contact \<Rightarrow> contact) \<Rightarrow> (db, unit) action" where
  "contact_write i f = modify (\<lambda>s. s\<lparr>contacts := upd_rows (\<lambda>c. con_id c = i) f (contacts s)\<rparr>)"

definition activity_add ::
  "uuid \<Rightarrow> uuid \<Rightarrow> uuid option \<Rightarrow> activity_type \<Rightarrow> json_obj \<Rightarrow> instant \<Rightarrow> (db, unit) action" where
  "activity_add t i actr ty payload now = modify (\<lambda>s. s\<lparr>activities := activities s @
     [\<lparr>act_tenant = t, act_lead = i, act_actor = actr, act_type = ty, act_payload = payload,
       act_created_at = now\<rparr>]\<rparr>)"

text \<open>The foreign key on \<open>leads.listing_id\<close>: any listing row, of any tenant, deleted or not.\<close>

definition listing_fk :: "uuid option \<Rightarrow> db \<Rightarrow> bool" where
  "listing_fk listing s = (case listing of None \<Rightarrow> True
     | Some i \<Rightarrow> list_ex (\<lambda>l. lst_id l = i) (listings s))"

section \<open>Contact dedupe\<close>

record contact_capture =
  cc_first_name :: "string option"
  cc_last_name :: "string option"
  cc_email :: "string option"
  cc_phone :: "string option"
  cc_whatsapp :: "string option"
  cc_marketing_consent :: bool

definition fill :: "string option \<Rightarrow> string option \<Rightarrow> string option" where
  "fill old new = (if old = None \<and> str_given new then new else old)"

definition merge_contact :: "contact_capture \<Rightarrow> contact \<Rightarrow> contact" where
  "merge_contact d c = c\<lparr>
     con_first_name := fill (con_first_name c) (cc_first_name d),
     con_last_name := fill (con_last_name c) (cc_last_name d),
     con_email := fill (con_email c) (cc_email d),
     con_phone := fill (con_phone c) (cc_phone d),
     con_whatsapp := fill (con_whatsapp c) (cc_whatsapp d),
     con_consent := (if cc_marketing_consent d \<and> \<not> json_truthy (json_get ''marketing_email'' (con_consent c))
                     then json_set ''marketing_email'' (JBool True) (con_consent c)
                     else con_consent c)\<rparr>"

definition new_contact :: "uuid \<Rightarrow> contact_capture \<Rightarrow> uuid \<Rightarrow> contact" where
  "new_contact t d new_id = \<lparr>con_id = new_id, con_tenant = t, con_first_name = cc_first_name d,
     con_last_name = cc_last_name d, con_email = cc_email d, con_phone = cc_phone d,
     con_whatsapp = cc_whatsapp d,
     con_consent = (if cc_marketing_consent d then [(''marketing_email'', JBool True)] else []),
     con_tags = [], con_notes = None\<rparr>"

text \<open>The primary key is checked by the database at flush.\<close>

definition find_or_create_contact ::
  "uuid \<Rightarrow> contact_capture \<Rightarrow> uuid \<Rightarrow> (db, contact) action" where
  "find_or_create_contact t d new_id =
     andthen (gets (find_contact_for_dedupe t (cc_email d) (cc_phone d))) (\<lambda>found.
     andthen (lift_res found) (\<lambda>existing. case existing of
        None \<Rightarrow>
          andthen (gets (\<lambda>s. list_ex (\<lambda>c. con_id c = new_id) (contacts s))) (\<lambda>taken.
          andthen (check (\<not> taken) IntegrityError) (\<lambda>_.
          andthen (modify (\<lambda>s. s\<lparr>contacts := contacts s @ [new_contact t d new_id]\<rparr>)) (\<lambda>_.
          ret (new_contact t d new_id))))
      | Some c \<Rightarrow> andthen (contact_write (con_id c) (merge_contact d)) (\<lambda>_. ret (merge_contact d c))))"

section \<open>Scoring a lead\<close>

definition last_activity_at :: "lead \<Rightarrow> lead_activity list \<Rightarrow> instant" where
  "last_activity_at l acts = (if acts = [] then lead_created_at l
     else Max (set (map act_created_at acts)))"

definition lead_features_of :: "lead \<Rightarrow> lead_activity list \<Rightarrow> instant \<Rightarrow> lead_features" where
  "lead_features_of l acts now = \<lparr>
     source_weight = SOURCE_WEIGHT (lead_source l),
     attached_to_listing = (lead_listing l \<noteq> None),
     engagement_count = int (length (filter (\<lambda>a. act_type a \<notin> {SYSTEM, NO_SHOW_ACTIVITY}) acts)),
     days_since_last_activity = max ((now - last_activity_at l acts) div days 1) 0,
     no_show_count = int (length (filter (\<lambda>a. act_type a = NO_SHOW_ACTIVITY) acts))\<rparr>"

definition recompute_score :: "uuid \<Rightarrow> uuid \<Rightarrow> instant \<Rightarrow> (db, unit) action" where
  "recompute_score t i now = modify (\<lambda>s.
     s\<lparr>leads := upd_rows (\<lambda>l. lead_id l = i)
        (touched now (\<lambda>l. l\<lparr>lead_score := rules_score
           (lead_features_of l (list_activities_for_lead t i s) now)\<rparr>)) (leads s)\<rparr>)"

section \<open>The assignment engine\<close>

fun least_loaded_from ::
  "(uuid \<Rightarrow> int) \<Rightarrow> int option \<Rightarrow> uuid list \<Rightarrow> (uuid \<times> int) option \<Rightarrow> (uuid \<times> int) option" where
  "least_loaded_from counts max_open [] best = best"
| "least_loaded_from counts max_open (u # us) best =
     (let count = counts u in
      if (case max_open of None \<Rightarrow> False | Some m \<Rightarrow> count \<ge> m)
      then least_loaded_from counts max_open us best
      else if (case best of None \<Rightarrow> True | Some (_, c) \<Rightarrow> count < c)
      then least_loaded_from counts max_open us (Some (u, count))
      else least_loaded_from counts max_open us best)"

definition least_loaded :: "uuid \<Rightarrow> uuid list \<Rightarrow> int option \<Rightarrow> db \<Rightarrow> uuid option" where
  "least_loaded t candidates max_open s =
     map_option fst (least_loaded_from (open_lead_count t s) max_open candidates None)"

definition pick_territory ::
  "world \<Rightarrow> uuid \<Rightarrow> uuid option \<Rightarrow> int option \<Rightarrow> db \<Rightarrow> uuid option" where
  "pick_territory w t listing max_open s = (case listing of
      None \<Rightarrow> None
    | Some i \<Rightarrow> (case point_for t i s of
          None \<Rightarrow> None
        | Some point \<Rightarrow>
            let ids = candidate_user_ids_for_point (area_contains w) t point s
            in if ids = [] then None
               else least_loaded t (filter (\<lambda>u. identities_for t ids s u \<noteq> None) ids) max_open s))"

definition pick_round_robin ::
  "uuid \<Rightarrow> uuid list option \<Rightarrow> int option \<Rightarrow> db \<Rightarrow> uuid option" where
  "pick_round_robin t pool max_open s =
     (let requested = or_else pool []
      in least_loaded t
           (if requested \<noteq> [] then filter (\<lambda>u. identities_for t requested s u \<noteq> None) requested
            else map ident_id (list_active_agents t s))
           max_open s)"

definition pick_agent :: "world \<Rightarrow> uuid \<Rightarrow> uuid option \<Rightarrow> db \<Rightarrow> uuid option" where
  "pick_agent w t listing s =
     (let rule = get_assignment_rule t s;
          max_open = (case rule of None \<Rightarrow> None | Some r \<Rightarrow> rule_max_open r)
      in case (case rule of None \<Rightarrow> LISTING_AGENT | Some r \<Rightarrow> rule_strategy r) of
           LISTING_AGENT \<Rightarrow> (case listing of
               None \<Rightarrow> None
             | Some i \<Rightarrow> (case agent_for t i s of
                 None \<Rightarrow> None
               | Some u \<Rightarrow> if get_identity_if_active (Some t) u s \<noteq> None then Some u else None))
         | ROUND_ROBIN \<Rightarrow>
             pick_round_robin t (case rule of None \<Rightarrow> None | Some r \<Rightarrow> rule_agent_pool r) max_open s
         | TERRITORY \<Rightarrow> pick_territory w t listing max_open s)"

definition assign_lead :: "world \<Rightarrow> uuid \<Rightarrow> lead \<Rightarrow> instant \<Rightarrow> (db, uuid option) action" where
  "assign_lead w t l now =
     andthen (gets (pick_agent w t (lead_listing l))) (\<lambda>agent.
     andthen (lead_write (lead_id l) now (\<lambda>r. r\<lparr>lead_agent := agent\<rparr>)) (\<lambda>_. ret agent))"

definition update_assignment_rule ::
  "tenant_context \<Rightarrow> assignment_strategy \<Rightarrow> uuid list option \<Rightarrow> int option \<Rightarrow> (db, unit) action" where
  "update_assignment_rule ten strategy pool max_open =
     andthen (gets (any_territory_profile (tenant_id ten))) (\<lambda>has_data.
     andthen (check (\<not> (strategy = TERRITORY \<and> \<not> has_data))
       (ConflictError (''Territory-based assignment needs at least one published agent ''
         @ ''profile with service areas.''))) (\<lambda>_.
     upsert_assignment_rule (tenant_id ten) strategy pool max_open))"

section \<open>Capture\<close>

definition EVENT_LEAD_CREATED :: string where
  "EVENT_LEAD_CREATED = ''lead.created''"

definition seed_drip :: "uuid \<Rightarrow> uuid \<Rightarrow> lead_stage \<Rightarrow> instant \<Rightarrow> (db, unit) action" where
  "seed_drip t i stage now =
     (if stage \<notin> set DRIP_ACTIVE_STAGES then ret ()
      else modify (\<lambda>s. s\<lparr>drips := drips s @ [\<lparr>drip_tenant = t, drip_lead = i, drip_step_index = 0,
             drip_next_send_at = now, drip_stopped_at = None, drip_stopped_reason = None\<rparr>]\<rparr>))"

definition new_lead ::
  "uuid \<Rightarrow> uuid \<Rightarrow> uuid option \<Rightarrow> uuid option \<Rightarrow> lead_source \<Rightarrow> json_obj \<Rightarrow> uuid \<Rightarrow> instant \<Rightarrow> lead" where
  "new_lead t contact listing agent source meta new_id now =
     \<lparr>lead_id = new_id, lead_tenant = t, lead_contact = contact, lead_listing = listing,
      lead_agent = agent, lead_source = source, lead_source_meta = meta, lead_stage = NEW,
      lead_score = 0, lead_lost_reason = None, lead_first_response_at = None,
      lead_created_at = now, lead_updated_at = now\<rparr>"

definition opt_uuid :: "world \<Rightarrow> uuid option \<Rightarrow> json" where
  "opt_uuid w x = (case x of None \<Rightarrow> JNull | Some i \<Rightarrow> JStr (uuid_text w i))"

text \<open>The two ids a capture mints (lead, and contact when none matched) are arguments.\<close>

definition create_captured_lead ::
  "world \<Rightarrow> tenant_context \<Rightarrow> contact \<Rightarrow> uuid option \<Rightarrow> lead_source \<Rightarrow> json_obj \<Rightarrow> string option \<Rightarrow>
   uuid option \<Rightarrow> uuid \<Rightarrow> instant \<Rightarrow> (db, uuid) action" where
  "create_captured_lead w ten c listing source meta message forced new_id now =
     (let t = tenant_id ten; l = new_lead t (con_id c) listing None source meta new_id now in
      andthen (gets (listing_fk listing)) (\<lambda>fk.
      andthen (check fk IntegrityError) (\<lambda>_.
      andthen (modify (\<lambda>s. s\<lparr>leads := leads s @ [l]\<rparr>)) (\<lambda>_.
      andthen (recompute_score t new_id now) (\<lambda>_.
      andthen (case forced of
          Some g \<Rightarrow> andthen (gets (get_identity_if_active (Some t) g)) (\<lambda>identity.
            let agent = (if identity \<noteq> None then Some g else None)
            in andthen (lead_write new_id now (\<lambda>r. r\<lparr>lead_agent := agent\<rparr>)) (\<lambda>_. ret agent))
        | None \<Rightarrow> assign_lead w t l now) (\<lambda>agent.
      andthen (if str_given message
               then activity_add t new_id None NOTE
                      [(''text'', JStr (or_else message [])), (''via'', JStr ''capture'')] now
               else ret ()) (\<lambda>_.
      andthen (case agent of
          None \<Rightarrow> ret ()
        | Some g \<Rightarrow> activity_add t new_id None ASSIGNMENT [(''agent_id'', JStr (uuid_text w g))] now) (\<lambda>_.
      andthen (seed_drip t new_id NEW now) (\<lambda>_.
      andthen (emit_event ten EVENT_LEAD_CREATED
        [(''leadId'', JStr (uuid_text w new_id)), (''contactId'', JStr (uuid_text w (con_id c))),
         (''agentId'', opt_uuid w agent), (''source'', JStr (lead_source_value source)),
         (''listingId'', opt_uuid w listing)]) (\<lambda>_.
      andthen (on_commit (CountLead source)) (\<lambda>_.
      ret new_id)))))))))))"

record capture_form =
  cf_contact :: contact_capture
  cf_listing :: "uuid option"
  cf_message :: "string option"
  cf_meta :: json_obj
  cf_hp :: string

definition capture_lead ::
  "world \<Rightarrow> tenant_context \<Rightarrow> capture_form \<Rightarrow> lead_source \<Rightarrow> uuid \<Rightarrow> uuid \<Rightarrow> instant \<Rightarrow>
   (db, uuid option) action" where
  "capture_lead w ten d source new_lead_id new_contact_id now =
     (if cf_hp d \<noteq> [] then ret None
      else andthen (find_or_create_contact (tenant_id ten) (cf_contact d) new_contact_id) (\<lambda>c.
           andthen (case cf_listing d of
               None \<Rightarrow> ret ()
             | Some i \<Rightarrow> andthen (listing_get_public (uuid_of_text w) ten (uuid_text w i)) (\<lambda>_. ret ())) (\<lambda>_.
           andthen (create_captured_lead w ten c (cf_listing d) source (cf_meta d) (cf_message d)
                      None new_lead_id now) (\<lambda>i. ret (Some i)))))"

definition register_signup_lead ::
  "world \<Rightarrow> tenant_context \<Rightarrow> string \<Rightarrow> uuid \<Rightarrow> uuid \<Rightarrow> instant \<Rightarrow> (db, uuid) action" where
  "register_signup_lead w ten email new_lead_id new_contact_id now =
     andthen (find_or_create_contact (tenant_id ten)
       \<lparr>cc_first_name = None, cc_last_name = None, cc_email = Some email, cc_phone = None,
        cc_whatsapp = None, cc_marketing_consent = True\<rparr> new_contact_id) (\<lambda>c.
     create_captured_lead w ten c None SEARCH_SIGNUP [] None None new_lead_id now)"

definition register_tour_request ::
  "world \<Rightarrow> tenant_context \<Rightarrow> contact_capture \<Rightarrow> uuid option \<Rightarrow> string option \<Rightarrow> uuid \<Rightarrow> json_obj \<Rightarrow>
   uuid \<Rightarrow> uuid \<Rightarrow> instant \<Rightarrow> (db, uuid \<times> uuid) action" where
  "register_tour_request w ten contact_data listing message agent meta new_lead_id new_contact_id now =
     andthen (find_or_create_contact (tenant_id ten) contact_data new_contact_id) (\<lambda>c.
     andthen (create_captured_lead w ten c listing TOUR_REQUEST meta message (Some agent)
                new_lead_id now) (\<lambda>i.
     ret (i, con_id c)))"

text \<open>
  The valuation, mortgage and report boundaries differ in the source, the listing and the kind
  of the system activity that follows the capture.
\<close>

definition register_with_payload ::
  "world \<Rightarrow> tenant_context \<Rightarrow> contact_capture \<Rightarrow> uuid option \<Rightarrow> lead_source \<Rightarrow> json_obj \<Rightarrow> string option \<Rightarrow>
   string \<Rightarrow> json_obj \<Rightarrow> uuid \<Rightarrow> uuid \<Rightarrow> instant \<Rightarrow> (db, uuid) action" where
  "register_with_payload w ten contact_data listing source meta message kind payload
       new_lead_id new_contact_id now =
     andthen (find_or_create_contact (tenant_id ten) contact_data new_contact_id) (\<lambda>c.
     andthen (create_captured_lead w ten c listing source meta message None new_lead_id now) (\<lambda>i.
     andthen (activity_add (tenant_id ten) i None SYSTEM ((''kind'', JStr kind) # payload) now) (\<lambda>_.
     ret i)))"

definition register_valuation_lead where
  "register_valuation_lead w ten contact_data message meta payload =
     register_with_payload w ten contact_data None VALUATION meta message ''valuation_request'' payload"

definition register_mortgage_lead where
  "register_mortgage_lead w ten contact_data listing meta payload =
     register_with_payload w ten contact_data listing MORTGAGE meta None ''mortgage_estimate'' payload"

definition register_report_download_lead where
  "register_report_download_lead w ten contact_data meta payload =
     register_with_payload w ten contact_data None MARKET_REPORT meta None
       ''market_report_download'' payload"

section \<open>The WhatsApp handoff\<close>

definition hex_digit :: "nat \<Rightarrow> char" where
  "hex_digit n = (if n < 10 then char_of (48 + n) else char_of (55 + n))"

text \<open>\<open>urllib.parse.quote\<close> with its default safe character, on UTF-8 bytes.\<close>

definition quote_safe :: "char \<Rightarrow> bool" where
  "quote_safe c \<longleftrightarrow> is_alnum c \<or> c \<in> set ''_.-~/''"

definition url_quote :: "string \<Rightarrow> string" where
  "url_quote s = concat (map (\<lambda>c. if quote_safe c then [c]
     else [CHR ''%'', hex_digit (of_char c div 16), hex_digit (of_char c mod 16)]) s)"

text \<open>The em dash of the greeting, in UTF-8.\<close>

definition em_dash :: string where
  "em_dash = [char_of (226 :: nat), char_of (128 :: nat), char_of (148 :: nat)]"

definition whatsapp_prefill :: "listing option \<Rightarrow> string" where
  "whatsapp_prefill listing = (case listing of
      None \<Rightarrow> ''Hello, I'' @ [CHR 0x27] @ ''d like more information about your listings.''
    | Some l \<Rightarrow>
        ''Hello, I'' @ [CHR 0x27] @ ''m interested in listing '' @ lst_reference_code l
        @ (let title = pick_localized (fact_title (lst_facts l)) DEFAULT_LOCALE
           in if str_given title then '' '' @ em_dash @ '' '' @ or_else title [] else []))"

definition whatsapp_digits :: "tenant_context \<Rightarrow> listing option \<Rightarrow> db \<Rightarrow> error + string" where
  "whatsapp_digits ten listing s =
     (let own = (case listing of None \<Rightarrow> None | Some l \<Rightarrow>
            (case lst_agent l of None \<Rightarrow> None | Some u \<Rightarrow> whatsapp_number_for (tenant_id ten) u s));
          number = (case own of
             Some n \<Rightarrow> Inr (Some n)
           | None \<Rightarrow> (case settings_namespace ''contact'' (tenant_settings ten) of
               Inl e \<Rightarrow> Inl e
             | Inr obj \<Rightarrow> Inr (case json_get ''whatsapp_number'' obj of Some (JStr v) \<Rightarrow> Some v | _ \<Rightarrow> None)))
      in case number of
           Inl e \<Rightarrow> Inl e
         | Inr n \<Rightarrow>
             let digits = filter is_digit (or_else n [])
             in if digits = [] then Inl (ConflictError
                     ''This agency has not configured a WhatsApp contact number.'')
                else Inr digits)"

definition capture_whatsapp_click ::
  "world \<Rightarrow> tenant_context \<Rightarrow> capture_form \<Rightarrow> uuid \<Rightarrow> uuid \<Rightarrow> instant \<Rightarrow>
   (db, uuid option \<times> string) action" where
  "capture_whatsapp_click w ten d new_lead_id new_contact_id now =
     (if cf_hp d \<noteq> [] then ret (None, ''https://wa.me/'')
      else
        andthen (case cf_listing d of
            None \<Rightarrow> ret None
          | Some i \<Rightarrow> andthen (listing_get_public (uuid_of_text w) ten (uuid_text w i)) (\<lambda>l. ret (Some l))) (\<lambda>listing.
        andthen (gets (whatsapp_digits ten listing)) (\<lambda>r.
        andthen (lift_res r) (\<lambda>digits.
          let url = ''https://wa.me/'' @ digits @ ''?text='' @ url_quote (whatsapp_prefill listing)
          in andthen (find_or_create_contact (tenant_id ten) (cf_contact d) new_contact_id) (\<lambda>c.
             andthen (create_captured_lead w ten c (cf_listing d) WHATSAPP_CLICK (cf_meta d)
                        (cf_message d) None new_lead_id now) (\<lambda>i.
             ret (Some i, url)))))))"

section \<open>The pipeline\<close>

definition lead_or_404 :: "tenant_context \<Rightarrow> actor \<Rightarrow> uuid \<Rightarrow> (db, lead) action" where
  "lead_or_404 ten a i =
     andthen (gets (scope_user_ids_for (tenant_id ten) a)) (\<lambda>sc.
     andthen (gets (lead_get (tenant_id ten) sc i)) (\<lambda>r. case r of
        None \<Rightarrow> raise (NotFoundError ''Lead not found.'')
      | Some l \<Rightarrow> ret l))"

definition active_agent :: "uuid \<Rightarrow> uuid option \<Rightarrow> (db, unit) action" where
  "active_agent t agent = (case agent of
      None \<Rightarrow> ret ()
    | Some g \<Rightarrow> andthen (gets (get_identity_if_active (Some t) g)) (\<lambda>identity.
        check (identity \<noteq> None)
          (ConflictError ''The assigned agent does not exist or is not active.'')))"

datatype lead_contact_source = ExistingContact uuid | InlineContact contact_capture

record lead_create =
  ldc_contact :: lead_contact_source
  ldc_listing :: "uuid option"
  ldc_source :: lead_source
  ldc_agent :: "uuid option"

definition create_manual ::
  "world \<Rightarrow> tenant_context \<Rightarrow> actor \<Rightarrow> lead_create \<Rightarrow> uuid \<Rightarrow> uuid \<Rightarrow> instant \<Rightarrow> (db, uuid) action" where
  "create_manual w ten a d new_lead_id new_contact_id now =
     (let t = tenant_id ten in
      andthen (case ldc_contact d of
          ExistingContact i \<Rightarrow> andthen (gets (contact_get t i)) (\<lambda>r. case r of
              None \<Rightarrow> raise (NotFoundError ''Contact not found.'') | Some c \<Rightarrow> ret c)
        | InlineContact data \<Rightarrow> find_or_create_contact t data new_contact_id) (\<lambda>c.
      andthen (case ldc_listing d of
          None \<Rightarrow> ret () | Some i \<Rightarrow> andthen (listing_or_404 ten a i) (\<lambda>_. ret ())) (\<lambda>_.
      andthen (active_agent t (ldc_agent d)) (\<lambda>_.
        let l = new_lead t (con_id c) (ldc_listing d) (ldc_agent d) (ldc_source d) [] new_lead_id now
        in andthen (modify (\<lambda>s. s\<lparr>leads := leads s @ [l]\<rparr>)) (\<lambda>_.
           andthen (if ldc_agent d = None
                    then andthen (assign_lead w t l now) (\<lambda>_. ret ()) else ret ()) (\<lambda>_.
           andthen (recompute_score t new_lead_id now) (\<lambda>_.
           andthen (seed_drip t new_lead_id NEW now) (\<lambda>_.
           andthen (on_commit (CountLead (ldc_source d))) (\<lambda>_.
           ret new_lead_id)))))))))"

definition lead_list_portal ::
  "tenant_context \<Rightarrow> actor \<Rightarrow> lead_filters \<Rightarrow> (instant \<times> uuid) cursor option \<Rightarrow> int option \<Rightarrow> db \<Rightarrow>
   error + (lead list \<times> (instant \<times> uuid) cursor option \<times> nat)" where
  "lead_list_portal ten a f cursor limit s =
     (case decode_keyset cursor of
        Inl e \<Rightarrow> Inl e
      | Inr after \<Rightarrow>
          let page_size = clamp_limit limit; sc = scope_user_ids_for (tenant_id ten) a s;
              (items, next) = cut_page lead_key page_size
                 (list_leads (tenant_id ten) sc f None after page_size s)
          in Inr (items, next, count_leads (tenant_id ten) sc f s))"

definition lead_update ::
  "tenant_context \<Rightarrow> actor \<Rightarrow> uuid \<Rightarrow> uuid option patch \<Rightarrow> uuid option patch \<Rightarrow> instant \<Rightarrow> (db, unit) action" where
  "lead_update ten a i agent_patch listing_patch now =
     andthen (lead_or_404 ten a i) (\<lambda>l.
     andthen (case agent_patch of
         Unset \<Rightarrow> ret ()
       | SetTo g \<Rightarrow>
           andthen (check (actor_role a \<in> set MANAGES_ALL_ROLES)
             (PermissionDeniedError ''Only managers can reassign a lead.'')) (\<lambda>_.
           active_agent (tenant_id ten) g)) (\<lambda>_.
     andthen (gets (listing_fk (patched listing_patch (lead_listing l)))) (\<lambda>fk.
     andthen (check fk IntegrityError) (\<lambda>_.
     lead_write (lead_id l) now (\<lambda>r. r\<lparr>lead_agent := patched agent_patch (lead_agent r),
       lead_listing := patched listing_patch (lead_listing r)\<rparr>)))))"

definition transition_stage ::
  "tenant_context \<Rightarrow> actor \<Rightarrow> uuid \<Rightarrow> lead_stage \<Rightarrow> string option \<Rightarrow> instant \<Rightarrow> (db, unit) action" where
  "transition_stage ten a i to_stage lost_reason now =
     (let t = tenant_id ten in
      andthen (lead_or_404 ten a i) (\<lambda>l.
      andthen (check (\<not> (to_stage = LOST \<and> \<not> str_given lost_reason))
        (ConflictError ''A reason is required when marking a lead lost.'')) (\<lambda>_.
      andthen (lead_write i now (\<lambda>r. r\<lparr>lead_stage := to_stage,
        lead_lost_reason := (if to_stage = LOST then lost_reason else lead_lost_reason r)\<rparr>)) (\<lambda>_.
      andthen (activity_add t i (Some (actor_id a)) STATUS_CHANGE
        [(''from'', JStr (lead_stage_value (lead_stage l))), (''to'', JStr (lead_stage_value to_stage))] now) (\<lambda>_.
      andthen (if to_stage \<notin> set DRIP_ACTIVE_STAGES then stop_drip t i STAGE_ADVANCED now else ret ()) (\<lambda>_.
      recompute_score t i now))))))"

definition agent_authored :: "activity_type \<Rightarrow> bool" where
  "agent_authored ty \<longleftrightarrow> ty \<in> {NOTE, CALL, EMAIL, SMS}"

definition record_activity ::
  "tenant_context \<Rightarrow> actor \<Rightarrow> uuid \<Rightarrow> activity_type \<Rightarrow> json_obj \<Rightarrow> instant \<Rightarrow> (db, unit) action" where
  "record_activity ten a i ty payload now =
     (let t = tenant_id ten in
      andthen (lead_or_404 ten a i) (\<lambda>l.
      andthen (activity_add t i (Some (actor_id a)) ty payload now) (\<lambda>_.
      andthen (if lead_first_response_at l = None \<and> agent_authored ty
               then lead_write i now (\<lambda>r. r\<lparr>lead_first_response_at := Some now\<rparr>) else ret ()) (\<lambda>_.
      andthen (if agent_authored ty then stop_drip t i REPLIED now else ret ()) (\<lambda>_.
      recompute_score t i now)))))"

section \<open>Contacts and accessors\<close>

definition contact_or_404 :: "tenant_context \<Rightarrow> uuid \<Rightarrow> (db, contact) action" where
  "contact_or_404 ten i = andthen (gets (contact_get (tenant_id ten) i)) (\<lambda>r. case r of
      None \<Rightarrow> raise (NotFoundError ''Contact not found.'') | Some c \<Rightarrow> ret c)"

record contact_update =
  cu_first_name :: "string option patch"
  cu_last_name :: "string option patch"
  cu_email :: "string option patch"
  cu_phone :: "string option patch"
  cu_whatsapp :: "string option patch"
  cu_consent :: "json_obj option patch"
  cu_tags :: "string list option patch"
  cu_notes :: "string option patch"

definition normalize_email :: "string option \<Rightarrow> string option" where
  "normalize_email v = (if str_given v \<and> str_strip (the v) \<noteq> [] then Some (str_lower (str_strip (the v))) else None)"

definition normalize_phone :: "string option \<Rightarrow> string option" where
  "normalize_phone v = (if str_given v \<and> str_strip (the v) \<noteq> [] then Some (str_strip (the v)) else None)"

fun patch_with :: "('a \<Rightarrow> 'a) \<Rightarrow> 'a patch \<Rightarrow> 'a patch" where
  "patch_with f Unset = Unset"
| "patch_with f (SetTo v) = SetTo (f v)"

definition patch_contact :: "contact_update \<Rightarrow> contact \<Rightarrow> contact" where
  "patch_contact p c = c\<lparr>
     con_first_name := patched (cu_first_name p) (con_first_name c),
     con_last_name := patched (cu_last_name p) (con_last_name c),
     con_email := patched (patch_with normalize_email (cu_email p)) (con_email c),
     con_phone := patched (patch_with normalize_phone (cu_phone p)) (con_phone c),
     con_whatsapp := patched (patch_with normalize_phone (cu_whatsapp p)) (con_whatsapp c),
     con_consent := or_else (patched (cu_consent p) (Some (con_consent c))) [],
     con_tags := or_else (patched (cu_tags p) (Some (con_tags c))) [],
     con_notes := patched (cu_notes p) (con_notes c)\<rparr>"

text \<open>
  Nothing compares the new email or phone with the other contacts. A null for \<open>consent\<close> or
  \<open>tags\<close> passes the schema and is stored, and then \<open>ContactOut\<close> refuses the row: its exception
  undoes the request.
\<close>

definition update_contact :: "tenant_context \<Rightarrow> uuid \<Rightarrow> contact_update \<Rightarrow> (db, contact) action" where
  "update_contact ten i p =
     andthen (contact_or_404 ten i) (\<lambda>c.
     andthen (contact_write (con_id c) (patch_contact p)) (\<lambda>_.
     if cu_consent p = SetTo None \<or> cu_tags p = SetTo None then raise ValueError
     else ret (patch_contact p c)))"

definition contact_timeline_leads :: "tenant_context \<Rightarrow> actor \<Rightarrow> uuid \<Rightarrow> (db, lead list) action" where
  "contact_timeline_leads ten a i =
     andthen (contact_or_404 ten i) (\<lambda>c.
     gets (\<lambda>s. list_leads (tenant_id ten) (scope_user_ids_for (tenant_id ten) a s)
       \<lparr>lf_stage = None, lf_agent = None, lf_source = None, lf_listing = None\<rparr> (Some i) None 1000 s))"

definition lead_exists :: "uuid \<Rightarrow> uuid \<Rightarrow> db \<Rightarrow> bool" where
  "lead_exists t i s \<longleftrightarrow> lead_get t None i s \<noteq> None"

definition contact_exists :: "uuid \<Rightarrow> uuid \<Rightarrow> db \<Rightarrow> bool" where
  "contact_exists t i s \<longleftrightarrow> contact_get t i s \<noteq> None"

definition contact_ids_for_email :: "uuid \<Rightarrow> string \<Rightarrow> db \<Rightarrow> uuid list" where
  "contact_ids_for_email t email s = map con_id (contacts_by_email t email s)"

definition log_activity ::
  "activity_type \<Rightarrow> uuid \<Rightarrow> uuid \<Rightarrow> json_obj \<Rightarrow> instant \<Rightarrow> (db, unit) action" where
  "log_activity ty t i payload now =
     andthen (gets (lead_get t None i)) (\<lambda>r. case r of
        None \<Rightarrow> ret ()
      | Some l \<Rightarrow>
          andthen (activity_add t i None ty payload now) (\<lambda>_. recompute_score t i now))"

definition log_tour_activity :: "uuid \<Rightarrow> uuid \<Rightarrow> json_obj \<Rightarrow> instant \<Rightarrow> (db, unit) action" where
  "log_tour_activity = log_activity TOUR"

definition record_no_show :: "uuid \<Rightarrow> uuid \<Rightarrow> json_obj \<Rightarrow> instant \<Rightarrow> (db, unit) action" where
  "record_no_show = log_activity NO_SHOW_ACTIVITY"

section \<open>Erasure and retention\<close>

definition anonymize_contact :: "contact \<Rightarrow> contact" where
  "anonymize_contact c = c\<lparr>con_first_name := None, con_last_name := None, con_email := None,
     con_phone := None, con_whatsapp := None, con_notes := None, con_consent := [], con_tags := []\<rparr>"

definition anonymize_subject :: "uuid \<Rightarrow> string \<Rightarrow> (db, nat) action" where
  "anonymize_subject t email = (\<lambda>s. (Inr (length (contacts_by_email t email s)),
     s\<lparr>contacts := upd_rows (email_matches t email) anonymize_contact (contacts s)\<rparr>))"

definition already_stripped :: "contact \<Rightarrow> bool" where
  "already_stripped c \<longleftrightarrow> con_email c = None \<and> con_first_name c = None \<and> con_phone c = None"

definition anonymize_lost_leads :: "uuid \<Rightarrow> instant \<Rightarrow> nat \<Rightarrow> (db, nat) action" where
  "anonymize_lost_leads t before limit = (\<lambda>s.
     let ids = map lead_contact (lost_leads_before t before limit s);
         hit = (\<lambda>c. con_tenant c = t \<and> con_id c \<in> set ids \<and> \<not> already_stripped c)
     in (Inr (length (filter hit (contacts s))),
         s\<lparr>contacts := upd_rows hit anonymize_contact (contacts s)\<rparr>))"

section \<open>Drip sequences\<close>

definition drip_step :: "int \<Rightarrow> string \<Rightarrow> string \<Rightarrow> json" where
  "drip_step day subject body =
     JObj [(''day'', JInt day), (''subject'', JStr subject), (''body'', JStr body)]"

definition DEFAULT_DRIP_SEQUENCE :: "json list" where
  "DEFAULT_DRIP_SEQUENCE = [
     drip_step 0 ''Thanks for reaching out!''
       (''Thanks for your interest '' @ em_dash @ '' one of our agents will be in touch shortly.''),
     drip_step 2 ''Still looking?''
       (''Just checking in '' @ em_dash @ '' let us know if you'' @ [CHR 0x27] @ ''d like to schedule a viewing.''),
     drip_step 7 (''We'' @ [CHR 0x27] @ ''re here whenever you'' @ [CHR 0x27] @ ''re ready'')
       (''No rush '' @ em_dash @ '' reach out any time and we'' @ [CHR 0x27] @ ''ll pick up where we left off.'')]"

definition drip_sequence :: "tenant_context \<Rightarrow> error + json list" where
  "drip_sequence ten = (case settings_namespace ''leads'' (tenant_settings ten) of
      Inl e \<Rightarrow> Inl e
    | Inr obj \<Rightarrow> (case json_get ''drip_sequence'' obj of
          Some (JList (x # xs)) \<Rightarrow> Inr (x # xs)
        | _ \<Rightarrow> Inr DEFAULT_DRIP_SEQUENCE))"

text \<open>\<open>step[key]\<close>: an error when the step is no object or lacks the key.\<close>

definition step_field :: "string \<Rightarrow> json \<Rightarrow> error + json" where
  "step_field key st = (case st of
      JObj obj \<Rightarrow> (case json_get key obj of Some v \<Rightarrow> Inr v | None \<Rightarrow> Inl AttributeError)
    | _ \<Rightarrow> Inl AttributeError)"

fun json_number :: "json \<Rightarrow> error + int" where
  "json_number (JInt n) = Inr n"
| "json_number (JBool b) = Inr (of_bool b)"
| "json_number _ = Inl AttributeError"

definition step_day :: "json \<Rightarrow> error + int" where
  "step_day st = (case step_field ''day'' st of Inl e \<Rightarrow> Inl e | Inr v \<Rightarrow> json_number v)"

definition drip_write :: "uuid \<Rightarrow> (lead_drip_state \<Rightarrow> lead_drip_state) \<Rightarrow> (db, unit) action" where
  "drip_write i f = modify (\<lambda>s. s\<lparr>drips := upd_rows (\<lambda>d. drip_lead d = i) f (drips s)\<rparr>)"

definition advance_drip :: "tenant_context \<Rightarrow> lead_drip_state \<Rightarrow> instant \<Rightarrow> (db, unit) action" where
  "advance_drip ten drip now =
     (let t = tenant_id ten; k = drip_step_index drip; i = drip_lead drip in
      andthen (lift_res (drip_sequence ten)) (\<lambda>steps.
      if length steps \<le> k then stop_drip t i SEQUENCE_COMPLETE now
      else andthen (gets (lead_get t None i)) (\<lambda>r.
      case r of
        None \<Rightarrow> stop_drip t i STAGE_ADVANCED now
      | Some l \<Rightarrow>
      if lead_stage l \<notin> set DRIP_ACTIVE_STAGES then stop_drip t i STAGE_ADVANCED now
      else andthen (gets (contact_get t (lead_contact l))) (\<lambda>contact.
      andthen (case contact of
          Some c \<Rightarrow> if str_given (con_email c)
            then andthen (lift_res (step_field ''subject'' (steps ! k))) (\<lambda>subject.
                 andthen (lift_res (step_field ''body'' (steps ! k))) (\<lambda>body.
                 send_now (SendEmail (or_else (con_email c) []) subject body)))
            else ret ()
        | None \<Rightarrow> ret ()) (\<lambda>_.
      if length steps \<le> Suc k
      then drip_write i (\<lambda>d. d\<lparr>drip_step_index := Suc k, drip_stopped_at := Some now,
             drip_stopped_reason := Some SEQUENCE_COMPLETE\<rparr>)
      else andthen (lift_res (step_day (steps ! Suc k))) (\<lambda>next_day.
           andthen (lift_res (step_day (steps ! k))) (\<lambda>day.
           drip_write i (\<lambda>d. d\<lparr>drip_step_index := Suc k,
             drip_next_send_at := now + days (next_day - day)\<rparr>)))))))) "

section \<open>The periodic sweep\<close>

definition DRIP_BATCH :: nat where
  "DRIP_BATCH = 200"

definition advance_drips :: "tenant_context \<Rightarrow> instant \<Rightarrow> (db, nat) action" where
  "advance_drips ten now =
     andthen (gets (list_due_drips (tenant_id ten) now DRIP_BATCH)) (\<lambda>due.
     andthen (for_each due (\<lambda>d. advance_drip ten d now)) (\<lambda>_. ret (length due)))"

definition escalation_payload :: json_obj where
  "escalation_payload = [(''event'', JStr ''escalation_unassigned'')]"

definition already_escalated :: "db \<Rightarrow> lead \<Rightarrow> bool" where
  "already_escalated s l \<longleftrightarrow> list_ex (\<lambda>a. act_lead a = lead_id l \<and> act_type a = SYSTEM
     \<and> json_get ''event'' (act_payload a) = Some (JStr ''escalation_unassigned'')) (activities s)"

definition escalation_due :: "int \<Rightarrow> uuid \<Rightarrow> instant \<Rightarrow> db \<Rightarrow> lead list" where
  "escalation_due escalation_minutes t now s = filter (\<lambda>l. lead_tenant l = t \<and> lead_agent l = None
     \<and> lead_stage l = NEW \<and> lead_created_at l \<le> now - minutes escalation_minutes
     \<and> \<not> already_escalated s l) (leads s)"

definition escalate_unassigned ::
  "world \<Rightarrow> int \<Rightarrow> tenant_context \<Rightarrow> instant \<Rightarrow> (db, nat) action" where
  "escalate_unassigned w escalation_minutes ten now =
     andthen (gets (escalation_due escalation_minutes (tenant_id ten) now)) (\<lambda>due.
     andthen (gets (list_active_by_role (tenant_id ten) ADMIN)) (\<lambda>admins.
     andthen (for_each due (\<lambda>l.
        andthen (activity_add (tenant_id ten) (lead_id l) None SYSTEM escalation_payload now) (\<lambda>_.
        for_each admins (\<lambda>u. notify ten (user_id u) ''lead_escalated''
          [(''leadId'', JStr (uuid_text w (lead_id l))), (''minutes'', JInt escalation_minutes),
           (''email'', JStr (user_email u))])))) (\<lambda>_.
     ret (length due))))"

end
