(* ===== verification/Signing.thy ===== *)
theory Signing
  imports Prelude
begin

text \<open>
  The stateless signed values of \<open>core/security.py\<close>: \<open>value.hmac\<close>, with the purpose inside the
  authenticated text. HMAC-SHA256 as a hexadecimal digest is a parameter \<open>mac key text\<close>; what the
  code relies on is that a digest is ASCII and has no dot, so that the last dot splits a token.
\<close>

type_synonym mac = "string \<Rightarrow> string \<Rightarrow> string"

definition dot :: char where
  "dot = CHR ''.''"

definition sign_value :: "mac \<Rightarrow> string \<Rightarrow> string \<Rightarrow> string \<Rightarrow> string" where
  "sign_value mac secret purpose v = v @ [dot] @ mac secret (purpose @ '':'' @ v)"

text \<open>\<open>rpartition(".")\<close>: the parts before and after the last dot.\<close>

definition rpartition :: "string \<Rightarrow> (string \<times> string) option" where
  "rpartition token =
     (if dot \<in> set token
      then Some (rev (tl (dropWhile (\<lambda>c. c \<noteq> dot) (rev token))), rev (takeWhile (\<lambda>c. c \<noteq> dot) (rev token)))
      else None)"

text \<open>
  \<open>hmac.compare_digest\<close> raises a \<open>TypeError\<close> when one of its texts is not ASCII. (A character
  here is a byte of the UTF-8 text.)
\<close>

definition ascii_text :: "string \<Rightarrow> bool" where
  "ascii_text s \<longleftrightarrow> list_all (\<lambda>c. (of_char c :: nat) < 128) s"

definition compare_digest :: "string \<Rightarrow> string \<Rightarrow> error + bool" where
  "compare_digest a b = (if ascii_text a \<and> ascii_text b then Inr (a = b) else Inl TypeError)"

definition unsign_value :: "mac \<Rightarrow> string \<Rightarrow> string \<Rightarrow> string \<Rightarrow> error + string option" where
  "unsign_value mac secret purpose token = (case rpartition token of
      None \<Rightarrow> Inr None
    | Some (v, sig) \<Rightarrow> map_sum id (\<lambda>same. if same then Some v else None)
        (compare_digest sig (mac secret (purpose @ '':'' @ v))))"

section \<open>Tokens and values\<close>

text \<open>The digest is hexadecimal.\<close>

definition dotless :: "mac \<Rightarrow> bool" where
  "dotless mac \<longleftrightarrow> (\<forall>key text. dot \<notin> set (mac key text) \<and> ascii_text (mac key text))"

lemma rpartition_join: "dot \<notin> set b \<Longrightarrow> rpartition (a @ [dot] @ b) = Some (a, b)"
proof -
  assume "dot \<notin> set b"
  then have "\<forall>c \<in> set (rev b). c \<noteq> dot" by auto
  then show ?thesis by (simp add: rpartition_def takeWhile_append dropWhile_append)
qed

lemma rpartition_Some:
  assumes "rpartition token = Some (a, b)" shows "token = a @ [dot] @ b \<and> dot \<notin> set b"
proof -
  from assms have d: "dot \<in> set (rev token)" and a: "a = rev (tl (dropWhile (\<lambda>c. c \<noteq> dot) (rev token)))"
    and b: "b = rev (takeWhile (\<lambda>c. c \<noteq> dot) (rev token))"
    by (auto simp: rpartition_def split: if_splits)
  have "dropWhile (\<lambda>c. c \<noteq> dot) (rev token) = dot # rev a"
    using d hd_dropWhile [of "\<lambda>c. c \<noteq> dot" "rev token"]
    by (cases "dropWhile (\<lambda>c. c \<noteq> dot) (rev token)") (auto simp: a dropWhile_eq_Nil_conv)
  then have "rev token = rev b @ dot # rev a"
    using takeWhile_dropWhile_id [of "\<lambda>c. c \<noteq> dot" "rev token"] by (simp add: b)
  then have "token = rev (rev b @ dot # rev a)" by (metis rev_rev_ident)
  moreover have "dot \<notin> set b" by (auto simp: b dest: set_takeWhileD)
  ultimately show ?thesis by simp
qed

text \<open>
  A token verifies to a value exactly when signing the value under the same purpose gives the
  token.
\<close>

lemma unsign_iff:
  assumes "dotless mac"
  shows "unsign_value mac secret purpose token = Inr (Some v) \<longleftrightarrow> token = sign_value mac secret purpose v"
proof
  assume "unsign_value mac secret purpose token = Inr (Some v)"
  then have "rpartition token = Some (v, mac secret (purpose @ '':'' @ v))"
    by (auto simp: unsign_value_def compare_digest_def split: option.splits if_splits)
  from rpartition_Some [OF this] show "token = sign_value mac secret purpose v"
    by (simp add: sign_value_def)
next
  assume t: "token = sign_value mac secret purpose v"
  have "rpartition token = Some (v, mac secret (purpose @ '':'' @ v))"
    unfolding t sign_value_def by (rule rpartition_join) (use assms in \<open>simp add: dotless_def\<close>)
  moreover have "ascii_text (mac secret (purpose @ '':'' @ v))" using assms by (simp add: dotless_def)
  ultimately show "unsign_value mac secret purpose token = Inr (Some v)"
    by (simp add: unsign_value_def compare_digest_def)
qed

text \<open>
  A signature that is not ASCII is not refused as forged: it ends the request as an unhandled
  error.
\<close>

lemma foreign_signature_unhandled:
  assumes "\<not> ascii_text sig" "dot \<notin> set sig"
  shows "unsign_value mac secret purpose (v @ [dot] @ sig) = Inl TypeError"
  using rpartition_join [OF assms(2), of v] assms(1) by (simp add: unsign_value_def compare_digest_def)

end
