(* ===== verification/Appointments.thy ===== *)
theory Appointments
  imports Leads Calendar Signing
begin

text \<open>
  \<open>modules/appointments\<close> and \<open>workers/tasks/appointments.py\<close>: the schedule of an agent, the
  free slots of a day, the booking of a tour with the lead it mints, the appointment workflow,
  the agenda pages, the calendar feed and the reminder sweep. A time of day is a number of
  microseconds after midnight.
\<close>

section \<open>Repository\<close>

definition ACTIVE_STATUSES :: "appointment_status list" where
  "ACTIVE_STATUSES = [REQUESTED, CONFIRMED]"

definition appt_live :: "appointment \<Rightarrow> bool" where
  "appt_live a \<longleftrightarrow> appt_status a \<in> set ACTIVE_STATUSES"

text \<open>\<open>day_of_week NULLS LAST, date, start_time\<close>; dates of weekly rows are null and sort last too.\<close>

definition availability_key :: "agent_availability \<Rightarrow> (bool \<times> int) \<times> (bool \<times> int) \<times> int" where
  "availability_key r =
     ((av_day_of_week r = None, or_else (av_day_of_week r) 0),
      (av_date r = None, or_else (av_date r) 0), av_start_time r)"

definition list_availability :: "uuid \<Rightarrow> uuid \<Rightarrow> db \<Rightarrow> agent_availability list" where
  "list_availability t agent s = sort_key availability_key
     (filter (\<lambda>r. av_tenant r = t \<and> av_agent r = agent) (availability s))"

definition delete_availability :: "uuid \<Rightarrow> uuid \<Rightarrow> (db, unit) action" where
  "delete_availability t agent = modify (\<lambda>s.
     s\<lparr>availability := del_rows (\<lambda>r. av_tenant r = t \<and> av_agent r = agent) (availability s)\<rparr>)"

definition availability_for_date :: "uuid \<Rightarrow> uuid \<Rightarrow> date \<Rightarrow> db \<Rightarrow> agent_availability list" where
  "availability_for_date t agent day s = filter (\<lambda>r. av_tenant r = t \<and> av_agent r = agent
     \<and> (av_day_of_week r = Some (weekday day) \<or> av_date r = Some day)) (availability s)"

definition appointment_get :: "uuid \<Rightarrow> scope \<Rightarrow> uuid \<Rightarrow> db \<Rightarrow> appointment option" where
  "appointment_get t sc i s = find (\<lambda>a. appt_tenant a = t \<and> appt_id a = i
     \<and> in_scope sc (Some (appt_agent a))) (appointments s)"

record appointment_filters =
  af_status :: "appointment_status option"
  af_from :: "instant option"
  af_to :: "instant option"

definition appointment_base :: "uuid \<Rightarrow> scope \<Rightarrow> appointment_filters \<Rightarrow> appointment \<Rightarrow> bool" where
  "appointment_base t sc f a \<longleftrightarrow> appt_tenant a = t \<and> in_scope sc (Some (appt_agent a))
     \<and> (case af_status f of None \<Rightarrow> True | Some st \<Rightarrow> appt_status a = st)
     \<and> (case af_from f of None \<Rightarrow> True | Some i \<Rightarrow> i \<le> appt_start_at a)
     \<and> (case af_to f of None \<Rightarrow> True | Some i \<Rightarrow> appt_start_at a < i)"

definition agenda_key :: "appointment \<Rightarrow> instant \<times> uuid" where
  "agenda_key a = (appt_start_at a, appt_id a)"

definition appointment_page ::
  "uuid \<Rightarrow> scope \<Rightarrow> appointment_filters \<Rightarrow> (instant \<times> uuid) option \<Rightarrow> int \<Rightarrow> db \<Rightarrow> appointment list" where
  "appointment_page t sc f after limit s = take (nat (limit + 1)) (sort_key agenda_key
     (filter (\<lambda>a. appointment_base t sc f a
        \<and> (case after of None \<Rightarrow> True | Some k \<Rightarrow> k < agenda_key a)) (appointments s)))"

definition appointment_count :: "uuid \<Rightarrow> scope \<Rightarrow> appointment_filters \<Rightarrow> db \<Rightarrow> nat" where
  "appointment_count t sc f s = length (filter (appointment_base t sc f) (appointments s))"

definition of_contacts :: "uuid \<Rightarrow> uuid list \<Rightarrow> bool \<Rightarrow> instant \<Rightarrow> appointment \<Rightarrow> bool" where
  "of_contacts t ids upcoming_only now a \<longleftrightarrow> appt_tenant a = t \<and> appt_contact a \<in> set ids
     \<and> (upcoming_only \<longrightarrow> now \<le> appt_start_at a \<and> appt_live a)"

definition list_for_contacts ::
  "uuid \<Rightarrow> uuid list \<Rightarrow> bool \<Rightarrow> instant \<Rightarrow> (instant \<times> uuid) option \<Rightarrow> int \<Rightarrow> db \<Rightarrow> appointment list" where
  "list_for_contacts t ids upcoming_only now after limit s =
     (if ids = [] then [] else take (nat (limit + 1)) (sort_key agenda_key
        (filter (\<lambda>a. of_contacts t ids upcoming_only now a
           \<and> (case after of None \<Rightarrow> True | Some k \<Rightarrow> k < agenda_key a)) (appointments s))))"

definition count_for_contacts :: "uuid \<Rightarrow> uuid list \<Rightarrow> bool \<Rightarrow> instant \<Rightarrow> db \<Rightarrow> nat" where
  "count_for_contacts t ids upcoming_only now s =
     (if ids = [] then 0 else length (filter (of_contacts t ids upcoming_only now) (appointments s)))"

definition active_between :: "uuid \<Rightarrow> uuid \<Rightarrow> instant \<Rightarrow> instant \<Rightarrow> db \<Rightarrow> appointment list" where
  "active_between t agent window_start window_end s = filter (\<lambda>a. appt_tenant a = t
     \<and> appt_agent a = agent \<and> appt_live a \<and> appt_start_at a < window_end
     \<and> window_start < appt_end_at a) (appointments s)"

definition upcoming_for_agent :: "uuid \<Rightarrow> uuid \<Rightarrow> instant \<Rightarrow> nat \<Rightarrow> db \<Rightarrow> appointment list" where
  "upcoming_for_agent t agent since limit s = take limit (sort_key agenda_key
     (filter (\<lambda>a. appt_tenant a = t \<and> appt_agent a = agent \<and> appt_live a
        \<and> since \<le> appt_start_at a) (appointments s)))"

definition appointment_write :: "uuid \<Rightarrow> (appointment \<Rightarrow> appointment) \<Rightarrow> (db, unit) action" where
  "appointment_write i f = modify (\<lambda>s.
     s\<lparr>appointments := upd_rows (\<lambda>a. appt_id a = i) f (appointments s)\<rparr>)"

text \<open>A flush of a new row: the primary key and the check that it starts before it ends.\<close>

definition appointment_add :: "appointment \<Rightarrow> (db, unit) action" where
  "appointment_add a =
     andthen (gets (\<lambda>s. list_ex (\<lambda>x. appt_id x = appt_id a) (appointments s))) (\<lambda>taken.
     andthen (check (\<not> taken \<and> appt_start_at a < appt_end_at a) IntegrityError) (\<lambda>_.
     modify (\<lambda>s. s\<lparr>appointments := appointments s @ [a]\<rparr>)))"

section \<open>Settings of the tenant\<close>

definition DEFAULT_SLOT_MINUTES :: int where
  "DEFAULT_SLOT_MINUTES = 60"

definition DEFAULT_BUFFER_MINUTES :: int where
  "DEFAULT_BUFFER_MINUTES = 0"

text \<open>\<open>isinstance(x, int)\<close>, which holds of a bool as well.\<close>

fun as_int :: "json option \<Rightarrow> int option" where
  "as_int (Some (JInt n)) = Some n"
| "as_int (Some (JBool b)) = Some (of_bool b)"
| "as_int _ = None"

definition int_within :: "int \<Rightarrow> int \<Rightarrow> int \<Rightarrow> json option \<Rightarrow> int" where
  "int_within lo hi dflt v = (case as_int v of
      Some n \<Rightarrow> if lo \<le> n \<and> n \<le> hi then n else dflt
    | None \<Rightarrow> dflt)"

text \<open>\<open>zones\<close> is the zone database: \<open>None\<close> where \<open>ZoneInfo\<close> raises.\<close>

type_synonym zones = "string \<Rightarrow> time_zone option"

definition tenant_appointment_settings ::
  "zones \<Rightarrow> tenant_context \<Rightarrow> error + (int \<times> int \<times> time_zone)" where
  "tenant_appointment_settings zones ten =
     (case settings_namespace ''appointments'' (tenant_settings ten) of
        Inl e \<Rightarrow> Inl e
      | Inr raw \<Rightarrow> Inr
          (int_within 5 480 DEFAULT_SLOT_MINUTES (json_get ''slot_minutes'' raw),
           int_within 0 240 DEFAULT_BUFFER_MINUTES (json_get ''buffer_minutes'' raw),
           case json_get ''timezone'' raw of
             Some (JStr zone) \<Rightarrow>
               if zone \<noteq> [] \<and> map upper_char zone \<noteq> ''UTC'' then or_else (zones zone) utc else utc
           | _ \<Rightarrow> utc))"

section \<open>Availability\<close>

definition MAX_AVAILABILITY_RULES :: nat where
  "MAX_AVAILABILITY_RULES = 100"

record availability_rule =
  ar_day_of_week :: "int option"
  ar_date :: "date option"
  ar_start_time :: int
  ar_end_time :: int
  ar_is_block :: bool

definition rule_consistent :: "availability_rule \<Rightarrow> bool" where
  "rule_consistent r \<longleftrightarrow>
     (case ar_day_of_week r of None \<Rightarrow> True | Some d \<Rightarrow> 0 \<le> d \<and> d \<le> 6)
     \<and> (ar_day_of_week r = None) \<noteq> (ar_date r = None)
     \<and> ar_start_time r < ar_end_time r
     \<and> \<not> (ar_is_block r \<and> ar_date r = None)"

definition availability_body_ok :: "availability_rule list \<Rightarrow> bool" where
  "availability_body_ok rs \<longleftrightarrow>
     length rs \<le> MAX_AVAILABILITY_RULES \<and> list_all rule_consistent rs"

definition rule_row :: "uuid \<Rightarrow> uuid \<Rightarrow> availability_rule \<Rightarrow> agent_availability" where
  "rule_row t agent r = \<lparr>av_tenant = t, av_agent = agent, av_day_of_week = ar_day_of_week r,
     av_date = ar_date r, av_start_time = ar_start_time r, av_end_time = ar_end_time r,
     av_is_block = ar_is_block r\<rparr>"

definition get_availability ::
  "tenant_context \<Rightarrow> actor \<Rightarrow> uuid \<Rightarrow> (db, agent_availability list) action" where
  "get_availability ten a profile_id =
     andthen (profile_scoped_or_404 ten a profile_id) (\<lambda>p.
     gets (list_availability (tenant_id ten) (prof_user p)))"

definition put_availability ::
  "tenant_context \<Rightarrow> actor \<Rightarrow> uuid \<Rightarrow> availability_rule list \<Rightarrow> (db, agent_availability list) action" where
  "put_availability ten a profile_id rs =
     andthen (check (availability_body_ok rs) (ValidationError ''rules'')) (\<lambda>_.
     andthen (profile_scoped_or_404 ten a profile_id) (\<lambda>p.
     andthen (delete_availability (tenant_id ten) (prof_user p)) (\<lambda>_.
     andthen (modify (\<lambda>s. s\<lparr>availability := availability s
         @ map (rule_row (tenant_id ten) (prof_user p)) rs\<rparr>)) (\<lambda>_.
     gets (list_availability (tenant_id ten) (prof_user p))))))"

section \<open>Free slots\<close>

type_synonym slot = "instant \<times> instant"

definition overlaps_any :: "slot \<Rightarrow> slot list \<Rightarrow> bool" where
  "overlaps_any slot windows = list_ex (\<lambda>(start, stop). fst slot < stop \<and> start < snd slot) windows"

text \<open>The \<open>while\<close> loop over one window; not ending is \<open>None\<close>.\<close>

partial_function (option) cut_window ::
  "(slot \<Rightarrow> bool) \<Rightarrow> int \<Rightarrow> instant \<Rightarrow> instant \<Rightarrow> slot list \<Rightarrow> slot list option" where
  "cut_window free slot_len cursor window_end slots =
     (if cursor + slot_len \<le> window_end
      then cut_window free slot_len (cursor + slot_len) window_end
        (if free (cursor, cursor + slot_len) \<and> (cursor, cursor + slot_len) \<notin> set slots
         then slots @ [(cursor, cursor + slot_len)] else slots)
      else Some slots)"

declare cut_window.simps [code]

fun cut_windows :: "(slot \<Rightarrow> bool) \<Rightarrow> int \<Rightarrow> slot list \<Rightarrow> slot list \<Rightarrow> slot list option" where
  "cut_windows free slot_len [] slots = Some slots"
| "cut_windows free slot_len ((window_start, window_end) # ws) slots =
     (case cut_window free slot_len window_start window_end slots of
        None \<Rightarrow> None | Some slots' \<Rightarrow> cut_windows free slot_len ws slots')"

definition window_utc :: "time_zone \<Rightarrow> date \<Rightarrow> agent_availability \<Rightarrow> slot" where
  "window_utc tz day r = (zone_instant tz day (av_start_time r), zone_instant tz day (av_end_time r))"

definition open_windows :: "time_zone \<Rightarrow> date \<Rightarrow> agent_availability list \<Rightarrow> slot list" where
  "open_windows tz day rows =
     map (window_utc tz day) (filter (\<lambda>r. av_day_of_week r \<noteq> None) rows)
     @ map (window_utc tz day) (filter (\<lambda>r. av_date r \<noteq> None \<and> \<not> av_is_block r) rows)"

definition blocked_windows :: "time_zone \<Rightarrow> date \<Rightarrow> agent_availability list \<Rightarrow> slot list" where
  "blocked_windows tz day rows =
     map (window_utc tz day) (filter (\<lambda>r. av_date r \<noteq> None \<and> av_is_block r) rows)"

definition busy_windows :: "uuid \<Rightarrow> uuid \<Rightarrow> int \<Rightarrow> slot list \<Rightarrow> db \<Rightarrow> slot list" where
  "busy_windows t agent buffer windows s =
     (let day_start = Min (set (map fst windows)); day_end = Max (set (map snd windows))
      in map (\<lambda>a. (appt_start_at a - buffer, appt_end_at a + buffer))
           (active_between t agent (day_start - buffer) (day_end + buffer) s))"

definition slot_free :: "instant \<Rightarrow> slot list \<Rightarrow> slot list \<Rightarrow> slot \<Rightarrow> bool" where
  "slot_free now blocks busy slot \<longleftrightarrow>
     now < fst slot \<and> \<not> overlaps_any slot blocks \<and> \<not> overlaps_any slot busy"

definition free_slots ::
  "zones \<Rightarrow> tenant_context \<Rightarrow> uuid \<Rightarrow> date \<Rightarrow> instant \<Rightarrow> db \<Rightarrow> error + slot list" where
  "free_slots zones ten agent day now s =
     (case tenant_appointment_settings zones ten of
        Inl e \<Rightarrow> Inl e
      | Inr (slot_minutes, buffer_minutes, tz) \<Rightarrow>
          let rows = availability_for_date (tenant_id ten) agent day s;
              windows = open_windows tz day rows
          in if windows = [] then Inr []
             else
               let free = slot_free now (blocked_windows tz day rows)
                     (busy_windows (tenant_id ten) agent (minutes buffer_minutes) windows s)
               in case cut_windows free (minutes slot_minutes) (sort windows) [] of
                    None \<Rightarrow> Inl NonTermination
                  | Some slots \<Rightarrow> Inr (sort slots))"

definition MAX_BOOKING_DAYS_AHEAD :: int where
  "MAX_BOOKING_DAYS_AHEAD = 90"

definition validate_day :: "zones \<Rightarrow> tenant_context \<Rightarrow> date \<Rightarrow> instant \<Rightarrow> error + unit" where
  "validate_day zones ten day now =
     (case tenant_appointment_settings zones ten of
        Inl e \<Rightarrow> Inl e
      | Inr (_, _, tz) \<Rightarrow>
          let today = zone_date tz now
          in if day < today \<or> today + MAX_BOOKING_DAYS_AHEAD < day
             then Inl (ConflictError ''Tours can be booked up to 90 days ahead.'')
             else Inr ())"

definition public_slots ::
  "zones \<Rightarrow> tenant_context \<Rightarrow> string \<Rightarrow> date \<Rightarrow> instant \<Rightarrow> (db, slot list) action" where
  "public_slots zones ten slug day now =
     andthen (agent_get_public ten slug) (\<lambda>(p, _).
     andthen (lift_res (validate_day zones ten day now)) (\<lambda>_.
     andthen (gets (free_slots zones ten (prof_user p) day now)) lift_res))"

section \<open>Booking\<close>

text \<open>The advisory lock of the agent's calendar serializes bookings: one runs after the other.\<close>

definition booked_tour ::
  "tenant_context \<Rightarrow> agent_profile \<Rightarrow> capture_form \<Rightarrow> slot \<Rightarrow> uuid \<Rightarrow> uuid \<Rightarrow> uuid \<Rightarrow> appointment" where
  "booked_tour ten p d slot new_id lead contact =
     \<lparr>appt_id = new_id, appt_tenant = tenant_id ten, appt_agent = prof_user p,
      appt_listing = cf_listing d, appt_contact = contact, appt_lead = Some lead,
      appt_status = REQUESTED, appt_start_at = fst slot, appt_end_at = snd slot,
      appt_confirmed_at = None, appt_reminder_24h_sent_at = None,
      appt_reminder_1h_sent_at = None\<rparr>"

text \<open>The writes of a booking: the lead, the appointment, the entry in the lead's timeline.\<close>

definition commit_booking ::
  "world \<Rightarrow> tenant_context \<Rightarrow> agent_profile \<Rightarrow> capture_form \<Rightarrow> slot \<Rightarrow> uuid \<Rightarrow> uuid \<Rightarrow> uuid \<Rightarrow> instant \<Rightarrow>
   (db, appointment option) action" where
  "commit_booking w ten p d slot new_id new_lead_id new_contact_id now =
     andthen (register_tour_request w ten (cf_contact d) (cf_listing d) (cf_message d)
                (prof_user p) (cf_meta d) new_lead_id new_contact_id now) (\<lambda>(lead, contact).
     let a = booked_tour ten p d slot new_id lead contact
     in andthen (appointment_add a) (\<lambda>_.
        andthen (log_tour_activity (tenant_id ten) lead
          [(''event'', JStr ''tour_requested''), (''appointment_id'', JStr (uuid_text w new_id)),
           (''start_at'', JStr (iso_text (fst slot)))] now) (\<lambda>_.
        ret (Some a))))"

definition book ::
  "world \<Rightarrow> zones \<Rightarrow> tenant_context \<Rightarrow> string \<Rightarrow> capture_form \<Rightarrow> instant \<Rightarrow> uuid \<Rightarrow> uuid \<Rightarrow> uuid \<Rightarrow> instant \<Rightarrow>
   (db, appointment option) action" where
  "book w zones ten slug d start_at new_id new_lead_id new_contact_id now =
     (if cf_hp d \<noteq> [] then ret None
      else
        andthen (agent_get_public ten slug) (\<lambda>(p, _).
        andthen (lift_res (tenant_appointment_settings zones ten)) (\<lambda>(_, _, tz).
        let day = zone_date tz start_at in
        andthen (lift_res (validate_day zones ten day now)) (\<lambda>_.
        andthen (case cf_listing d of
            None \<Rightarrow> ret ()
          | Some i \<Rightarrow> andthen (listing_get_public (uuid_of_text w) ten (uuid_text w i)) (\<lambda>_. ret ())) (\<lambda>_.
        andthen (gets (free_slots zones ten (prof_user p) day now)) (\<lambda>r.
        andthen (lift_res r) (\<lambda>slots.
        case find (\<lambda>s. fst s = start_at) slots of
          None \<Rightarrow> raise (ConflictError ''This time slot is not available. Please pick another.'')
        | Some slot \<Rightarrow> commit_booking w ten p d slot new_id new_lead_id new_contact_id now)))))))"

section \<open>The portal lifecycle\<close>

definition APPOINTMENT_TRANSITIONS :: "appointment_status \<Rightarrow> appointment_status list" where
  "APPOINTMENT_TRANSITIONS st = (case st of
      REQUESTED \<Rightarrow> [CONFIRMED, CANCELLED]
    | CONFIRMED \<Rightarrow> [COMPLETED, CANCELLED, NO_SHOW]
    | COMPLETED \<Rightarrow> []
    | CANCELLED \<Rightarrow> []
    | NO_SHOW \<Rightarrow> [])"

definition appointment_status_value :: "appointment_status \<Rightarrow> string" where
  "appointment_status_value st = (case st of
      REQUESTED \<Rightarrow> ''requested'' | CONFIRMED \<Rightarrow> ''confirmed'' | COMPLETED \<Rightarrow> ''completed''
    | CANCELLED \<Rightarrow> ''cancelled'' | NO_SHOW \<Rightarrow> ''no_show'')"

definition appointment_or_404 :: "tenant_context \<Rightarrow> actor \<Rightarrow> uuid \<Rightarrow> (db, appointment) action" where
  "appointment_or_404 ten a i =
     andthen (gets (scope_user_ids_for (tenant_id ten) a)) (\<lambda>sc.
     andthen (gets (appointment_get (tenant_id ten) sc i)) (\<lambda>r. case r of
        None \<Rightarrow> raise (NotFoundError ''Appointment not found.'')
      | Some ap \<Rightarrow> ret ap))"

definition visit_mail :: "appointment_status \<Rightarrow> string \<Rightarrow> instant \<Rightarrow> side_effect" where
  "visit_mail to_status email start_at =
     (if to_status = CONFIRMED
      then SendEmail email (JStr ''Your visit is confirmed'')
        (JStr (''Your property visit on '' @ minute_text start_at @ '' has been confirmed. See you there!''))
      else SendEmail email (JStr ''Your visit was cancelled'')
        (JStr (''Your property visit on '' @ minute_text start_at
          @ '' has been cancelled. Please book a new slot.'')))"

definition notify_contact :: "tenant_context \<Rightarrow> appointment \<Rightarrow> appointment_status \<Rightarrow> (db, unit) action" where
  "notify_contact ten ap to_status =
     andthen (gets (contacts_by_ids (tenant_id ten) [appt_contact ap])) (\<lambda>found.
     case find (\<lambda>c. con_id c = appt_contact ap) found of
       None \<Rightarrow> ret ()
     | Some c \<Rightarrow>
         if str_given (con_email c)
         then on_commit (visit_mail to_status (or_else (con_email c) []) (appt_start_at ap))
         else ret ())"

definition appointment_transition ::
  "world \<Rightarrow> tenant_context \<Rightarrow> actor \<Rightarrow> uuid \<Rightarrow> appointment_status \<Rightarrow> instant \<Rightarrow> (db, unit) action" where
  "appointment_transition w ten a i to_status now =
     andthen (appointment_or_404 ten a i) (\<lambda>ap.
     andthen (check (to_status \<in> set (APPOINTMENT_TRANSITIONS (appt_status ap)))
       (ConflictError (''An appointment cannot move from '' @ quoted (appointment_status_value (appt_status ap))
         @ '' to '' @ quoted (appointment_status_value to_status) @ ''.''))) (\<lambda>_.
     andthen (appointment_write i (\<lambda>r. if to_status = CONFIRMED
         then r\<lparr>appt_status := to_status, appt_confirmed_at := Some now\<rparr>
         else r\<lparr>appt_status := to_status\<rparr>)) (\<lambda>_.
     andthen (case appt_lead ap of
         None \<Rightarrow> ret ()
       | Some l \<Rightarrow>
           let payload = [(''event'', JStr (''tour_'' @ appointment_status_value to_status)),
                 (''appointment_id'', JStr (uuid_text w i)), (''start_at'', JStr (iso_text (appt_start_at ap)))]
           in if to_status = NO_SHOW then record_no_show (tenant_id ten) l payload now
              else log_tour_activity (tenant_id ten) l payload now) (\<lambda>_.
     if to_status \<in> {CONFIRMED, CANCELLED} then notify_contact ten ap to_status else ret ()))))"

section \<open>Agendas\<close>

definition list_appointments ::
  "tenant_context \<Rightarrow> actor \<Rightarrow> appointment_filters \<Rightarrow> (instant \<times> uuid) cursor option \<Rightarrow> int option \<Rightarrow> db \<Rightarrow>
   error + (appointment list \<times> (instant \<times> uuid) cursor option \<times> nat)" where
  "list_appointments ten a f cursor limit s =
     (case decode_keyset cursor of
        Inl e \<Rightarrow> Inl e
      | Inr after \<Rightarrow>
          let page_size = clamp_limit limit; sc = scope_user_ids_for (tenant_id ten) a s;
              (items, next) = cut_page agenda_key page_size
                 (appointment_page (tenant_id ten) sc f after page_size s)
          in Inr (items, next, appointment_count (tenant_id ten) sc f s))"

definition list_for_visitor ::
  "tenant_context \<Rightarrow> actor \<Rightarrow> bool \<Rightarrow> (instant \<times> uuid) cursor option \<Rightarrow> int option \<Rightarrow> instant \<Rightarrow>
   (db, appointment list \<times> (instant \<times> uuid) cursor option \<times> nat) action" where
  "list_for_visitor ten a upcoming_only cursor limit now =
     andthen (lift_res (decode_keyset cursor)) (\<lambda>after.
     andthen (user_get_or_404 (Some (tenant_id ten)) (actor_id a)) (\<lambda>u.
     if user_email_verified_at u = None then ret ([], None, 0)
     else gets (\<lambda>s.
       let page_size = clamp_limit limit;
           ids = contact_ids_for_email (tenant_id ten) (user_email u) s;
           (items, next) = cut_page agenda_key page_size
              (list_for_contacts (tenant_id ten) ids upcoming_only now after page_size s)
       in (items, next, count_for_contacts (tenant_id ten) ids upcoming_only now s))))"

section \<open>The calendar feed\<close>

definition ICAL_LOOKBACK :: int where
  "ICAL_LOOKBACK = days 1"

definition ICAL_MAX_EVENTS :: nat where
  "ICAL_MAX_EVENTS = 500"

definition ICAL_PURPOSE :: string where
  "ICAL_PURPOSE = ''agent-ical''"

text \<open>An event of the feed, before the iCalendar library writes it out.\<close>

record ical_event =
  ie_uid :: string
  ie_start :: instant
  ie_end :: instant
  ie_summary :: string
  ie_confirmed :: bool

definition contact_name :: "contact option \<Rightarrow> string" where
  "contact_name c = (case c of
      None \<Rightarrow> []
    | Some c \<Rightarrow>
        let parts = filter (\<lambda>p. p \<noteq> []) [or_else (con_first_name c) [], or_else (con_last_name c) []]
        in case parts of [a, b] \<Rightarrow> a @ '' '' @ b | [a] \<Rightarrow> a | _ \<Rightarrow> [])"

definition ical_event_of :: "world \<Rightarrow> tenant_context \<Rightarrow> contact list \<Rightarrow> appointment \<Rightarrow> ical_event" where
  "ical_event_of w ten found ap =
     (let name = contact_name (find (\<lambda>c. con_id c = appt_contact ap) found) in
      \<lparr>ie_uid = uuid_text w (appt_id ap) @ ''@'' @ tenant_slug ten, ie_start = appt_start_at ap,
       ie_end = appt_end_at ap,
       ie_summary = (if name \<noteq> [] then ''Property tour '' @ em_dash @ '' '' @ name else ''Property tour''),
       ie_confirmed = (appt_status ap = CONFIRMED)\<rparr>)"

definition ical_token :: "mac \<Rightarrow> string \<Rightarrow> world \<Rightarrow> uuid \<Rightarrow> uuid \<Rightarrow> string" where
  "ical_token mac secret w t u =
     sign_value mac secret ICAL_PURPOSE (uuid_text w t @ '':'' @ uuid_text w u)"

definition ical_url ::
  "mac \<Rightarrow> string \<Rightarrow> world \<Rightarrow> tenant_context \<Rightarrow> actor \<Rightarrow> uuid \<Rightarrow> (db, string) action" where
  "ical_url mac secret w ten a profile_id =
     andthen (profile_scoped_or_404 ten a profile_id) (\<lambda>p.
     ret (''/api/v1/appointments/ical/'' @ ical_token mac secret w (tenant_id ten) (prof_user p)))"

definition before_colon :: "string \<Rightarrow> string" where
  "before_colon v = takeWhile (\<lambda>c. c \<noteq> CHR '':'') v"

definition after_colon :: "string \<Rightarrow> string" where
  "after_colon v = drop 1 (dropWhile (\<lambda>c. c \<noteq> CHR '':'') v)"

definition ical_feed ::
  "mac \<Rightarrow> string \<Rightarrow> world \<Rightarrow> tenant_context \<Rightarrow> string \<Rightarrow> instant \<Rightarrow> db \<Rightarrow> error + ical_event list" where
  "ical_feed mac secret w ten token now s =
     (case unsign_value mac secret ICAL_PURPOSE token of
        Inl e \<Rightarrow> Inl e
      | Inr None \<Rightarrow> Inl (NotFoundError ''Calendar not found.'')
      | Inr (Some v) \<Rightarrow>
          (case (uuid_of_text w (before_colon v), uuid_of_text w (after_colon v)) of
             (Some token_tenant, Some agent) \<Rightarrow>
               if token_tenant \<noteq> tenant_id ten then Inl (NotFoundError ''Calendar not found.'')
               else
                 let upcoming = upcoming_for_agent (tenant_id ten) agent (now - ICAL_LOOKBACK) ICAL_MAX_EVENTS s;
                     found = contacts_by_ids (tenant_id ten) (map appt_contact upcoming) s
                 in Inr (map (ical_event_of w ten found) upcoming)
           | _ \<Rightarrow> Inl (NotFoundError ''Calendar not found.'')))"

section \<open>The reminder sweep\<close>

definition REMINDER_WINDOW_24H :: int where
  "REMINDER_WINDOW_24H = days 1"

definition REMINDER_WINDOW_1H :: int where
  "REMINDER_WINDOW_1H = minutes 60"

definition due_reminders :: "uuid \<Rightarrow> instant \<Rightarrow> int \<Rightarrow> bool \<Rightarrow> db \<Rightarrow> appointment list" where
  "due_reminders t now window is_1h s = filter (\<lambda>a. appt_tenant a = t \<and> appt_status a = CONFIRMED
     \<and> now < appt_start_at a \<and> appt_start_at a \<le> now + window
     \<and> (if is_1h then appt_reminder_1h_sent_at a else appt_reminder_24h_sent_at a) = None)
     (appointments s)"

definition stamp_reminder :: "bool \<Rightarrow> instant \<Rightarrow> appointment \<Rightarrow> appointment" where
  "stamp_reminder soon now a = a\<lparr>
     appt_reminder_1h_sent_at := (if soon then Some now else appt_reminder_1h_sent_at a),
     appt_reminder_24h_sent_at := (if appt_reminder_24h_sent_at a = None then Some now
        else appt_reminder_24h_sent_at a)\<rparr>"

definition reminder_mail :: "bool \<Rightarrow> string \<Rightarrow> instant \<Rightarrow> side_effect" where
  "reminder_mail soon email start_at = SendEmail email
     (JStr (if soon then ''Reminder: your property visit is in one hour''
            else ''Reminder: your property visit is tomorrow''))
     (JStr (''This is a reminder for your property visit on '' @ minute_text start_at @ ''. See you there!''))"

definition reminder_email :: "contact list \<Rightarrow> appointment \<Rightarrow> string option" where
  "reminder_email found a = (case find (\<lambda>c. con_id c = appt_contact a) found of
      None \<Rightarrow> None
    | Some c \<Rightarrow> if str_given (con_email c) then con_email c else None)"

definition remind_appointment ::
  "contact list \<Rightarrow> instant \<Rightarrow> appointment \<times> bool \<Rightarrow> (db, unit) action" where
  "remind_appointment found now = (\<lambda>(a, soon).
     andthen (appointment_write (appt_id a) (stamp_reminder soon now)) (\<lambda>_.
     case reminder_email found a of
       None \<Rightarrow> ret ()
     | Some email \<Rightarrow> send_now (reminder_mail soon email (appt_start_at a))))"

definition due_tours :: "uuid \<Rightarrow> instant \<Rightarrow> db \<Rightarrow> (appointment \<times> bool) list" where
  "due_tours t now s =
     (let due_1h = due_reminders t now REMINDER_WINDOW_1H True s;
          due_24h = filter (\<lambda>a. appt_id a \<notin> set (map appt_id due_1h))
            (due_reminders t now REMINDER_WINDOW_24H False s)
      in map (\<lambda>a. (a, True)) due_1h @ map (\<lambda>a. (a, False)) due_24h)"

definition remind_tours :: "uuid \<Rightarrow> instant \<Rightarrow> (db, nat) action" where
  "remind_tours t now =
     andthen (gets (due_tours t now)) (\<lambda>due.
     andthen (gets (contacts_by_ids t (map (appt_contact \<circ> fst) due))) (\<lambda>found.
     andthen (for_each due (remind_appointment found now)) (\<lambda>_.
     ret (length (filter (\<lambda>(a, _). reminder_email found a \<noteq> None) due)))))"

end
