(* ===== verification/Listing_Workflow.thy ===== *)
theory Listing_Workflow
  imports Listings
begin

text \<open>
  The correctness of \<open>modules/listings\<close>: the effect of each successful call, the steps of the
  module as a transition relation, and its invariants (unique reference codes, a quota counter
  that equals the live rows, a history that replays to the status).
\<close>

section \<open>Runs of the operations\<close>

interpretation listing_scope: scoped_table listings lst_tenant lst_id
  "\<lambda>sc l. lst_deleted_at l = None \<and> (sc = None \<or> in_scope sc (lst_agent l) \<or> in_scope sc (lst_created_by l))"
  listing_get listing_or_404 "NotFoundError ''Listing not found.''"
  by unfold_locales
    (auto simp: listing_get_def listing_base_def listing_or_404_def ret_def raise_def in_scope_def
      intro!: arg_cong [where f = "\<lambda>P. find P _"] split: option.splits)

lemma listing_write_run [simp]:
  "listing_write i f s = (Inr (), s\<lparr>listings := upd_rows (\<lambda>l. lst_id l = i) f (listings s)\<rparr>)"
  "andthen (listing_write i f) g s = g () (s\<lparr>listings := upd_rows (\<lambda>l. lst_id l = i) f (listings s)\<rparr>)"
  by (simp_all add: listing_write_def modify_def andthen_def)

lemma resolve_agent_read [read_only_intros]: "read_only (resolve_agent t a g)"
  unfolding resolve_agent_def by (intro read_only_intros)

lemma resolve_agent_Inr:
  "resolve_agent t a g s = (Inr u, s') \<Longrightarrow> s' = s \<and> (u = actor_id a \<or>
     g = Some u \<and> actor_role a \<in> set MANAGES_ALL_ROLES \<and> get_identity_if_active (Some t) u s \<noteq> None)"
  by (auto simp: resolve_agent_def action_iff split: option.splits if_splits)

lemma reserve_listing_frame:
  "reserve_listing t p s = (r, s') \<Longrightarrow> s' = s\<lparr>usage := usage s'\<rparr>"
  by (auto simp: reserve_listing_run usage_adjust_def modify_def Let_def split: option.splits if_splits)

lemma listing_add_iff:
  "listing_add l s = (Inr r, s') \<longleftrightarrow>
     \<not> reference_taken l s \<and> r = l \<and> s' = s\<lparr>listings := listings s @ [l]\<rparr>"
  "listing_add l s = (Inl e, s') \<longleftrightarrow> reference_taken l s \<and> e = IntegrityError \<and> s' = s"
  by (auto simp: listing_add_def ret_def)

lemma next_reference_number_iff:
  "next_reference_number t y s = (Inr n, s') \<longleftrightarrow>
     n = Suc (or_else (reference_counters s (t, int y)) 0)
     \<and> s' = s\<lparr>reference_counters := (reference_counters s)((t, int y) := Some n)\<rparr>"
  "next_reference_number t y s = (Inl e, s') \<longleftrightarrow> False"
  by (auto simp: next_reference_number_def Let_def split: option.splits)

text \<open>What creating and duplicating have in common: a new draft with the next code.\<close>

definition draft_row :: "tenant_context \<Rightarrow> actor \<Rightarrow> string \<Rightarrow> uuid \<Rightarrow> listing \<Rightarrow> bool" where
  "draft_row ten a code i l \<longleftrightarrow> lst_id l = i \<and> lst_tenant l = tenant_id ten
     \<and> lst_reference_code l = code \<and> lst_status l = DRAFT \<and> lst_deleted_at l = None
     \<and> lst_created_by l = Some (actor_id a)"

lemma draft_rows:
  "draft_row ten a code i (new_listing ten a data g code i now)"
  "draft_row ten a code i (copied_listing ten a src code i now)"
  by (simp_all add: draft_row_def new_listing_def copied_listing_def)

definition mint ::
  "tenant_context \<Rightarrow> nat \<Rightarrow> (string \<Rightarrow> listing) \<Rightarrow> (db, listing) action" where
  "mint ten year row =
     andthen (reserve_listing (tenant_id ten) (tenant_plan ten)) (\<lambda>_.
     andthen (next_reference_number (tenant_id ten) year) (\<lambda>number.
       listing_add (row (reference_code (tenant_slug ten) year number))))"

lemma mint_Inr:
  assumes "mint ten year row s = (Inr l, s')"
  obtains s1 n where
    "reserve_listing (tenant_id ten) (tenant_plan ten) s = (Inr (), s1)"
    "n = Suc (or_else (reference_counters s (tenant_id ten, int year)) 0)"
    "l = row (reference_code (tenant_slug ten) year n)" "\<not> reference_taken l s"
    "s' = s\<lparr>usage := usage s1, listings := listings s @ [l],
            reference_counters := (reference_counters s)((tenant_id ten, int year) := Some n)\<rparr>"
proof -
  from assms obtain s1 where
    r: "reserve_listing (tenant_id ten) (tenant_plan ten) s = (Inr (), s1)"
    and m: "andthen (next_reference_number (tenant_id ten) year) (\<lambda>number.
       listing_add (row (reference_code (tenant_slug ten) year number))) s1 = (Inr l, s')"
    unfolding mint_def andthen_Inr_iff by auto
  obtain us where s1: "s1 = s\<lparr>usage := us\<rparr>" using reserve_listing_frame [OF r] by blast
  show thesis
    using m unfolding s1
    by (intro that [OF r])
      (auto simp: andthen_Inr_iff next_reference_number_iff listing_add_iff s1 reference_taken_def)
qed

lemma listing_create_Inr:
  "listing_create_for ten a data i year now s = (Inr l, s') \<Longrightarrow>
   \<exists>g. mint ten year (\<lambda>code. new_listing ten a data g code i now) s = (Inr l, s')"
  unfolding listing_create_for_def
  by (subst (asm) andthen_Inr_iff) (auto simp: mint_def dest: read_onlyD [OF resolve_agent_read])

lemma listing_duplicate_Inr:
  "listing_duplicate ten a j i year now s = (Inr l, s') \<Longrightarrow>
   \<exists>src. listing_get (tenant_id ten) (scope_user_ids_for (tenant_id ten) a s) j s = Some src
     \<and> mint ten year (\<lambda>code. copied_listing ten a src code i now) s = (Inr l, s')"
  unfolding listing_duplicate_def
  by (subst (asm) andthen_Inr_iff) (auto simp: mint_def listing_scope.or_404_iff)


definition sync_tasks :: "tenant_context \<Rightarrow> uuid \<Rightarrow> portal_action option \<Rightarrow> side_effect list" where
  "sync_tasks ten i act = (case act of None \<Rightarrow> []
     | Some x \<Rightarrow> map (\<lambda>key. SyncListing i key x) (enabled_portal_keys (tenant_settings ten)))"

lemma enqueue_syndication_run:
  "enqueue_syndication ten i act s =
     (Inr (), s\<lparr>post_commit := post_commit s @ sync_tasks ten i act\<rparr>)"
  by (simp add: enqueue_syndication_def enqueue_listing_sync_def sync_tasks_def ret_def
      for_each_on_commit split: option.splits)

definition patch_listing :: "listing_update \<Rightarrow> uuid option \<Rightarrow> listing \<Rightarrow> listing" where
  "patch_listing d agent r = r\<lparr>lst_agent := agent,
     lst_facts := patch_facts d (lst_facts r),
     lst_price := patched (lu_price d) (lst_price r),
     lst_currency := patched (lu_currency d) (lst_currency r),
     lst_location := patched (lu_location d) (lst_location r),
     lst_expires_at := patched (lu_expires_at d) (lst_expires_at r),
     lst_featured := patched (lu_featured d) (lst_featured r),
     lst_stale_flagged_at := (if plain_fields_set d then None else lst_stale_flagged_at r)\<rparr>"

lemma updated_agent_read [read_only_intros]: "read_only (updated_agent ten a l g)"
  unfolding updated_agent_def by (cases g) (auto intro!: read_only_intros split: option.splits)

lemma listing_update_Inr:
  assumes "listing_update_for ten a i d s = (Inr u, s')"
  obtains l agent where
    "listing_get (tenant_id ten) (scope_user_ids_for (tenant_id ten) a s) i s = Some l"
    "lu_featured d = Unset \<or> actor_role a \<in> set MANAGES_ALL_ROLES"
    "updated_agent ten a l (lu_agent d) s = (Inr agent, s)"
    "s' = s\<lparr>listings := upd_rows (\<lambda>r. lst_id r = i) (patch_listing d agent) (listings s),
            post_commit := post_commit s @
              (if plain_fields_set d \<and> lst_status l = PUBLISHED
               then sync_tasks ten i (Some PORTAL_UPDATE) else [])\<rparr>"
proof -
  from assms obtain l where
    l: "listing_get (tenant_id ten) (scope_user_ids_for (tenant_id ten) a s) i s = Some l"
    unfolding listing_update_for_def by (subst (asm) andthen_Inr_iff)
      (auto simp: listing_scope.or_404_iff)
  have id: "lst_id l = i" using listing_scope.fetch_Some [OF l] by simp
  from assms obtain agent where g: "updated_agent ten a l (lu_agent d) s = (Inr agent, s)"
    unfolding listing_update_for_def
    by (auto simp: listing_scope.andthen_or_404 l andthen_Inr_iff split: if_splits
        dest: read_onlyD [OF updated_agent_read])
  have g': "andthen (updated_agent ten a l (lu_agent d)) f s = f agent s"
    for f :: "uuid option \<Rightarrow> (db, unit) action"
    by (simp add: andthen_def g)
  show thesis
    using assms unfolding listing_update_for_def patch_listing_def [symmetric]
    by (intro that [OF l _ g])
      (auto simp: listing_scope.andthen_or_404 l id g'
        enqueue_syndication_run ret_def split: if_splits)
qed

definition moved :: "listing_status \<Rightarrow> instant \<Rightarrow> listing \<Rightarrow> listing" where
  "moved target now r = (if target = PUBLISHED
     then r\<lparr>lst_status := target, lst_published_at := Some now\<rparr>
     else r\<lparr>lst_status := target, lst_stale_flagged_at := None\<rparr>)"

lemma listing_transition_Inr:
  assumes "listing_transition str_id ten a i target now s = (Inr u, s')"
  obtains l where
    "listing_get (tenant_id ten) (scope_user_ids_for (tenant_id ten) a s) i s = Some l"
    "target \<in> set (ALLOWED_TRANSITIONS (lst_status l))"
    "target = PUBLISHED \<longrightarrow> can_publish a ten = Inr True"
    "s' = s\<lparr>listings := upd_rows (\<lambda>r. lst_id r = i) (moved target now) (listings s),
            listing_histories := listing_histories s @
              [\<lparr>hist_tenant = tenant_id ten, hist_listing = i, hist_from = lst_status l,
                hist_to = target, hist_changed_by = Some (actor_id a), hist_created_at = now\<rparr>],
            outbox := outbox s @ (if target = PUBLISHED
              then [\<lparr>ev_tenant = tenant_id ten, ev_type = EVENT_LISTING_PUBLISHED,
                     ev_payload = [(''listingId'', JStr (str_id i)),
                       (''referenceCode'', JStr (lst_reference_code l))]\<rparr>] else []),
            post_commit := post_commit s @ (if target = PUBLISHED then [MatchPublished i] else [])
              @ sync_tasks ten i (syndication_action (lst_status l) target)\<rparr>"
proof -
  from assms obtain l where
    l: "listing_get (tenant_id ten) (scope_user_ids_for (tenant_id ten) a s) i s = Some l"
    unfolding listing_transition_def by (subst (asm) andthen_Inr_iff)
      (auto simp: listing_scope.or_404_iff)
  have id: "lst_id l = i" using listing_scope.fetch_Some [OF l] by simp
  show thesis
    using assms unfolding listing_transition_def moved_def [symmetric]
    by (intro that [OF l])
      (auto simp: listing_scope.andthen_or_404 l id andthen_Inr_iff basic_iff check_iff
        enqueue_syndication_run split: if_splits)
qed

lemma listing_soft_delete_Inr:
  assumes "listing_soft_delete ten a i now s = (Inr u, s')"
  obtains l s1 where
    "listing_get (tenant_id ten) (scope_user_ids_for (tenant_id ten) a s) i s = Some l"
    "lst_status l \<notin> set UNDELETABLE_STATUSES"
    "s1 = s\<lparr>listings := upd_rows (\<lambda>r. lst_id r = i) (\<lambda>r. r\<lparr>lst_deleted_at := Some now\<rparr>) (listings s)\<rparr>"
    "release_listings (tenant_id ten) s1 = (Inr (), s')"
proof -
  from assms obtain l where
    l: "listing_get (tenant_id ten) (scope_user_ids_for (tenant_id ten) a s) i s = Some l"
    unfolding listing_soft_delete_def by (subst (asm) andthen_Inr_iff)
      (auto simp: listing_scope.or_404_iff)
  have id: "lst_id l = i" using listing_scope.fetch_Some [OF l] by simp
  show thesis
    using assms unfolding listing_soft_delete_def
    by (intro that [OF l]) (auto simp: listing_scope.andthen_or_404 l id split: if_splits)
qed


section \<open>Steps of the module\<close>

text \<open>
  A successful call of any operation of the service, or a run of the nightly sweep. A new row
  has a fresh id (\<open>uuid7\<close>).
\<close>

inductive listing_step :: "db \<Rightarrow> db \<Rightarrow> bool" where
  create: "listing_create_for ten a data i year now s = (Inr l, s') \<Longrightarrow>
    i \<notin> lst_id ` set (listings s) \<Longrightarrow> listing_step s s'"
| duplicate: "listing_duplicate ten a j i year now s = (Inr l, s') \<Longrightarrow>
    i \<notin> lst_id ` set (listings s) \<Longrightarrow> listing_step s s'"
| update: "listing_update_for ten a i d s = (Inr u, s') \<Longrightarrow> listing_step s s'"
| delete: "listing_soft_delete ten a i now s = (Inr u, s') \<Longrightarrow> listing_step s s'"
| transition: "listing_transition str_id ten a i target now s = (Inr u, s') \<Longrightarrow> listing_step s s'"
| sweep: "flag_tenant stale_days t now s = (Inr n, s') \<Longrightarrow> listing_step s s'"

text \<open>
  What a step does to the table: it adds one minted draft, edits rows without touching what
  identifies them or their status, or moves one row along the graph and records the move.
\<close>

lemma listing_step_rows:
  assumes "listing_step s s'"
  obtains (minted) ten year row l where
      "mint ten year row s = (Inr l, s')" "\<And>c. \<exists>a i. draft_row ten a c i (row c)"
      "lst_id l \<notin> lst_id ` set (listings s)"
    | (edited) P f where "listings s' = upd_rows P f (listings s)"
      "\<And>r. lst_id (f r) = lst_id r \<and> lst_tenant (f r) = lst_tenant r \<and> lst_status (f r) = lst_status r
         \<and> lst_reference_code (f r) = lst_reference_code r \<and> lst_created_by (f r) = lst_created_by r"
      "listing_histories s' = listing_histories s" "reference_counters s' = reference_counters s"
    | (moved) l target now h where
      "l \<in> set (listings s)" "target \<in> set (ALLOWED_TRANSITIONS (lst_status l))"
      "listings s' = upd_rows (\<lambda>r. lst_id r = lst_id l) (moved target now) (listings s)"
      "listing_histories s' = listing_histories s @ [h]"
      "hist_listing h = lst_id l" "hist_from h = lst_status l" "hist_to h = target"
      "reference_counters s' = reference_counters s"
  using assms
proof (cases rule: listing_step.cases)
  case (create ten a data i year now l)
  from listing_create_Inr [OF create(1)] obtain g where
    m: "mint ten year (\<lambda>code. new_listing ten a data g code i now) s = (Inr l, s')" by blast
  from mint_Inr [OF m] create(2) have "lst_id l \<notin> lst_id ` set (listings s)"
    by (metis new_listing_def listing.select_convs(1))
  with m draft_rows show thesis by (blast intro: minted)
next
  case (duplicate ten a j i year now l)
  from listing_duplicate_Inr [OF duplicate(1)] obtain src where
    m: "mint ten year (\<lambda>code. copied_listing ten a src code i now) s = (Inr l, s')" by blast
  from mint_Inr [OF m] duplicate(2) have "lst_id l \<notin> lst_id ` set (listings s)"
    by (metis copied_listing_def listing.select_convs(1))
  with m draft_rows show thesis by (blast intro: minted)
next
  case (update ten a i d u)
  from listing_update_Inr [OF this] obtain agent pc where
    "s' = s\<lparr>listings := upd_rows (\<lambda>r. lst_id r = i) (patch_listing d agent) (listings s),
            post_commit := pc\<rparr>" by metis
  then show thesis
    by (intro edited [of "\<lambda>r. lst_id r = i" "patch_listing d agent"])
      (auto simp: patch_listing_def)
next
  case (delete ten a i now u)
  from listing_soft_delete_Inr [OF this] obtain s1 where
    "s1 = s\<lparr>listings := upd_rows (\<lambda>r. lst_id r = i) (\<lambda>r. r\<lparr>lst_deleted_at := Some now\<rparr>) (listings s)\<rparr>"
    "release_listings (tenant_id ten) s1 = (Inr (), s')" by metis
  then show thesis
    by (intro edited [of "\<lambda>r. lst_id r = i" "\<lambda>r. r\<lparr>lst_deleted_at := Some now\<rparr>"])
      (auto simp: release_listings_def usage_adjust_def modify_def)
next
  case (transition str_id ten a i target now u)
  then show thesis
  proof (rule listing_transition_Inr)
    fix l
    assume l: "listing_get (tenant_id ten) (scope_user_ids_for (tenant_id ten) a s) i s = Some l"
    and t: "target \<in> set (ALLOWED_TRANSITIONS (lst_status l))"
    and s': "s' = s\<lparr>listings := upd_rows (\<lambda>r. lst_id r = i) (moved target now) (listings s),
            listing_histories := listing_histories s @
              [\<lparr>hist_tenant = tenant_id ten, hist_listing = i, hist_from = lst_status l,
                hist_to = target, hist_changed_by = Some (actor_id a), hist_created_at = now\<rparr>],
            outbox := outbox s @ (if target = PUBLISHED
              then [\<lparr>ev_tenant = tenant_id ten, ev_type = EVENT_LISTING_PUBLISHED,
                     ev_payload = [(''listingId'', JStr (str_id i)),
                       (''referenceCode'', JStr (lst_reference_code l))]\<rparr>] else []),
            post_commit := post_commit s @ (if target = PUBLISHED then [MatchPublished i] else [])
              @ sync_tasks ten i (syndication_action (lst_status l) target)\<rparr>"
    from listing_scope.fetch_Some [OF l] have "l \<in> set (listings s)" "lst_id l = i" by auto
    with t show thesis by (intro moved [of l target now]) (auto simp: s')
  qed
next
  case (sweep stale_days t now n)
  then show thesis
    by (auto simp: flag_tenant_def Let_def
        intro!: edited [of _ "\<lambda>l. l\<lparr>lst_stale_flagged_at := Some now\<rparr>"])
qed

lemma moved_simps [simp]:
  "lst_id (moved target now r) = lst_id r" "lst_tenant (moved target now r) = lst_tenant r"
  "lst_status (moved target now r) = target"
  "lst_reference_code (moved target now r) = lst_reference_code r"
  "lst_created_by (moved target now r) = lst_created_by r"
  "lst_deleted_at (moved target now r) = lst_deleted_at r"
  by (simp_all add: moved_def)

section \<open>Reference codes never collide\<close>

definition digits_value :: "string \<Rightarrow> nat" where
  "digits_value xs = foldl (\<lambda>v c. 10 * v + (of_char c - 48)) 0 xs"

lemma digits_value_snoc [simp]:
  "digits_value (xs @ [c]) = 10 * digits_value xs + (of_char c - 48)"
  "digits_value [] = 0" "digits_value [c] = of_char c - 48"
  by (simp_all add: digits_value_def)

lemma digit_char_value [simp]: "d < 10 \<Longrightarrow> (of_char (digit_char d) :: nat) = 48 + d"
  by (simp add: digit_char_def)

lemma show_nat_value: "digits_value (show_nat n) = n"
proof (induction n rule: show_nat.induct)
  case (1 n)
  then show ?case by (cases "n < 10") (simp_all add: show_nat.simps [of n])
qed

lemma digits_value_zeros: "digits_value (replicate k (digit_char 0) @ xs) = digits_value xs"
  by (induction k) (simp_all add: digits_value_def)

lemma pad5_value: "digits_value (pad5 n) = n"
  by (simp add: pad5_def digits_value_zeros show_nat_value)

definition dash :: char where "dash = CHR ''-''"

lemma dash_code: "(of_char dash :: nat) = 45" by (simp add: dash_def)

lemma show_nat_dash: "dash \<notin> set (show_nat n)"
proof (induction n rule: show_nat.induct)
  case (1 n)
  have "dash \<noteq> digit_char d" if "d < 10" for d
    using digit_char_value [OF that] dash_code by auto
  with 1 show ?case by (subst show_nat.simps) auto
qed

lemma upper_char_dash: assumes "is_alnum c" shows "upper_char c \<noteq> dash"
proof
  assume c: "upper_char c = dash"
  define n where "n = (of_char c :: nat)"
  have "char_of n = c" by (simp add: n_def)
  then have n: "n = 45 \<or> 97 \<le> n \<and> n \<le> 122 \<and> (char_of (n - 32) :: char) = dash"
    using c dash_code by (auto simp: upper_char_def Let_def n_def split: if_splits)
  have code: "(of_char (char_of (n - 32) :: char) :: nat) = n - 32" if "n \<le> 122"
    using that by (simp only: of_char_of) simp
  from n have "n = 45"
  proof
    assume m: "97 \<le> n \<and> n \<le> 122 \<and> (char_of (n - 32) :: char) = dash"
    with code dash_code have "n - 32 = 45" by metis
    with m show ?thesis by linarith
  qed
  with assms show False by (simp add: is_alnum_def Let_def n_def)
qed

lemma reference_prefix_dash: "dash \<notin> set (reference_prefix slug)"
proof -
  have "\<forall>c \<in> set (take 3 (filter is_alnum slug)). upper_char c \<noteq> dash"
    using upper_char_dash by (auto dest: in_set_takeD)
  then have "dash \<notin> set (map upper_char (take 3 (filter is_alnum slug)))" by auto
  then show ?thesis by (auto simp: reference_prefix_def Let_def) (simp_all add: dash_def)
qed

lemma split_at_dash:
  "dash \<notin> set p \<Longrightarrow> dash \<notin> set q \<Longrightarrow> p @ dash # r = q @ dash # t \<Longrightarrow> p = q \<and> r = t"
proof (induction p arbitrary: q)
  case Nil
  then show ?case by (cases q) auto
next
  case (Cons c p)
  then show ?case by (cases q) auto
qed

lemma reference_code_inj:
  assumes "reference_code slug y n = reference_code slug' y' n'"
  shows "y = y' \<and> n = n'"
proof -
  have c: "reference_code sl a b = reference_prefix sl @ dash # show_nat a @ dash # pad5 b" for sl a b
    by (simp add: reference_code_def dash_def)
  from assms have "show_nat y @ dash # pad5 n = show_nat y' @ dash # pad5 n'"
    using split_at_dash [OF reference_prefix_dash reference_prefix_dash] unfolding c by blast
  with split_at_dash [OF show_nat_dash show_nat_dash] have "show_nat y = show_nat y'" "pad5 n = pad5 n'"
    by blast+
  with show_nat_value pad5_value show ?thesis by metis
qed


definition references_ok :: "db \<Rightarrow> bool" where
  "references_ok s \<longleftrightarrow> distinct (map lst_id (listings s))
     \<and> distinct (map (\<lambda>l. (lst_tenant l, lst_reference_code l)) (listings s))
     \<and> (\<forall>l \<in> set (listings s). \<exists>slug y n. lst_reference_code l = reference_code slug y n
          \<and> n \<le> or_else (reference_counters s (lst_tenant l, int y)) 0)"

lemma references_untaken:
  assumes "references_ok s" "lst_tenant l = t"
    "lst_reference_code l = reference_code slug y (Suc (or_else (reference_counters s (t, int y)) 0))"
  shows "\<not> reference_taken l s"
proof
  assume "reference_taken l s"
  then obtain m where m: "m \<in> set (listings s)" "lst_tenant m = t"
    "lst_reference_code m = lst_reference_code l"
    using assms(2) by (auto simp: reference_taken_def list_ex_iff)
  from assms(1) m(1) obtain slug' y' n' where
    c: "lst_reference_code m = reference_code slug' y' n'"
       "n' \<le> or_else (reference_counters s (lst_tenant m, int y')) 0"
    unfolding references_ok_def by blast
  with m(3) assms(3) reference_code_inj have "y' = y"
    "n' = Suc (or_else (reference_counters s (t, int y)) 0)" by metis+
  with c(2) m(2) show False by simp
qed

lemma references_rewritten:
  assumes "references_ok s" "listings s' = upd_rows P f (listings s)"
    "\<And>r. lst_id (f r) = lst_id r" "\<And>r. lst_tenant (f r) = lst_tenant r"
    "\<And>r. lst_reference_code (f r) = lst_reference_code r"
    "reference_counters s' = reference_counters s"
  shows "references_ok s'"
  using assms(1,3-5) unfolding references_ok_def assms(2,6) by (auto simp: in_upd_rows)

lemma references_minted:
  assumes "references_ok s" "mint ten year row s = (Inr l, s')"
    "\<And>c. \<exists>a i. draft_row ten a c i (row c)" "lst_id l \<notin> lst_id ` set (listings s)"
  shows "references_ok s'"
proof -
  define k where "k = (tenant_id ten, int year)"
  from mint_Inr [OF assms(2)] obtain us n where
    n: "n = Suc (or_else (reference_counters s k) 0)"
    and l: "l = row (reference_code (tenant_slug ten) year n)" "\<not> reference_taken l s"
    and s': "s' = s\<lparr>usage := us, listings := listings s @ [l],
            reference_counters := (reference_counters s)(k := Some n)\<rparr>"
    unfolding k_def by metis
  from assms(3) l(1) have row: "lst_tenant l = tenant_id ten"
    "lst_reference_code l = reference_code (tenant_slug ten) year n"
    by (metis draft_row_def)+
  have grows: "or_else (reference_counters s k') 0 \<le> or_else (((reference_counters s)(k := Some n)) k') 0"
    for k' by (simp add: n)
  have old: "\<exists>slug y m. lst_reference_code r = reference_code slug y m
      \<and> m \<le> or_else (((reference_counters s)(k := Some n)) (lst_tenant r, int y)) 0"
    if "r \<in> set (listings s)" for r
  proof -
    from assms(1) that obtain slug y m where "lst_reference_code r = reference_code slug y m"
      "m \<le> or_else (reference_counters s (lst_tenant r, int y)) 0"
      unfolding references_ok_def by blast
    with grows [of "(lst_tenant r, int y)"] show ?thesis by (meson order_trans)
  qed
  have new: "n \<le> or_else (((reference_counters s)(k := Some n)) (lst_tenant l, int year)) 0"
    by (simp add: k_def row)
  from l(2) have "(lst_tenant l, lst_reference_code l) \<notin>
      (\<lambda>l. (lst_tenant l, lst_reference_code l)) ` set (listings s)"
    by (auto simp: reference_taken_def list_ex_iff)
  with assms(1,4) old new row(2) show ?thesis unfolding s' references_ok_def
    by (auto simp del: fun_upd_apply)
qed

lemma listing_step_references:
  assumes "listing_step s s'" "references_ok s" shows "references_ok s'"
  using assms(1)
proof (cases rule: listing_step_rows)
  case (minted ten year row l)
  show ?thesis by (rule references_minted [OF assms(2) minted])
next
  case (edited P f)
  then show ?thesis by (intro references_rewritten [OF assms(2) edited(1)]) auto
next
  case (moved l target now h)
  then show ?thesis by (intro references_rewritten [OF assms(2) moved(3)]) auto
qed

lemma reserve_listing_error:
  "reserve_listing t p s = (Inl e, s') \<Longrightarrow> e = QuotaExceededError (limit_reached ''listing'')"
  by (auto simp: reserve_listing_run usage_adjust_def modify_def Let_def split: option.splits if_splits)

lemma mint_no_clash:
  assumes "references_ok s" "\<And>c. \<exists>a i. draft_row ten a c i (row c)"
  shows "fst (mint ten year row s) \<noteq> Inl IntegrityError"
proof (cases "reserve_listing (tenant_id ten) (tenant_plan ten) s")
  case (Pair r s1)
  obtain us where s1: "s1 = s\<lparr>usage := us\<rparr>" using reserve_listing_frame [OF Pair] by blast
  show ?thesis
  proof (cases r)
    case (Inl e)
    with Pair reserve_listing_error have "e = QuotaExceededError (limit_reached ''listing'')" by blast
    with Pair Inl show ?thesis by (simp add: mint_def andthen_def)
  next
    case (Inr u)
    define n where "n = Suc (or_else (reference_counters s (tenant_id ten, int year)) 0)"
    define l where "l = row (reference_code (tenant_slug ten) year n)"
    from assms(2) have "lst_tenant l = tenant_id ten"
      "lst_reference_code l = reference_code (tenant_slug ten) year n"
      unfolding l_def by (metis draft_row_def)+
    with references_untaken [OF assms(1)] have "\<not> reference_taken l s" unfolding n_def by blast
    moreover have "next_reference_number (tenant_id ten) year s1 =
      (Inr n, s1\<lparr>reference_counters := (reference_counters s1)((tenant_id ten, int year) := Some n)\<rparr>)"
      by (simp add: next_reference_number_iff n_def s1)
    ultimately show ?thesis using Pair Inr
      by (simp add: mint_def andthen_def l_def [symmetric] listing_add_def gets_def check_def
          reference_taken_def s1 modify_def ret_def)
  qed
qed


section \<open>Quota accounting\<close>

definition live_listings :: "uuid \<Rightarrow> db \<Rightarrow> int" where
  "live_listings t s =
     int (length (filter (\<lambda>l. lst_tenant l = t \<and> lst_deleted_at l = None) (listings s)))"

text \<open>The counter the quota checks read is the number of rows that are not deleted.\<close>

definition quota_exact :: "db \<Rightarrow> bool" where
  "quota_exact s \<longleftrightarrow> (\<forall>t. listings_count t s = live_listings t s)"

lemma live_listings_rewritten:
  assumes "listings s' = upd_rows P f (listings s)"
    "\<And>r. lst_tenant (f r) = lst_tenant r \<and> lst_deleted_at (f r) = lst_deleted_at r"
  shows "live_listings t s' = live_listings t s"
proof -
  have "filter (\<lambda>l. lst_tenant l = t \<and> lst_deleted_at l = None) (upd_rows P f (listings s))
      = upd_rows P f (filter (\<lambda>l. lst_tenant l = t \<and> lst_deleted_at l = None) (listings s))"
    using assms(2) by (intro filter_upd_rows) simp
  then show ?thesis by (simp add: live_listings_def assms(1))
qed

lemma length_filter_delete:
  assumes "distinct (map key xs)" "x \<in> set xs" "Q x" "\<not> Q (f x)"
  shows "length (filter Q xs) = Suc (length (filter Q (upd_rows (\<lambda>r. key r = key x) f xs)))"
  using assms(1,2)
proof (induction xs)
  case (Cons y ys)
  show ?case
  proof (cases "y = x")
    case True
    with Cons.prems have "upd_rows (\<lambda>r. key r = key x) f ys = ys"
      by (intro trans [OF upd_rows_def] map_idI) (auto simp: image_iff)
    with True assms show ?thesis by (simp add: upd_rows_def)
  next
    case False
    with Cons.prems have "key y \<noteq> key x" "x \<in> set ys" by (auto simp: image_iff)
    with Cons show ?thesis by (simp add: upd_rows_def)
  qed
qed simp

lemma live_listings_deleted:
  assumes "distinct (map lst_id (listings s))" "l \<in> set (listings s)" "lst_deleted_at l = None"
    "listings s' = upd_rows (\<lambda>r. lst_id r = lst_id l) (\<lambda>r. r\<lparr>lst_deleted_at := Some now\<rparr>) (listings s)"
  shows "live_listings t s' = live_listings t s - (if t = lst_tenant l then 1 else 0)"
proof (cases "t = lst_tenant l")
  case True
  with length_filter_delete [OF assms(1,2), of "\<lambda>l. lst_tenant l = t \<and> lst_deleted_at l = None"
      "\<lambda>r. r\<lparr>lst_deleted_at := Some now\<rparr>"] assms
  show ?thesis by (simp add: live_listings_def)
next
  case False
  have "r = l" if "r \<in> set (listings s)" "lst_id r = lst_id l" for r
    using assms(1,2) that distinct_key_eq by metis
  then have "filter (\<lambda>l. lst_tenant l = t \<and> lst_deleted_at l = None) (listings s')
      = filter (\<lambda>l. lst_tenant l = t \<and> lst_deleted_at l = None) (listings s)"
    unfolding assms(4) upd_rows_def filter_map comp_def
    using False by (intro trans [OF map_idI]) (auto intro!: filter_cong)
  with False show ?thesis by (simp add: live_listings_def)
qed

lemma listings_count_cong: "usage s' = usage s \<Longrightarrow> listings_count t s' = listings_count t s"
  by (simp add: listings_count_def)

lemma quota_exact_minted:
  assumes "quota_exact s" "mint ten year row s = (Inr l, s')"
    "\<And>c. \<exists>a i. draft_row ten a c i (row c)"
  shows "quota_exact s' \<and> live_listings (tenant_id ten) s' = live_listings (tenant_id ten) s + 1
    \<and> (\<forall>m. max_listings (plan_limits_for (tenant_plan ten)) = Some m \<longrightarrow> live_listings (tenant_id ten) s' \<le> m)"
proof -
  from mint_Inr [OF assms(2)] obtain s1 c where
    r: "reserve_listing (tenant_id ten) (tenant_plan ten) s = (Inr (), s1)"
    and l: "l = row c" and s': "usage s' = usage s1" "listings s' = listings s @ [l]"
    by (metis (no_types, lifting) db.select_convs(5,7) db.surjective db.update_convs(5-7))
  from assms(3) l have row: "lst_tenant l = tenant_id ten" "lst_deleted_at l = None"
    by (metis draft_row_def)+
  have nn: "0 \<le> listings_count (tenant_id ten) s"
    using assms(1) by (simp add: quota_exact_def live_listings_def)
  have "listings_count t s' = listings_count t s + (if t = tenant_id ten then 1 else 0)" for t
    using listings_quota.reserve_ok [OF refl nn r] listings_quota.reserve_other [OF _ r]
    by (simp add: listings_count_cong [OF s'(1)])
  moreover have "live_listings t s' = live_listings t s + (if t = tenant_id ten then 1 else 0)" for t
    by (simp add: live_listings_def s'(2) row)
  moreover have "listings_count (tenant_id ten) s + 1 \<le> m"
    if "max_listings (plan_limits_for (tenant_plan ten)) = Some m" for m
    by (rule listings_quota.reserve_limit [OF refl r that])
  ultimately show ?thesis using assms(1) by (simp add: quota_exact_def)
qed

lemma listing_step_quota:
  assumes "listing_step s s'" "quota_exact s" "distinct (map lst_id (listings s))"
  shows "quota_exact s'"
  using assms(1)
proof (cases rule: listing_step.cases)
  case (create ten a data i year now l)
  from listing_create_Inr [OF create(1)] obtain g where
    m: "mint ten year (\<lambda>code. new_listing ten a data g code i now) s = (Inr l, s')" by blast
  show ?thesis using quota_exact_minted [OF assms(2) m] draft_rows by blast
next
  case (duplicate ten a j i year now l)
  from listing_duplicate_Inr [OF duplicate(1)] obtain src where
    m: "mint ten year (\<lambda>code. copied_listing ten a src code i now) s = (Inr l, s')" by blast
  show ?thesis using quota_exact_minted [OF assms(2) m] draft_rows by blast
next
  case (update ten a i d u)
  from listing_update_Inr [OF this] obtain agent pc where
    s': "s' = s\<lparr>listings := upd_rows (\<lambda>r. lst_id r = i) (patch_listing d agent) (listings s),
            post_commit := pc\<rparr>" by metis
  then have "live_listings t s' = live_listings t s" for t
    by (intro live_listings_rewritten [of _ "\<lambda>r. lst_id r = i" "patch_listing d agent"])
      (auto simp: patch_listing_def)
  with assms(2) s' show ?thesis by (simp add: quota_exact_def listings_count_def)
next
  case (delete ten a i now u)
  from listing_soft_delete_Inr [OF this] obtain l s1 where
    l: "listing_get (tenant_id ten) (scope_user_ids_for (tenant_id ten) a s) i s = Some l"
    and s1: "s1 = s\<lparr>listings := upd_rows (\<lambda>r. lst_id r = i) (\<lambda>r. r\<lparr>lst_deleted_at := Some now\<rparr>) (listings s)\<rparr>"
    and s': "release_listings (tenant_id ten) s1 = (Inr (), s')" by metis
  have live: "live_listings t s1 = live_listings t s - (if t = tenant_id ten then 1 else 0)" for t
    using live_listings_deleted [OF assms(3), of l s1 now] listing_scope.fetch_Some [OF l] s1
    by simp
  have "listings s' = listings s1" using s' by (auto simp: release_listings_def usage_adjust_def modify_def)
  then have live': "live_listings t s' = live_listings t s - (if t = tenant_id ten then 1 else 0)" for t
    by (simp add: live_listings_def [of t s'] live_listings_def [of t s1, symmetric] live)
  have "listings_count t s1 = listings_count t s" for t by (simp add: s1 listings_count_def)
  moreover from live' [of "tenant_id ten"] have "1 \<le> live_listings (tenant_id ten) s"
    by (simp add: live_listings_def [of _ s'])
  ultimately have "listings_count t s' = listings_count t s - (if t = tenant_id ten then 1 else 0)" for t
    using s' assms(2)
    by (auto simp: release_listings_def usage_adjust_iff usage_simps quota_exact_def)
  with live' assms(2) show ?thesis by (simp add: quota_exact_def)
next
  case (transition str_id ten a i target now u)
  from listing_transition_Inr [OF this] obtain h ob pc where
    s': "s' = s\<lparr>listings := upd_rows (\<lambda>r. lst_id r = i) (moved target now) (listings s),
      listing_histories := h, outbox := ob, post_commit := pc\<rparr>" by metis
  then have "live_listings t s' = live_listings t s" for t
    by (intro live_listings_rewritten [of _ "\<lambda>r. lst_id r = i" "moved target now"])
      (auto simp: moved_def)
  with assms(2) s' show ?thesis by (simp add: quota_exact_def listings_count_def)
next
  case (sweep stale_days t now n)
  then have "live_listings t' s' = live_listings t' s" "usage s' = usage s" for t'
    by (auto simp: flag_tenant_def Let_def
        intro!: live_listings_rewritten [of _ _ "\<lambda>l. l\<lparr>lst_stale_flagged_at := Some now\<rparr>"])
  with assms(2) show ?thesis by (simp add: quota_exact_def listings_count_def)
qed

section \<open>The workflow\<close>

definition listing_status_of :: "db \<Rightarrow> uuid \<Rightarrow> listing_status option" where
  "listing_status_of s i = map_option lst_status (find (\<lambda>l. lst_id l = i) (listings s))"

definition listing_ids_step :: "db \<Rightarrow> db \<Rightarrow> bool" where
  "listing_ids_step s s' \<longleftrightarrow> distinct (map lst_id (listings s)) \<and> listing_step s s'"

interpretation listing_flow: workflow ALLOWED_TRANSITIONS DRAFT listing_status_of listing_ids_step
proof
  fix s s' i a b
  assume "listing_ids_step s s'" and st: "listing_status_of s i = Some a" "listing_status_of s' i = Some b"
  then have d: "distinct (map lst_id (listings s))" and step: "listing_step s s'"
    by (auto simp: listing_ids_step_def)
  from st(1) obtain l where l: "find (\<lambda>l. lst_id l = i) (listings s) = Some l" "lst_status l = a"
    by (auto simp: listing_status_of_def)
  from step show "b = a \<or> b \<in> set (ALLOWED_TRANSITIONS a)"
  proof (cases rule: listing_step_rows)
    case (minted ten year row l')
    from mint_Inr [OF minted(1)] have "listings s' = listings s @ [l']"
      by (metis db.select_convs(7) db.surjective db.update_convs(5-7))
    with l st(2) have "b = a" by (simp add: listing_status_of_def find_app)
    then show ?thesis by simp
  next
    case (edited P f)
    have "find (\<lambda>l. lst_id l = i) (listings s') = Some (if P l then f l else l)"
      using edited(2) l(1) by (simp add: edited(1) find_upd_rows)
    with st(2) l(2) edited(2) show ?thesis by (auto simp: listing_status_of_def)
  next
    case (moved l' target now h)
    have "find (\<lambda>l. lst_id l = i) (listings s')
        = Some (if lst_id l = lst_id l' then Listing_Workflow.moved target now l else l)"
      using l(1) by (simp add: moved(3) find_upd_rows)
    moreover have "l = l'" if "lst_id l = lst_id l'"
      using that d find_in [OF l(1)] moved(1) distinct_key_eq by metis
    ultimately show ?thesis using st(2) l(2) moved(2)
      by (auto simp: listing_status_of_def split: if_splits)
  qed
next
  fix s s' i b
  assume "listing_ids_step s s'" and st: "listing_status_of s i = None" "listing_status_of s' i = Some b"
  then have step: "listing_step s s'" by (auto simp: listing_ids_step_def)
  from st(1) have none: "find (\<lambda>l. lst_id l = i) (listings s) = None"
    by (auto simp: listing_status_of_def)
  from step show "b = DRAFT"
  proof (cases rule: listing_step_rows)
    case (minted ten year row l')
    from mint_Inr [OF minted(1)] obtain c where
      "listings s' = listings s @ [l']" "l' = row c"
      by (metis db.select_convs(7) db.surjective db.update_convs(5-7))
    moreover have "lst_status l' = DRAFT" using minted(2) calculation by (metis draft_row_def)
    ultimately show ?thesis using none st(2)
      by (auto simp: listing_status_of_def find_app split: if_splits)
  next
    case (edited P f)
    have "find (\<lambda>l. lst_id l = i) (listings s') = None"
      using edited(2) none by (simp add: edited(1) find_upd_rows)
    with st(2) show ?thesis by (simp add: listing_status_of_def)
  next
    case (moved l' target now h)
    have "find (\<lambda>l. lst_id l = i) (listings s') = None"
      using none by (simp add: moved(3) find_upd_rows)
    with st(2) show ?thesis by (simp add: listing_status_of_def)
  qed
qed

section \<open>The status history\<close>

fun trail :: "listing_status \<Rightarrow> listing_history list \<Rightarrow> listing_status \<Rightarrow> bool" where
  "trail a [] b \<longleftrightarrow> a = b"
| "trail a (h # hs) b \<longleftrightarrow>
     hist_from h = a \<and> hist_to h \<in> set (ALLOWED_TRANSITIONS a) \<and> trail (hist_to h) hs b"

lemma trail_snoc: "trail a (hs @ [h]) b \<longleftrightarrow>
   trail a hs (hist_from h) \<and> hist_to h \<in> set (ALLOWED_TRANSITIONS (hist_from h)) \<and> b = hist_to h"
  by (induction hs arbitrary: a) auto

definition history_of :: "uuid \<Rightarrow> db \<Rightarrow> listing_history list" where
  "history_of i s = filter (\<lambda>h. hist_listing h = i) (listing_histories s)"

text \<open>The rows of a listing's history, replayed from \<open>DRAFT\<close>, end in its status.\<close>

definition history_ok :: "db \<Rightarrow> bool" where
  "history_ok s \<longleftrightarrow> distinct (map lst_id (listings s))
     \<and> (\<forall>l \<in> set (listings s). trail DRAFT (history_of (lst_id l) s) (lst_status l))
     \<and> hist_listing ` set (listing_histories s) \<subseteq> lst_id ` set (listings s)"

lemma history_ok_minted:
  assumes "history_ok s" "mint ten year row s = (Inr l, s')"
    "\<And>c. \<exists>a i. draft_row ten a c i (row c)" "lst_id l \<notin> lst_id ` set (listings s)"
  shows "history_ok s'"
proof -
  from mint_Inr [OF assms(2)] obtain c where
    s': "listings s' = listings s @ [l]" "listing_histories s' = listing_histories s" "l = row c"
    by (metis db.select_convs(7,8) db.surjective db.update_convs(5-7))
  have "lst_status l = DRAFT" using assms(3) s'(3) by (metis draft_row_def)
  moreover have none: "hist_listing h \<noteq> lst_id l" if "h \<in> set (listing_histories s)" for h
    using assms(1,4) that unfolding history_ok_def by (metis image_eqI subsetD)
  moreover from none have "history_of (lst_id l) s = []" by (simp add: history_of_def)
  ultimately show ?thesis using assms(1,4) s'
    unfolding history_ok_def by (auto simp: history_of_def)
qed

lemma history_ok_rewritten:
  assumes "history_ok s" "listings s' = upd_rows P f (listings s)"
    "\<And>r. lst_id (f r) = lst_id r \<and> lst_status (f r) = lst_status r"
    "listing_histories s' = listing_histories s"
  shows "history_ok s'"
proof -
  have ids: "map lst_id (listings s') = map lst_id (listings s)" using assms(2,3) by simp
  then have "lst_id ` set (listings s') = lst_id ` set (listings s)" by (metis set_map)
  moreover have "trail DRAFT (history_of (lst_id r) s') (lst_status r)" if "r \<in> set (listings s')" for r
    using that assms by (auto simp: in_upd_rows history_ok_def history_of_def)
  ultimately show ?thesis using assms(1,4) ids by (simp add: history_ok_def)
qed

lemma history_ok_moved:
  assumes "history_ok s" "l \<in> set (listings s)" "lst_id l = i" "target \<in> set (ALLOWED_TRANSITIONS (lst_status l))"
    "listings s' = upd_rows (\<lambda>r. lst_id r = i) (moved target now) (listings s)"
    "listing_histories s' = listing_histories s @ [h]"
    "hist_listing h = i" "hist_from h = lst_status l" "hist_to h = target"
  shows "history_ok s'"
proof -
  have ids: "map lst_id (listings s') = map lst_id (listings s)" using assms(5) by simp
  then have ids': "lst_id ` set (listings s') = lst_id ` set (listings s)" by (metis set_map)
  have "trail DRAFT (history_of (lst_id r) s') (lst_status r)" if "r \<in> set (listings s')" for r
  proof -
    from that assms(5) obtain q where q: "q \<in> set (listings s)"
      and r: "lst_id q = i \<and> r = moved target now q \<or> lst_id q \<noteq> i \<and> r = q"
      by (auto simp: in_upd_rows)
    from assms(1) q have old: "trail DRAFT (history_of (lst_id q) s) (lst_status q)"
      by (auto simp: history_ok_def)
    show ?thesis
    proof (cases "lst_id q = i")
      case True
      then have "q = l" using assms(1,2,3) q distinct_key_eq unfolding history_ok_def by metis
      with True r old assms show ?thesis by (simp add: history_of_def trail_snoc)
    next
      case False
      with r old assms show ?thesis by (simp add: history_of_def)
    qed
  qed
  with assms(1,2,3,6,7) ids ids' show ?thesis by (auto simp: history_ok_def)
qed

lemma listing_step_history:
  assumes "listing_step s s'" "history_ok s" shows "history_ok s'"
  using assms(1)
proof (cases rule: listing_step_rows)
  case (minted ten year row l)
  show ?thesis by (rule history_ok_minted [OF assms(2) minted])
next
  case (edited P f)
  then show ?thesis by (intro history_ok_rewritten [OF assms(2) edited(1)]) auto
next
  case (moved l target now h)
  then show ?thesis by (intro history_ok_moved [OF assms(2) moved(1) refl moved(2,3,4,5,6,7)])
qed


section \<open>Properties\<close>

definition listing_start :: "db \<Rightarrow> bool" where
  "listing_start s \<longleftrightarrow> listings s = [] \<and> listing_histories s = [] \<and> usage s = (\<lambda>_. None)"

lemma listing_reach:
  assumes "listing_step\<^sup>*\<^sup>* s s'" "listing_start s"
  shows "references_ok s' \<and> quota_exact s' \<and> history_ok s'"
  using assms
proof (induction rule: rtranclp_induct)
  case base
  then show ?case
    by (simp add: listing_start_def references_ok_def quota_exact_def history_ok_def
        listings_count_def live_listings_def)
next
  case (step s' s'')
  then show ?case
    using listing_step_references listing_step_quota listing_step_history
    unfolding references_ok_def by blast
qed

lemma create_no_clash:
  assumes "references_ok s" shows "fst (listing_create_for ten a data i year now s) \<noteq> Inl IntegrityError"
proof (cases "resolve_agent (tenant_id ten) a (lc_agent data) s")
  case (Pair r t)
  then have t: "t = s" using read_onlyD [OF resolve_agent_read] by blast
  show ?thesis
  proof (cases r)
    case (Inl e)
    with Pair have "e \<noteq> IntegrityError"
      by (auto simp: resolve_agent_def action_iff split: option.splits if_splits)
    with Pair Inl show ?thesis by (simp add: listing_create_for_def andthen_def)
  next
    case (Inr g)
    with Pair t have "listing_create_for ten a data i year now s =
        mint ten year (\<lambda>code. new_listing ten a data g code i now) s"
      by (simp add: listing_create_for_def mint_def andthen_def [of "resolve_agent _ _ _"])
    moreover have "\<exists>a' i'. draft_row ten a' c i' (new_listing ten a data g c i now)" for c
      using draft_rows(1) by blast
    ultimately show ?thesis using mint_no_clash [OF assms] by metis
  qed
qed

lemma duplicate_no_clash:
  assumes "references_ok s" shows "fst (listing_duplicate ten a j i year now s) \<noteq> Inl IntegrityError"
proof (cases "listing_get (tenant_id ten) (scope_user_ids_for (tenant_id ten) a s) j s")
  case None
  then show ?thesis by (simp add: listing_duplicate_def listing_scope.andthen_or_404)
next
  case (Some src)
  then have "listing_duplicate ten a j i year now s =
      mint ten year (\<lambda>code. copied_listing ten a src code i now) s"
    by (simp add: listing_duplicate_def listing_scope.andthen_or_404 mint_def)
  moreover have "\<exists>a' i'. draft_row ten a' c i' (copied_listing ten a src c i now)" for c
    using draft_rows(2) by blast
  ultimately show ?thesis using mint_no_clash [OF assms] by metis
qed

definition sample_facts :: listing_facts where
  "sample_facts = \<lparr>fact_property_type = VILLA, fact_title = [(''fr'', ''Villa'')],
     fact_description = [], fact_negotiable = False, fact_beds = Some 4, fact_baths = None,
     fact_area_built = None, fact_area_land = None, fact_floor = None, fact_floors_total = None,
     fact_year_built = None, fact_features = [], fact_address = []\<rparr>"

definition sample_listing :: listing_create where
  "sample_listing = \<lparr>lc_purpose = SALE, lc_facts = sample_facts, lc_price = Dec 250000 (-2),
     lc_currency = ''DZD'', lc_location = None, lc_agent = None, lc_expires_at = None\<rparr>"

definition sample_created :: "(error + listing) \<times> db" where
  "sample_created = listing_create_for sample_tenant sample_admin sample_listing 7 2026 0 sample_db"

definition sample_published :: "(error + unit) \<times> db" where
  "sample_published = listing_transition (\<lambda>_. ''7'') sample_tenant sample_admin 7 PUBLISHED 5
     (snd sample_created)"

lemma sample_created_row:
  "map (\<lambda>l. (lst_id l, lst_reference_code l, lst_status l)) (listings (snd sample_created)) =
     [(7, ''DAR-2026-00001'', DRAFT)]"
  by code_simp

lemma sample_published_ok: "sample_published = (Inr (), snd sample_published)"
  and sample_published_status: "map lst_status (listings (snd sample_published)) = [PUBLISHED]"
proof -
  have "fst sample_published = Inr ()" by code_simp
  then show "sample_published = (Inr (), snd sample_published)" by (metis prod.collapse)
  show "map lst_status (listings (snd sample_published)) = [PUBLISHED]" by code_simp
qed

lemma sample_run: "listing_step\<^sup>*\<^sup>* sample_db (snd sample_published)"
proof -
  have "\<not> isl (fst sample_created)" by code_simp
  then obtain l where l: "sample_created = (Inr l, snd sample_created)"
    by (metis isl_def old.sum.exhaust prod.collapse)
  then have "listing_create_for sample_tenant sample_admin sample_listing 7 2026 0 sample_db =
      (Inr l, snd sample_created)"
    by (simp only: sample_created_def [symmetric])
  then have "listing_step sample_db (snd sample_created)"
    by (rule listing_step.create) (simp add: sample_db_def empty_db_def)
  moreover have "listing_transition (\<lambda>_. ''7'') sample_tenant sample_admin 7 PUBLISHED 5
      (snd sample_created) = (Inr (), snd sample_published)"
    using sample_published_ok by (simp only: sample_published_def [symmetric])
  then have "listing_step (snd sample_created) (snd sample_published)"
    by (rule listing_step.transition)
  ultimately show ?thesis by auto
qed


lemma sample_start: "listing_start sample_db"
  by (simp add: listing_start_def sample_db_def empty_db_def)

text \<open>
  C1: the history rows of every listing, replayed in order from \<open>draft\<close>, follow the transition
  graph without a gap and end in the listing's status, after any sequence of successful calls
  of the service and of staleness sweeps: no transition is lost or recorded twice.
\<close>

theorem listing_history_replays:
  assumes "listing_start s" and "listing_step\<^sup>*\<^sup>* s s'" and "l \<in> set (listings s')"
  shows "trail DRAFT (history_of (lst_id l) s') (lst_status l)"
  using listing_reach [OF assms(2,1)] assms(3) by (simp add: history_ok_def)

theorem listing_history_replays_witness:
  "\<exists>l. listings (snd sample_published) = [l] \<and> lst_status l = PUBLISHED
     \<and> trail DRAFT (history_of (lst_id l) (snd sample_published)) PUBLISHED"
proof -
  from sample_published_status obtain l where
    l: "listings (snd sample_published) = [l]" "lst_status l = PUBLISHED" by auto
  with listing_history_replays [OF sample_start sample_run, of l] show ?thesis by auto
qed

text \<open>
  C23: no two listings of a tenant ever share a reference code, deleted ones included, whatever
  the slugs and years were; so neither creating nor duplicating a listing can run into the
  table's unique constraint.
\<close>

theorem reference_codes_unique:
  assumes "listing_start s" and "listing_step\<^sup>*\<^sup>* s s'"
  shows "distinct (map (\<lambda>l. (lst_tenant l, lst_reference_code l)) (listings s'))
    \<and> fst (listing_create_for ten a data i year now s') \<noteq> Inl IntegrityError
    \<and> fst (listing_duplicate ten a j i year now s') \<noteq> Inl IntegrityError"
proof -
  from listing_reach [OF assms(2,1)] have ok: "references_ok s'" by blast
  then show ?thesis using create_no_clash duplicate_no_clash by (auto simp: references_ok_def)
qed

theorem reference_codes_unique_witness:
  "map lst_reference_code (listings (snd sample_published)) = [''DAR-2026-00001'']
   \<and> fst (listing_duplicate sample_tenant sample_admin 7 8 2026 9 (snd sample_published))
     \<noteq> Inl IntegrityError"
proof
  show "map lst_reference_code (listings (snd sample_published)) = [''DAR-2026-00001'']"
    by code_simp
  show "fst (listing_duplicate sample_tenant sample_admin 7 8 2026 9 (snd sample_published))
     \<noteq> Inl IntegrityError"
    using reference_codes_unique [OF sample_start sample_run] by blast
qed

text \<open>
  C6: the usage counter that the plan check reads equals the number of listings that are not
  deleted, after any sequence of successful calls; and when a creation succeeds, the tenant's
  live listings are within the limit of its plan.
\<close>

theorem listing_quota_exact:
  assumes "listing_start s" and "listing_step\<^sup>*\<^sup>* s s'"
  shows "listings_count t s' = live_listings t s' \<and>
    (case listing_create_for ten a data i year now s' of
       (Inl e, s'') \<Rightarrow> True
     | (Inr l, s'') \<Rightarrow> live_listings (tenant_id ten) s'' = live_listings (tenant_id ten) s' + 1
         \<and> (case max_listings (plan_limits_for (tenant_plan ten)) of
              None \<Rightarrow> True | Some m \<Rightarrow> live_listings (tenant_id ten) s'' \<le> m))"
proof -
  from listing_reach [OF assms(2,1)] have q: "quota_exact s'" by blast
  have "live_listings (tenant_id ten) s'' = live_listings (tenant_id ten) s' + 1
      \<and> (case max_listings (plan_limits_for (tenant_plan ten)) of
           None \<Rightarrow> True | Some m \<Rightarrow> live_listings (tenant_id ten) s'' \<le> m)"
    if "listing_create_for ten a data i year now s' = (Inr l, s'')" for l s''
  proof -
    from listing_create_Inr [OF that] obtain g where
      m: "mint ten year (\<lambda>code. new_listing ten a data g code i now) s' = (Inr l, s'')" by blast
    have d: "\<exists>a' i'. draft_row ten a' c i' (new_listing ten a data g c i now)" for c
      using draft_rows(1) by blast
    show ?thesis using quota_exact_minted [OF q m d] by (auto split: option.splits)
  qed
  with q show ?thesis by (auto simp: quota_exact_def split: prod.splits sum.splits)
qed

theorem listing_quota_exact_witness:
  "listings_count 1 (snd sample_published) = 1 \<and> live_listings 1 (snd sample_published) = 1"
proof -
  have "live_listings 1 (snd sample_published) = 1" by code_simp
  with listing_quota_exact [OF sample_start sample_run, THEN conjunct1, of 1] show ?thesis by simp
qed

text \<open>
  C24: a transition that succeeds was allowed by the graph, came from someone whose scope holds
  the listing and, towards \<open>published\<close>, from someone with publish rights; it changes the
  status of that listing only, appends one history row, emits \<open>listing.published\<close> exactly when
  the target is \<open>published\<close>, and hands the enabled portals an update on entering that status
  and a removal on leaving it.
\<close>

theorem listing_transition_effects:
  assumes "listing_transition str_id ten a i target now s = (Inr u, s')"
  shows "\<exists>l. listing_get (tenant_id ten) (scope_user_ids_for (tenant_id ten) a s) i s = Some l
    \<and> target \<in> set (ALLOWED_TRANSITIONS (lst_status l))
    \<and> (target = PUBLISHED \<longrightarrow> can_publish a ten = Inr True)
    \<and> map lst_status (filter (\<lambda>r. lst_id r \<noteq> i) (listings s')) =
        map lst_status (filter (\<lambda>r. lst_id r \<noteq> i) (listings s))
    \<and> map lst_id (listings s') = map lst_id (listings s)
    \<and> (\<forall>r \<in> set (listings s'). lst_id r = i \<longrightarrow> lst_status r = target)
    \<and> listing_histories s' = listing_histories s @ [\<lparr>hist_tenant = tenant_id ten,
         hist_listing = i, hist_from = lst_status l, hist_to = target,
         hist_changed_by = Some (actor_id a), hist_created_at = now\<rparr>]
    \<and> map ev_type (outbox s') =
        map ev_type (outbox s) @ (if target = PUBLISHED then [EVENT_LISTING_PUBLISHED] else [])
    \<and> post_commit s' = post_commit s @ (if target = PUBLISHED then [MatchPublished i] else [])
        @ (if target = PUBLISHED
           then map (\<lambda>k. SyncListing i k PORTAL_UPDATE) (enabled_portal_keys (tenant_settings ten))
           else if lst_status l = PUBLISHED
           then map (\<lambda>k. SyncListing i k PORTAL_REMOVE) (enabled_portal_keys (tenant_settings ten))
           else [])"
  using assms
proof (rule listing_transition_Inr)
  fix l
  assume l: "listing_get (tenant_id ten) (scope_user_ids_for (tenant_id ten) a s) i s = Some l"
    "target \<in> set (ALLOWED_TRANSITIONS (lst_status l))"
    "target = PUBLISHED \<longrightarrow> can_publish a ten = Inr True"
  and s': "s' = s\<lparr>listings := upd_rows (\<lambda>r. lst_id r = i) (moved target now) (listings s),
            listing_histories := listing_histories s @
              [\<lparr>hist_tenant = tenant_id ten, hist_listing = i, hist_from = lst_status l,
                hist_to = target, hist_changed_by = Some (actor_id a), hist_created_at = now\<rparr>],
            outbox := outbox s @ (if target = PUBLISHED
              then [\<lparr>ev_tenant = tenant_id ten, ev_type = EVENT_LISTING_PUBLISHED,
                     ev_payload = [(''listingId'', JStr (str_id i)),
                       (''referenceCode'', JStr (lst_reference_code l))]\<rparr>] else []),
            post_commit := post_commit s @ (if target = PUBLISHED then [MatchPublished i] else [])
              @ sync_tasks ten i (syndication_action (lst_status l) target)\<rparr>"
  have others: "map lst_status (filter (\<lambda>r. lst_id r \<noteq> i) (upd_rows (\<lambda>r. lst_id r = i) (moved target now) rs))
      = map lst_status (filter (\<lambda>r. lst_id r \<noteq> i) rs)" for rs
    by (induction rs) (auto simp: upd_rows_def)
  have now_target: "\<forall>r \<in> set (upd_rows (\<lambda>r. lst_id r = i) (moved target now) rs).
      lst_id r = i \<longrightarrow> lst_status r = target" for rs
    by (induction rs) (simp_all add: upd_rows_def)
  show ?thesis
    by (rule exI [of _ l])
      (use l in \<open>simp add: s' others now_target sync_tasks_def syndication_action_def\<close>)
qed

theorem listing_transition_effects_witness:
  "map ev_type (outbox (snd sample_published)) = [''listing.published'']
   \<and> post_commit (snd sample_published) = [MatchPublished 7]"
proof -
  have e: "outbox (snd sample_created) = []" "post_commit (snd sample_created) = []"
    "enabled_portal_keys (tenant_settings sample_tenant) = []"
    by code_simp+
  show ?thesis
    using listing_transition_effects [OF sample_published_ok [unfolded sample_published_def]]
    by (auto simp: sample_published_def [symmetric] e EVENT_LISTING_PUBLISHED_def)
qed

text \<open>
  a listing that does not exist, is deleted, belongs to another tenant or lies outside the
  actor's scope gives the same 404 from every operation, which leaves the state untouched: the
  answer tells the caller nothing.
\<close>

lemma listing_no_oracle:
  assumes "\<And>l. l \<in> set (listings s) \<Longrightarrow> lst_id l = i \<Longrightarrow>
    \<not> listing_base (tenant_id ten) (scope_user_ids_for (tenant_id ten) a s) l"
  shows "listing_or_404 ten a i s = (Inl (NotFoundError ''Listing not found.''), s)
    \<and> listing_update_for ten a i d s = (Inl (NotFoundError ''Listing not found.''), s)
    \<and> listing_soft_delete ten a i now s = (Inl (NotFoundError ''Listing not found.''), s)
    \<and> listing_duplicate ten a i j year now s = (Inl (NotFoundError ''Listing not found.''), s)
    \<and> listing_transition str_id ten a i target now s = (Inl (NotFoundError ''Listing not found.''), s)"
proof -
  have none: "listing_get (tenant_id ten) (scope_user_ids_for (tenant_id ten) a s) i s = None"
    using assms by (auto simp: listing_get_def find_None_iff)
  then show ?thesis
    by (simp add: listing_scope.andthen_or_404 listing_scope.or_404_fetch listing_update_for_def
        listing_soft_delete_def listing_duplicate_def listing_transition_def)
qed

lemma listing_no_oracle_at_work:
  "listing_soft_delete sample_tenant sample_agent 7 9 (snd sample_created) =
     (Inl (NotFoundError ''Listing not found.''), snd sample_created)"
proof -
  have "list_all (\<lambda>l. \<not> listing_base (tenant_id sample_tenant)
      (scope_user_ids_for (tenant_id sample_tenant) sample_agent (snd sample_created)) l)
      (listings (snd sample_created))"
    by code_simp
  then show ?thesis by (intro listing_no_oracle [THEN conjunct2, THEN conjunct2, THEN conjunct1])
      (auto simp: list_all_iff)
qed

text \<open>
  C30: an update of a published listing that sets only its address, its location or its agent
  reaches no portal and leaves the staleness flag up, since the emptiness test reads what is
  left of the patch after these three fields were taken out of it; an update that sets any
  other field is sent to every enabled portal and takes the flag down.
\<close>

theorem listing_edit_resync:
  assumes "listing_update_for ten a i d s = (Inr u, s')"
    and "listing_get (tenant_id ten) (scope_user_ids_for (tenant_id ten) a s) i s = Some l"
    and "lst_status l = PUBLISHED"
  shows "(if plain_fields_set d
    then post_commit s' = post_commit s @
           map (\<lambda>k. SyncListing i k PORTAL_UPDATE) (enabled_portal_keys (tenant_settings ten))
         \<and> (\<forall>r \<in> set (listings s'). lst_id r = i \<longrightarrow> lst_stale_flagged_at r = None)
    else post_commit s' = post_commit s
         \<and> map lst_stale_flagged_at (listings s') = map lst_stale_flagged_at (listings s))"
  using assms(1)
proof (rule listing_update_Inr)
  fix l' agent
  assume l': "listing_get (tenant_id ten) (scope_user_ids_for (tenant_id ten) a s) i s = Some l'"
  and s': "s' = s\<lparr>listings := upd_rows (\<lambda>r. lst_id r = i) (patch_listing d agent) (listings s),
            post_commit := post_commit s @
              (if plain_fields_set d \<and> lst_status l' = PUBLISHED
               then sync_tasks ten i (Some PORTAL_UPDATE) else [])\<rparr>"
  from assms(2,3) l' have "lst_status l' = PUBLISHED" by simp
  moreover have "lst_stale_flagged_at (patch_listing d agent r) =
      (if plain_fields_set d then None else lst_stale_flagged_at r)" for r
    by (simp add: patch_listing_def)
  ultimately show ?thesis by (auto simp: s' sync_tasks_def in_upd_rows)
qed


definition sample_move :: listing_update where
  "sample_move = \<lparr>lu_property_type = Unset, lu_title = Unset, lu_description = Unset,
     lu_price = Unset, lu_currency = Unset, lu_negotiable = Unset, lu_beds = Unset,
     lu_baths = Unset, lu_area_built = Unset, lu_area_land = Unset, lu_floor = Unset,
     lu_floors_total = Unset, lu_year_built = Unset, lu_features = Unset,
     lu_address = SetTo (Some [(''city'', JStr ''Oran'')]), lu_location = SetTo (Some (3, 36)),
     lu_agent = Unset, lu_expires_at = Unset, lu_featured = Unset\<rparr>"

definition sample_portal_tenant :: tenant_context where
  "sample_portal_tenant = sample_tenant\<lparr>tenant_settings :=
     [(''syndication'', JObj [(''mock'', JObj [(''enabled'', JBool True)])])]\<rparr>"

theorem listing_edit_resync_witness:
  "enabled_portal_keys (tenant_settings sample_portal_tenant) = [''mock'']
   \<and> post_commit (snd (listing_update_for sample_portal_tenant sample_admin 7 sample_move
        (snd sample_published))) = post_commit (snd sample_published)"
proof
  show "enabled_portal_keys (tenant_settings sample_portal_tenant) = [''mock'']" by code_simp
  let ?r = "listing_update_for sample_portal_tenant sample_admin 7 sample_move (snd sample_published)"
  have "fst ?r = Inr ()" by code_simp
  then have r: "?r = (Inr (), snd ?r)" by (metis prod.collapse)
  have "map_option lst_status (listing_get (tenant_id sample_portal_tenant)
      (scope_user_ids_for (tenant_id sample_portal_tenant) sample_admin (snd sample_published))
      7 (snd sample_published)) = Some PUBLISHED" by code_simp
  then obtain l where l: "listing_get (tenant_id sample_portal_tenant)
      (scope_user_ids_for (tenant_id sample_portal_tenant) sample_admin (snd sample_published))
      7 (snd sample_published) = Some l" "lst_status l = PUBLISHED" by auto
  have "\<not> plain_fields_set sample_move" by code_simp
  with listing_edit_resync [OF r l] show "post_commit (snd ?r) = post_commit (snd sample_published)"
    by simp
qed

end
