(* ===== verification/Lead_Desk.thy ===== *)
theory Lead_Desk
  imports Leads Listing_Workflow
begin

text \<open>
  The correctness of \<open>modules/leads\<close>: the writes of each operation, the steps of the module
  and their invariants (scores, lost reasons, contact emails), the assignment engine, the
  escalation, drip and retention sweeps, and the scope of the pipeline.
\<close>

section \<open>Runs of the operations\<close>

interpretation lead_scope: scoped_table leads lead_tenant lead_id
  "\<lambda>sc l. in_scope sc (lead_agent l)" lead_get lead_or_404 "NotFoundError ''Lead not found.''"
  by unfold_locales (auto simp: lead_get_def lead_or_404_def ret_def raise_def in_scope_def
      intro!: arg_cong2 [where f = find] split: option.splits)

lemma lead_or_404_read [read_only_intros]: "read_only (lead_or_404 ten a i)"
  by (rule lead_scope.read)

lemma active_agent_read [read_only_intros]: "read_only (active_agent t g)"
  unfolding active_agent_def by (intro read_only_intros)

lemma listing_or_404_read [read_only_intros]: "read_only (listing_or_404 ten a i)"
  unfolding listing_or_404_def by (intro read_only_intros)

lemma listing_get_public_read [read_only_intros]: "read_only (listing_get_public w ten x)"
  by (auto simp: read_only_def listing_get_public_def split: sum.splits option.splits)

lemma contact_or_404_read [read_only_intros]: "read_only (contact_or_404 ten i)"
  unfolding contact_or_404_def by (intro read_only_intros)

lemma lead_write_run [simp]:
  "lead_write i now f s = (Inr (), s\<lparr>leads := upd_rows (\<lambda>l. lead_id l = i) (touched now f) (leads s)\<rparr>)"
  "andthen (lead_write i now f) g s =
     g () (s\<lparr>leads := upd_rows (\<lambda>l. lead_id l = i) (touched now f) (leads s)\<rparr>)"
  "contact_write i h s = (Inr (), s\<lparr>contacts := upd_rows (\<lambda>c. con_id c = i) h (contacts s)\<rparr>)"
  "andthen (contact_write i h) g s =
     g () (s\<lparr>contacts := upd_rows (\<lambda>c. con_id c = i) h (contacts s)\<rparr>)"
  by (simp_all add: lead_write_def contact_write_def modify_def andthen_def)

lemmas reads = read_only_preserves [OF lead_or_404_read] read_only_preserves [OF active_agent_read]
  read_only_preserves [OF listing_or_404_read] read_only_preserves [OF listing_get_public_read]
  read_only_preserves [OF contact_or_404_read]

section \<open>Steps of the module\<close>

text \<open>One call of an operation, on any outcome: an error keeps the invariants as well.\<close>

inductive lead_call :: "db \<Rightarrow> db \<Rightarrow> bool" where
  capture: "capture_lead w ten d source i j now s = (r, s') \<Longrightarrow> lead_call s s'"
| whatsapp: "capture_whatsapp_click w ten d i j now s = (r', s') \<Longrightarrow> lead_call s s'"
| signup: "register_signup_lead w ten email i j now s = (r'', s') \<Longrightarrow> lead_call s s'"
| tour: "register_tour_request w ten data listing msg g meta i j now s = (r2, s') \<Longrightarrow> lead_call s s'"
| payload: "register_with_payload w ten data listing source meta msg kind p i j now s = (r3, s') \<Longrightarrow>
    lead_call s s'"
| manual: "create_manual w ten a ld i j now s = (r4, s') \<Longrightarrow> lead_call s s'"
| update: "lead_update ten a i gp lp now s = (r5, s') \<Longrightarrow> lead_call s s'"
| stage: "transition_stage ten a i st reason now s = (r6, s') \<Longrightarrow> lead_call s s'"
| activity: "record_activity ten a i ty p now s = (r7, s') \<Longrightarrow> lead_call s s'"
| logged: "log_activity ty t i p now s = (r8, s') \<Longrightarrow> lead_call s s'"
| erase: "anonymize_subject t email s = (r9, s') \<Longrightarrow> lead_call s s'"
| retain: "anonymize_lost_leads t before limit s = (r10, s') \<Longrightarrow> lead_call s s'"
| drips: "advance_drips ten now s = (r11, s') \<Longrightarrow> lead_call s s'"
| escalate: "escalate_unassigned w mins ten now s = (r12, s') \<Longrightarrow> lead_call s s'"
| contact: "update_contact ten i cp s = (r13, s') \<Longrightarrow> lead_call s s'"

section \<open>Invariants of the two tables\<close>

text \<open>
  What an invariant of the database has to survive: the few ways in which the module writes
  its tables. The client of this contract is every operation of the module; besides the
  invariants of leads and contacts, the contents of any table the module does not own meet it.
\<close>

locale lead_invariant =
  fixes I :: "db \<Rightarrow> bool"
  assumes frame: "I (s\<lparr>activities := acts\<rparr>) = I s \<and> I (s\<lparr>drips := ds\<rparr>) = I s
      \<and> I (s\<lparr>notifications := ns\<rparr>) = I s \<and> I (s\<lparr>outbox := evs\<rparr>) = I s
      \<and> I (s\<lparr>post_commit := pc\<rparr>) = I s \<and> I (s\<lparr>sent := out\<rparr>) = I s"
    and insert_keeps: "I s \<Longrightarrow>
      I (s\<lparr>leads := leads s @ [new_lead t c listing g source meta i now]\<rparr>)"
    and score_keeps: "I s \<Longrightarrow> I (snd (recompute_score t i now s))"
    and agent_keeps: "I s \<Longrightarrow> I (snd (lead_write i now (\<lambda>r. r\<lparr>lead_agent := g\<rparr>) s))"
    and links_keep: "I s \<Longrightarrow> I (snd (lead_write i now
      (\<lambda>r. r\<lparr>lead_agent := patched gp (lead_agent r), lead_listing := patched lp (lead_listing r)\<rparr>) s))"
    and response_keeps: "I s \<Longrightarrow> I (snd (lead_write i now (\<lambda>r. r\<lparr>lead_first_response_at := Some now\<rparr>) s))"
    and stage_keeps: "I s \<Longrightarrow> st \<noteq> LOST \<or> str_given reason \<Longrightarrow>
      I (snd (lead_write i now (\<lambda>r. r\<lparr>lead_stage := st,
        lead_lost_reason := (if st = LOST then reason else lead_lost_reason r)\<rparr>) s))"
    and contact_keeps: "I s \<Longrightarrow> I (snd (find_or_create_contact t d i s))"
    and erase_keeps: "I s \<Longrightarrow> I (s\<lparr>contacts := upd_rows P anonymize_contact (contacts s)\<rparr>)"
    and edit_keeps: "I s \<Longrightarrow> I (snd (contact_write i (patch_contact cp) s))"
begin

lemma other_writes:
  "preserves I (activity_add t i actr ty payload now)"
  "preserves I (stop_drip t i reason now)"
  "preserves I (seed_drip t i stage now)"
  "preserves I (drip_write i k)"
  "preserves I (emit_event ten ev p)"
  "preserves I (on_commit c)"
  "preserves I (send_now c)"
  "preserves I (notify ten u ev p)"
  using frame by (simp_all add: preserves_def activity_add_def stop_drip_def seed_drip_def
      drip_write_def notify_def modify_def ret_def)

lemma own_writes:
  "preserves I (modify (\<lambda>s. s\<lparr>leads := leads s @ [new_lead t c listing g source meta i now]\<rparr>))"
  "preserves I (recompute_score t i now)"
  "preserves I (lead_write i now (\<lambda>r. r\<lparr>lead_agent := g\<rparr>))"
  "preserves I (lead_write i now
     (\<lambda>r. r\<lparr>lead_agent := patched gp (lead_agent r), lead_listing := patched lp (lead_listing r)\<rparr>))"
  "preserves I (lead_write i now (\<lambda>r. r\<lparr>lead_first_response_at := Some now\<rparr>))"
  "preserves I (find_or_create_contact t d i)"
  "preserves I (contact_write i (patch_contact cp))"
  using insert_keeps score_keeps agent_keeps links_keep response_keeps contact_keeps edit_keeps
  by (simp_all add: preserves_def modify_def)

lemmas writes = other_writes own_writes reads

lemma assign_keeps: "preserves I (assign_lead w t l now)"
  unfolding assign_lead_def by (intro preserves_intros writes)

lemma captured_keeps:
  "preserves I (create_captured_lead w ten c listing source meta message forced i now)"
  unfolding create_captured_lead_def Let_def by (intro preserves_intros writes assign_keeps)

lemma capture_keeps: "preserves I (capture_lead w ten d source i j now)"
  unfolding capture_lead_def by (intro preserves_intros writes captured_keeps)

lemma whatsapp_keeps: "preserves I (capture_whatsapp_click w ten d i j now)"
  unfolding capture_whatsapp_click_def Let_def by (intro preserves_intros writes captured_keeps)

lemma signup_keeps: "preserves I (register_signup_lead w ten email i j now)"
  unfolding register_signup_lead_def by (intro preserves_intros writes captured_keeps)

lemma tour_keeps: "preserves I (register_tour_request w ten data listing msg g meta i j now)"
  unfolding register_tour_request_def by (intro preserves_intros writes captured_keeps)

lemma payload_keeps:
  "preserves I (register_with_payload w ten data listing source meta msg kind p i j now)"
  unfolding register_with_payload_def by (intro preserves_intros writes captured_keeps)

lemma manual_keeps: "preserves I (create_manual w ten a d i j now)"
proof -
  have "preserves I (case ldc_contact d of
      ExistingContact i \<Rightarrow> andthen (gets (contact_get (tenant_id ten) i)) (\<lambda>r. case r of
        None \<Rightarrow> raise (NotFoundError ''Contact not found.'') | Some c \<Rightarrow> ret c)
    | InlineContact data \<Rightarrow> find_or_create_contact (tenant_id ten) data j)"
    by (cases "ldc_contact d") (auto intro!: preserves_intros writes)
  then show ?thesis
    unfolding create_manual_def Let_def by (intro preserves_intros writes assign_keeps)
qed

lemma update_keeps: "preserves I (lead_update ten a i gp lp now)"
proof -
  have "preserves I (case gp of Unset \<Rightarrow> ret ()
    | SetTo g \<Rightarrow> andthen (check (actor_role a \<in> set MANAGES_ALL_ROLES)
        (PermissionDeniedError ''Only managers can reassign a lead.'')) (\<lambda>_. active_agent (tenant_id ten) g))"
    by (cases gp) (auto intro!: preserves_intros writes)
  then show ?thesis unfolding lead_update_def by (intro preserves_intros writes)
qed

lemma transition_keeps: "preserves I (transition_stage ten a i st reason now)"
proof (cases "st = LOST \<and> \<not> str_given reason")
  case True
  then show ?thesis
    by (auto simp: preserves_def transition_stage_def Let_def lead_scope.andthen_or_404
        split: option.splits)
next
  case False
  then have "preserves I (lead_write i now (\<lambda>r. r\<lparr>lead_stage := st,
      lead_lost_reason := (if st = LOST then reason else lead_lost_reason r)\<rparr>))"
    using stage_keeps by (auto simp: preserves_def)
  then show ?thesis unfolding transition_stage_def Let_def by (intro preserves_intros writes)
qed

lemma activity_keeps: "preserves I (record_activity ten a i ty p now)"
  unfolding record_activity_def Let_def by (intro preserves_intros writes)

lemma logged_keeps: "preserves I (log_activity ty t i p now)"
  unfolding log_activity_def by (intro preserves_intros writes)

lemma drips_keep: "preserves I (advance_drips ten now)"
proof -
  have "preserves I (advance_drip ten d now)" for d
    unfolding advance_drip_def Let_def by (intro preserves_intros writes)
  then show ?thesis unfolding advance_drips_def by (intro preserves_intros)
qed

lemma escalation_keeps: "preserves I (escalate_unassigned w mins ten now)"
  unfolding escalate_unassigned_def by (intro preserves_intros writes)

lemma erasure_keeps:
  "preserves I (anonymize_subject t email)" "preserves I (anonymize_lost_leads t before limit)"
  by (simp_all add: preserves_def anonymize_subject_def anonymize_lost_leads_def Let_def erase_keeps)

lemma edit_call_keeps: "preserves I (update_contact ten i cp)"
  unfolding update_contact_def by (intro preserves_intros writes)

lemma call_keeps: "lead_call s s' \<Longrightarrow> I s \<Longrightarrow> I s'"
  by (erule lead_call.cases)
    (auto dest: preservesD [OF capture_keeps] preservesD [OF whatsapp_keeps]
      preservesD [OF signup_keeps] preservesD [OF tour_keeps] preservesD [OF payload_keeps]
      preservesD [OF manual_keeps] preservesD [OF update_keeps] preservesD [OF transition_keeps]
      preservesD [OF activity_keeps] preservesD [OF logged_keeps] preservesD [OF drips_keep]
      preservesD [OF escalation_keeps] preservesD [OF erasure_keeps(1)]
      preservesD [OF erasure_keeps(2)] preservesD [OF edit_call_keeps])

lemma run_keeps: "lead_call\<^sup>*\<^sup>* s s' \<Longrightarrow> I s \<Longrightarrow> I s'"
  by (induction rule: rtranclp_induct) (auto intro: call_keeps)

end

subsection \<open>Scores and lost reasons\<close>

definition lead_ok :: "lead \<Rightarrow> bool" where
  "lead_ok l \<longleftrightarrow> 0 \<le> lead_score l \<and> lead_score l \<le> 100
     \<and> (lead_stage l = LOST \<longrightarrow> str_given (lead_lost_reason l))"

definition leads_ok :: "db \<Rightarrow> bool" where
  "leads_ok s \<longleftrightarrow> (\<forall>l \<in> set (leads s). lead_ok l)"

lemma rules_score_bounds: "0 \<le> rules_score f \<and> rules_score f \<le> 100"
  by (simp add: rules_score_def Let_def)

lemma leads_ok_write:
  assumes "\<And>l. lead_ok l \<Longrightarrow> lead_ok (f l)" and "leads_ok s"
  shows "leads_ok (s\<lparr>leads := upd_rows P (touched now f) (leads s)\<rparr>)"
proof -
  have "lead_ok (touched now f l)" if "lead_ok l" for l
    using assms(1) [OF that] that by (auto simp: touched_def lead_ok_def)
  then show ?thesis using assms(2) by (auto simp: leads_ok_def in_upd_rows)
qed

lemma leads_ok_lead_write:
  "leads_ok s \<Longrightarrow> (\<And>l. lead_ok l \<Longrightarrow> lead_ok (f l)) \<Longrightarrow> leads_ok (snd (lead_write i now f s))"
  by (simp add: leads_ok_write)

lemma find_or_create_leads: "leads (snd (find_or_create_contact t d i s)) = leads s"
proof -
  have "preserves (\<lambda>s'. leads s' = leads s) (find_or_create_contact t d i)"
    unfolding find_or_create_contact_def contact_write_def by (intro preserves_intros) auto
  then show ?thesis by (simp add: preserves_def)
qed

interpretation scores: lead_invariant leads_ok
proof
  fix s acts ds ns evs pc out
  show "leads_ok (s\<lparr>activities := acts\<rparr>) = leads_ok s \<and> leads_ok (s\<lparr>drips := ds\<rparr>) = leads_ok s
      \<and> leads_ok (s\<lparr>notifications := ns\<rparr>) = leads_ok s \<and> leads_ok (s\<lparr>outbox := evs\<rparr>) = leads_ok s
      \<and> leads_ok (s\<lparr>post_commit := pc\<rparr>) = leads_ok s \<and> leads_ok (s\<lparr>sent := out\<rparr>) = leads_ok s"
    by (simp add: leads_ok_def)
next
  fix s t c listing g source meta i now
  assume "leads_ok s"
  then show "leads_ok (s\<lparr>leads := leads s @ [new_lead t c listing g source meta i now]\<rparr>)"
    by (simp add: leads_ok_def lead_ok_def new_lead_def)
next
  fix s t i now assume "leads_ok s"
  then show "leads_ok (snd (recompute_score t i now s))"
    by (simp add: recompute_score_def modify_def)
      (rule leads_ok_write, simp_all add: lead_ok_def rules_score_bounds)
next
  fix s t d i assume "leads_ok s"
  then show "leads_ok (snd (find_or_create_contact t d i s))"
    by (simp add: leads_ok_def find_or_create_leads)
next
  fix s P assume "leads_ok s"
  then show "leads_ok (s\<lparr>contacts := upd_rows P anonymize_contact (contacts s)\<rparr>)"
    by (simp add: leads_ok_def)
next
  fix s i cp assume "leads_ok s"
  then show "leads_ok (snd (contact_write i (patch_contact cp) s))"
    by (simp add: leads_ok_def)
qed (erule leads_ok_lead_write, fastforce simp: lead_ok_def)+

subsection \<open>Contacts\<close>

definition email_key :: "contact \<Rightarrow> (uuid \<times> string) option" where
  "email_key c = map_option (\<lambda>e. (con_tenant c, str_lower e)) (con_email c)"

definition one_per_email :: "contact list \<Rightarrow> bool" where
  "one_per_email cs \<longleftrightarrow> (\<forall>x \<in> set cs. \<forall>y \<in> set cs.
     email_key x \<noteq> None \<and> email_key x = email_key y \<longrightarrow> con_id x = con_id y)"

definition contacts_ok :: "db \<Rightarrow> bool" where
  "contacts_ok s \<longleftrightarrow> distinct (map con_id (contacts s)) \<and> one_per_email (contacts s)"

lemma one_per_emailI:
  "(\<And>x y. x \<in> set cs \<Longrightarrow> y \<in> set cs \<Longrightarrow> email_key x \<noteq> None \<Longrightarrow> email_key x = email_key y \<Longrightarrow>
     con_id x = con_id y) \<Longrightarrow> one_per_email cs"
  unfolding one_per_email_def by blast

lemma one_per_emailD:
  "one_per_email cs \<Longrightarrow> x \<in> set cs \<Longrightarrow> y \<in> set cs \<Longrightarrow> email_key x \<noteq> None \<Longrightarrow>
     email_key x = email_key y \<Longrightarrow> con_id x = con_id y"
  unfolding one_per_email_def by blast

lemma email_matches_key: "email_matches t e c \<longleftrightarrow> email_key c = Some (t, str_lower e)"
  by (auto simp: email_matches_def email_key_def split: option.splits)

lemma at_most_one:
  assumes "distinct (map key xs)" "\<And>x y. x \<in> set xs \<Longrightarrow> y \<in> set xs \<Longrightarrow> key x = key y"
  shows "length xs \<le> 1"
proof (rule ccontr)
  assume "\<not> length xs \<le> 1"
  then obtain x y ys where xs: "xs = x # y # ys" by (cases xs rule: one_or_none.cases) auto
  from assms(2) [of x y] have "key x = key y" by (simp add: xs)
  with assms(1) show False by (simp add: xs)
qed

lemma one_email_match:
  assumes "contacts_ok s" shows "length (filter (email_matches t e) (contacts s)) \<le> 1"
proof (rule at_most_one [of con_id])
  from assms show "distinct (map con_id (filter (email_matches t e) (contacts s)))"
    by (intro distinct_map_filterI) (simp add: contacts_ok_def)
  fix x y
  assume "x \<in> set (filter (email_matches t e) (contacts s))" "y \<in> set (filter (email_matches t e) (contacts s))"
  with assms show "con_id x = con_id y"
    by (intro one_per_emailD [of "contacts s" x y]) (auto simp: contacts_ok_def email_matches_key)
qed

lemma find_contact_found:
  assumes "find_contact_for_dedupe t email phone s = Inr (Some c)"
  shows "c \<in> set (contacts s) \<and> con_tenant c = t \<and> (con_email c = None \<longrightarrow>
    (\<forall>e. email = Some e \<longrightarrow> (\<forall>x \<in> set (contacts s). email_key x \<noteq> Some (t, str_lower e))))"
proof -
  have one: "c \<in> set (filter P (contacts s))" if "one_or_none (filter P (contacts s)) = Inr (Some c)" for P
    using that by (simp only: one_or_none_eq) simp
  have none: "\<forall>x \<in> set (contacts s). \<not> P x" if "one_or_none (filter P (contacts s)) = Inr None" for P
    using that by (simp only: one_or_none_eq) (simp add: filter_empty_conv)
  show ?thesis
    using assms unfolding find_contact_for_dedupe_def
    by (auto simp: email_matches_def email_key_def split: option.splits sum.splits dest!: one none)
qed

lemma find_contact_missing:
  assumes "find_contact_for_dedupe t email phone s = Inr None" "email = Some e"
  shows "\<forall>x \<in> set (contacts s). email_key x \<noteq> Some (t, str_lower e)"
proof -
  have "one_or_none (filter (email_matches t e) (contacts s)) = Inr None"
    using assms by (auto simp: find_contact_for_dedupe_def split: option.splits sum.splits)
  then show ?thesis by (simp only: one_or_none_eq) (simp add: filter_empty_conv email_matches_key)
qed

lemma merge_contact_fields:
  "con_id (merge_contact d c) = con_id c" "con_tenant (merge_contact d c) = con_tenant c"
  "con_email (merge_contact d c) = fill (con_email c) (cc_email d)"
  by (simp_all add: merge_contact_def)

lemma contacts_ok_merge:
  assumes ok: "contacts_ok s" and f: "find_contact_for_dedupe t (cc_email d) ph s = Inr (Some c)"
  shows "contacts_ok (s\<lparr>contacts := upd_rows (\<lambda>x. con_id x = con_id c) (merge_contact d) (contacts s)\<rparr>)"
proof -
  let ?g = "\<lambda>x. if con_id x = con_id c then merge_contact d x else x"
  from find_contact_found [OF f] have c: "c \<in> set (contacts s)" "con_tenant c = t"
    and new: "\<And>e x. con_email c = None \<Longrightarrow> cc_email d = Some e \<Longrightarrow> x \<in> set (contacts s) \<Longrightarrow>
      email_key x \<noteq> Some (t, str_lower e)" by blast+
  from ok have ids: "distinct (map con_id (contacts s))" by (simp add: contacts_ok_def)
  have is_c: "x = c" if "x \<in> set (contacts s)" "con_id x = con_id c" for x
    using ids that c(1) distinct_key_eq by metis
  have key: "email_key (?g x) = (if x = c \<and> con_email c = None \<and> str_given (cc_email d)
      then map_option (\<lambda>e. (t, str_lower e)) (cc_email d) else email_key x)"
    if "x \<in> set (contacts s)" for x
    using is_c [OF that] c(2) by (auto simp: email_key_def merge_contact_fields fill_def)
  have same: "con_id (?g z) = con_id z" for z by (simp add: merge_contact_fields)
  have "one_per_email (upd_rows (\<lambda>x. con_id x = con_id c) (merge_contact d) (contacts s))"
  proof (rule one_per_emailI)
    fix x' y'
    assume "x' \<in> set (upd_rows (\<lambda>x. con_id x = con_id c) (merge_contact d) (contacts s))"
      and "y' \<in> set (upd_rows (\<lambda>x. con_id x = con_id c) (merge_contact d) (contacts s))"
    then obtain x y where xy: "x \<in> set (contacts s)" "x' = ?g x" "y \<in> set (contacts s)" "y' = ?g y"
      by (force simp: set_upd_rows)
    assume k: "email_key x' \<noteq> None" "email_key x' = email_key y'"
    have fresh: "email_key z \<noteq> map_option (\<lambda>e. (t, str_lower e)) (cc_email d)"
      if "con_email c = None" "str_given (cc_email d)" "z \<in> set (contacts s)" for z
      using new [OF that(1) _ that(3)] that(2) by (cases "cc_email d") auto
    have "con_id x = con_id y"
    proof (cases "x = y")
      case False
      with k xy key [OF xy(1)] key [OF xy(3)] fresh [OF _ _ xy(1)] fresh [OF _ _ xy(3)]
      have "email_key x \<noteq> None \<and> email_key x = email_key y" by (auto split: if_splits)
      with ok xy show ?thesis unfolding contacts_ok_def by (blast intro: one_per_emailD)
    qed simp
    then show "con_id x' = con_id y'" unfolding xy(2,4) same .
  qed
  moreover have "map con_id (upd_rows (\<lambda>x. con_id x = con_id c) (merge_contact d) (contacts s)) =
      map con_id (contacts s)"
    by (rule map_upd_rows) (simp add: merge_contact_fields)
  ultimately show ?thesis using ids by (simp add: contacts_ok_def)
qed

lemma contacts_ok_create:
  assumes ok: "contacts_ok s" and f: "find_contact_for_dedupe t (cc_email d) ph s = Inr None"
    and fresh: "i \<notin> con_id ` set (contacts s)"
  shows "contacts_ok (s\<lparr>contacts := contacts s @ [new_contact t d i]\<rparr>)"
proof -
  have k: "email_key (new_contact t d i) = map_option (\<lambda>e. (t, str_lower e)) (cc_email d)"
    by (simp add: email_key_def new_contact_def)
  have "email_key x \<noteq> email_key (new_contact t d i)"
    if "x \<in> set (contacts s)" "email_key (new_contact t d i) \<noteq> None" for x
    using find_contact_missing [OF f] that by (cases "cc_email d") (auto simp: k)
  then have new: "email_key x \<noteq> email_key (new_contact t d i)"
    if "x \<in> set (contacts s)" "email_key (new_contact t d i) \<noteq> None" for x using that by blast
  have "one_per_email (contacts s @ [new_contact t d i])"
  proof (rule one_per_emailI)
    fix x y
    assume "x \<in> set (contacts s @ [new_contact t d i])" "y \<in> set (contacts s @ [new_contact t d i])"
      and k: "email_key x \<noteq> None" "email_key x = email_key y"
    then consider "x \<in> set (contacts s)" "y \<in> set (contacts s)" | "x = y"
      | "x \<in> set (contacts s)" "y = new_contact t d i" | "y \<in> set (contacts s)" "x = new_contact t d i"
      by auto
    then show "con_id x = con_id y"
    proof cases
      case 1
      with ok k show ?thesis unfolding contacts_ok_def by (blast intro: one_per_emailD)
    next
      case 3
      with new [OF 3(1)] k show ?thesis by metis
    next
      case 4
      with new [OF 4(1)] k show ?thesis by metis
    qed simp
  qed
  moreover have "con_id (new_contact t d i) = i" by (simp add: new_contact_def)
  ultimately show ?thesis using ok fresh by (simp add: contacts_ok_def)
qed

lemma contacts_ok_found: "contacts_ok s \<Longrightarrow> contacts_ok (snd (find_or_create_contact t d i s))"
proof (cases "find_contact_for_dedupe t (cc_email d) (cc_phone d) s")
  case (Inr found)
  assume ok: "contacts_ok s"
  show ?thesis
  proof (cases found)
    case None
    with Inr ok show ?thesis
      by (simp add: find_or_create_contact_def list_ex_iff ret_def)
        (auto intro!: contacts_ok_create [simplified])
  next
    case (Some c)
    with Inr ok show ?thesis by (simp add: find_or_create_contact_def ret_def contacts_ok_merge)
  qed
qed (simp add: find_or_create_contact_def)

section \<open>Properties of the pipeline\<close>

text \<open>
  C37: whatever operations run, in whatever order and with whatever outcome, every lead keeps a
  score between 0 and 100 and a lead in the stage \<open>lost\<close> has a reason.
\<close>

theorem lead_scores_in_bounds:
  assumes "leads_ok s" and "lead_call\<^sup>*\<^sup>* s s'"
  shows "\<forall>l \<in> set (leads s'). 0 \<le> lead_score l \<and> lead_score l \<le> 100
    \<and> (lead_stage l = LOST \<longrightarrow> str_given (lead_lost_reason l))"
  using scores.run_keeps [OF assms(2,1)] by (simp add: leads_ok_def lead_ok_def)

definition sample_contact :: "string option \<Rightarrow> string option \<Rightarrow> contact_capture" where
  "sample_contact email phone = \<lparr>cc_first_name = Some ''Amel'', cc_last_name = None, cc_email = email,
     cc_phone = phone, cc_whatsapp = None, cc_marketing_consent = False\<rparr>"

definition sample_form :: capture_form where
  "sample_form = \<lparr>cf_contact = sample_contact (Some ''a@x.dz'') (Some ''+213555''), cf_listing = None,
     cf_message = Some ''hello'', cf_meta = [], cf_hp = []\<rparr>"

definition sample_captured :: "(error + uuid option) \<times> db" where
  "sample_captured = capture_lead sample_world sample_tenant sample_form PHONE 70 80 5 sample_db"

definition sample_lead_lost :: "(error + unit) \<times> db" where
  "sample_lead_lost = transition_stage sample_tenant sample_admin 70 LOST (Some ''budget'') 9
     (snd sample_captured)"

lemma sample_lead_run: "lead_call\<^sup>*\<^sup>* sample_db (snd sample_lead_lost)"
proof -
  have "lead_call sample_db (snd sample_captured)"
    by (rule lead_call.capture, unfold sample_captured_def) (rule prod.collapse [symmetric])
  moreover have "lead_call (snd sample_captured) (snd sample_lead_lost)"
    by (rule lead_call.stage, unfold sample_lead_lost_def) (rule prod.collapse [symmetric])
  ultimately show ?thesis by auto
qed

lemma sample_db_ok: "leads_ok sample_db" "contacts_ok sample_db"
  by (simp_all add: leads_ok_def contacts_ok_def one_per_email_def sample_db_def empty_db_def)

theorem lead_scores_in_bounds_witness:
  "map lead_stage (leads (snd sample_lead_lost)) = [LOST]
   \<and> list_all (\<lambda>l. 0 \<le> lead_score l \<and> lead_score l \<le> 100) (leads (snd sample_lead_lost))"
proof
  show "map lead_stage (leads (snd sample_lead_lost)) = [LOST]" by code_simp
  show "list_all (\<lambda>l. 0 \<le> lead_score l \<and> lead_score l \<le> 100) (leads (snd sample_lead_lost))"
    using lead_scores_in_bounds [OF sample_db_ok(1) sample_lead_run] by (simp add: list_all_iff)
qed

text \<open>
  A capture that runs alone keeps the emails of a tenant's contacts apart, and finds one contact
  at most by its email. Nothing else does: the lookup and the insert are not locked and the
  index is not unique, and an edit of a contact does not look at the others.
\<close>

lemma capture_keeps_emails_apart:
  assumes "contacts_ok s"
  shows "contacts_ok (snd (find_or_create_contact t d i s))
    \<and> length (filter (email_matches t e) (contacts s)) \<le> 1"
  using contacts_ok_found [OF assms] one_email_match [OF assms] by blast

definition sample_edit :: contact_update where
  "sample_edit = \<lparr>cu_first_name = Unset, cu_last_name = Unset, cu_email = SetTo (Some '' B@x.dz''),
     cu_phone = Unset, cu_whatsapp = Unset, cu_consent = Unset, cu_tags = Unset, cu_notes = Unset\<rparr>"

definition sample_two_contacts :: db where
  "sample_two_contacts = sample_db\<lparr>contacts := [new_contact 1 (sample_contact (Some ''a@x.dz'') None) 80,
     new_contact 1 (sample_contact (Some ''b@x.dz'') None) 81]\<rparr>"

text \<open>
  An admin who gives a contact the email of another one makes every later capture with this
  email fail, where two rows are found for one.
\<close>

lemma edited_email_blocks_captures:
  "contacts_ok sample_two_contacts
   \<and> map con_email (contacts (snd (update_contact sample_tenant 80 sample_edit sample_two_contacts)))
     = [Some ''b@x.dz'', Some ''b@x.dz'']
   \<and> fst (capture_lead sample_world sample_tenant (sample_form\<lparr>cf_contact := sample_contact (Some ''b@x.dz'') None\<rparr>)
       PHONE 70 82 5 (snd (update_contact sample_tenant 80 sample_edit sample_two_contacts)))
     = Inl MultipleResultsFound"
proof (intro conjI)
  show "contacts_ok sample_two_contacts" by code_simp
  show "map con_email (contacts (snd (update_contact sample_tenant 80 sample_edit sample_two_contacts)))
     = [Some ''b@x.dz'', Some ''b@x.dz'']" by code_simp
qed code_simp

text \<open>The same is not true of phone numbers: four captures, the last one of which cannot be served.\<close>

definition sample_visits :: "(string option \<times> string option) list" where
  "sample_visits = [(Some ''a@x.dz'', Some ''+213555''), (Some ''b@x.dz'', None),
     (Some ''b@x.dz'', Some ''+213555''), (None, Some ''+213555'')]"

definition sample_visit :: "uuid \<times> string option \<times> string option \<Rightarrow> (db, unit) action" where
  "sample_visit v = (case v of (i, email, phone) \<Rightarrow>
     andthen (find_or_create_contact 1 (sample_contact email phone) i) (\<lambda>_. ret ()))"

text \<open>
  a phone number does not stay unique among the contacts of a tenant: once a contact found
  by its email was merge-filled with the phone of another one, a capture that gives this phone
  only finds two rows where the code asks for one, and fails.
\<close>

lemma phone_dedupe_ambiguous:
  "fst (for_each (take 3 (zip [80, 81, 82, 83] sample_visits)) sample_visit sample_db) = Inr ()
   \<and> fst (for_each (zip [80, 81, 82, 83] sample_visits) sample_visit sample_db) = Inl MultipleResultsFound
   \<and> status_code MultipleResultsFound = 500"
proof (intro conjI)
  show "fst (for_each (take 3 (zip [80, 81, 82, 83] sample_visits)) sample_visit sample_db) = Inr ()"
    by code_simp
  show "fst (for_each (zip [80, 81, 82, 83] sample_visits) sample_visit sample_db) = Inl MultipleResultsFound"
    by code_simp
qed (simp add: status_code_def)

section \<open>The assignment engine\<close>

lemma least_loaded_from_Some:
  "least_loaded_from counts cap us best = Some (u, c) \<Longrightarrow>
   (best = Some (u, c) \<or> u \<in> set us \<and> c = counts u \<and> (\<forall>m. cap = Some m \<longrightarrow> c < m))
   \<and> (\<forall>v \<in> set us. (\<forall>m. cap = Some m \<longrightarrow> counts v < m) \<longrightarrow> c \<le> counts v)
   \<and> (\<forall>b k. best = Some (b, k) \<longrightarrow> c \<le> k)"
proof (induction us arbitrary: best)
  case (Cons v us)
  consider (over) m where "cap = Some m" "m \<le> counts v"
    | (better) "\<forall>m. cap = Some m \<longrightarrow> counts v < m" "\<forall>b k. best = Some (b, k) \<longrightarrow> counts v < k"
    | (worse) b k where "\<forall>m. cap = Some m \<longrightarrow> counts v < m" "best = Some (b, k)" "k \<le> counts v"
    by (cases cap; cases best) force+
  then show ?case
  proof cases
    case over
    with Cons.prems have "least_loaded_from counts cap us best = Some (u, c)" by simp
    from Cons.IH [OF this] over show ?thesis by auto
  next
    case better
    with Cons.prems have "least_loaded_from counts cap us (Some (v, counts v)) = Some (u, c)"
      by (auto simp: Let_def split: option.splits if_splits)
    from Cons.IH [OF this] better show ?thesis by force
  next
    case worse
    with Cons.prems have "least_loaded_from counts cap us best = Some (u, c)"
      by (auto simp: Let_def split: option.splits if_splits)
    from Cons.IH [OF this] worse show ?thesis by auto
  qed
qed auto

lemma least_loaded_from_None:
  "least_loaded_from counts cap us best = None \<longleftrightarrow>
     best = None \<and> (\<forall>v \<in> set us. \<exists>m. cap = Some m \<and> m \<le> counts v)"
  by (induction us arbitrary: best) (auto simp: Let_def split: option.splits)

lemma least_loaded_Some:
  assumes "least_loaded t us cap s = Some u"
  shows "u \<in> set us \<and> (\<forall>m. cap = Some m \<longrightarrow> open_lead_count t s u < m)
    \<and> (\<forall>v \<in> set us. (\<forall>m. cap = Some m \<longrightarrow> open_lead_count t s v < m) \<longrightarrow>
         open_lead_count t s u \<le> open_lead_count t s v)"
proof -
  from assms obtain c where "least_loaded_from (open_lead_count t s) cap us None = Some (u, c)"
    by (auto simp: least_loaded_def)
  from least_loaded_from_Some [OF this] show ?thesis by auto
qed

definition active_account :: "uuid \<Rightarrow> db \<Rightarrow> uuid \<Rightarrow> bool" where
  "active_account t s u \<longleftrightarrow> (\<exists>x \<in> set (users s). user_id x = u \<and> user_tenant x = Some t
     \<and> user_status x = ACTIVE \<and> user_deleted_at x = None)"

lemma identities_for_active: "identities_for t ids s u \<noteq> None \<longleftrightarrow> u \<in> set ids \<and> active_account t s u"
  by (auto simp: identities_for_def map_of_eq_None_iff image_iff list_active_by_ids_def
      active_account_def)

lemma identity_if_active: "get_identity_if_active (Some t) u s \<noteq> None \<Longrightarrow> active_account t s u"
  by (auto simp: get_identity_if_active_def user_get_def active_account_def dest!: find_in
      split: option.splits if_splits)

definition assignment_candidates :: "world \<Rightarrow> uuid \<Rightarrow> uuid option \<Rightarrow> db \<Rightarrow> uuid list" where
  "assignment_candidates w t listing s = (case get_assignment_rule t s of
      None \<Rightarrow> []
    | Some r \<Rightarrow> (case rule_strategy r of
        LISTING_AGENT \<Rightarrow> []
      | ROUND_ROBIN \<Rightarrow> (let pool = or_else (rule_agent_pool r) [] in
          if pool \<noteq> [] then filter (\<lambda>u. identities_for t pool s u \<noteq> None) pool
          else map ident_id (list_active_agents t s))
      | TERRITORY \<Rightarrow> (case listing of None \<Rightarrow> [] | Some i \<Rightarrow> (case point_for t i s of None \<Rightarrow> []
          | Some point \<Rightarrow> (let ids = candidate_user_ids_for_point (area_contains w) t point s in
              filter (\<lambda>u. identities_for t ids s u \<noteq> None) ids)))))"

lemma listed_agents_active: "u \<in> set (map ident_id (list_active_agents t s)) \<Longrightarrow> active_account t s u"
  by (auto simp: list_active_agents_def list_active_by_role_def to_identity_def active_account_def)

lemma candidates_active:
  assumes "u \<in> set (assignment_candidates w t listing s)" shows "active_account t s u"
proof -
  from assms consider "u \<in> set (map ident_id (list_active_agents t s))"
    | ids where "identities_for t ids s u \<noteq> None"
    unfolding assignment_candidates_def Let_def
    by (auto simp del: not_None_eq split: option.splits assignment_strategy.splits if_splits)
      (metis assignment_strategy.exhaust)+
  then show ?thesis by cases (rule listed_agents_active, assumption, simp only: identities_for_active)
qed

definition assignment_cap :: "uuid \<Rightarrow> db \<Rightarrow> int option" where
  "assignment_cap t s = Option.bind (get_assignment_rule t s) rule_max_open"

lemma pick_agent_balanced:
  assumes "get_assignment_rule t s = Some r" "rule_strategy r \<noteq> LISTING_AGENT"
  shows "pick_agent w t listing s =
    least_loaded t (assignment_candidates w t listing s) (assignment_cap t s) s"
  using assms
  by (cases "rule_strategy r")
    (auto simp: pick_agent_def assignment_candidates_def assignment_cap_def pick_round_robin_def
      pick_territory_def least_loaded_def Let_def split: option.splits)

text \<open>
  C34: the assignment engine only ever hands a lead to an active account of the tenant, written
  on that lead. Under the two balancing strategies the account is one of the candidates, below
  the cap of the rule and no more loaded with open leads than any other candidate below it, in
  the counts the engine reads; and the lead stays unassigned exactly when every candidate there
  is has reached the cap. Under the default strategy the lead goes to its listing's agent if
  that account is active, whatever its load, and stays unassigned otherwise.
\<close>

theorem assignment_sound:
  assumes "assign_lead w t l now s = (Inr agent, s')"
  shows "(\<forall>r \<in> set (leads s'). lead_id r = lead_id l \<longrightarrow> lead_agent r = agent)
    \<and> (\<forall>u. agent = Some u \<longrightarrow> active_account t s u)
    \<and> (\<forall>r. get_assignment_rule t s = Some r \<longrightarrow> rule_strategy r \<noteq> LISTING_AGENT \<longrightarrow>
        (case agent of
          None \<Rightarrow> \<forall>v \<in> set (assignment_candidates w t (lead_listing l) s).
            \<exists>m. rule_max_open r = Some m \<and> m \<le> open_lead_count t s v
        | Some u \<Rightarrow> u \<in> set (assignment_candidates w t (lead_listing l) s)
            \<and> (\<forall>m. rule_max_open r = Some m \<longrightarrow> open_lead_count t s u < m)
            \<and> (\<forall>v \<in> set (assignment_candidates w t (lead_listing l) s).
                (\<forall>m. rule_max_open r = Some m \<longrightarrow> open_lead_count t s v < m) \<longrightarrow>
                open_lead_count t s u \<le> open_lead_count t s v)))
    \<and> ((\<forall>r. get_assignment_rule t s = Some r \<longrightarrow> rule_strategy r = LISTING_AGENT) \<longrightarrow>
        (\<forall>u. agent = Some u \<longleftrightarrow> (\<exists>i. lead_listing l = Some i \<and> agent_for t i s = Some u
            \<and> get_identity_if_active (Some t) u s \<noteq> None)))"
proof -
  from assms have agent: "agent = pick_agent w t (lead_listing l) s"
    and s': "leads s' = upd_rows (\<lambda>r. lead_id r = lead_id l)
      (touched now (\<lambda>r. r\<lparr>lead_agent := agent\<rparr>)) (leads s)"
    by (auto simp: assign_lead_def ret_def)
  have "lead_agent (touched now (\<lambda>r. r\<lparr>lead_agent := agent\<rparr>) x) = agent" for x
    by (simp add: touched_def) (metis lead.select_convs(5) lead.surjective lead.update_convs(5))
  then have written: "\<forall>r \<in> set (leads s'). lead_id r = lead_id l \<longrightarrow> lead_agent r = agent"
    unfolding s' by (intro upd_rows_all) simp_all
  have balanced: "agent = least_loaded t (assignment_candidates w t (lead_listing l) s) (rule_max_open r) s"
    if "get_assignment_rule t s = Some r" "rule_strategy r \<noteq> LISTING_AGENT" for r
    using pick_agent_balanced [OF that] that(1) by (simp add: agent assignment_cap_def)
  have "active_account t s u" if u: "agent = Some u" for u
  proof (cases "\<exists>r. get_assignment_rule t s = Some r \<and> rule_strategy r \<noteq> LISTING_AGENT")
    case True
    then show ?thesis using balanced u least_loaded_Some candidates_active by metis
  next
    case False
    then have "(case get_assignment_rule t s of None \<Rightarrow> LISTING_AGENT | Some r \<Rightarrow> rule_strategy r) = LISTING_AGENT"
      by (auto split: option.splits)
    with u show ?thesis
      by (auto simp: agent pick_agent_def Let_def identity_if_active split: option.splits if_splits)
  qed
  moreover have "case agent of
      None \<Rightarrow> \<forall>v \<in> set (assignment_candidates w t (lead_listing l) s).
        \<exists>m. rule_max_open r = Some m \<and> m \<le> open_lead_count t s v
    | Some u \<Rightarrow> u \<in> set (assignment_candidates w t (lead_listing l) s)
        \<and> (\<forall>m. rule_max_open r = Some m \<longrightarrow> open_lead_count t s u < m)
        \<and> (\<forall>v \<in> set (assignment_candidates w t (lead_listing l) s).
            (\<forall>m. rule_max_open r = Some m \<longrightarrow> open_lead_count t s v < m) \<longrightarrow>
            open_lead_count t s u \<le> open_lead_count t s v)"
    if r: "get_assignment_rule t s = Some r" "rule_strategy r \<noteq> LISTING_AGENT" for r
  proof (cases agent)
    case None
    with balanced [OF r] show ?thesis by (simp add: least_loaded_def least_loaded_from_None)
  next
    case (Some u)
    with balanced [OF r] have "least_loaded t (assignment_candidates w t (lead_listing l) s)
        (rule_max_open r) s = Some u" by simp
    from least_loaded_Some [OF this] Some show ?thesis by simp
  qed
  moreover have "agent = Some u \<longleftrightarrow> (\<exists>i. lead_listing l = Some i \<and> agent_for t i s = Some u
      \<and> get_identity_if_active (Some t) u s \<noteq> None)"
    if "\<forall>r. get_assignment_rule t s = Some r \<longrightarrow> rule_strategy r = LISTING_AGENT" for u
    using that by (auto simp: agent pick_agent_def Let_def split: option.splits)
  ultimately show ?thesis using written by blast
qed

definition sample_pool_db :: db where
  "sample_pool_db = (snd sample_captured)\<lparr>users := [sample_user 10 ADMIN, sample_user 11 AGENT,
       sample_user 12 AGENT],
     leads := upd_rows (\<lambda>_. True) (\<lambda>l. l\<lparr>lead_agent := Some 11\<rparr>) (leads (snd sample_captured)),
     rules := [\<lparr>rule_tenant = 1, rule_strategy = ROUND_ROBIN, rule_agent_pool = None,
       rule_max_open = Some 3\<rparr>]\<rparr>"

definition sample_new_lead :: lead where
  "sample_new_lead = new_lead 1 80 None None PHONE [] 71 6"

definition sample_assigned :: "(error + uuid option) \<times> db" where
  "sample_assigned = assign_lead sample_world 1 sample_new_lead 6
     (sample_pool_db\<lparr>leads := leads sample_pool_db @ [sample_new_lead]\<rparr>)"

theorem assignment_sound_witness:
  "map lead_agent (leads (snd sample_assigned)) = [Some 11, Some 12]
   \<and> active_account 1 (sample_pool_db\<lparr>leads := leads sample_pool_db @ [sample_new_lead]\<rparr>) 12"
proof
  show "map lead_agent (leads (snd sample_assigned)) = [Some 11, Some 12]" by code_simp
  have "fst sample_assigned = Inr (Some 12)" by code_simp
  then have "assign_lead sample_world 1 sample_new_lead 6
      (sample_pool_db\<lparr>leads := leads sample_pool_db @ [sample_new_lead]\<rparr>) = (Inr (Some 12), snd sample_assigned)"
    by (metis prod.collapse sample_assigned_def)
  from assignment_sound [OF this]
  show "active_account 1 (sample_pool_db\<lparr>leads := leads sample_pool_db @ [sample_new_lead]\<rparr>) 12" by blast
qed

section \<open>Retention\<close>

lemma sorted_filter_le:
  fixes f :: "'a \<Rightarrow> int"
  shows "filter (\<lambda>x. f x \<le> b) (sort_key f xs) = takeWhile (\<lambda>x. f x \<le> b) (sort_key f xs)"
proof -
  have "filter (\<lambda>x. f x \<le> b) ys = takeWhile (\<lambda>x. f x \<le> b) ys" if "sorted (map f ys)" for ys
    using that
  proof (induction ys)
    case (Cons y ys)
    show ?case
    proof (cases "f y \<le> b")
      case False
      with Cons.prems have "\<forall>x \<in> set ys. \<not> f x \<le> b" by fastforce
      with False show ?thesis by (simp add: filter_empty_conv)
    qed (use Cons in simp)
  qed simp
  then show ?thesis by simp
qed

lemma take_takeWhile: "n \<le> length (takeWhile P xs) \<Longrightarrow> take n (takeWhile P xs) = take n xs"
  by (induction xs arbitrary: n) (auto simp: take_Cons' split: if_splits)

lemma lost_leads_stable:
  assumes "before \<le> before'" and "length (lost_leads_before t before limit s) = limit"
  shows "lost_leads_before t before' limit s = lost_leads_before t before limit s"
proof -
  let ?lost = "\<lambda>l. lead_tenant l = t \<and> lead_stage l = LOST"
  let ?xs = "sort_key lead_updated_at (filter ?lost (leads s))"
  have f: "sort_key lead_updated_at (filter (\<lambda>l. lead_tenant l = t \<and> lead_stage l = LOST
      \<and> lead_updated_at l \<le> b) (leads s)) = takeWhile (\<lambda>l. lead_updated_at l \<le> b) ?xs" for b
  proof -
    have "filter (\<lambda>l. lead_tenant l = t \<and> lead_stage l = LOST \<and> lead_updated_at l \<le> b) (leads s) =
        filter (\<lambda>l. lead_updated_at l \<le> b) (filter ?lost (leads s))" by (simp add: conj_assoc)
    then show ?thesis
      using sorted_filter_le [of lead_updated_at b "filter ?lost (leads s)"]
        filter_sort [of "\<lambda>l. lead_updated_at l \<le> b" lead_updated_at "filter ?lost (leads s)"]
      by metis
  qed
  have "take limit (takeWhile (\<lambda>l. lead_updated_at l \<le> before) ?xs) = take limit ?xs"
  proof -
    let ?tw = "takeWhile (\<lambda>l. lead_updated_at l \<le> before) ?xs"
    have "limit \<le> length ?tw" using assms(2) by (simp add: lost_leads_before_def f)
    then show ?thesis by (rule take_takeWhile)
  qed
  moreover have "take limit (takeWhile (\<lambda>l. lead_updated_at l \<le> before') ?xs) = take limit ?xs"
  proof -
    let ?tw = "takeWhile (\<lambda>l. lead_updated_at l \<le> before') ?xs"
    have "length (takeWhile (\<lambda>l. lead_updated_at l \<le> before) ?xs) \<le> length ?tw"
    proof -
      have "length (takeWhile (\<lambda>l. lead_updated_at l \<le> before) ys) \<le>
          length (takeWhile (\<lambda>l. lead_updated_at l \<le> before') ys)" for ys
        using assms(1) by (induction ys) auto
      then show ?thesis .
    qed
    then have "limit \<le> length ?tw" using assms(2) by (simp add: lost_leads_before_def f)
    then show ?thesis by (rule take_takeWhile)
  qed
  ultimately show ?thesis by (simp add: lost_leads_before_def f)
qed

lemma anonymized_stripped: "already_stripped (anonymize_contact c)" "con_id (anonymize_contact c) = con_id c"
  "con_tenant (anonymize_contact c) = con_tenant c"
  by (simp_all add: already_stripped_def anonymize_contact_def)

text \<open>
  the retention sweep starves once its batch is full: from the second night on it selects
  the same oldest lost leads, whose contacts are already stripped, and anonymizes nobody, at
  any later date and however many other lost leads are past the retention time.
\<close>

lemma retention_sweep_starves:
  assumes "length (lost_leads_before t before limit s) = limit" and "before \<le> before'"
    and "anonymize_lost_leads t before limit s = (r, s1)"
  shows "anonymize_lost_leads t before' limit s1 = (Inr 0, s1)"
proof -
  let ?ids = "map lead_contact (lost_leads_before t before limit s)"
  let ?hit = "\<lambda>c. con_tenant c = t \<and> con_id c \<in> set ?ids \<and> \<not> already_stripped c"
  from assms(3) have s1: "s1 = s\<lparr>contacts := upd_rows ?hit anonymize_contact (contacts s)\<rparr>"
    by (simp add: anonymize_lost_leads_def Let_def)
  then have same: "lost_leads_before t b limit s1 = lost_leads_before t b limit s" for b
    by (simp add: lost_leads_before_def)
  have ids: "map lead_contact (lost_leads_before t before' limit s1) = ?ids"
    by (simp only: same lost_leads_stable [OF assms(2,1)])
  have c1: "contacts s1 = upd_rows ?hit anonymize_contact (contacts s)" by (simp add: s1)
  have stripped: "\<forall>c \<in> set (contacts s1). \<not> ?hit c"
    unfolding c1 by (rule upd_rows_all) (simp_all only: anonymized_stripped simp_thms)
  have none: "\<not> ?hit c" if "c \<in> set (contacts s1)" for c using bspec [OF stripped that] .
  have "filter ?hit (contacts s1) = []" using none by (simp add: filter_empty_conv)
  moreover have "upd_rows ?hit anonymize_contact (contacts s1) = contacts s1"
    unfolding upd_rows_def by (intro map_idI) (simp only: none if_False)
  ultimately show ?thesis unfolding anonymize_lost_leads_def Let_def ids by simp
qed

definition sample_lost_lead :: "uuid \<Rightarrow> instant \<Rightarrow> lead" where
  "sample_lost_lead i at = (new_lead 1 (i + 10) None None PHONE [] i at)\<lparr>lead_stage := LOST,
     lead_lost_reason := Some ''x''\<rparr>"

definition sample_backlog :: db where
  "sample_backlog = sample_db\<lparr>leads := [sample_lost_lead 70 1, sample_lost_lead 71 2],
     contacts := [new_contact 1 (sample_contact (Some ''a@x.dz'') None) 80,
                  new_contact 1 (sample_contact (Some ''b@x.dz'') None) 81]\<rparr>"

lemma retention_sweep_starves_at_work:
  "anonymize_lost_leads 1 100 1 (snd (anonymize_lost_leads 1 50 1 sample_backlog)) =
     (Inr 0, snd (anonymize_lost_leads 1 50 1 sample_backlog))
   \<and> map con_email (contacts (snd (anonymize_lost_leads 1 50 1 sample_backlog))) = [None, Some ''b@x.dz'']
   \<and> map lead_id (lost_leads_before 1 100 2 sample_backlog) = [70, 71]"
proof (intro conjI)
  have "length (lost_leads_before 1 50 1 sample_backlog) = 1" by code_simp
  from retention_sweep_starves [OF this, of 100, OF _ prod.collapse [symmetric]]
  show "anonymize_lost_leads 1 100 1 (snd (anonymize_lost_leads 1 50 1 sample_backlog)) =
     (Inr 0, snd (anonymize_lost_leads 1 50 1 sample_backlog))" by simp
  show "map con_email (contacts (snd (anonymize_lost_leads 1 50 1 sample_backlog))) = [None, Some ''b@x.dz'']"
    "map lead_id (lost_leads_before 1 100 2 sample_backlog) = [70, 71]" by code_simp+
qed

section \<open>Escalation\<close>

definition escalation_notes :: "world \<Rightarrow> int \<Rightarrow> uuid \<Rightarrow> user list \<Rightarrow> lead \<Rightarrow> notification list" where
  "escalation_notes w mins t admins l = map (\<lambda>u. \<lparr>ntf_tenant = t, ntf_user = user_id u,
     ntf_type = ''lead_escalated'', ntf_payload = [(''leadId'', JStr (uuid_text w (lead_id l))),
       (''minutes'', JInt mins), (''email'', JStr (user_email u))]\<rparr>) admins"

lemma notify_each:
  "for_each us (\<lambda>u. notify ten (f u) ty (p u)) s = (Inr (), s\<lparr>notifications := notifications s @
     map (\<lambda>u. \<lparr>ntf_tenant = tenant_id ten, ntf_user = f u, ntf_type = ty, ntf_payload = p u\<rparr>) us\<rparr>)"
  by (induction us arbitrary: s) (simp_all add: ret_def notify_def)

definition escalate_one ::
  "world \<Rightarrow> int \<Rightarrow> tenant_context \<Rightarrow> instant \<Rightarrow> user list \<Rightarrow> lead \<Rightarrow> (db, unit) action" where
  "escalate_one w mins ten now admins l =
     andthen (activity_add (tenant_id ten) (lead_id l) None SYSTEM escalation_payload now) (\<lambda>_.
     for_each admins (\<lambda>u. notify ten (user_id u) ''lead_escalated''
       [(''leadId'', JStr (uuid_text w (lead_id l))), (''minutes'', JInt mins),
        (''email'', JStr (user_email u))]))"

lemma escalate_one_run:
  "escalate_one w mins ten now admins l s = (Inr (), s\<lparr>activities := activities s @
       [\<lparr>act_tenant = tenant_id ten, act_lead = lead_id l,
         act_actor = None, act_type = SYSTEM, act_payload = escalation_payload, act_created_at = now\<rparr>],
     notifications := notifications s @ escalation_notes w mins (tenant_id ten) admins l\<rparr>)"
  by (simp add: escalate_one_def activity_add_def notify_each escalation_notes_def)

lemma escalate_each:
  "for_each due (escalate_one w mins ten now admins) s =
    (Inr (), s\<lparr>activities := activities s @ map (\<lambda>l. \<lparr>act_tenant = tenant_id ten, act_lead = lead_id l,
         act_actor = None, act_type = SYSTEM, act_payload = escalation_payload, act_created_at = now\<rparr>) due,
       notifications := notifications s @ concat (map (escalation_notes w mins (tenant_id ten) admins) due)\<rparr>)"
  by (induction due arbitrary: s)
    (simp_all add: andthen_def [of "escalate_one _ _ _ _ _ _"] escalate_one_run ret_def)

lemma escalate_run:
  "escalate_unassigned w mins ten now s = (let due = escalation_due mins (tenant_id ten) now s in
    (Inr (length due), s\<lparr>activities := activities s @ map (\<lambda>l. \<lparr>act_tenant = tenant_id ten,
         act_lead = lead_id l, act_actor = None, act_type = SYSTEM, act_payload = escalation_payload,
         act_created_at = now\<rparr>) due,
       notifications := notifications s @ concat (map (escalation_notes w mins (tenant_id ten)
         (list_active_by_role (tenant_id ten) ADMIN s)) due)\<rparr>))"
  unfolding escalate_unassigned_def andthen_gets Let_def escalate_one_def [symmetric]
  by (simp add: andthen_def escalate_each ret_def)

text \<open>
  C38: a sweep that runs alone escalates a lead nobody took, once: it escalates exactly the new,
  unassigned leads of the tenant that are older than the limit and that no earlier sweep
  recorded; for each of them it tells every active admin of the tenant once, and nobody else,
  and records the escalation; and no later sweep, with any limit, escalates one of them again.
\<close>

theorem escalated_once:
  assumes "escalate_unassigned w mins ten now s = (r, s')"
  shows "\<exists>due. due = filter (\<lambda>l. lead_tenant l = tenant_id ten \<and> lead_agent l = None \<and> lead_stage l = NEW
         \<and> lead_created_at l \<le> now - minutes mins
         \<and> \<not> (\<exists>a \<in> set (activities s). act_lead a = lead_id l \<and> act_type a = SYSTEM
              \<and> json_get ''event'' (act_payload a) = Some (JStr ''escalation_unassigned''))) (leads s)
    \<and> r = Inr (length due)
    \<and> notifications s' = notifications s @ concat (map (\<lambda>l. map (\<lambda>u.
         \<lparr>ntf_tenant = tenant_id ten, ntf_user = user_id u, ntf_type = ''lead_escalated'',
          ntf_payload = [(''leadId'', JStr (uuid_text w (lead_id l))), (''minutes'', JInt mins),
            (''email'', JStr (user_email u))]\<rparr>)
         (sort_key user_id (filter (\<lambda>u. user_tenant u = Some (tenant_id ten) \<and> user_role u = ADMIN
            \<and> user_status u = ACTIVE \<and> user_deleted_at u = None) (users s)))) due)
    \<and> activities s' = activities s @ map (\<lambda>l. \<lparr>act_tenant = tenant_id ten, act_lead = lead_id l,
         act_actor = None, act_type = SYSTEM, act_payload = escalation_payload, act_created_at = now\<rparr>) due
    \<and> leads s' = leads s
    \<and> (\<forall>l \<in> set due. \<forall>mins' t now'. l \<notin> set (escalation_due mins' t now' s'))"
proof -
  define due where "due = escalation_due mins (tenant_id ten) now s"
  from assms have r: "r = Inr (length due)"
    and s': "s' = s\<lparr>activities := activities s @ map (\<lambda>l. \<lparr>act_tenant = tenant_id ten,
         act_lead = lead_id l, act_actor = None, act_type = SYSTEM, act_payload = escalation_payload,
         act_created_at = now\<rparr>) due,
       notifications := notifications s @ concat (map (escalation_notes w mins (tenant_id ten)
         (list_active_by_role (tenant_id ten) ADMIN s)) due)\<rparr>"
    by (simp_all add: escalate_run due_def Let_def)
  have "already_escalated s' l" if "l \<in> set due" for l
    using that by (auto simp: already_escalated_def s' escalation_payload_def json_get_def list_ex_iff bex_Un)
  then have later: "\<forall>l \<in> set due. \<forall>mins' t now'. l \<notin> set (escalation_due mins' t now' s')"
    by (simp add: escalation_due_def)
  have due: "due = filter (\<lambda>l. lead_tenant l = tenant_id ten \<and> lead_agent l = None \<and> lead_stage l = NEW
         \<and> lead_created_at l \<le> now - minutes mins
         \<and> \<not> (\<exists>a \<in> set (activities s). act_lead a = lead_id l \<and> act_type a = SYSTEM
              \<and> json_get ''event'' (act_payload a) = Some (JStr ''escalation_unassigned''))) (leads s)"
    unfolding due_def escalation_due_def already_escalated_def list_ex_iff ..
  have told: "notifications s' = notifications s @ concat (map (\<lambda>l. map (\<lambda>u.
         \<lparr>ntf_tenant = tenant_id ten, ntf_user = user_id u, ntf_type = ''lead_escalated'',
          ntf_payload = [(''leadId'', JStr (uuid_text w (lead_id l))), (''minutes'', JInt mins),
            (''email'', JStr (user_email u))]\<rparr>)
         (sort_key user_id (filter (\<lambda>u. user_tenant u = Some (tenant_id ten) \<and> user_role u = ADMIN
            \<and> user_status u = ACTIVE \<and> user_deleted_at u = None) (users s)))) due)"
    by (simp add: s' escalation_notes_def [abs_def] list_active_by_role_def)
  have "activities s' = activities s @ map (\<lambda>l. \<lparr>act_tenant = tenant_id ten, act_lead = lead_id l,
         act_actor = None, act_type = SYSTEM, act_payload = escalation_payload, act_created_at = now\<rparr>) due"
    "leads s' = leads s" by (simp_all add: s')
  then show ?thesis by (intro exI [of _ due] conjI due r told later)
qed

definition sample_escalated :: "(error + nat) \<times> db" where
  "sample_escalated = escalate_unassigned sample_world 30 sample_tenant (minutes 40) (snd sample_captured)"

theorem escalated_once_witness:
  "fst sample_escalated = Inr 1 \<and> map ntf_user (notifications (snd sample_escalated)) = [10]
   \<and> escalation_due 30 1 (minutes 90) (snd sample_escalated) = []"
proof (intro conjI)
  show "fst sample_escalated = Inr 1" "map ntf_user (notifications (snd sample_escalated)) = [10]"
    by code_simp+
  have t: "tenant_id sample_tenant = 1" by (simp add: sample_tenant_def)
  have one: "map lead_id (escalation_due 30 1 (minutes 40) (snd sample_captured)) = [70]"
    "map lead_id (leads (snd sample_captured)) = [70]"
    "leads (snd sample_escalated) = leads (snd sample_captured)" by code_simp+
  have "escalate_unassigned sample_world 30 sample_tenant (minutes 40) (snd sample_captured) =
      (fst sample_escalated, snd sample_escalated)" by (simp add: sample_escalated_def)
  from escalated_once [OF this, unfolded t]
  have gone: "\<forall>l \<in> set (escalation_due 30 1 (minutes 40) (snd sample_captured)).
      l \<notin> set (escalation_due 30 1 (minutes 90) (snd sample_escalated))"
    unfolding escalation_due_def [of 30 1 "minutes 40"] already_escalated_def list_ex_iff by blast
  have "l \<in> set (escalation_due 30 1 (minutes 40) (snd sample_captured))" if "l \<in> set (leads (snd sample_captured))" for l
  proof -
    from one obtain a where a: "leads (snd sample_captured) = [a]" by auto
    have sub: "set (escalation_due 30 1 (minutes 40) (snd sample_captured)) \<subseteq> set (leads (snd sample_captured))"
      by (auto simp: escalation_due_def)
    from one(1) obtain b where "b \<in> set (escalation_due 30 1 (minutes 40) (snd sample_captured))"
      by (metis list.map_disc_iff list.set_sel(1) not_Cons_self2)
    with sub a that show ?thesis by auto
  qed
  with gone one(3) show "escalation_due 30 1 (minutes 90) (snd sample_escalated) = []"
    by (auto simp: escalation_due_def filter_empty_conv)
qed

section \<open>Capture\<close>

lemma recompute_run [simp]:
  "andthen (recompute_score t i now) f s = f () (snd (recompute_score t i now s))"
  by (simp add: recompute_score_def modify_def andthen_def)

text \<open>
  a filled honeypot field stops a public capture before anything is read or written; an
  empty one of the WhatsApp form gives a link without a number.
\<close>

lemma honeypot_leaves_no_trace:
  assumes "cf_hp d \<noteq> []"
  shows "capture_lead w ten d source i j now s = (Inr None, s)
    \<and> capture_whatsapp_click w ten d i j now s = (Inr (None, ''https://wa.me/''), s)"
  using assms by (simp add: capture_lead_def capture_whatsapp_click_def ret_def)

lemma honeypot_leaves_no_trace_at_work:
  "capture_lead sample_world sample_tenant (sample_form\<lparr>cf_hp := ''x''\<rparr>) PHONE 70 80 5 sample_db
     = (Inr None, sample_db)"
  by (rule honeypot_leaves_no_trace [THEN conjunct1]) (simp add: sample_form_def)

section \<open>Drip sequences\<close>

text \<open>The sequence is a tenant setting, or the default when the setting is no list or empty.\<close>

lemma drip_sequence_nonempty: "drip_sequence ten = Inr steps \<Longrightarrow> steps \<noteq> []"
  by (auto simp: drip_sequence_def DEFAULT_DRIP_SEQUENCE_def split: sum.splits option.splits json.splits list.splits)

text \<open>
  one visit of a due drip sends one email at most, to the lead's own contact and only while
  the lead is in an early stage; afterwards the drip has stopped, or it is one step further and
  still inside the sequence, so a lead is written to once per step of the sequence at most.
\<close>

lemma drip_advance_outcome:
  assumes "advance_drip ten d now s = (Inr u, s')"
    and "drip_tenant d = tenant_id ten" and "d \<in> set (drips s)" and "drip_stopped_at d = None"
    and "distinct (map drip_lead (drips s))"
  shows "\<exists>steps d'. drip_sequence ten = Inr steps
    \<and> find (\<lambda>x. drip_lead x = drip_lead d) (drips s') = Some d'
    \<and> (drip_stopped_at d' \<noteq> None \<or> drip_step_index d' = Suc (drip_step_index d)
         \<and> drip_step_index d' < length steps)
    \<and> (sent s' = sent s \<or> (\<exists>l c e subject body. lead_get (tenant_id ten) None (drip_lead d) s = Some l
         \<and> lead_stage l \<in> {NEW, CONTACTED} \<and> contact_get (tenant_id ten) (lead_contact l) s = Some c
         \<and> con_email c = Some e \<and> sent s' = sent s @ [SendEmail e subject body]))"
proof -
  let ?i = "drip_lead d"
  have row: "find (\<lambda>x. drip_lead x = ?i) (upd_rows P f (drips s)) = Some (if P d then f d else d)"
    if "\<And>x. drip_lead (f x) = drip_lead x" for P f
  proof -
    have "find (\<lambda>x. drip_lead x = ?i) (drips s) = Some d"
      using assms(3,5) by (intro find_distinct [where key = drip_lead]) auto
    then show ?thesis using that by (simp add: find_upd_rows)
  qed
  have stop: "stop_drip (tenant_id ten) ?i reason now s =
      (Inr (), s\<lparr>drips := upd_rows (\<lambda>x. drip_tenant x = tenant_id ten \<and> drip_lead x = ?i \<and> drip_stopped_at x = None)
         (\<lambda>x. x\<lparr>drip_stopped_at := Some now, drip_stopped_reason := Some reason\<rparr>) (drips s)\<rparr>)" for reason
    by (simp add: stop_drip_def modify_def)
  from assms(1) obtain steps where steps: "drip_sequence ten = Inr steps"
    unfolding advance_drip_def Let_def by (cases "drip_sequence ten") auto
  let ?k = "drip_step_index d"
  have stopped: ?thesis
    if "s' = s\<lparr>drips := upd_rows (\<lambda>x. drip_tenant x = tenant_id ten \<and> drip_lead x = ?i \<and> drip_stopped_at x = None)
         (\<lambda>x. x\<lparr>drip_stopped_at := Some now, drip_stopped_reason := Some reason\<rparr>) (drips s)\<rparr>" for reason
    using steps assms(2,4) by (simp add: that row)
  show ?thesis
  proof (cases "length steps \<le> ?k")
    case True
    with assms(1) steps have "s' = snd (stop_drip (tenant_id ten) ?i SEQUENCE_COMPLETE now s)"
      by (simp add: advance_drip_def Let_def stop)
    then show ?thesis unfolding stop snd_conv by (rule stopped)
  next
    case more: False
    show ?thesis
    proof (cases "\<exists>l. lead_get (tenant_id ten) None ?i s = Some l \<and> lead_stage l \<in> {NEW, CONTACTED}")
      case False
      with assms(1) steps more have "s' = snd (stop_drip (tenant_id ten) ?i STAGE_ADVANCED now s)"
        by (auto simp: advance_drip_def Let_def stop DRIP_ACTIVE_STAGES_def split: option.splits if_splits)
      then show ?thesis unfolding stop snd_conv by (rule stopped)
    next
      case True
      then obtain l where l: "lead_get (tenant_id ten) None ?i s = Some l" "lead_stage l \<in> {NEW, CONTACTED}"
        by blast
      define mail where "mail = (case contact_get (tenant_id ten) (lead_contact l) s of
          Some c \<Rightarrow> if str_given (con_email c)
            then andthen (lift_res (step_field ''subject'' (steps ! ?k))) (\<lambda>subject.
                 andthen (lift_res (step_field ''body'' (steps ! ?k))) (\<lambda>body.
                 send_now (SendEmail (or_else (con_email c) []) subject body)))
            else ret ()
        | None \<Rightarrow> ret ())"
      from assms(1) steps more l obtain s1 where s1: "mail s = (Inr (), s1)"
        and rest: "(if length steps \<le> Suc ?k
          then drip_write ?i (\<lambda>d. d\<lparr>drip_step_index := Suc ?k, drip_stopped_at := Some now,
             drip_stopped_reason := Some SEQUENCE_COMPLETE\<rparr>)
          else andthen (lift_res (step_day (steps ! Suc ?k))) (\<lambda>next_day.
           andthen (lift_res (step_day (steps ! ?k))) (\<lambda>day.
           drip_write ?i (\<lambda>d. d\<lparr>drip_step_index := Suc ?k,
             drip_next_send_at := now + days (next_day - day)\<rparr>)))) s1 = (Inr u, s')"
        unfolding advance_drip_def Let_def mail_def
        by (auto simp: DRIP_ACTIVE_STAGES_def andthen_Inr_iff [of "case_option _ _ _"])
      have mailed: "drips s1 = drips s \<and> (sent s1 = sent s \<or> (\<exists>c e subject body.
          contact_get (tenant_id ten) (lead_contact l) s = Some c \<and> con_email c = Some e
          \<and> sent s1 = sent s @ [SendEmail e subject body]))"
        using s1 unfolding mail_def
        by (auto simp: basic_iff andthen_Inr_iff str_given_def split: option.splits if_splits)
      have stepped: "sent s' = sent s1 \<and> (\<exists>f. drips s' = upd_rows (\<lambda>x. drip_lead x = ?i) f (drips s1)
          \<and> (\<forall>x. drip_lead (f x) = drip_lead x)
          \<and> (drip_stopped_at (f d) \<noteq> None \<or> drip_step_index (f d) = Suc ?k \<and> Suc ?k < length steps))"
      proof (cases "length steps \<le> Suc ?k")
        case True
        with rest show ?thesis
          by (auto simp: drip_write_def basic_iff intro!: exI [of _ "\<lambda>d. d\<lparr>drip_step_index := Suc ?k,
            drip_stopped_at := Some now, drip_stopped_reason := Some SEQUENCE_COMPLETE\<rparr>"])
      next
        case False
        with rest obtain t where "s' = s1\<lparr>drips := upd_rows (\<lambda>x. drip_lead x = ?i)
            (\<lambda>d. d\<lparr>drip_step_index := Suc ?k, drip_next_send_at := t\<rparr>) (drips s1)\<rparr>"
          by (auto simp: drip_write_def andthen_Inr_iff basic_iff)
        with False show ?thesis
          by (auto intro!: exI [of _ "\<lambda>d. d\<lparr>drip_step_index := Suc ?k, drip_next_send_at := t\<rparr>"])
      qed
      then obtain f where f: "drips s' = upd_rows (\<lambda>x. drip_lead x = ?i) f (drips s)" "sent s' = sent s1"
          "\<And>x. drip_lead (f x) = drip_lead x"
          "drip_stopped_at (f d) \<noteq> None \<or> drip_step_index (f d) = Suc ?k \<and> Suc ?k < length steps"
        using mailed by auto
      have "find (\<lambda>x. drip_lead x = ?i) (drips s') = Some (f d)" using row [OF f(3)] by (simp add: f(1))
      with f(2,4) mailed steps l show ?thesis by fastforce
    qed
  qed
qed

section \<open>The WhatsApp link\<close>

definition unhex :: "char \<Rightarrow> nat" where
  "unhex c = (let n = of_char c :: nat in if n < 65 then n - 48 else n - 55)"

fun url_unquote :: "string \<Rightarrow> string" where
  "url_unquote [] = []"
| "url_unquote (c # cs) = (if c = CHR ''%'' then (case cs of
      a # b # ds \<Rightarrow> char_of (unhex a * 16 + unhex b) # url_unquote ds | _ \<Rightarrow> c # url_unquote cs)
    else c # url_unquote cs)"

lemma unhex_hex: "n < 16 \<Longrightarrow> unhex (hex_digit n) = n"
  by (auto simp: unhex_def hex_digit_def Let_def)

lemma quote_safe_not_percent: "quote_safe c \<Longrightarrow> c \<noteq> CHR ''%''"
  by (auto simp: quote_safe_def is_alnum_def)

lemma url_unquote_quote: "url_unquote (url_quote s) = s"
proof (induction s)
  case (Cons c s)
  have n: "of_char c div 16 < (16 :: nat)" "of_char c mod 16 < (16 :: nat)"
    using nat_of_char_less_256 [of c] by (simp_all add: less_mult_imp_div_less)
  show ?case
  proof (cases "quote_safe c")
    case True
    with Cons quote_safe_not_percent [OF True] show ?thesis by (simp add: url_quote_def)
  next
    case False
    have "of_char c div 16 * 16 + of_char c mod 16 = (of_char c :: nat)" by simp
    with False Cons n show ?thesis by (simp add: url_quote_def unhex_hex)
  qed
qed (simp add: url_quote_def)

lemma url_quote_chars: "c \<in> set (url_quote s) \<Longrightarrow> quote_safe c \<or> c = CHR ''%''"
proof -
  have hex: "quote_safe (hex_digit n)" if "n < 16" for n
    using that by (auto simp: quote_safe_def is_alnum_def hex_digit_def Let_def)
  have "of_char c div 16 < (16 :: nat)" "of_char c mod 16 < (16 :: nat)" for c :: char
    using nat_of_char_less_256 [of c] by (simp_all add: less_mult_imp_div_less)
  then show "c \<in> set (url_quote s) \<Longrightarrow> quote_safe c \<or> c = CHR ''%''"
    using hex by (induction s) (auto simp: url_quote_def split: if_splits)
qed


definition sample_drip :: lead_drip_state where
  "sample_drip = \<lparr>drip_tenant = 1, drip_lead = 70, drip_step_index = 0, drip_next_send_at = 5,
     drip_stopped_at = None, drip_stopped_reason = None\<rparr>"

definition sample_advanced :: "(error + unit) \<times> db" where
  "sample_advanced = advance_drip sample_tenant sample_drip 10 (snd sample_captured)"

lemma drip_advance_outcome_at_work:
  "(sent (snd sample_advanced) = sent (snd sample_captured)
    \<or> length (sent (snd sample_advanced)) = Suc (length (sent (snd sample_captured))))
   \<and> map drip_step_index (drips (snd sample_advanced)) = [1]
   \<and> length (sent (snd sample_advanced)) = 1"
proof (intro conjI)
  have ok: "fst sample_advanced = Inr ()" by code_simp
  have run: "advance_drip sample_tenant sample_drip 10 (snd sample_captured) = (Inr (), snd sample_advanced)"
    unfolding ok [symmetric] by (simp add: sample_advanced_def)
  have drips: "drips (snd sample_captured) = [sample_drip]" by code_simp
  show "sent (snd sample_advanced) = sent (snd sample_captured)
    \<or> length (sent (snd sample_advanced)) = Suc (length (sent (snd sample_captured)))"
    using drip_advance_outcome [OF run] drips by (auto simp: sample_drip_def sample_tenant_def)
  show "map drip_step_index (drips (snd sample_advanced)) = [1]" by code_simp
  show "length (sent (snd sample_advanced)) = 1" by code_simp
qed

text \<open>A replacement sequence whose second step lacks its day, as the settings accept.\<close>

definition undated_sequence :: tenant_context where
  "undated_sequence = sample_tenant\<lparr>tenant_settings := [(''leads'', JObj [(''drip_sequence'', JList
     [drip_step 0 ''Hi'' ''Welcome'', JObj [(''subject'', JStr ''Again''), (''body'', JStr ''Hello'')]])])]\<rparr>"

definition drip_sweep :: "db \<Rightarrow> db" where
  "drip_sweep s = snd (run_request (advance_drips undated_sequence 10) s)"

lemma drip_sweep_resends:
  "drip_sweep ((snd sample_captured)\<lparr>sent := out\<rparr>) =
     (snd sample_captured)\<lparr>sent := out @ [SendEmail ''a@x.dz'' (JStr ''Hi'') (JStr ''Welcome'')]\<rparr>"
proof -
  let ?s = "(snd sample_captured)\<lparr>sent := out\<rparr>"
  let ?r = "advance_drips undated_sequence 10 (?s\<lparr>post_commit := []\<rparr>)"
  have "fst ?r = Inl AttributeError" by code_simp
  then have "?r = (Inl AttributeError, snd ?r)" by (metis prod.collapse)
  then have "run_request (advance_drips undated_sequence 10) ?s
      = (Inl AttributeError, ?s\<lparr>sent := sent (snd ?r)\<rparr>)" by (rule run_request_raise)
  moreover have "sent (snd ?r) = out @ [SendEmail ''a@x.dz'' (JStr ''Hi'') (JStr ''Welcome'')]"
    by code_simp
  ultimately show ?thesis by (simp add: drip_sweep_def)
qed

text \<open>
  a step without its day is found out only after the mail of the step before was handed to
  the broker: the sweep fails, the rollback undoes its progress and not the mail, and every
  later sweep of the tenant sends the same mail again and gets no further.
\<close>

lemma drip_sweep_sends_again:
  "(drip_sweep ^^ n) (snd sample_captured) = (snd sample_captured)
     \<lparr>sent := replicate n (SendEmail ''a@x.dz'' (JStr ''Hi'') (JStr ''Welcome''))\<rparr>"
proof (induction n)
  case 0
  have "sent (snd sample_captured) = []" by code_simp
  then show ?case by simp
next
  case (Suc n)
  then show ?case by (simp add: drip_sweep_resends replicate_append_same)
qed

section \<open>Manual entry against update\<close>

text \<open>
  a lead edited by hand may be attached to a listing of any agency, which manual entry
  refuses as not found; an id of no listing at all is caught by the foreign key and answered
  as a server error.
\<close>

lemma lead_update_listing_unchecked:
  assumes "lead_get (tenant_id ten) (scope_user_ids_for (tenant_id ten) a s) i s = Some l"
  shows "fst (lead_update ten a i Unset (SetTo (Some j)) now s)
    = (if \<exists>x \<in> set (listings s). lst_id x = j then Inr () else Inl IntegrityError)"
proof -
  have "lead_or_404 ten a i s = (Inr l, s)" using assms by (simp add: lead_or_404_def ret_def)
  then show ?thesis
    by (auto simp: lead_update_def andthen_def ret_def gets_def check_def raise_def listing_fk_def
        lead_write_def modify_def list_ex_iff)
qed

definition sample_foreign :: db where
  "sample_foreign = (snd sample_captured)\<lparr>listings :=
     map (\<lambda>l. l\<lparr>lst_tenant := 2\<rparr>) (listings (snd sample_created))\<rparr>"

lemma lead_update_listing_unchecked_at_work:
  "map lst_tenant (listings sample_foreign) = [2] \<and> map lst_id (listings sample_foreign) = [7]
   \<and> fst (lead_update sample_tenant sample_admin 70 Unset (SetTo (Some 7)) 9 sample_foreign) = Inr ()
   \<and> fst (lead_update sample_tenant sample_admin 70 Unset (SetTo (Some 8)) 9 sample_foreign) = Inl IntegrityError
   \<and> fst (create_manual sample_world sample_tenant sample_admin \<lparr>ldc_contact = ExistingContact 80,
       ldc_listing = Some 7, ldc_source = PHONE, ldc_agent = None\<rparr> 71 81 9 sample_foreign)
     = Inl (NotFoundError ''Listing not found.'')"
proof (intro conjI)
  show "map lst_tenant (listings sample_foreign) = [2]"
    "map lst_id (listings sample_foreign) = [7]" by code_simp+
  then obtain x where listings: "listings sample_foreign = [x]" "lst_id x = 7" by (auto simp: map_eq_Cons_conv)
  have "lead_get (tenant_id sample_tenant) (scope_user_ids_for (tenant_id sample_tenant) sample_admin sample_foreign)
      70 sample_foreign \<noteq> None" by code_simp
  then obtain l where l: "lead_get (tenant_id sample_tenant)
      (scope_user_ids_for (tenant_id sample_tenant) sample_admin sample_foreign) 70 sample_foreign = Some l" by blast
  note update = lead_update_listing_unchecked [OF l]
  show "fst (lead_update sample_tenant sample_admin 70 Unset (SetTo (Some 7)) 9 sample_foreign) = Inr ()"
    "fst (lead_update sample_tenant sample_admin 70 Unset (SetTo (Some 8)) 9 sample_foreign) = Inl IntegrityError"
    by (simp_all add: update listings)
  show "fst (create_manual sample_world sample_tenant sample_admin \<lparr>ldc_contact = ExistingContact 80,
       ldc_listing = Some 7, ldc_source = PHONE, ldc_agent = None\<rparr> 71 81 9 sample_foreign)
     = Inl (NotFoundError ''Listing not found.'')" by code_simp
qed

text \<open>
  a decoder of the percent encoding gets back the greeting the WhatsApp link carries, and
  the encoded greeting holds only characters that pass through a query string untouched.
\<close>

lemma whatsapp_text_roundtrip:
  "url_unquote (url_quote (whatsapp_prefill listing)) = whatsapp_prefill listing
   \<and> filter (\<lambda>c. \<not> quote_safe c \<and> c \<noteq> CHR ''%'') (url_quote (whatsapp_prefill listing)) = []"
  using url_quote_chars by (auto simp: url_unquote_quote filter_empty_conv)

end
