(* ===== verification/Tour_Desk.thy ===== *)
theory Tour_Desk
  imports Appointments Lead_Desk "HOL-Library.Multiset"
begin

text \<open>
  The correctness of \<open>modules/appointments\<close>: the slot search against its specification and its
  termination, the writes of a booking and of a transition, the calendar that never holds two
  live tours of an agent at once, the reminder sweep and the calendar feed.
\<close>

section \<open>The slot search\<close>

text \<open>The grid of a window: steps of one slot length from its start, up to its end.\<close>

definition grid :: "int \<Rightarrow> slot \<Rightarrow> slot set" where
  "grid len w = {(x, x + len) |x. \<exists>k :: nat. x = fst w + int k * len \<and> x + len \<le> snd w}"

lemma grid_empty: "\<not> a + len \<le> b \<Longrightarrow> 0 < len \<Longrightarrow> grid len (a, b) = {}"
proof -
  assume a: "\<not> a + len \<le> b" "0 < len"
  have "\<not> a + int k * len + len \<le> b" for k
  proof -
    have "0 \<le> int k * len" using a(2) by simp
    with a(1) show ?thesis by linarith
  qed
  then show ?thesis by (auto simp: grid_def)
qed

lemma grid_step: "a + len \<le> b \<Longrightarrow> grid len (a, b) = insert (a, a + len) (grid len (a + len, b))"
proof (intro equalityI subsetI)
  fix s assume ab: "a + len \<le> b" and "s \<in> grid len (a, b)"
  then obtain k where k: "s = (a + int k * len, a + int k * len + len)" "a + int k * len + len \<le> b"
    by (auto simp: grid_def)
  show "s \<in> insert (a, a + len) (grid len (a + len, b))"
  proof (cases k)
    case (Suc j)
    then have "a + int k * len = a + len + int j * len" by (simp add: algebra_simps)
    with k show ?thesis by (auto simp: grid_def)
  qed (use k in simp)
next
  fix s assume ab: "a + len \<le> b" and s: "s \<in> insert (a, a + len) (grid len (a + len, b))"
  show "s \<in> grid len (a, b)"
  proof (cases "s = (a, a + len)")
    case True
    with ab show ?thesis by (auto simp: grid_def intro!: exI [of _ 0])
  next
    case False
    with s have "s \<in> grid len (a + len, b)" by blast
    then obtain j where j: "s = (a + len + int j * len, a + len + int j * len + len)"
      "a + len + int j * len + len \<le> b" unfolding grid_def fst_conv snd_conv by blast
    have "a + len + int j * len = a + int (Suc j) * len" by (simp add: algebra_simps)
    with j show ?thesis unfolding grid_def by (auto simp del: of_nat_Suc)
  qed
qed

text \<open>The loop ends and collects the free slots of the grid, each once.\<close>

lemma cut_window_grid:
  assumes "0 < len"
  shows "\<exists>r. cut_window free len a b slots = Some r
    \<and> set r = set slots \<union> {s \<in> grid len (a, b). free s} \<and> (distinct slots \<longrightarrow> distinct r)"
proof (induction "nat (b - a)" arbitrary: a slots rule: less_induct)
  case less
  show ?case
  proof (cases "a + len \<le> b")
    case True
    let ?slots = "if free (a, a + len) \<and> (a, a + len) \<notin> set slots then slots @ [(a, a + len)] else slots"
    have "nat (b - (a + len)) < nat (b - a)" using True assms by simp
    from less [OF this, of ?slots] obtain r where
      r: "cut_window free len (a + len) b ?slots = Some r"
        "set r = set ?slots \<union> {s \<in> grid len (a + len, b). free s}" "distinct ?slots \<longrightarrow> distinct r"
      by blast
    have "cut_window free len a b slots = Some r"
      by (subst cut_window.simps) (use True r(1) in simp)
    moreover have "set r = set slots \<union> {s \<in> grid len (a, b). free s}"
      unfolding grid_step [OF True] r(2) by auto
    moreover have "distinct slots \<longrightarrow> distinct ?slots" by simp
    ultimately show ?thesis using r(3) by blast
  next
    case False
    then have "cut_window free len a b slots = Some slots" by (subst cut_window.simps) simp
    then show ?thesis by (simp add: grid_empty [OF False assms])
  qed
qed

lemma cut_windows_grid:
  assumes "0 < len"
  shows "\<exists>r. cut_windows free len ws slots = Some r
    \<and> set r = set slots \<union> {s. free s \<and> (\<exists>w \<in> set ws. s \<in> grid len w)} \<and> (distinct slots \<longrightarrow> distinct r)"
proof (induction ws arbitrary: slots)
  case (Cons w ws)
  obtain a b where w: "w = (a, b)" by force
  from cut_window_grid [OF assms] obtain r where
    r: "cut_window free len a b slots = Some r" "set r = set slots \<union> {s \<in> grid len (a, b). free s}"
      "distinct slots \<longrightarrow> distinct r" by blast
  from Cons.IH [of r] obtain r' where
    r': "cut_windows free len ws r = Some r'"
      "set r' = set r \<union> {s. free s \<and> (\<exists>w \<in> set ws. s \<in> grid len w)}" "distinct r \<longrightarrow> distinct r'" by blast
  have "set r' = set slots \<union> {s. free s \<and> (\<exists>w \<in> set (w # ws). s \<in> grid len w)}"
    by (auto simp: r'(2) r(2) w)
  with r r' show ?case by (auto simp: w)
qed simp

lemma settings_bounds:
  "tenant_appointment_settings zones ten = Inr (len, buffer, tz) \<Longrightarrow> 5 \<le> len \<and> len \<le> 480 \<and> 0 \<le> buffer \<and> buffer \<le> 240"
  by (auto simp: tenant_appointment_settings_def int_within_def DEFAULT_SLOT_MINUTES_def
      DEFAULT_BUFFER_MINUTES_def split: sum.splits option.splits if_splits)

text \<open>
  C19: the slot search of a day always ends, whatever a tenant stored as its slot length, its
  buffer and its time zone: it fails on a settings value that is no object and on nothing else.
\<close>

theorem slot_search_terminates:
  "free_slots zones ten agent day now s \<noteq> Inl NonTermination
   \<and> ((\<exists>slots. free_slots zones ten agent day now s = Inr slots)
      \<or> tenant_appointment_settings zones ten = Inl AttributeError)"
proof (cases "tenant_appointment_settings zones ten")
  case (Inl e)
  then have "e = AttributeError"
    by (auto simp: tenant_appointment_settings_def settings_namespace_def Let_def
        split: sum.splits if_splits option.splits json.splits)
  with Inl show ?thesis by (simp add: free_slots_def)
next
  case (Inr x)
  obtain len buffer tz where x: "x = (len, buffer, tz)" by (metis prod_cases3)
  from settings_bounds [of zones ten len buffer tz] Inr have len: "0 < minutes len"
    by (simp add: x minutes_def)
  have total: "cut_windows free (minutes len) ws [] \<noteq> None" for free ws
    using cut_windows_grid [OF len, of free ws "[]"] by auto
  have "\<exists>slots. free_slots zones ten agent day now s = Inr slots"
    using total by (simp add: free_slots_def Inr x Let_def del: not_None_eq split: option.split)
  then show ?thesis by auto
qed

text \<open>What the search is to find: a slot of an open window's grid, ahead, unblocked and not busy.\<close>

definition bookable ::
  "uuid \<Rightarrow> int \<Rightarrow> int \<Rightarrow> time_zone \<Rightarrow> uuid \<Rightarrow> date \<Rightarrow> instant \<Rightarrow> db \<Rightarrow> slot \<Rightarrow> bool" where
  "bookable t len buffer tz agent day now s sl \<longleftrightarrow>
     (let rows = availability_for_date t agent day s in
      (\<exists>w \<in> set (open_windows tz day rows). sl \<in> grid len w)
      \<and> now < fst sl
      \<and> (\<forall>b \<in> set (blocked_windows tz day rows). snd sl \<le> fst b \<or> snd b \<le> fst sl)
      \<and> (\<forall>a \<in> set (appointments s). appt_tenant a = t \<longrightarrow> appt_agent a = agent \<longrightarrow> appt_live a \<longrightarrow>
           snd sl \<le> appt_start_at a - buffer \<or> appt_end_at a + buffer \<le> fst sl))"

lemma overlaps_any_iff:
  "\<not> overlaps_any sl ws \<longleftrightarrow> (\<forall>w \<in> set ws. snd sl \<le> fst w \<or> snd w \<le> fst sl)"
  by (force simp: overlaps_any_def list_ex_iff)

text \<open>The query by window is enough: a tour outside it cannot reach a slot of the day.\<close>

lemma busy_suffices:
  assumes "w \<in> set ws" "fst w \<le> fst sl" "snd sl \<le> snd w" "0 \<le> buffer"
  shows "\<not> overlaps_any sl (busy_windows t agent buffer ws s) \<longleftrightarrow>
    (\<forall>a \<in> set (appointments s). appt_tenant a = t \<longrightarrow> appt_agent a = agent \<longrightarrow> appt_live a \<longrightarrow>
       snd sl \<le> appt_start_at a - buffer \<or> appt_end_at a + buffer \<le> fst sl)"
proof -
  have "Min (set (map fst ws)) \<le> fst w" "snd w \<le> Max (set (map snd ws))" using assms(1) by auto
  with assms(2-4) have out: "snd sl \<le> appt_start_at a - buffer \<or> appt_end_at a + buffer \<le> fst sl"
    if "\<not> (appt_start_at a < Max (set (map snd ws)) + buffer \<and> Min (set (map fst ws)) - buffer < appt_end_at a)" for a :: appointment
    using that by linarith
  show ?thesis
    unfolding overlaps_any_iff busy_windows_def Let_def active_between_def using out by auto
qed

lemma free_slots_grid:
  assumes "tenant_appointment_settings zones ten = Inr (len, buffer, tz)"
    and "free_slots zones ten agent day now s = Inr slots"
  shows "set slots = {sl. bookable (tenant_id ten) (minutes len) (minutes buffer) tz agent day now s sl}"
    "sorted_wrt (<) slots"
proof -
  from settings_bounds [OF assms(1)] have len: "0 < minutes len" and buffer: "0 \<le> minutes buffer"
    by (auto simp: minutes_def)
  let ?rows = "availability_for_date (tenant_id ten) agent day s"
  let ?ws = "open_windows tz day ?rows"
  let ?free = "slot_free now (blocked_windows tz day ?rows)
    (busy_windows (tenant_id ten) agent (minutes buffer) ?ws s)"
  have found: "bookable (tenant_id ten) (minutes len) (minutes buffer) tz agent day now s sl \<longleftrightarrow>
      ?free sl \<and> (\<exists>w \<in> set ?ws. sl \<in> grid (minutes len) w)" for sl
  proof (cases "\<exists>w \<in> set ?ws. sl \<in> grid (minutes len) w")
    case True
    then obtain w where w: "w \<in> set ?ws" "sl \<in> grid (minutes len) w" by blast
    then have "fst w \<le> fst sl" "snd sl \<le> snd w" using len by (auto simp: grid_def)
    from busy_suffices [OF w(1) this buffer] True show ?thesis
      by (simp add: bookable_def Let_def slot_free_def overlaps_any_iff)
  next
    case False
    then show ?thesis by (simp add: bookable_def Let_def)
  qed
  have "set slots = {sl. bookable (tenant_id ten) (minutes len) (minutes buffer) tz agent day now s sl}
    \<and> sorted_wrt (<) slots"
  proof (cases "?ws = []")
    case True
    with assms found show ?thesis by (simp add: free_slots_def Let_def)
  next
    case False
    from cut_windows_grid [OF len, of ?free "sort ?ws" "[]"] obtain r where
      r: "cut_windows ?free (minutes len) (sort ?ws) [] = Some r" "distinct r"
        "set r = {sl. ?free sl \<and> (\<exists>w \<in> set ?ws. sl \<in> grid (minutes len) w)}" by auto
    with assms False have "slots = sort r" by (simp add: free_slots_def Let_def)
    with r(2,3) show ?thesis by (simp add: found strict_sorted_iff)
  qed
  then show "set slots = {sl. bookable (tenant_id ten) (minutes len) (minutes buffer) tz agent day now s sl}"
    "sorted_wrt (<) slots" by simp_all
qed

text \<open>
  C18: the slots a day offers are exactly the bookable ones: the grid steps of the open windows
  that lie ahead, that no block touches and that stay clear of every live tour of the agent by
  the buffer. They come in order, each once.
\<close>

theorem free_slots_exact:
  assumes "tenant_appointment_settings zones ten = Inr (len, buffer, tz)"
    and "free_slots zones ten agent day now s = Inr slots"
  shows "set slots = {sl. bookable (tenant_id ten) (minutes len) (minutes buffer) tz agent day now s sl}
    \<and> sorted_wrt (<) slots"
  using free_slots_grid [OF assms] by simp

section \<open>Runs of the module\<close>

interpretation tour_scope: scoped_table appointments appt_tenant appt_id
  "\<lambda>sc a. in_scope sc (Some (appt_agent a))" appointment_get appointment_or_404
  "NotFoundError ''Appointment not found.''"
proof
  fix t sc i s
  show "appointment_get t sc i s = find (\<lambda>r. appt_tenant r = t \<and> appt_id r = i
      \<and> in_scope sc (Some (appt_agent r))) (appointments s)"
    by (simp add: appointment_get_def)
next
  fix ten a i s
  show "appointment_or_404 ten a i s =
      (case appointment_get (tenant_id ten) (scope_user_ids_for (tenant_id ten) a s) i s of
         None \<Rightarrow> (Inl (NotFoundError ''Appointment not found.''), s) | Some r \<Rightarrow> (Inr r, s))"
    by (simp add: appointment_or_404_def action_basics split: option.split)
qed (simp add: in_scope_def)

text \<open>One call of an operation of the module or of the CRM, on any outcome.\<close>

inductive tour_call :: "db \<Rightarrow> db \<Rightarrow> bool" where
  booked: "book w zones ten slug d start_at i j k now s = (r, s') \<Longrightarrow> tour_call s s'"
| moved: "appointment_transition w ten a i st now s = (r1, s') \<Longrightarrow> tour_call s s'"
| reminded: "remind_tours t now s = (r2, s') \<Longrightarrow> tour_call s s'"
| scheduled: "put_availability ten a p rs s = (r3, s') \<Longrightarrow> tour_call s s'"
| crm: "lead_call s s' \<Longrightarrow> tour_call s s'"

text \<open>The CRM writes no appointment.\<close>

interpretation calendar: lead_invariant "\<lambda>s :: db. appointments s = X" for X
proof
  fix s :: db and acts ds ns evs pc out
  show "(appointments (s\<lparr>activities := acts\<rparr>) = X) = (appointments s = X)
      \<and> (appointments (s\<lparr>drips := ds\<rparr>) = X) = (appointments s = X)
      \<and> (appointments (s\<lparr>notifications := ns\<rparr>) = X) = (appointments s = X)
      \<and> (appointments (s\<lparr>outbox := evs\<rparr>) = X) = (appointments s = X)
      \<and> (appointments (s\<lparr>post_commit := pc\<rparr>) = X) = (appointments s = X)
      \<and> (appointments (s\<lparr>sent := out\<rparr>) = X) = (appointments s = X)" by simp
next
  fix s :: db and t d i
  assume "appointments s = X"
  moreover have "preserves (\<lambda>s. appointments s = X) (find_or_create_contact t d i)"
    unfolding find_or_create_contact_def contact_write_def by (intro preserves_intros) auto
  ultimately show "appointments (snd (find_or_create_contact t d i s)) = X" by (simp add: preserves_def)
qed (simp_all add: recompute_score_def modify_def)

lemma crm_calendar: "lead_call s s' \<Longrightarrow> appointments s' = appointments s"
  using calendar.call_keeps by blast

lemma log_activity_calendar:
  "log_activity ty t l payload now s = (r, s') \<Longrightarrow> appointments s' = appointments s"
  by (rule crm_calendar, rule lead_call.logged)

section \<open>No double booking\<close>

definition apart :: "appointment \<Rightarrow> appointment \<Rightarrow> bool" where
  "apart a b \<longleftrightarrow> (appt_tenant a = appt_tenant b \<and> appt_agent a = appt_agent b \<and> appt_live a \<and> appt_live b \<longrightarrow>
     appt_end_at a \<le> appt_start_at b \<or> appt_end_at b \<le> appt_start_at a)"

definition calendar_ok :: "db \<Rightarrow> bool" where
  "calendar_ok s \<longleftrightarrow> distinct (map appt_id (appointments s))
     \<and> (\<forall>a \<in> set (appointments s). appt_start_at a < appt_end_at a)
     \<and> sorted_wrt apart (appointments s)"

lemma calendar_okD:
  assumes "calendar_ok s" "a \<in> set (appointments s)" "b \<in> set (appointments s)" "appt_id a \<noteq> appt_id b"
  shows "apart a b"
proof -
  from assms(2,3) obtain i j where ij: "i < length (appointments s)" "j < length (appointments s)"
    "appointments s ! i = a" "appointments s ! j = b" by (metis in_set_conv_nth)
  with assms(4) have "i < j \<or> j < i" by (metis linorder_neqE_nat)
  then have "apart a b \<or> apart b a"
    using assms(1) ij unfolding calendar_ok_def sorted_wrt_iff_nth_less by metis
  then show ?thesis by (auto simp: apart_def)
qed

text \<open>A write that moves no tour and revives none keeps the calendar.\<close>

definition retimes_none :: "(appointment \<Rightarrow> appointment) \<Rightarrow> appointment \<Rightarrow> bool" where
  "retimes_none f a \<longleftrightarrow> appt_id (f a) = appt_id a \<and> appt_tenant (f a) = appt_tenant a
     \<and> appt_agent (f a) = appt_agent a \<and> appt_start_at (f a) = appt_start_at a
     \<and> appt_end_at (f a) = appt_end_at a \<and> (appt_live (f a) \<longrightarrow> appt_live a)"

lemma calendar_ok_write:
  assumes "calendar_ok s" and "appointments s' = upd_rows P f (appointments s)"
    and "\<And>a. a \<in> set (appointments s) \<Longrightarrow> P a \<Longrightarrow> retimes_none f a"
  shows "calendar_ok s'"
proof -
  define g where "g = (\<lambda>a. if P a then f a else a)"
  have g: "retimes_none g a" if "a \<in> set (appointments s)" for a
    using assms(3) [OF that] by (simp add: retimes_none_def g_def)
  have rows: "appointments s' = map g (appointments s)" by (simp add: assms(2) upd_rows_def g_def)
  from assms(1) have ok: "distinct (map appt_id (appointments s))" "sorted_wrt apart (appointments s)"
    "\<forall>a \<in> set (appointments s). appt_start_at a < appt_end_at a" by (simp_all add: calendar_ok_def)
  have ids: "map (appt_id \<circ> g) (appointments s) = map appt_id (appointments s)"
    using g by (simp add: retimes_none_def)
  have "sorted_wrt (\<lambda>a b. apart (g a) (g b)) (appointments s)"
    by (rule sorted_wrt_mono_rel [OF _ ok(2)]) (use g in \<open>simp add: apart_def retimes_none_def\<close>)
  moreover have "\<forall>a \<in> set (appointments s'). appt_start_at a < appt_end_at a"
    using g ok(3) by (simp add: rows retimes_none_def)
  ultimately show ?thesis using ok(1) by (simp add: calendar_ok_def rows sorted_wrt_map ids)
qed

lemma calendar_ok_same: "calendar_ok s \<Longrightarrow> appointments s' = appointments s \<Longrightarrow> calendar_ok s'"
  by (simp add: calendar_ok_def)

lemma no_revival: "st \<in> set (APPOINTMENT_TRANSITIONS (appt_status a)) \<Longrightarrow> appt_live a"
  by (cases "appt_status a") (auto simp: APPOINTMENT_TRANSITIONS_def appt_live_def ACTIVE_STATUSES_def)

lemma notify_contact_calendar: "appointments (snd (notify_contact ten ap st s)) = appointments s"
  by (simp add: notify_contact_def action_basics split: option.split)

lemma transition_rows:
  assumes "appointment_transition w ten a i st now s = (r, s')"
  shows "appointments s' = appointments s \<or> (\<exists>ap \<in> set (appointments s). appt_id ap = i
    \<and> appt_tenant ap = tenant_id ten \<and> st \<in> set (APPOINTMENT_TRANSITIONS (appt_status ap))
    \<and> appointments s' = upd_rows (\<lambda>x. appt_id x = i) (\<lambda>x. if st = CONFIRMED
         then x\<lparr>appt_status := st, appt_confirmed_at := Some now\<rparr> else x\<lparr>appt_status := st\<rparr>) (appointments s))"
proof (cases "appointment_get (tenant_id ten) (scope_user_ids_for (tenant_id ten) a s) i s")
  case None
  with assms show ?thesis by (simp add: appointment_transition_def tour_scope.andthen_or_404)
next
  case (Some ap)
  note ap = tour_scope.fetch_Some [OF this]
  show ?thesis
  proof (cases "st \<in> set (APPOINTMENT_TRANSITIONS (appt_status ap))")
    case False
    with assms Some show ?thesis
      by (simp add: appointment_transition_def tour_scope.andthen_or_404)
  next
    case True
    let ?upd = "\<lambda>x. if st = CONFIRMED then x\<lparr>appt_status := st, appt_confirmed_at := Some now\<rparr>
      else x\<lparr>appt_status := st\<rparr>"
    let ?s = "s\<lparr>appointments := upd_rows (\<lambda>x. appt_id x = i) ?upd (appointments s)\<rparr>"
    define log where "log = (case appt_lead ap of None \<Rightarrow> ret ()
       | Some l \<Rightarrow>
           let payload = [(''event'', JStr (''tour_'' @ appointment_status_value st)),
                 (''appointment_id'', JStr (uuid_text w i)), (''start_at'', JStr (iso_text (appt_start_at ap)))]
           in if st = NO_SHOW then record_no_show (tenant_id ten) l payload now
              else log_tour_activity (tenant_id ten) l payload now)"
    have log: "preserves (\<lambda>s. appointments s = X) log" for X
      unfolding log_def Let_def record_no_show_def log_tour_activity_def
      by (intro preserves_intros calendar.logged_keeps)
    have "preserves (\<lambda>s. appointments s = X) (notify_contact ten ap st)" for X
      by (simp add: preserves_def notify_contact_calendar)
    then have keep: "preserves (\<lambda>s. appointments s = X) (andthen log (\<lambda>_.
        if st \<in> {CONFIRMED, CANCELLED} then notify_contact ten ap st else ret ()))" for X
      by (intro preserves_intros log)
    have run: "appointment_transition w ten a i st now s = andthen log (\<lambda>_.
        if st \<in> {CONFIRMED, CANCELLED} then notify_contact ten ap st else ret ()) ?s"
      by (simp only: appointment_transition_def tour_scope.andthen_or_404 Some option.case andthen_check
          True if_True andthen_modify appointment_write_def log_def)
    have "appointments s' = appointments ?s"
      by (rule preservesD [OF keep _ run [symmetric, unfolded assms]]) (rule refl)
    with ap True show ?thesis by auto
  qed
qed

lemma stamp_retimes: "retimes_none (stamp_reminder soon now) a"
  by (simp add: retimes_none_def stamp_reminder_def appt_live_def)

lemma remind_keeps: "preserves calendar_ok (remind_tours t now)"
proof -
  have "preserves calendar_ok (appointment_write i (stamp_reminder soon now))" for i soon
    unfolding appointment_write_def
    by (intro preserves_intros, erule calendar_ok_write [where f = "stamp_reminder soon now"])
      (simp_all add: stamp_retimes)
  moreover have "preserves calendar_ok (send_now x)" for x
    by (simp add: preserves_def calendar_ok_def)
  ultimately have "preserves calendar_ok (remind_appointment found now x)" for found x
    unfolding remind_appointment_def by (cases x) (simp, intro preserves_intros)
  then show ?thesis unfolding remind_tours_def by (intro preserves_intros)
qed

lemma tour_transition_keeps:
  assumes "appointment_transition w ten a i st now s = (r, s')" and ok: "calendar_ok s"
  shows "calendar_ok s'"
  using transition_rows [OF assms(1)]
proof (elim disjE bexE conjE)
  fix ap
  assume ap: "ap \<in> set (appointments s)" "appt_id ap = i" "st \<in> set (APPOINTMENT_TRANSITIONS (appt_status ap))"
    and rows: "appointments s' = upd_rows (\<lambda>x. appt_id x = i) (\<lambda>x. if st = CONFIRMED
         then x\<lparr>appt_status := st, appt_confirmed_at := Some now\<rparr> else x\<lparr>appt_status := st\<rparr>) (appointments s)"
  from ok have "inj_on appt_id (set (appointments s))" by (simp add: calendar_ok_def distinct_map)
  then have only: "x = ap" if "x \<in> set (appointments s)" "appt_id x = i" for x
    using that ap(1,2) by (auto dest: inj_onD)
  show ?thesis
    by (rule calendar_ok_write [OF ok rows])
      (use only no_revival [OF ap(3)] in \<open>auto simp: retimes_none_def\<close>)
qed (use ok in \<open>rule calendar_ok_same\<close>)

lemma add_row:
  "appointment_add a s = (Inr (), s') \<longleftrightarrow> appt_id a \<notin> appt_id ` set (appointments s)
     \<and> appt_start_at a < appt_end_at a \<and> s' = s\<lparr>appointments := appointments s @ [a]\<rparr>"
  by (auto simp: appointment_add_def list_ex_iff modify_def image_iff) metis+

lemma add_row_fails: "appointment_add a s = (Inl e, s') \<Longrightarrow> s' = s"
  by (auto simp: appointment_add_def modify_def split: if_splits)

lemma commit_rows:
  assumes "commit_booking w ten p d slot i j k now s = (r, s')"
  shows "appointments s' = appointments s \<or> (\<exists>lead contact.
    i \<notin> appt_id ` set (appointments s) \<and> fst slot < snd slot
    \<and> appointments s' = appointments s @ [booked_tour ten p d slot i lead contact])"
proof -
  obtain y s1 where reg: "register_tour_request w ten (cf_contact d) (cf_listing d) (cf_message d)
      (prof_user p) (cf_meta d) j k now s = (y, s1)" by force
  then have s1: "appointments s1 = appointments s" by (rule crm_calendar [OF lead_call.tour])
  show ?thesis
  proof (cases y)
    case (Inl e)
    with assms reg s1 show ?thesis by (simp add: commit_booking_def andthen_def)
  next
    case lc: (Inr lc)
    obtain lead contact where pair: "lc = (lead, contact)" by force
    let ?a = "booked_tour ten p d slot i lead contact"
    obtain z s2 where add: "appointment_add ?a s1 = (z, s2)" by force
    show ?thesis
    proof (cases z)
      case (Inl e)
      with assms reg lc pair add_row_fails [of ?a s1] add s1 show ?thesis
        by (simp add: commit_booking_def andthen_def Let_def)
    next
      case (Inr v)
      have "preserves (\<lambda>s. appointments s = X) (andthen (log_tour_activity (tenant_id ten) lead
         [(''event'', JStr ''tour_requested''), (''appointment_id'', JStr (uuid_text w i)),
          (''start_at'', JStr (iso_text (fst slot)))] now) (\<lambda>_. ret (Some ?a)))" for X
        unfolding log_tour_activity_def by (intro preserves_intros calendar.logged_keeps)
      from preservesD [OF this refl] assms reg lc pair add Inr have "appointments s' = appointments s2"
        by (simp add: commit_booking_def andthen_def Let_def)
      with add Inr show ?thesis by (auto simp: add_row s1 booked_tour_def)
    qed
  qed
qed

text \<open>
  What a booking leaves behind: nothing in the calendar when it fails, and else one requested
  tour in a slot that was free at its start.
\<close>

lemma book_rows:
  assumes "book w zones ten slug d start_at i j k now s = (r, s')"
  shows "appointments s' = appointments s \<or> (\<exists>(p :: agent_profile) (tz :: time_zone) slots slot lead contact.
    free_slots zones ten (prof_user p) (zone_date tz start_at) now s = Inr slots
    \<and> slot \<in> set slots \<and> fst slot = start_at \<and> fst slot < snd slot
    \<and> i \<notin> appt_id ` set (appointments s)
    \<and> appointments s' = appointments s @ [booked_tour ten p d slot i lead contact])"
proof (cases "cf_hp d \<noteq> [] \<or> s' = s")
  case True
  with assms show ?thesis by (auto simp: book_def ret_def)
next
  case False
  then have changed: "s' \<noteq> s" by simp
  have public: "read_only (agent_get_public ten slug)"
    unfolding agent_get_public_def by (intro read_only_intros)
  have listing: "read_only (case cf_listing d of None \<Rightarrow> ret ()
    | Some i \<Rightarrow> andthen (listing_get_public (uuid_of_text w) ten (uuid_text w i)) (\<lambda>_. ret ()))"
    by (intro read_only_intros)
  define tail where "tail = (\<lambda>p slots. case find (\<lambda>s. fst s = start_at) slots of
      None \<Rightarrow> raise (ConflictError ''This time slot is not available. Please pick another.'')
    | Some slot \<Rightarrow> commit_booking w ten p d slot i j k now)"
  from False assms have run: "andthen (agent_get_public ten slug) (\<lambda>(p, _).
      andthen (lift_res (tenant_appointment_settings zones ten)) (\<lambda>(_, _, tz).
      andthen (lift_res (validate_day zones ten (zone_date tz start_at) now)) (\<lambda>_.
      andthen (case cf_listing d of None \<Rightarrow> ret ()
        | Some i \<Rightarrow> andthen (listing_get_public (uuid_of_text w) ten (uuid_text w i)) (\<lambda>_. ret ())) (\<lambda>_.
      andthen (gets (free_slots zones ten (prof_user p) (zone_date tz start_at) now)) (\<lambda>r.
      andthen (lift_res r) (tail p)))))) s = (r, s')"
    by (simp add: book_def Let_def tail_def)
  obtain x :: "agent_profile \<times> user_identity" where "(\<lambda>(p, _). andthen (lift_res (tenant_appointment_settings zones ten)) (\<lambda>(_, _, tz).
      andthen (lift_res (validate_day zones ten (zone_date tz start_at) now)) (\<lambda>_.
      andthen (case cf_listing d of None \<Rightarrow> ret ()
        | Some i \<Rightarrow> andthen (listing_get_public (uuid_of_text w) ten (uuid_text w i)) (\<lambda>_. ret ())) (\<lambda>_.
      andthen (gets (free_slots zones ten (prof_user p) (zone_date tz start_at) now)) (\<lambda>r.
      andthen (lift_res r) (tail p)))))) x s = (r, s')"
    by (rule read_then [OF public run changed])
  then obtain p where run: "andthen (lift_res (tenant_appointment_settings zones ten)) (\<lambda>(_, _, tz).
      andthen (lift_res (validate_day zones ten (zone_date tz start_at) now)) (\<lambda>_.
      andthen (case cf_listing d of None \<Rightarrow> ret ()
        | Some i \<Rightarrow> andthen (listing_get_public (uuid_of_text w) ten (uuid_text w i)) (\<lambda>_. ret ())) (\<lambda>_.
      andthen (gets (free_slots zones ten (prof_user p) (zone_date tz start_at) now)) (\<lambda>r.
      andthen (lift_res r) (tail p))))) s = (r, s')" by (cases x) auto
  obtain st where run: "(\<lambda>(_, _, tz).
      andthen (lift_res (validate_day zones ten (zone_date tz start_at) now)) (\<lambda>_.
      andthen (case cf_listing d of None \<Rightarrow> ret ()
        | Some i \<Rightarrow> andthen (listing_get_public (uuid_of_text w) ten (uuid_text w i)) (\<lambda>_. ret ())) (\<lambda>_.
      andthen (gets (free_slots zones ten (prof_user p) (zone_date tz start_at) now)) (\<lambda>r.
      andthen (lift_res r) (tail p))))) (st :: int \<times> int \<times> time_zone) s = (r, s')"
    by (rule read_then [OF read_only_basics(5) run changed])
  then obtain tz :: time_zone where "andthen (lift_res (validate_day zones ten (zone_date tz start_at) now)) (\<lambda>_.
      andthen (case cf_listing d of None \<Rightarrow> ret ()
        | Some i \<Rightarrow> andthen (listing_get_public (uuid_of_text w) ten (uuid_text w i)) (\<lambda>_. ret ())) (\<lambda>_.
      andthen (gets (free_slots zones ten (prof_user p) (zone_date tz start_at) now)) (\<lambda>r.
      andthen (lift_res r) (tail p)))) s = (r, s')" by (cases st) auto
  then obtain "andthen (case cf_listing d of None \<Rightarrow> ret ()
        | Some i \<Rightarrow> andthen (listing_get_public (uuid_of_text w) ten (uuid_text w i)) (\<lambda>_. ret ())) (\<lambda>_.
      andthen (gets (free_slots zones ten (prof_user p) (zone_date tz start_at) now)) (\<lambda>r.
      andthen (lift_res r) (tail p))) s = (r, s')"
    using read_then [OF read_only_basics(5) _ changed] by blast
  then have "andthen (lift_res (free_slots zones ten (prof_user p) (zone_date tz start_at) now s)) (tail p) s = (r, s')"
    by (rule read_then [OF listing _ changed]) simp
  then obtain slots where slots: "free_slots zones ten (prof_user p) (zone_date tz start_at) now s = Inr slots"
    and "tail p slots s = (r, s')"
    using changed by (cases "free_slots zones ten (prof_user p) (zone_date tz start_at) now s") auto
  with changed obtain slot where slot: "find (\<lambda>s. fst s = start_at) slots = Some slot"
    and "commit_booking w ten p d slot i j k now s = (r, s')"
    by (auto simp: tail_def raise_def split: option.splits)
  from commit_rows [OF this(2)] slots find_in [OF slot] show ?thesis by blast
qed

lemma slot_clear:
  assumes "free_slots zones ten agent day now s = Inr slots" "slot \<in> set slots"
    "a \<in> set (appointments s)" "appt_tenant a = tenant_id ten" "appt_agent a = agent" "appt_live a"
  shows "snd slot \<le> appt_start_at a \<or> appt_end_at a \<le> fst slot"
proof -
  obtain len buffer tz where st: "tenant_appointment_settings zones ten = Inr (len, buffer, tz)"
    using assms(1) by (auto simp: free_slots_def split: sum.splits)
  from settings_bounds [OF this] have "0 \<le> minutes buffer" by (simp add: minutes_def)
  moreover have "bookable (tenant_id ten) (minutes len) (minutes buffer) tz agent day now s slot"
    using assms(2) by (simp add: free_slots_grid [OF st assms(1)])
  ultimately show ?thesis using assms(3-6) by (fastforce simp: bookable_def Let_def)
qed

lemma booking_keeps:
  assumes "book w zones ten slug d start_at i j k now s = (r, s')" and ok: "calendar_ok s"
  shows "calendar_ok s'"
  using book_rows [OF assms(1)]
proof (elim disjE exE conjE)
  fix p :: agent_profile and tz :: time_zone and slots slot lead contact
  let ?a = "booked_tour ten p d slot i lead contact"
  assume slots: "free_slots zones ten (prof_user p) (zone_date tz start_at) now s = Inr slots"
    and slot: "slot \<in> set slots" "fst slot < snd slot"
    and i: "i \<notin> appt_id ` set (appointments s)" and rows: "appointments s' = appointments s @ [?a]"
  have "apart x ?a" if "x \<in> set (appointments s)" for x
    using slot_clear [OF slots slot(1) that] by (auto simp: apart_def booked_tour_def)
  with ok i slot(2) show ?thesis
    by (auto simp: calendar_ok_def rows sorted_wrt_append booked_tour_def)
qed (use ok in \<open>rule calendar_ok_same\<close>)

lemma schedule_keeps: "preserves calendar_ok (put_availability ten a p rs)"
proof -
  have "read_only (profile_scoped_or_404 ten a p)"
    by (auto simp: read_only_def profile_scoped_or_404_def split: option.splits)
  then show ?thesis
    unfolding put_availability_def delete_availability_def
    by (intro preserves_intros read_only_preserves) (simp_all add: calendar_ok_def)
qed

lemma tour_call_keeps: "tour_call s s' \<Longrightarrow> calendar_ok s \<Longrightarrow> calendar_ok s'"
  by (erule tour_call.cases)
    (blast intro: booking_keeps tour_transition_keeps preservesD [OF remind_keeps] preservesD [OF schedule_keeps]
      calendar_ok_same crm_calendar)+

text \<open>
  C7: an agent is never double-booked: whatever bookings, transitions, schedule changes,
  reminder sweeps and operations of the CRM run, in any order and with any outcome, two live
  tours of one agent of a tenant never overlap and every tour starts before it ends, also when
  the tenant changes slot length, buffer or time zone in between.
\<close>

theorem tours_never_overlap:
  assumes "calendar_ok s" and "tour_call\<^sup>*\<^sup>* s s'"
    and "a \<in> set (appointments s')" "b \<in> set (appointments s')" "appt_id a \<noteq> appt_id b"
    and "appt_tenant a = appt_tenant b" "appt_agent a = appt_agent b" "appt_live a" "appt_live b"
  shows "appt_end_at a \<le> appt_start_at b \<or> appt_end_at b \<le> appt_start_at a"
proof -
  have "calendar_ok s'" using assms(2,1) by (induction rule: rtranclp_induct) (auto intro: tour_call_keeps)
  from calendar_okD [OF this assms(3-5)] assms(6-9) show ?thesis by (simp add: apart_def)
qed

section \<open>A calendar to run on\<close>

definition sample_profile :: agent_profile where
  "sample_profile = \<lparr>prof_id = 60, prof_tenant = 1, prof_user = 11, prof_slug = ''amel'',
     prof_specialties = [], prof_service_areas = None, prof_whatsapp_number = None,
     prof_is_published = True, prof_photo_key = None, prof_photo_status = None,
     prof_photo_variants = [], prof_created_at = 0\<rparr>"

definition sample_tour_tenant :: tenant_context where
  "sample_tour_tenant = sample_tenant\<lparr>tenant_settings :=
     [(''appointments'', JObj [(''slot_minutes'', JInt 5)])]\<rparr>"

definition no_zones :: zones where
  "no_zones = (\<lambda>_. None)"

text \<open>Thursdays, ten minutes from one microsecond after midnight; the second half is taken.\<close>

definition sample_tour :: appointment where
  "sample_tour = \<lparr>appt_id = 90, appt_tenant = 1, appt_agent = 11, appt_listing = None,
     appt_contact = 80, appt_lead = None, appt_status = CONFIRMED, appt_start_at = 300000001,
     appt_end_at = 600000001, appt_confirmed_at = Some 0, appt_reminder_24h_sent_at = None,
     appt_reminder_1h_sent_at = None\<rparr>"

definition sample_tour_db :: db where
  "sample_tour_db = sample_db\<lparr>profiles := [sample_profile],
     availability := [\<lparr>av_tenant = 1, av_agent = 11, av_day_of_week = Some 3, av_date = None,
       av_start_time = 1, av_end_time = 600000001, av_is_block = False\<rparr>],
     appointments := [sample_tour],
     contacts := [new_contact 1 (sample_contact (Some ''a@x.dz'') None) 80]\<rparr>"

definition sample_slots :: "error + slot list" where
  "sample_slots = free_slots no_zones sample_tour_tenant 11 719163 0 sample_tour_db"

lemma sample_slots_found: "sample_slots = Inr [(1, 300000001)]"
  by code_simp

lemma sample_settings: "tenant_appointment_settings no_zones sample_tour_tenant = Inr (5, 0, utc)"
  by (simp add: tenant_appointment_settings_def sample_tour_tenant_def settings_namespace_def
      json_get_def int_within_def DEFAULT_BUFFER_MINUTES_def)

theorem free_slots_exact_witness:
  "bookable 1 (minutes 5) (minutes 0) utc 11 719163 0 sample_tour_db (1, 300000001)
   \<and> \<not> bookable 1 (minutes 5) (minutes 0) utc 11 719163 0 sample_tour_db (300000001, 600000001)"
proof -
  have t: "tenant_id sample_tour_tenant = 1" by (simp add: sample_tour_tenant_def sample_tenant_def)
  have "set [(1, 300000001)] = {sl. bookable 1 (minutes 5) (minutes 0) utc 11 719163 0 sample_tour_db sl}"
    using free_slots_exact [OF sample_settings sample_slots_found [unfolded sample_slots_def]] unfolding t by blast
  then have "bookable 1 (minutes 5) (minutes 0) utc 11 719163 0 sample_tour_db sl \<longleftrightarrow> sl = (1, 300000001)" for sl
    by auto
  then show ?thesis by simp
qed

definition sample_booked :: "(error + appointment option) \<times> db" where
  "sample_booked = book sample_world no_zones sample_tour_tenant ''amel'' sample_form 1 91 70 81 0 sample_tour_db"

theorem tours_never_overlap_witness:
  "map appt_id (appointments (snd sample_booked)) = [90, 91]
   \<and> (appt_end_at (appointments (snd sample_booked) ! 0) \<le> appt_start_at (appointments (snd sample_booked) ! 1)
      \<or> appt_end_at (appointments (snd sample_booked) ! 1) \<le> appt_start_at (appointments (snd sample_booked) ! 0))"
proof
  let ?rows = "appointments (snd sample_booked)"
  have rows: "map (\<lambda>a. (appt_id a, appt_tenant a, appt_agent a, appt_status a)) ?rows
      = [(90, 1, 11, CONFIRMED), (91, 1, 11, REQUESTED)]" by code_simp
  then obtain a b where ab: "?rows = [a, b]" "appt_id a = 90" "appt_id b = 91" "appt_tenant a = appt_tenant b"
      "appt_agent a = appt_agent b" "appt_live a" "appt_live b"
    by (auto simp: appt_live_def ACTIVE_STATUSES_def)
  then show "map appt_id ?rows = [90, 91]" by simp
  have ok: "calendar_ok sample_tour_db"
    by (simp add: calendar_ok_def sample_tour_db_def sample_tour_def)
  have "tour_call sample_tour_db (snd sample_booked)"
    by (rule tour_call.booked, unfold sample_booked_def) (rule prod.collapse [symmetric])
  then have "tour_call\<^sup>*\<^sup>* sample_tour_db (snd sample_booked)" by (rule r_into_rtranclp)
  from tours_never_overlap [OF ok this, of a b] ab
  show "appt_end_at (?rows ! 0) \<le> appt_start_at (?rows ! 1) \<or> appt_end_at (?rows ! 1) \<le> appt_start_at (?rows ! 0)"
    by simp
qed

section \<open>Reminders\<close>

definition stamped :: "instant \<Rightarrow> (appointment \<times> bool) list \<Rightarrow> appointment \<Rightarrow> appointment" where
  "stamped now due a = (case map_of (map (\<lambda>(x, soon). (appt_id x, soon)) due) (appt_id a) of
      None \<Rightarrow> a | Some soon \<Rightarrow> stamp_reminder soon now a)"

definition reminder_mails :: "contact list \<Rightarrow> (appointment \<times> bool) list \<Rightarrow> side_effect list" where
  "reminder_mails found due = concat (map (\<lambda>(a, soon). case reminder_email found a of
      None \<Rightarrow> [] | Some email \<Rightarrow> [reminder_mail soon email (appt_start_at a)]) due)"

lemma stamp_id [simp]: "appt_id (stamp_reminder soon now a) = appt_id a"
  by (simp add: stamp_reminder_def)

lemma remind_each:
  assumes "distinct (map (appt_id \<circ> fst) due)"
  shows "for_each due (remind_appointment found now) s =
    (Inr (), s\<lparr>appointments := map (stamped now due) (appointments s), sent := sent s @ reminder_mails found due\<rparr>)"
  using assms
proof (induction due arbitrary: s)
  case Nil
  then show ?case by (simp add: ret_def stamped_def reminder_mails_def)
next
  case (Cons x due)
  obtain a soon where x: "x = (a, soon)" by force
  let ?s = "s\<lparr>appointments := upd_rows (\<lambda>r. appt_id r = appt_id a) (stamp_reminder soon now) (appointments s),
    sent := sent s @ reminder_mails found [x]\<rparr>"
  have "remind_appointment found now x s = (Inr (), ?s)"
    by (cases "reminder_email found a")
      (simp_all add: remind_appointment_def x appointment_write_def reminder_mails_def ret_def)
  moreover have "map_of (map (\<lambda>(x, soon). (appt_id x, soon)) due) (appt_id a) = None"
    using Cons.prems by (force simp: x map_of_eq_None_iff)
  then have "map (stamped now due) (upd_rows (\<lambda>r. appt_id r = appt_id a) (stamp_reminder soon now) (appointments s))
      = map (stamped now (x # due)) (appointments s)"
    by (auto simp: upd_rows_def stamped_def x)
  ultimately show ?case
    using Cons by (simp add: andthen_def reminder_mails_def)
qed

lemma due_tours_distinct: "distinct (map appt_id (appointments s)) \<Longrightarrow> distinct (map (appt_id \<circ> fst) (due_tours t now s))"
  by (auto simp: due_tours_def due_reminders_def Let_def comp_def distinct_map_filter image_iff)

definition tour_due :: "uuid \<Rightarrow> instant \<Rightarrow> bool \<Rightarrow> appointment \<Rightarrow> bool" where
  "tour_due t now is_1h a \<longleftrightarrow> appt_tenant a = t \<and> appt_status a = CONFIRMED \<and> now < appt_start_at a
     \<and> appt_start_at a \<le> now + (if is_1h then REMINDER_WINDOW_1H else REMINDER_WINDOW_24H)
     \<and> (if is_1h then appt_reminder_1h_sent_at a else appt_reminder_24h_sent_at a) = None"

lemma due_tours_iff:
  assumes "distinct (map appt_id (appointments s))"
  shows "(a, soon) \<in> set (due_tours t now s) \<longleftrightarrow> a \<in> set (appointments s)
    \<and> (if soon then tour_due t now True a else tour_due t now False a \<and> \<not> tour_due t now True a)"
proof -
  have "appt_id a \<in> appt_id ` {x \<in> set (appointments s). tour_due t now True x} \<longleftrightarrow> tour_due t now True a"
    if "a \<in> set (appointments s)"
    using assms that by (auto simp: distinct_map dest: inj_onD)
  then show ?thesis by (auto simp: due_tours_def due_reminders_def Let_def tour_due_def)
qed

lemma stamped_due:
  assumes "distinct (map appt_id (appointments s))" "a \<in> set (appointments s)"
  shows "stamped now (due_tours t now s) a = (if tour_due t now True a then stamp_reminder True now a
    else if tour_due t now False a then stamp_reminder False now a else a)"
proof -
  let ?m = "map (\<lambda>(x, soon). (appt_id x, soon)) (due_tours t now s)"
  have keys: "distinct (map fst ?m)"
    using due_tours_distinct [OF assms(1), of t now] by (simp add: comp_def case_prod_beta)
  have "map_of ?m (appt_id a) = Some soon" if "(a, soon) \<in> set (due_tours t now s)" for soon
    using that keys by (force intro: map_of_is_SomeI)
  moreover have "map_of ?m (appt_id a) = None" if "\<not> tour_due t now True a" "\<not> tour_due t now False a"
  proof -
    have "x \<noteq> a" if "(x, soon) \<in> set (due_tours t now s)" for x soon
      using that \<open>\<not> tour_due t now True a\<close> \<open>\<not> tour_due t now False a\<close> by (auto simp: due_tours_iff [OF assms(1)] split: if_splits)
    then have "appt_id x \<noteq> appt_id a" if "(x, soon) \<in> set (due_tours t now s)" for x soon
      using that assms by (auto simp: due_tours_iff [OF assms(1)] distinct_map dest: inj_onD)
    then show ?thesis by (force simp: map_of_eq_None_iff)
  qed
  ultimately show ?thesis using assms(2) by (auto simp: stamped_def due_tours_iff [OF assms(1)] split: option.split)
qed

lemma stamp_due:
  "\<not> tour_due t later is_1h (stamp_reminder True now a)"
  "\<not> tour_due t later False (stamp_reminder False now a)"
  "tour_due t later True (stamp_reminder False now a) = tour_due t later True a"
  by (simp_all add: tour_due_def stamp_reminder_def)

text \<open>The mail of one tour in a sweep: at most one, for the closer of its two windows.\<close>

definition tour_email :: "uuid \<Rightarrow> db \<Rightarrow> appointment \<Rightarrow> string option" where
  "tour_email t s a = (case find (\<lambda>c. con_tenant c = t \<and> con_id c = appt_contact a) (contacts s) of
      None \<Rightarrow> None
    | Some c \<Rightarrow> if str_given (con_email c) then con_email c else None)"

definition tour_mail :: "uuid \<Rightarrow> instant \<Rightarrow> db \<Rightarrow> appointment \<Rightarrow> side_effect list" where
  "tour_mail t now s a = (case tour_email t s a of
      None \<Rightarrow> []
    | Some email \<Rightarrow> if tour_due t now True a then [reminder_mail True email (appt_start_at a)]
        else if tour_due t now False a then [reminder_mail False email (appt_start_at a)] else [])"

lemma due_mails:
  assumes "distinct (map appt_id (appointments s))"
  shows "mset (reminder_mails (contacts_by_ids t (map (appt_contact \<circ> fst) (due_tours t now s)) s) (due_tours t now s))
    = mset (concat (map (tour_mail t now s) (appointments s)))"
proof -
  let ?found = "contacts_by_ids t (map (appt_contact \<circ> fst) (due_tours t now s)) s"
  let ?m = "\<lambda>soon a. case tour_email t s a of None \<Rightarrow> [] | Some email \<Rightarrow> [reminder_mail soon email (appt_start_at a)]"
  let ?soon = "filter (tour_due t now True) (appointments s)"
  let ?day = "filter (\<lambda>a. tour_due t now False a \<and> \<not> tour_due t now True a) (appointments s)"
  have find_in_filter: "find P (filter Q xs) = find P xs" if "\<And>x. P x \<Longrightarrow> Q x" for P Q and xs :: "contact list"
    using that by (induction xs) auto
  have email: "reminder_email ?found a = tour_email t s a" if "(a, soon) \<in> set (due_tours t now s)" for a soon
  proof -
    have "find (\<lambda>c. con_id c = appt_contact a) ?found
        = find (\<lambda>c. con_id c = appt_contact a) (filter (\<lambda>c. con_tenant c = t) (contacts s))"
    proof -
      have "appt_contact a \<in> appt_contact ` fst ` set (due_tours t now s)" using that by force
      then have "find (\<lambda>c. con_id c = appt_contact a) (filter (\<lambda>c. con_tenant c = t \<and> con_id c \<in> appt_contact ` fst ` set (due_tours t now s)) xs)
        = find (\<lambda>c. con_id c = appt_contact a) (filter (\<lambda>c. con_tenant c = t) xs)" for xs
        by (induction xs) auto
      then show ?thesis by (simp add: contacts_by_ids_def image_comp)
    qed
    moreover have "find (\<lambda>c. con_id c = appt_contact a) (filter (\<lambda>c. con_tenant c = t) xs)
        = find (\<lambda>c. con_tenant c = t \<and> con_id c = appt_contact a) xs" for xs :: "contact list"
      by (induction xs) auto
    ultimately show ?thesis by (simp only: reminder_email_def tour_email_def)
  qed
  have due: "due_tours t now s = map (\<lambda>a. (a, True)) ?soon @ map (\<lambda>a. (a, False)) ?day"
  proof -
    have "appt_id a \<in> appt_id ` {x \<in> set (appointments s). tour_due t now True x} \<longleftrightarrow> tour_due t now True a"
      if "a \<in> set (appointments s)" for a
      using assms that by (auto simp: distinct_map dest: inj_onD)
    then have "filter (\<lambda>a. appt_id a \<notin> appt_id ` {x \<in> set (appointments s). tour_due t now True x})
        (filter (tour_due t now False) (appointments s)) = ?day"
      by (auto intro!: filter_cong)
    then show ?thesis by (simp add: due_tours_def due_reminders_def Let_def tour_due_def [abs_def])
  qed
  have "reminder_mails ?found (due_tours t now s)
      = concat (map (\<lambda>(a, soon). ?m soon a) (due_tours t now s))"
    unfolding reminder_mails_def using email by (auto intro!: arg_cong [of _ _ concat])
  also have "\<dots> = concat (map (?m True) ?soon) @ concat (map (?m False) ?day)"
    unfolding due by (simp add: comp_def)
  also have "mset \<dots> = mset (concat (map (tour_mail t now s) (appointments s)))"
  proof -
    have "mset (concat (map (?m True) (filter (tour_due t now True) xs))
        @ concat (map (?m False) (filter (\<lambda>a. tour_due t now False a \<and> \<not> tour_due t now True a) xs)))
      = mset (concat (map (tour_mail t now s) xs))" for xs
      by (induction xs) (auto simp: tour_mail_def split: option.splits)
    then show ?thesis by simp
  qed
  finally show ?thesis .
qed

text \<open>
  C36: in a run of the reminder sweep every confirmed tour in the last hour's window, or else in
  the last day's, gets exactly one mail if its contact has an address, and no other tour gets
  any; every such tour is stamped, mail or not; the sweep counts its mails and leaves no tour
  due, so that it sends nothing when run again at once. A tour it reminded of its last hour is
  never due again, and one it reminded of the day before only for the last hour.
\<close>

theorem tours_reminded_once:
  assumes "calendar_ok s" and "remind_tours t now s = (r, s')"
  shows "mset (sent s') = mset (sent s) + mset (concat (map (tour_mail t now s) (appointments s)))
    \<and> r = Inr (length (concat (map (tour_mail t now s) (appointments s))))
    \<and> appointments s' = map (\<lambda>a. if tour_due t now True a then stamp_reminder True now a
        else if tour_due t now False a then stamp_reminder False now a else a) (appointments s)
    \<and> due_tours t now s' = []
    \<and> (\<forall>(a, soon) \<in> set (due_tours t now s). \<forall>(b, soon') \<in> set (due_tours t later s').
         appt_id b = appt_id a \<longrightarrow> \<not> soon \<and> soon')"
proof -
  from assms(1) have ids: "distinct (map appt_id (appointments s))" by (simp add: calendar_ok_def)
  let ?due = "due_tours t now s" and ?found = "contacts_by_ids t (map (appt_contact \<circ> fst) (due_tours t now s)) s"
  note run = remind_each [OF due_tours_distinct [OF ids], of t now ?found now]
  have s': "s' = s\<lparr>appointments := map (stamped now ?due) (appointments s), sent := sent s @ reminder_mails ?found ?due\<rparr>"
    and r: "r = Inr (length (filter (\<lambda>(a, _). reminder_email ?found a \<noteq> None) ?due))"
    using assms(2) by (simp_all add: remind_tours_def ret_def
        andthen_simps(1) [where m = "for_each ?due (remind_appointment ?found now)" and s = s, OF run])
  have "length (reminder_mails found due) = length (filter (\<lambda>(a, _). reminder_email found a \<noteq> None) due)" for found due
    by (induction due) (auto simp: reminder_mails_def split: option.splits)
  then have count: "r = Inr (length (concat (map (tour_mail t now s) (appointments s))))"
    using arg_cong [OF due_mails [OF ids, of t now], of size] by (simp add: r flip: size_mset)
  have rows: "appointments s' = map (stamped now ?due) (appointments s)" by (simp add: s')
  have "map appt_id (appointments s') = map appt_id (appointments s)"
    by (auto simp: rows stamped_due [OF ids])
  then have ids': "distinct (map appt_id (appointments s'))" using ids by simp
  have again: "\<not> tour_due t now is_1h b" if "b \<in> set (appointments s')" for is_1h b
  proof -
    from that obtain a where a: "a \<in> set (appointments s)" "b = stamped now ?due a" by (auto simp: rows)
    show ?thesis
      unfolding a(2) stamped_due [OF ids a(1)] by (cases is_1h) (simp_all add: stamp_due)
  qed
  have "x \<notin> set (due_tours t now s')" for x
    using again by (cases x) (auto simp: due_tours_iff [OF ids'] split: if_splits)
  then have none: "due_tours t now s' = []" by (metis list.set_intros(1) neq_Nil_conv)
  have later: "\<not> soon \<and> soon'" if a: "(a, soon) \<in> set ?due" and b: "(b, soon') \<in> set (due_tours t later s')"
    and "appt_id b = appt_id a" for a soon b soon'
  proof -
    from b obtain a' where a': "a' \<in> set (appointments s)" "b = stamped now ?due a'"
      by (auto simp: due_tours_iff [OF ids'] rows)
    with \<open>appt_id b = appt_id a\<close> a have "a' = a"
      using ids by (auto simp: due_tours_iff [OF ids] stamped_due [OF ids] distinct_map dest: inj_onD split: if_splits)
    with a have "b = stamp_reminder soon now a"
      using a'(2) by (auto simp: due_tours_iff [OF ids] stamped_due [OF ids] split: if_splits)
    with b show ?thesis
      by (cases soon; cases soon') (auto simp: due_tours_iff [OF ids'] stamp_due)
  qed
  have "appointments s' = map (\<lambda>a. if tour_due t now True a then stamp_reminder True now a
        else if tour_due t now False a then stamp_reminder False now a else a) (appointments s)"
    unfolding rows by (rule map_cong [OF refl]) (simp add: stamped_due [OF ids])
  moreover have "mset (sent s') = mset (sent s) + mset (concat (map (tour_mail t now s) (appointments s)))"
    by (simp add: s' due_mails [OF ids])
  ultimately show ?thesis using count none later by blast
qed

theorem tours_reminded_once_witness:
  "mset (sent (snd (remind_tours 1 0 sample_tour_db))) = {#reminder_mail True ''a@x.dz'' (appt_start_at sample_tour)#}
   \<and> due_tours 1 0 (snd (remind_tours 1 0 sample_tour_db)) = []"
proof -
  have "calendar_ok sample_tour_db" by (simp add: calendar_ok_def sample_tour_db_def sample_tour_def)
  from tours_reminded_once [OF this prod.collapse [symmetric], of 1 0]
  have *: "mset (sent (snd (remind_tours 1 0 sample_tour_db)))
      = mset (sent sample_tour_db) + mset (concat (map (tour_mail 1 0 sample_tour_db) (appointments sample_tour_db)))"
    "due_tours 1 0 (snd (remind_tours 1 0 sample_tour_db)) = []" by blast+
  moreover have "appointments sample_tour_db = [sample_tour]" "sent sample_tour_db = []"
    by (simp_all add: sample_tour_db_def sample_db_def empty_db_def)
  moreover have "tour_email 1 sample_tour_db sample_tour = Some ''a@x.dz''" by code_simp
  moreover have "tour_due 1 0 True sample_tour"
    by (simp add: sample_tour_def tour_due_def REMINDER_WINDOW_1H_def minutes_def)
  ultimately show ?thesis by (simp add: tour_mail_def)
qed

section \<open>The calendar feed\<close>

text \<open>What the feed relies on of the text of a UUID: it has no colon, and parsing gives the UUID back.\<close>

definition uuid_texts_ok :: "world \<Rightarrow> bool" where
  "uuid_texts_ok w \<longleftrightarrow> (\<forall>i. CHR '':'' \<notin> set (uuid_text w i) \<and> uuid_of_text w (uuid_text w i) = Some i)"

lemma colon_split:
  "CHR '':'' \<notin> set a \<Longrightarrow> before_colon (a @ '':'' @ b) = a"
  "CHR '':'' \<notin> set a \<Longrightarrow> after_colon (a @ '':'' @ b) = b"
proof -
  assume "CHR '':'' \<notin> set a"
  then have "\<forall>c \<in> set a. c \<noteq> CHR '':''" by auto
  then show "before_colon (a @ '':'' @ b) = a" "after_colon (a @ '':'' @ b) = b"
    by (simp_all add: before_colon_def after_colon_def takeWhile_append dropWhile_append)
qed

text \<open>
  C35: the address that the portal hands out for the calendar of an agent's profile opens exactly
  the feed of live tours of the account behind that profile, on the tenant it was made for, and
  is not found on any other tenant; and a token that opens a feed at all carries a valid
  signature made for this purpose.
\<close>

theorem ical_link_opens_own_feed:
  assumes "dotless mac" and "uuid_texts_ok w"
    and "ical_url mac secret w minting a i s = (Inr url, s1)"
  shows "(\<exists>p token. p \<in> set (profiles s) \<and> prof_id p = i \<and> prof_tenant p = tenant_id minting
      \<and> url = ''/api/v1/appointments/ical/'' @ token
      \<and> ical_feed mac secret w ten token now s' =
        (if tenant_id minting = tenant_id ten then
           Inr (map (ical_event_of w ten (contacts_by_ids (tenant_id ten) (map appt_contact
               (upcoming_for_agent (tenant_id ten) (prof_user p) (now - ICAL_LOOKBACK) ICAL_MAX_EVENTS s')) s'))
             (upcoming_for_agent (tenant_id ten) (prof_user p) (now - ICAL_LOOKBACK) ICAL_MAX_EVENTS s'))
         else Inl (NotFoundError ''Calendar not found.'')))
    \<and> (ical_feed mac secret w ten forged now s' = Inr events \<longrightarrow> (\<exists>v. forged = sign_value mac secret ICAL_PURPOSE v))"
proof
  obtain p where p: "profile_get (tenant_id minting) i s = Some p"
    "url = ''/api/v1/appointments/ical/'' @ ical_token mac secret w (tenant_id minting) (prof_user p)"
    using assms(3)
    by (auto simp: ical_url_def profile_scoped_or_404_def andthen_def ret_def simp del: append_Cons append.simps
        split: option.splits if_splits)
  then have row: "p \<in> set (profiles s)" "prof_id p = i" "prof_tenant p = tenant_id minting"
    by (auto simp: profile_get_def dest: find_in)
  let ?t = "tenant_id minting" and ?u = "prof_user p"
  let ?v = "uuid_text w ?t @ '':'' @ uuid_text w ?u"
  have v: "unsign_value mac secret ICAL_PURPOSE (ical_token mac secret w ?t ?u) = Inr (Some ?v)"
    by (simp only: ical_token_def unsign_iff [OF assms(1)])
  have parts: "uuid_of_text w (before_colon ?v) = Some ?t" "uuid_of_text w (after_colon ?v) = Some ?u"
    using assms(2) by (simp_all add: uuid_texts_ok_def colon_split del: append_Cons append.simps)
  have "ical_feed mac secret w ten (ical_token mac secret w ?t ?u) now s' =
        (if ?t = tenant_id ten then
           Inr (map (ical_event_of w ten (contacts_by_ids (tenant_id ten) (map appt_contact
               (upcoming_for_agent (tenant_id ten) ?u (now - ICAL_LOOKBACK) ICAL_MAX_EVENTS s')) s'))
             (upcoming_for_agent (tenant_id ten) ?u (now - ICAL_LOOKBACK) ICAL_MAX_EVENTS s'))
         else Inl (NotFoundError ''Calendar not found.''))"
    unfolding ical_feed_def v sum.case option.case parts prod.case by (simp add: Let_def)
  with row p(2) show "\<exists>p token. p \<in> set (profiles s) \<and> prof_id p = i \<and> prof_tenant p = tenant_id minting
      \<and> url = ''/api/v1/appointments/ical/'' @ token
      \<and> ical_feed mac secret w ten token now s' =
        (if tenant_id minting = tenant_id ten then
           Inr (map (ical_event_of w ten (contacts_by_ids (tenant_id ten) (map appt_contact
               (upcoming_for_agent (tenant_id ten) (prof_user p) (now - ICAL_LOOKBACK) ICAL_MAX_EVENTS s')) s'))
             (upcoming_for_agent (tenant_id ten) (prof_user p) (now - ICAL_LOOKBACK) ICAL_MAX_EVENTS s'))
         else Inl (NotFoundError ''Calendar not found.''))" by blast
next
  show "ical_feed mac secret w ten forged now s' = Inr events \<longrightarrow> (\<exists>v. forged = sign_value mac secret ICAL_PURPOSE v)"
    using unsign_iff [OF assms(1)] by (auto simp: ical_feed_def split: sum.splits option.splits)
qed

definition sample_mac :: mac where
  "sample_mac key text = (if list_ex (\<lambda>c. c = dot \<or> \<not> (of_char c :: nat) < 128) (key @ text) then [] else key @ text)"

definition colon_world :: world where
  "colon_world = sample_world\<lparr>uuid_text := (\<lambda>i. replicate i CHR ''a''), uuid_of_text := (\<lambda>v. Some (length v))\<rparr>"

definition sample_link :: string where
  "sample_link = ''/api/v1/appointments/ical/'' @ ical_token sample_mac ''k'' colon_world 1 11"

theorem ical_link_opens_own_feed_witness:
  "ical_url sample_mac ''k'' colon_world sample_tenant sample_agent 60 sample_tour_db
     = (Inr sample_link, sample_tour_db)
   \<and> ical_feed sample_mac ''k'' colon_world sample_tenant (ical_token sample_mac ''k'' colon_world 1 11) 0 sample_tour_db
     = Inr (map (ical_event_of colon_world sample_tenant (contacts_by_ids 1 [80] sample_tour_db)) [sample_tour])"
proof -
  let ?s = sample_tour_db
  have mac: "dotless sample_mac"
    by (auto simp: dotless_def sample_mac_def ascii_text_def list_ex_iff list_all_iff)
  have texts: "uuid_texts_ok colon_world" by (simp add: uuid_texts_ok_def colon_world_def)
  have url: "ical_url sample_mac ''k'' colon_world sample_tenant sample_agent 60 ?s = (Inr sample_link, ?s)"
  proof -
    have "profile_get 1 60 ?s = Some sample_profile"
      by (simp add: profile_get_def sample_tour_db_def sample_profile_def)
    moreover have "prof_user sample_profile = 11" "actor_id sample_agent = 11" "tenant_id sample_tenant = 1"
      by (simp_all add: sample_profile_def sample_agent_def sample_tenant_def)
    ultimately show ?thesis
      by (simp add: ical_url_def profile_scoped_or_404_def sample_link_def ret_def andthen_def
          del: append_Cons append.simps)
  qed
  have up: "upcoming_for_agent 1 11 (0 - ICAL_LOOKBACK) ICAL_MAX_EVENTS sample_tour_db = [sample_tour]"
    by (simp add: upcoming_for_agent_def sample_tour_db_def sample_tour_def appt_live_def ACTIVE_STATUSES_def
        ICAL_LOOKBACK_def ICAL_MAX_EVENTS_def days_def)
  have t: "tenant_id sample_tenant = 1" by (simp add: sample_tenant_def)
  have p: "profiles ?s = [sample_profile]" "prof_user sample_profile = 11"
    by (simp_all add: sample_profile_def sample_tour_db_def)
  have "ical_feed sample_mac ''k'' colon_world sample_tenant (ical_token sample_mac ''k'' colon_world 1 11) 0 sample_tour_db
     = Inr (map (ical_event_of colon_world sample_tenant (contacts_by_ids 1 [80] sample_tour_db)) [sample_tour])"
    using ical_link_opens_own_feed [OF mac texts url, THEN conjunct1, of sample_tenant 0 sample_tour_db]
    unfolding t p by (auto simp: p(2) up [simplified] sample_link_def sample_tour_def simp del: append_Cons append.simps)
  with url show ?thesis by simp
qed

end
