(* ===== verification/Transactions.thy ===== *)
theory Transactions
  imports Leads
begin

text \<open>
  \<open>modules/transactions\<close> and \<open>workers/tasks/transactions.py\<close>: deals, their commission,
  milestones and documents, and the milestone reminder sweep. Object storage and SHA-256 are
  arguments: \<open>stored\<close> gives the size and content of an object, or \<open>None\<close> when reading raises.
\<close>

section \<open>Repository\<close>

definition CLOSED_STATUSES :: "deal_status list" where
  "CLOSED_STATUSES = [CLOSED_WON, CLOSED_LOST]"

definition deal_get :: "uuid \<Rightarrow> scope \<Rightarrow> uuid \<Rightarrow> db \<Rightarrow> deal option" where
  "deal_get t sc i s =
     find (\<lambda>d. deal_tenant d = t \<and> deal_id d = i \<and> in_scope sc (Some (deal_owner d))) (deals s)"

definition deal_matches :: "uuid \<Rightarrow> scope \<Rightarrow> deal_status option \<Rightarrow> deal \<Rightarrow> bool" where
  "deal_matches t sc status d \<longleftrightarrow> deal_tenant d = t \<and> in_scope sc (Some (deal_owner d))
     \<and> (status = None \<or> status = Some (deal_status d))"

definition deal_key :: "deal \<Rightarrow> instant \<times> uuid" where
  "deal_key d = (deal_created_at d, deal_id d)"

definition repo_list_deals ::
  "uuid \<Rightarrow> scope \<Rightarrow> deal_status option \<Rightarrow> (instant \<times> uuid) option \<Rightarrow> int \<Rightarrow> db \<Rightarrow> deal list" where
  "repo_list_deals t sc status after limit s =
     fetch_page deal_key after limit (filter (deal_matches t sc status) (deals s))"

definition count_deals :: "uuid \<Rightarrow> scope \<Rightarrow> deal_status option \<Rightarrow> db \<Rightarrow> nat" where
  "count_deals t sc status s = length (filter (deal_matches t sc status) (deals s))"

definition milestone_get :: "uuid \<Rightarrow> uuid \<Rightarrow> uuid \<Rightarrow> db \<Rightarrow> deal_milestone option" where
  "milestone_get t d i s =
     find (\<lambda>m. ms_tenant m = t \<and> ms_deal m = d \<and> ms_id m = i) (milestones s)"

definition repo_list_milestones :: "uuid \<Rightarrow> uuid \<Rightarrow> db \<Rightarrow> deal_milestone list" where
  "repo_list_milestones t d s = sort_key (\<lambda>m. (ms_position m, ms_created_at m, ms_id m))
     (filter (\<lambda>m. ms_tenant m = t \<and> ms_deal m = d) (milestones s))"

definition milestone_due :: "uuid \<Rightarrow> date \<Rightarrow> deal_milestone \<Rightarrow> deal \<Rightarrow> bool" where
  "milestone_due t on_or_before m d \<longleftrightarrow> ms_deal m = deal_id d \<and> ms_tenant m = t
     \<and> ms_completed_at m = None \<and> ms_reminder_sent_at m = None
     \<and> (case ms_due_date m of None \<Rightarrow> False | Some x \<Rightarrow> x \<le> on_or_before)
     \<and> deal_status d \<notin> set CLOSED_STATUSES"

definition due_milestones ::
  "uuid \<Rightarrow> date \<Rightarrow> nat \<Rightarrow> db \<Rightarrow> (deal_milestone \<times> deal) list" where
  "due_milestones t on_or_before limit s =
     take limit (sort_key (\<lambda>(m, d). (or_else (ms_due_date m) 0, ms_id m))
       [(m, d). m \<leftarrow> milestones s, d \<leftarrow> deals s, milestone_due t on_or_before m d])"

definition document_get :: "uuid \<Rightarrow> uuid \<Rightarrow> uuid \<Rightarrow> db \<Rightarrow> deal_document option" where
  "document_get t d i s =
     find (\<lambda>x. doc_tenant x = t \<and> doc_deal x = d \<and> doc_id x = i) (documents s)"

definition repo_list_documents :: "uuid \<Rightarrow> uuid \<Rightarrow> db \<Rightarrow> deal_document list" where
  "repo_list_documents t d s = sort_key (\<lambda>x. (doc_created_at x, doc_id x))
     (filter (\<lambda>x. doc_tenant x = t \<and> doc_deal x = d) (documents s))"

definition deal_write :: "uuid \<Rightarrow> (deal \<Rightarrow> deal) \<Rightarrow> (db, unit) action" where
  "deal_write i f = modify (\<lambda>s. s\<lparr>deals := upd_rows (\<lambda>d. deal_id d = i) f (deals s)\<rparr>)"

definition milestone_write :: "uuid \<Rightarrow> (deal_milestone \<Rightarrow> deal_milestone) \<Rightarrow> (db, unit) action" where
  "milestone_write i f = modify (\<lambda>s. s\<lparr>milestones := upd_rows (\<lambda>m. ms_id m = i) f (milestones s)\<rparr>)"

definition document_write :: "uuid \<Rightarrow> (deal_document \<Rightarrow> deal_document) \<Rightarrow> (db, unit) action" where
  "document_write i f = modify (\<lambda>s. s\<lparr>documents := upd_rows (\<lambda>x. doc_id x = i) f (documents s)\<rparr>)"

section \<open>Deals\<close>

definition TRANSITIONS :: "deal_status \<Rightarrow> deal_status list" where
  "TRANSITIONS st = (case st of
      OPEN \<Rightarrow> [CLOSED_WON, CLOSED_LOST, UNDER_CONTRACT]
    | UNDER_CONTRACT \<Rightarrow> [CLOSED_WON, CLOSED_LOST, OPEN]
    | CLOSED_WON \<Rightarrow> []
    | CLOSED_LOST \<Rightarrow> [])"

definition DEFAULT_MILESTONES :: "string list" where
  "DEFAULT_MILESTONES = [''Offer accepted'', ''Deposit received'', ''Contract signed'',
     ''Financing approved'', ''Closing'']"

definition deal_or_404 :: "tenant_context \<Rightarrow> actor \<Rightarrow> uuid \<Rightarrow> (db, deal) action" where
  "deal_or_404 ten a i =
     andthen (gets (scope_user_ids_for (tenant_id ten) a)) (\<lambda>sc.
     andthen (gets (deal_get (tenant_id ten) sc i)) (\<lambda>r. case r of
        None \<Rightarrow> raise (NotFoundError ''Deal not found.'')
      | Some d \<Rightarrow> ret d))"

definition validate_links ::
  "tenant_context \<Rightarrow> uuid option \<Rightarrow> uuid option \<Rightarrow> uuid option \<Rightarrow> (db, unit) action" where
  "validate_links ten listing lead contact =
     andthen (gets (\<lambda>s. case listing of None \<Rightarrow> True | Some i \<Rightarrow> listing_exists (tenant_id ten) i s)) (\<lambda>ok1.
     andthen (check ok1 (NotFoundError ''Linked listing not found.'')) (\<lambda>_.
     andthen (gets (\<lambda>s. case lead of None \<Rightarrow> True | Some i \<Rightarrow> lead_exists (tenant_id ten) i s)) (\<lambda>ok2.
     andthen (check ok2 (NotFoundError ''Linked lead not found.'')) (\<lambda>_.
     andthen (gets (\<lambda>s. case contact of None \<Rightarrow> True | Some i \<Rightarrow> contact_exists (tenant_id ten) i s)) (\<lambda>ok3.
     check ok3 (NotFoundError ''Linked contact not found.''))))))"

definition validate_owner :: "tenant_context \<Rightarrow> uuid option \<Rightarrow> (db, unit) action" where
  "validate_owner ten user = (case user of
      None \<Rightarrow> ret ()
    | Some u \<Rightarrow> andthen (gets (identities_for (tenant_id ten) [u])) (\<lambda>identities.
        check (identities u \<noteq> None) (NotFoundError ''Assigned user not found.'')))"

record deal_create =
  dc_title :: string
  dc_listing :: "uuid option"
  dc_lead :: "uuid option"
  dc_contact :: "uuid option"
  dc_owner :: "uuid option"
  dc_price :: "decimal option"
  dc_currency :: string
  dc_notes :: "string option"
  dc_seed_milestones :: bool

definition new_deal :: "tenant_context \<Rightarrow> uuid \<Rightarrow> deal_create \<Rightarrow> uuid \<Rightarrow> instant \<Rightarrow> deal" where
  "new_deal ten owner data new_id now =
     \<lparr>deal_id = new_id, deal_tenant = tenant_id ten, deal_owner = owner, deal_title = dc_title data,
      deal_status = OPEN, deal_listing = dc_listing data, deal_lead = dc_lead data,
      deal_contact = dc_contact data, deal_price = dc_price data, deal_currency = dc_currency data,
      deal_commission_basis = None, deal_commission_rate = None, deal_commission_amount = None,
      deal_closed_at = None, deal_lost_reason = None, deal_notes = dc_notes data,
      deal_created_at = now\<rparr>"

definition new_milestone ::
  "uuid \<Rightarrow> uuid \<Rightarrow> string \<Rightarrow> date option \<Rightarrow> uuid option \<Rightarrow> int \<Rightarrow> uuid \<Rightarrow> instant \<Rightarrow> deal_milestone" where
  "new_milestone t d title due owner position new_id now =
     \<lparr>ms_id = new_id, ms_tenant = t, ms_deal = d, ms_title = title, ms_due_date = due,
      ms_owner = owner, ms_completed_at = None, ms_position = position,
      ms_reminder_sent_at = None, ms_created_at = now\<rparr>"

text \<open>The checklist; its rows take the ids \<open>new_ids 0\<close>, \<open>new_ids 1\<close>, and so on.\<close>

definition seeded_milestones ::
  "uuid \<Rightarrow> uuid \<Rightarrow> (nat \<Rightarrow> uuid) \<Rightarrow> instant \<Rightarrow> deal_milestone list" where
  "seeded_milestones t d new_ids now =
     map (\<lambda>(position, title). new_milestone t d title None None (int position) (new_ids position) now)
       (List.enumerate 0 DEFAULT_MILESTONES)"

definition create_deal ::
  "tenant_context \<Rightarrow> actor \<Rightarrow> deal_create \<Rightarrow> uuid \<Rightarrow> (nat \<Rightarrow> uuid) \<Rightarrow> instant \<Rightarrow> (db, deal) action" where
  "create_deal ten a data new_id new_ids now =
     (let owner = or_else (dc_owner data) (actor_id a) in
      andthen (gets (scope_user_ids_for (tenant_id ten) a)) (\<lambda>sc.
      andthen (check (\<not> (owner \<noteq> actor_id a \<and> sc \<noteq> None))
        (PermissionDeniedError ''Only a manager can assign a deal to another agent.'')) (\<lambda>_.
      andthen (if owner \<noteq> actor_id a then validate_owner ten (Some owner) else ret ()) (\<lambda>_.
      andthen (validate_links ten (dc_listing data) (dc_lead data) (dc_contact data)) (\<lambda>_.
      andthen (modify (\<lambda>s. s\<lparr>deals := deals s @ [new_deal ten owner data new_id now]\<rparr>)) (\<lambda>_.
      andthen (if dc_seed_milestones data
               then modify (\<lambda>s. s\<lparr>milestones := milestones s @
                      seeded_milestones (tenant_id ten) new_id new_ids now\<rparr>)
               else ret ()) (\<lambda>_.
      ret (new_deal ten owner data new_id now))))))))"

definition list_deals ::
  "tenant_context \<Rightarrow> actor \<Rightarrow> deal_status option \<Rightarrow> (instant \<times> uuid) cursor option \<Rightarrow> int option \<Rightarrow> db \<Rightarrow>
   error + (deal list \<times> (instant \<times> uuid) cursor option \<times> nat)" where
  "list_deals ten a status cursor limit s =
     (case decode_keyset cursor of
        Inl e \<Rightarrow> Inl e
      | Inr after \<Rightarrow>
          let page_size = clamp_limit limit; sc = scope_user_ids_for (tenant_id ten) a s;
              (items, next) = cut_page deal_key page_size
                 (repo_list_deals (tenant_id ten) sc status after page_size s)
          in Inr (items, next, count_deals (tenant_id ten) sc status s))"

record deal_update =
  du_title :: "string patch"
  du_price :: "decimal option patch"
  du_currency :: "string patch"
  du_owner :: "uuid option patch"
  du_listing :: "uuid option patch"
  du_lead :: "uuid option patch"
  du_contact :: "uuid option patch"
  du_notes :: "string option patch"

definition patch_deal :: "deal_update \<Rightarrow> uuid \<Rightarrow> deal \<Rightarrow> deal" where
  "patch_deal p owner d = d\<lparr>deal_title := patched (du_title p) (deal_title d),
     deal_price := patched (du_price p) (deal_price d),
     deal_currency := patched (du_currency p) (deal_currency d),
     deal_owner := owner,
     deal_listing := patched (du_listing p) (deal_listing d),
     deal_lead := patched (du_lead p) (deal_lead d),
     deal_contact := patched (du_contact p) (deal_contact d),
     deal_notes := patched (du_notes p) (deal_notes d)\<rparr>"

text \<open>
  The owner column is NOT NULL, and the schema does not reject an explicit null for it: the
  flush then raises.
\<close>

definition update_deal :: "tenant_context \<Rightarrow> actor \<Rightarrow> uuid \<Rightarrow> deal_update \<Rightarrow> (db, unit) action" where
  "update_deal ten a i p =
     andthen (deal_or_404 ten a i) (\<lambda>d.
     andthen (case du_owner p of
         Unset \<Rightarrow> ret ()
       | SetTo owner \<Rightarrow>
           if owner = Some (deal_owner d) then ret ()
           else andthen (gets (scope_user_ids_for (tenant_id ten) a)) (\<lambda>sc.
                andthen (check (sc = None)
                  (PermissionDeniedError ''Only a manager can reassign a deal.'')) (\<lambda>_.
                validate_owner ten owner))) (\<lambda>_.
     andthen (validate_links ten (patch_get (du_listing p)) (patch_get (du_lead p))
                (patch_get (du_contact p))) (\<lambda>_.
     case patched (du_owner p) (Some (deal_owner d)) of
       None \<Rightarrow> raise IntegrityError
     | Some owner \<Rightarrow> deal_write (deal_id d) (patch_deal p owner))))"

definition deal_status_value :: "deal_status \<Rightarrow> string" where
  "deal_status_value st = (case st of OPEN \<Rightarrow> ''open'' | UNDER_CONTRACT \<Rightarrow> ''under_contract''
    | CLOSED_WON \<Rightarrow> ''closed_won'' | CLOSED_LOST \<Rightarrow> ''closed_lost'')"

definition EVENT_DEAL_CLOSED :: string where
  "EVENT_DEAL_CLOSED = ''deal.closed''"

definition closed_deal :: "deal_status \<Rightarrow> string option \<Rightarrow> instant \<Rightarrow> deal \<Rightarrow> deal" where
  "closed_deal target reason now d = d\<lparr>deal_status := target, deal_closed_at := Some now,
     deal_lost_reason := (if target = CLOSED_LOST then reason else None)\<rparr>"

definition reopened_deal :: "deal_status \<Rightarrow> deal \<Rightarrow> deal" where
  "reopened_deal target d =
     d\<lparr>deal_status := target, deal_closed_at := None, deal_lost_reason := None\<rparr>"

definition transition_deal ::
  "world \<Rightarrow> tenant_context \<Rightarrow> actor \<Rightarrow> uuid \<Rightarrow> deal_status \<Rightarrow> string option \<Rightarrow> instant \<Rightarrow> (db, unit) action" where
  "transition_deal w ten a i target reason now =
     andthen (deal_or_404 ten a i) (\<lambda>d.
     if target = deal_status d then ret ()
     else
       andthen (check (target \<in> set (TRANSITIONS (deal_status d)))
         (ConflictError (''Cannot move a deal from '' @ quoted (deal_status_value (deal_status d))
           @ '' to '' @ quoted (deal_status_value target) @ ''.''))) (\<lambda>_.
       andthen (check (\<not> (target = CLOSED_LOST \<and> \<not> str_given reason))
         (ConflictError ''A lost deal requires a reason.'')) (\<lambda>_.
       if target \<in> set CLOSED_STATUSES
       then andthen (deal_write i (closed_deal target reason now)) (\<lambda>_.
            emit_event ten EVENT_DEAL_CLOSED
              [(''dealId'', JStr (uuid_text w i)), (''outcome'', JStr (deal_status_value target)),
               (''title'', JStr (deal_title d))])
       else deal_write i (reopened_deal target))))"

definition purge_objects :: "string \<Rightarrow> string list \<Rightarrow> (db, unit) action" where
  "purge_objects bucket keys = on_commit (DeleteObjects (map (\<lambda>key. (bucket, key)) keys))"

text \<open>Milestones and documents go with the deal (ON DELETE CASCADE).\<close>

definition delete_deal :: "string \<Rightarrow> tenant_context \<Rightarrow> actor \<Rightarrow> uuid \<Rightarrow> (db, unit) action" where
  "delete_deal bucket ten a i =
     andthen (deal_or_404 ten a i) (\<lambda>d.
     andthen (gets (\<lambda>s. map doc_storage_key (repo_list_documents (tenant_id ten) i s))) (\<lambda>keys.
     andthen (modify (\<lambda>s. s\<lparr>deals := del_rows (\<lambda>x. deal_id x = i) (deals s),
         milestones := del_rows (\<lambda>m. ms_deal m = i) (milestones s),
         documents := del_rows (\<lambda>x. doc_deal x = i) (documents s)\<rparr>)) (\<lambda>_.
     if keys \<noteq> [] then purge_objects bucket keys else ret ())))"

section \<open>Commission\<close>

definition require_commission_access :: "actor \<Rightarrow> (db, unit) action" where
  "require_commission_access a = check (actor_role a = ADMIN)
     (PermissionDeniedError ''Only an admin can view or set commission figures.'')"

definition get_deal_with_commission :: "tenant_context \<Rightarrow> actor \<Rightarrow> uuid \<Rightarrow> (db, deal) action" where
  "get_deal_with_commission ten a i =
     andthen (require_commission_access a) (\<lambda>_. deal_or_404 ten a i)"

text \<open>The body, after its validator: a percentage has its rate, a flat commission its amount.\<close>

datatype commission_update = SetPercentage decimal | SetFlat decimal

definition set_commission ::
  "tenant_context \<Rightarrow> actor \<Rightarrow> uuid \<Rightarrow> commission_update \<Rightarrow> (db, unit) action" where
  "set_commission ten a i data =
     andthen (require_commission_access a) (\<lambda>_.
     andthen (deal_or_404 ten a i) (\<lambda>d.
     case data of
       SetPercentage rate \<Rightarrow>
         andthen (case deal_price d of
             None \<Rightarrow> ret None
           | Some price \<Rightarrow> andthen (lift_res (commission_amount price rate)) (\<lambda>x. ret (Some x))) (\<lambda>amount.
         deal_write i (\<lambda>x. x\<lparr>deal_commission_basis := Some PERCENTAGE,
           deal_commission_rate := Some rate, deal_commission_amount := amount\<rparr>))
     | SetFlat amount \<Rightarrow>
         deal_write i (\<lambda>x. x\<lparr>deal_commission_basis := Some FLAT,
           deal_commission_rate := None, deal_commission_amount := Some amount\<rparr>)))"

section \<open>Milestones\<close>

definition list_milestones :: "tenant_context \<Rightarrow> actor \<Rightarrow> uuid \<Rightarrow> (db, deal_milestone list) action" where
  "list_milestones ten a i =
     andthen (deal_or_404 ten a i) (\<lambda>_. gets (repo_list_milestones (tenant_id ten) i))"

definition add_milestone ::
  "tenant_context \<Rightarrow> actor \<Rightarrow> uuid \<Rightarrow> string \<Rightarrow> date option \<Rightarrow> uuid option \<Rightarrow> int \<Rightarrow> uuid \<Rightarrow> instant \<Rightarrow>
   (db, deal_milestone) action" where
  "add_milestone ten a i title due owner position new_id now =
     andthen (deal_or_404 ten a i) (\<lambda>_.
     andthen (validate_owner ten owner) (\<lambda>_.
       let m = new_milestone (tenant_id ten) i title due owner position new_id now
       in andthen (modify (\<lambda>s. s\<lparr>milestones := milestones s @ [m]\<rparr>)) (\<lambda>_. ret m)))"

definition milestone_or_404 :: "tenant_context \<Rightarrow> uuid \<Rightarrow> uuid \<Rightarrow> (db, deal_milestone) action" where
  "milestone_or_404 ten d i = andthen (gets (milestone_get (tenant_id ten) d i)) (\<lambda>r. case r of
      None \<Rightarrow> raise (NotFoundError ''Milestone not found.'') | Some m \<Rightarrow> ret m)"

record milestone_update =
  mu_title :: "string patch"
  mu_due_date :: "date option patch"
  mu_owner :: "uuid option patch"
  mu_position :: "int patch"
  mu_completed :: "bool patch"

definition patch_milestone :: "milestone_update \<Rightarrow> instant \<Rightarrow> deal_milestone \<Rightarrow> deal_milestone" where
  "patch_milestone p now m =
     (let completed = (case mu_completed p of
             Unset \<Rightarrow> ms_completed_at m | SetTo True \<Rightarrow> Some now | SetTo False \<Rightarrow> None)
      in m\<lparr>ms_completed_at := completed,
           ms_title := patched (mu_title p) (ms_title m),
           ms_due_date := patched (mu_due_date p) (ms_due_date m),
           ms_owner := patched (mu_owner p) (ms_owner m),
           ms_position := patched (mu_position p) (ms_position m),
           ms_reminder_sent_at := (if mu_due_date p \<noteq> Unset \<and> completed = None then None
                                   else ms_reminder_sent_at m)\<rparr>)"

definition update_milestone ::
  "tenant_context \<Rightarrow> actor \<Rightarrow> uuid \<Rightarrow> uuid \<Rightarrow> milestone_update \<Rightarrow> instant \<Rightarrow> (db, unit) action" where
  "update_milestone ten a d i p now =
     andthen (deal_or_404 ten a d) (\<lambda>_.
     andthen (milestone_or_404 ten d i) (\<lambda>m.
     andthen (case mu_owner p of Unset \<Rightarrow> ret () | SetTo owner \<Rightarrow> validate_owner ten owner) (\<lambda>_.
     milestone_write (ms_id m) (patch_milestone p now))))"

definition delete_milestone :: "tenant_context \<Rightarrow> actor \<Rightarrow> uuid \<Rightarrow> uuid \<Rightarrow> (db, unit) action" where
  "delete_milestone ten a d i =
     andthen (deal_or_404 ten a d) (\<lambda>_.
     andthen (milestone_or_404 ten d i) (\<lambda>m.
     modify (\<lambda>s. s\<lparr>milestones := del_rows (\<lambda>x. ms_id x = ms_id m) (milestones s)\<rparr>)))"

section \<open>Documents\<close>

definition list_documents :: "tenant_context \<Rightarrow> actor \<Rightarrow> uuid \<Rightarrow> (db, deal_document list) action" where
  "list_documents ten a i =
     andthen (deal_or_404 ten a i) (\<lambda>_. gets (repo_list_documents (tenant_id ten) i))"

definition storage_key_for :: "world \<Rightarrow> uuid \<Rightarrow> uuid \<Rightarrow> uuid \<Rightarrow> string" where
  "storage_key_for w t d i = ''tenants/'' @ uuid_text w t @ ''/deals/'' @ uuid_text w d
     @ ''/documents/'' @ uuid_text w i"

definition request_upload ::
  "world \<Rightarrow> (string \<Rightarrow> string \<Rightarrow> string) \<Rightarrow> tenant_context \<Rightarrow> actor \<Rightarrow> uuid \<Rightarrow> string \<Rightarrow> string \<Rightarrow> string \<Rightarrow>
   int option \<Rightarrow> uuid \<Rightarrow> instant \<Rightarrow> (db, deal_document \<times> string) action" where
  "request_upload w presign_put ten a d ty filename content nbytes new_id now =
     andthen (deal_or_404 ten a d) (\<lambda>_.
       let x = \<lparr>doc_id = new_id, doc_tenant = tenant_id ten, doc_deal = d, doc_type = ty,
                doc_filename = filename, doc_content_type = content,
                doc_storage_key = storage_key_for w (tenant_id ten) d new_id,
                doc_size_bytes = nbytes, doc_sha256 = None, doc_status = DOC_PENDING,
                doc_uploaded_by = Some (actor_id a), doc_created_at = now\<rparr>
       in andthen (modify (\<lambda>s. s\<lparr>documents := documents s @ [x]\<rparr>)) (\<lambda>_.
          ret (x, presign_put (doc_storage_key x) content)))"

definition document_or_404 :: "tenant_context \<Rightarrow> uuid \<Rightarrow> uuid \<Rightarrow> (db, deal_document) action" where
  "document_or_404 ten d i = andthen (gets (document_get (tenant_id ten) d i)) (\<lambda>r. case r of
      None \<Rightarrow> raise (NotFoundError ''Document not found.'') | Some x \<Rightarrow> ret x)"

definition document_status_value :: "document_status \<Rightarrow> string" where
  "document_status_value st = (case st of
      DOC_PENDING \<Rightarrow> ''pending'' | DOC_READY \<Rightarrow> ''ready'' | DOC_FAILED \<Rightarrow> ''failed'')"

definition confirm_upload ::
  "(string \<Rightarrow> (int \<times> string) option) \<Rightarrow> (string \<Rightarrow> string) \<Rightarrow> tenant_context \<Rightarrow> actor \<Rightarrow> uuid \<Rightarrow> uuid \<Rightarrow>
   (db, unit) action" where
  "confirm_upload stored sha256 ten a d i =
     andthen (deal_or_404 ten a d) (\<lambda>_.
     andthen (document_or_404 ten d i) (\<lambda>x.
     andthen (check (doc_status x = DOC_PENDING)
       (ConflictError (''This upload is already '' @ quoted (document_status_value (doc_status x)) @ ''.''))) (\<lambda>_.
     case stored (doc_storage_key x) of
       None \<Rightarrow>
         andthen (document_write i (\<lambda>y. y\<lparr>doc_status := DOC_FAILED\<rparr>)) (\<lambda>_.
         raise (ConflictError ''No uploaded file was found for this document.''))
     | Some (nbytes, body) \<Rightarrow>
         document_write i (\<lambda>y. y\<lparr>doc_size_bytes := Some nbytes, doc_sha256 := Some (sha256 body),
           doc_status := DOC_READY\<rparr>))))"

definition download_url ::
  "(string \<Rightarrow> string \<Rightarrow> string) \<Rightarrow> tenant_context \<Rightarrow> actor \<Rightarrow> uuid \<Rightarrow> uuid \<Rightarrow> (db, string) action" where
  "download_url presign_get ten a d i =
     andthen (deal_or_404 ten a d) (\<lambda>_.
     andthen (document_or_404 ten d i) (\<lambda>x.
     andthen (check (doc_status x = DOC_READY)
       (ConflictError ''This document is not ready for download.'')) (\<lambda>_.
     ret (presign_get (doc_storage_key x) (doc_filename x)))))"

definition delete_document ::
  "string \<Rightarrow> tenant_context \<Rightarrow> actor \<Rightarrow> uuid \<Rightarrow> uuid \<Rightarrow> (db, unit) action" where
  "delete_document bucket ten a d i =
     andthen (deal_or_404 ten a d) (\<lambda>_.
     andthen (document_or_404 ten d i) (\<lambda>x.
     andthen (modify (\<lambda>s. s\<lparr>documents := del_rows (\<lambda>y. doc_id y = doc_id x) (documents s)\<rparr>)) (\<lambda>_.
     purge_objects bucket [doc_storage_key x])))"

section \<open>The reminder sweep\<close>

definition BATCH_LIMIT :: nat where
  "BATCH_LIMIT = 200"

definition recipient_of :: "deal_milestone \<Rightarrow> deal \<Rightarrow> uuid" where
  "recipient_of m d = or_else (ms_owner m) (deal_owner d)"

text \<open>\<open>isodate\<close> is \<open>date.isoformat\<close>.\<close>

definition remind_one ::
  "world \<Rightarrow> (date \<Rightarrow> string) \<Rightarrow> tenant_context \<Rightarrow> (uuid \<Rightarrow> user_identity option) \<Rightarrow> instant \<Rightarrow>
   deal_milestone \<times> deal \<Rightarrow> (db, unit) action" where
  "remind_one w isodate ten identities now md = (case md of (m, d) \<Rightarrow>
     andthen (milestone_write (ms_id m) (\<lambda>x. x\<lparr>ms_reminder_sent_at := Some now\<rparr>)) (\<lambda>_.
     case identities (recipient_of m d) of
       None \<Rightarrow> ret ()
     | Some ident \<Rightarrow> notify ten (recipient_of m d) ''milestone_due''
         [(''milestoneTitle'', JStr (ms_title m)), (''dealTitle'', JStr (deal_title d)),
          (''dealId'', JStr (uuid_text w (deal_id d))), (''milestoneId'', JStr (uuid_text w (ms_id m))),
          (''dueDate'', JStr (case ms_due_date m of None \<Rightarrow> [] | Some x \<Rightarrow> isodate x)),
          (''email'', JStr (ident_email ident))]))"

definition remind_tenant ::
  "world \<Rightarrow> (date \<Rightarrow> string) \<Rightarrow> tenant_context \<Rightarrow> date \<Rightarrow> instant \<Rightarrow> (db, nat) action" where
  "remind_tenant w isodate ten today now =
     andthen (gets (due_milestones (tenant_id ten) today BATCH_LIMIT)) (\<lambda>due.
     if due = [] then ret 0
     else
       andthen (gets (identities_for (tenant_id ten) (map (\<lambda>(m, d). recipient_of m d) due))) (\<lambda>identities.
       andthen (for_each due (remind_one w isodate ten identities now)) (\<lambda>_.
       ret (length (filter (\<lambda>(m, d). identities (recipient_of m d) \<noteq> None) due)))))"

section \<open>HTTP layer\<close>

text \<open>
  \<open>transactions/router.py\<close>: the deal's shape on the wire. \<open>DealOut\<close> has no commission keys;
  the row's \<open>updated_at\<close> is not modelled.
\<close>

record deal_shape =
  out_id :: uuid
  out_owner :: uuid
  out_title :: string
  out_status :: deal_status
  out_listing :: "uuid option"
  out_lead :: "uuid option"
  out_contact :: "uuid option"
  out_price :: "decimal option"
  out_currency :: string
  out_closed_at :: "instant option"
  out_lost_reason :: "string option"
  out_notes :: "string option"
  out_created_at :: instant

datatype deal_response =
    DealOut deal_shape
  | DealWithCommissionOut deal_shape "commission_basis option" "decimal option" "decimal option"

definition deal_shape_of :: "deal \<Rightarrow> deal_shape" where
  "deal_shape_of d = \<lparr>out_id = deal_id d, out_owner = deal_owner d, out_title = deal_title d,
     out_status = deal_status d, out_listing = deal_listing d, out_lead = deal_lead d,
     out_contact = deal_contact d, out_price = deal_price d, out_currency = deal_currency d,
     out_closed_at = deal_closed_at d, out_lost_reason = deal_lost_reason d,
     out_notes = deal_notes d, out_created_at = deal_created_at d\<rparr>"

definition with_commission_out :: "deal \<Rightarrow> deal_response" where
  "with_commission_out d = DealWithCommissionOut (deal_shape_of d) (deal_commission_basis d)
     (deal_commission_rate d) (deal_commission_amount d)"

definition can_see_commission :: "actor \<Rightarrow> bool" where
  "can_see_commission a \<longleftrightarrow> actor_role a = ADMIN"

definition deal_out :: "actor \<Rightarrow> deal \<Rightarrow> deal_response" where
  "deal_out a d = (if can_see_commission a then with_commission_out d else DealOut (deal_shape_of d))"

definition deal_guard :: "actor \<Rightarrow> (db, unit) action" where
  "deal_guard a = check (has_permission a DEAL_MANAGE)
     (PermissionDeniedError ''You do not have permission to perform this action.'')"

text \<open>The session's object of a row that the request has just written.\<close>

definition saved_deal :: "uuid \<Rightarrow> (db, deal) action" where
  "saved_deal i = andthen (gets (\<lambda>s. find (\<lambda>d. deal_id d = i) (deals s))) (\<lambda>r. case r of
      None \<Rightarrow> raise AssertionError | Some d \<Rightarrow> ret d)"

definition create_deal_route ::
  "tenant_context \<Rightarrow> actor \<Rightarrow> deal_create \<Rightarrow> uuid \<Rightarrow> (nat \<Rightarrow> uuid) \<Rightarrow> instant \<Rightarrow>
   (db, deal_response) action" where
  "create_deal_route ten a data new_id new_ids now =
     andthen (deal_guard a) (\<lambda>_.
     andthen (create_deal ten a data new_id new_ids now) (\<lambda>d. ret (deal_out a d)))"

definition list_deals_route ::
  "tenant_context \<Rightarrow> actor \<Rightarrow> deal_status option \<Rightarrow> (instant \<times> uuid) cursor option \<Rightarrow> int option \<Rightarrow>
   (db, deal_response list \<times> (instant \<times> uuid) cursor option \<times> nat) action" where
  "list_deals_route ten a status cursor limit =
     andthen (deal_guard a) (\<lambda>_.
     andthen (gets (list_deals ten a status cursor limit)) (\<lambda>r.
     andthen (lift_res r) (\<lambda>(items, next, total). ret (map (deal_out a) items, next, total))))"

definition get_deal_route :: "tenant_context \<Rightarrow> actor \<Rightarrow> uuid \<Rightarrow> (db, deal_response) action" where
  "get_deal_route ten a i =
     andthen (deal_guard a) (\<lambda>_. andthen (deal_or_404 ten a i) (\<lambda>d. ret (deal_out a d)))"

definition update_deal_route ::
  "tenant_context \<Rightarrow> actor \<Rightarrow> uuid \<Rightarrow> deal_update \<Rightarrow> (db, deal_response) action" where
  "update_deal_route ten a i p =
     andthen (deal_guard a) (\<lambda>_.
     andthen (update_deal ten a i p) (\<lambda>_.
     andthen (saved_deal i) (\<lambda>d. ret (deal_out a d))))"

definition transition_deal_route ::
  "world \<Rightarrow> tenant_context \<Rightarrow> actor \<Rightarrow> uuid \<Rightarrow> deal_status \<Rightarrow> string option \<Rightarrow> instant \<Rightarrow>
   (db, deal_response) action" where
  "transition_deal_route w ten a i target reason now =
     andthen (deal_guard a) (\<lambda>_.
     andthen (transition_deal w ten a i target reason now) (\<lambda>_.
     andthen (saved_deal i) (\<lambda>d. ret (deal_out a d))))"

definition get_commission_route :: "tenant_context \<Rightarrow> actor \<Rightarrow> uuid \<Rightarrow> (db, deal_response) action" where
  "get_commission_route ten a i =
     andthen (deal_guard a) (\<lambda>_.
     andthen (get_deal_with_commission ten a i) (\<lambda>d. ret (with_commission_out d)))"

definition set_commission_route ::
  "tenant_context \<Rightarrow> actor \<Rightarrow> uuid \<Rightarrow> commission_update \<Rightarrow> (db, deal_response) action" where
  "set_commission_route ten a i data =
     andthen (deal_guard a) (\<lambda>_.
     andthen (set_commission ten a i data) (\<lambda>_.
     andthen (saved_deal i) (\<lambda>d. ret (with_commission_out d))))"

text \<open>Every route that answers with deals, and the deals of its answer.\<close>

datatype deal_request =
    PostDeal deal_create uuid "nat \<Rightarrow> uuid"
  | ListDeals "deal_status option" "(instant \<times> uuid) cursor option" "int option"
  | GetDeal uuid
  | PatchDeal uuid deal_update
  | PostStatus uuid deal_status "string option"
  | GetCommission uuid
  | PutCommission uuid commission_update

fun deal_route ::
  "world \<Rightarrow> tenant_context \<Rightarrow> actor \<Rightarrow> instant \<Rightarrow> deal_request \<Rightarrow> (db, deal_response list) action" where
  "deal_route w ten a now (PostDeal data i ids) =
     andthen (create_deal_route ten a data i ids now) (\<lambda>x. ret [x])"
| "deal_route w ten a now (ListDeals status cursor limit) =
     andthen (list_deals_route ten a status cursor limit) (\<lambda>(xs, _). ret xs)"
| "deal_route w ten a now (GetDeal i) = andthen (get_deal_route ten a i) (\<lambda>x. ret [x])"
| "deal_route w ten a now (PatchDeal i p) = andthen (update_deal_route ten a i p) (\<lambda>x. ret [x])"
| "deal_route w ten a now (PostStatus i target reason) =
     andthen (transition_deal_route w ten a i target reason now) (\<lambda>x. ret [x])"
| "deal_route w ten a now (GetCommission i) = andthen (get_commission_route ten a i) (\<lambda>x. ret [x])"
| "deal_route w ten a now (PutCommission i c) = andthen (set_commission_route ten a i c) (\<lambda>x. ret [x])"

end
