(* ===== verification/Deal_Desk.thy ===== *)
theory Deal_Desk
  imports Transactions
begin

text \<open>
  The correctness of \<open>modules/transactions\<close>: the effect of each handler, the steps of the
  module, the deal workflow, the well-formedness of a deal, isolation between tenants and
  scopes, the document life cycle and the reminder sweep.
\<close>

section \<open>Runs of the handlers\<close>

interpretation deal_scope: scoped_table deals deal_tenant deal_id
  "\<lambda>sc d. in_scope sc (Some (deal_owner d))" deal_get deal_or_404 "NotFoundError ''Deal not found.''"
  by unfold_locales (auto simp: deal_get_def deal_or_404_def ret_def raise_def in_scope_def
      split: option.splits)

lemma deal_write_run [simp]:
  "deal_write i f s = (Inr (), s\<lparr>deals := upd_rows (\<lambda>d. deal_id d = i) f (deals s)\<rparr>)"
  "andthen (deal_write i f) g s = g () (s\<lparr>deals := upd_rows (\<lambda>d. deal_id d = i) f (deals s)\<rparr>)"
  "milestone_write i h s = (Inr (), s\<lparr>milestones := upd_rows (\<lambda>m. ms_id m = i) h (milestones s)\<rparr>)"
  "andthen (milestone_write i h) g s =
     g () (s\<lparr>milestones := upd_rows (\<lambda>m. ms_id m = i) h (milestones s)\<rparr>)"
  "document_write i k s = (Inr (), s\<lparr>documents := upd_rows (\<lambda>x. doc_id x = i) k (documents s)\<rparr>)"
  "andthen (document_write i k) g s =
     g () (s\<lparr>documents := upd_rows (\<lambda>x. doc_id x = i) k (documents s)\<rparr>)"
  by (simp_all add: deal_write_def milestone_write_def document_write_def modify_def andthen_def)

lemma validate_links_read [read_only_intros]: "read_only (validate_links ten l d c)"
  unfolding validate_links_def by (intro read_only_intros)

lemma validate_owner_read [read_only_intros]: "read_only (validate_owner ten u)"
  unfolding validate_owner_def by (intro read_only_intros)

lemma read_only_step:
  "read_only m \<Longrightarrow> andthen m f s = (Inr b, t) \<longleftrightarrow> (\<exists>a. m s = (Inr a, s) \<and> f a s = (Inr b, t))"
  by (auto simp: andthen_Inr_iff dest: read_onlyD)

lemma validate_owner_Inr:
  "validate_owner ten (Some u) s = (Inr x, t) \<Longrightarrow>
     t = s \<and> identities_for (tenant_id ten) [u] s u \<noteq> None"
  by (auto simp: validate_owner_def check_def split: if_splits)

lemma milestone_or_404_iff:
  "milestone_or_404 ten d i s = (Inr m, t) \<longleftrightarrow>
     t = s \<and> milestone_get (tenant_id ten) d i s = Some m"
  by (auto simp: milestone_or_404_def ret_def raise_def split: option.splits)

lemma document_or_404_iff:
  "document_or_404 ten d i s = (Inr x, t) \<longleftrightarrow>
     t = s \<and> document_get (tenant_id ten) d i s = Some x"
  by (auto simp: document_or_404_def ret_def raise_def split: option.splits)

lemma milestone_or_404_read [read_only_intros]: "read_only (milestone_or_404 ten d i)"
  unfolding milestone_or_404_def by (intro read_only_intros)

lemma document_or_404_read [read_only_intros]: "read_only (document_or_404 ten d i)"
  unfolding document_or_404_def by (intro read_only_intros)

lemma create_deal_Inr:
  assumes "create_deal ten a data i ids now s = (Inr d, s')"
  obtains owner ms where "d = new_deal ten owner data i now"
    "owner = or_else (dc_owner data) (actor_id a)"
    "owner = actor_id a \<or> scope_user_ids_for (tenant_id ten) a s = None
       \<and> identities_for (tenant_id ten) [owner] s owner \<noteq> None"
    "validate_links ten (dc_listing data) (dc_lead data) (dc_contact data) s = (Inr (), s)"
    "s' = s\<lparr>deals := deals s @ [d], milestones := milestones s @ ms\<rparr>"
    "ms = (if dc_seed_milestones data then seeded_milestones (tenant_id ten) i ids now else [])"
proof -
  define owner where "owner = or_else (dc_owner data) (actor_id a)"
  from assms have ok: "\<not> (owner \<noteq> actor_id a \<and> scope_user_ids_for (tenant_id ten) a s \<noteq> None)"
    and own: "owner = actor_id a \<or> identities_for (tenant_id ten) [owner] s owner \<noteq> None"
    and links: "validate_links ten (dc_listing data) (dc_lead data) (dc_contact data) s = (Inr (), s)"
    and d: "d = new_deal ten owner data i now"
    and s': "s' = s\<lparr>deals := deals s @ [d], milestones := milestones s @
      (if dc_seed_milestones data then seeded_milestones (tenant_id ten) i ids now else [])\<rparr>"
    unfolding create_deal_def Let_def owner_def [symmetric]
    by (auto simp: read_only_step validate_links_read validate_owner_read ret_def basic_iff
        split: if_splits dest: validate_owner_Inr)
  from that [OF d owner_def _ links s' refl] ok own show thesis by blast
qed

lemma update_deal_Inr:
  assumes "update_deal ten a i p s = (Inr u, s')"
  obtains d owner where
    "deal_get (tenant_id ten) (scope_user_ids_for (tenant_id ten) a s) i s = Some d"
    "owner = deal_owner d \<or> scope_user_ids_for (tenant_id ten) a s = None
       \<and> identities_for (tenant_id ten) [owner] s owner \<noteq> None"
    "patched (du_owner p) (Some (deal_owner d)) = Some owner"
    "s' = s\<lparr>deals := upd_rows (\<lambda>d. deal_id d = i) (patch_deal p owner) (deals s)\<rparr>"
proof -
  from assms obtain d where
    d: "deal_get (tenant_id ten) (scope_user_ids_for (tenant_id ten) a s) i s = Some d"
    unfolding update_deal_def by (subst (asm) andthen_Inr_iff) (auto simp: deal_scope.or_404_iff)
  have id: "deal_id d = i" using deal_scope.fetch_Some [OF d] by simp
  from assms obtain owner where
    o: "patched (du_owner p) (Some (deal_owner d)) = Some owner"
    and chk: "du_owner p = Unset \<or> owner = deal_owner d \<or> scope_user_ids_for (tenant_id ten) a s = None
       \<and> identities_for (tenant_id ten) [owner] s owner \<noteq> None"
    and s': "s' = s\<lparr>deals := upd_rows (\<lambda>d. deal_id d = i) (patch_deal p owner) (deals s)\<rparr>"
    unfolding update_deal_def
    by (auto simp: deal_scope.andthen_or_404 d id andthen_Inr_iff basic_iff check_iff ret_def raise_def
        split: patch.splits if_splits option.splits
        dest!: read_onlyD [OF validate_links_read] validate_owner_Inr
        dest: read_onlyD [OF validate_owner_read])
  from that [OF d _ o s'] chk o show thesis by auto
qed


lemma transition_deal_Inr:
  assumes "transition_deal w ten a i target reason now s = (Inr u, s')"
  obtains d where
    "deal_get (tenant_id ten) (scope_user_ids_for (tenant_id ten) a s) i s = Some d"
    "target = deal_status d \<and> s' = s
     \<or> target \<noteq> deal_status d \<and> target \<in> set (TRANSITIONS (deal_status d))
       \<and> (target = CLOSED_LOST \<longrightarrow> str_given reason)
       \<and> (if target \<in> set CLOSED_STATUSES
          then s' = s\<lparr>deals := upd_rows (\<lambda>d. deal_id d = i) (closed_deal target reason now) (deals s),
                 outbox := outbox s @ [\<lparr>ev_tenant = tenant_id ten, ev_type = EVENT_DEAL_CLOSED,
                   ev_payload = [(''dealId'', JStr (uuid_text w i)),
                     (''outcome'', JStr (deal_status_value target)),
                     (''title'', JStr (deal_title d))]\<rparr>]\<rparr>
          else s' = s\<lparr>deals := upd_rows (\<lambda>d. deal_id d = i) (reopened_deal target) (deals s)\<rparr>)"
proof -
  from assms obtain d where
    d: "deal_get (tenant_id ten) (scope_user_ids_for (tenant_id ten) a s) i s = Some d"
    unfolding transition_deal_def by (subst (asm) andthen_Inr_iff) (auto simp: deal_scope.or_404_iff)
  show thesis
    using assms by (intro that [OF d])
      (auto simp: transition_deal_def deal_scope.andthen_or_404 d ret_def split: if_splits)
qed

lemma delete_deal_Inr:
  assumes "delete_deal bucket ten a i s = (Inr u, s')"
  obtains d where
    "deal_get (tenant_id ten) (scope_user_ids_for (tenant_id ten) a s) i s = Some d"
    "deals s' = del_rows (\<lambda>x. deal_id x = i) (deals s)"
    "milestones s' = del_rows (\<lambda>m. ms_deal m = i) (milestones s)"
    "documents s' = del_rows (\<lambda>x. doc_deal x = i) (documents s)"
    "post_commit s' = post_commit s @
       (if repo_list_documents (tenant_id ten) i s = [] then []
        else [DeleteObjects (map (\<lambda>x. (bucket, doc_storage_key x)) (repo_list_documents (tenant_id ten) i s))])"
proof -
  from assms obtain d where
    d: "deal_get (tenant_id ten) (scope_user_ids_for (tenant_id ten) a s) i s = Some d"
    unfolding delete_deal_def by (subst (asm) andthen_Inr_iff) (auto simp: deal_scope.or_404_iff)
  show thesis
    using assms by (intro that [OF d])
      (auto simp: delete_deal_def deal_scope.andthen_or_404 d ret_def purge_objects_def
        split: if_splits)
qed

definition commissioned :: "commission_update \<Rightarrow> decimal option \<Rightarrow> deal \<Rightarrow> deal" where
  "commissioned c amount x = (case c of
      SetPercentage rate \<Rightarrow> x\<lparr>deal_commission_basis := Some PERCENTAGE,
         deal_commission_rate := Some rate, deal_commission_amount := amount\<rparr>
    | SetFlat flat \<Rightarrow> x\<lparr>deal_commission_basis := Some FLAT,
         deal_commission_rate := None, deal_commission_amount := Some flat\<rparr>)"

lemma set_commission_Inr:
  assumes "set_commission ten a i data s = (Inr u, s')"
  obtains d amount where "actor_role a = ADMIN"
    "deal_get (tenant_id ten) (scope_user_ids_for (tenant_id ten) a s) i s = Some d"
    "s' = s\<lparr>deals := upd_rows (\<lambda>d. deal_id d = i) (commissioned data amount) (deals s)\<rparr>"
    "\<And>rate. data = SetPercentage rate \<Longrightarrow> (case deal_price d of None \<Rightarrow> amount = None
       | Some price \<Rightarrow> \<exists>x. commission_amount price rate = Inr x \<and> amount = Some x)"
proof -
  from assms obtain d where adm: "actor_role a = ADMIN"
    and d: "deal_get (tenant_id ten) (scope_user_ids_for (tenant_id ten) a s) i s = Some d"
    unfolding set_commission_def
    by (auto simp: require_commission_access_def deal_scope.andthen_or_404
        split: if_splits option.splits)
  show thesis
  proof (cases data)
    case (SetPercentage rate)
    with assms adm d show thesis
      by (cases "deal_price d")
        (auto simp: commissioned_def [abs_def] set_commission_def require_commission_access_def deal_scope.andthen_or_404
          andthen_Inr_iff basic_iff intro: that [OF adm d])
  next
    case (SetFlat flat)
    with assms adm d show thesis
      by (intro that [OF adm d, of None])
        (auto simp: commissioned_def [abs_def] set_commission_def require_commission_access_def deal_scope.andthen_or_404)
  qed
qed

text \<open>The handlers of milestones and documents never write the deals themselves.\<close>

lemma deals_kept:
  assumes "preserves (\<lambda>s. deals s = D) m" "deals s = D" "m s = (r, s')"
  shows "deals s' = D"
  using preservesD [OF assms(1) _ assms(3)] assms(2) by simp

lemma deal_or_404_read [read_only_intros]: "read_only (deal_or_404 ten a i)"
  by (rule deal_scope.read)

lemmas deal_reads = read_only_preserves [OF deal_or_404_read]
  read_only_preserves [OF milestone_or_404_read] read_only_preserves [OF document_or_404_read]
  read_only_preserves [OF validate_owner_read] read_only_preserves [OF validate_links_read]

lemma milestone_write_preserves:
  "(\<And>s. I s \<Longrightarrow> I (s\<lparr>milestones := upd_rows (\<lambda>m. ms_id m = i) f (milestones s)\<rparr>)) \<Longrightarrow>
   preserves I (milestone_write i f)"
  "(\<And>s. I s \<Longrightarrow> I (s\<lparr>documents := upd_rows (\<lambda>x. doc_id x = i) g (documents s)\<rparr>)) \<Longrightarrow>
   preserves I (document_write i g)"
  by (auto simp: preserves_def)

lemma milestone_handlers_keep_deals:
  "preserves (\<lambda>s. deals s = D) (add_milestone ten a i title due owner position new_id now)"
  "preserves (\<lambda>s. deals s = D) (update_milestone ten a i j p now)"
  "preserves (\<lambda>s. deals s = D) (delete_milestone ten a i j)"
  "preserves (\<lambda>s. deals s = D) (request_upload w presign ten a i ty filename content n j now)"
  "preserves (\<lambda>s. deals s = D) (confirm_upload stored sha ten a i j)"
  "preserves (\<lambda>s. deals s = D) (delete_document bucket ten a i j)"
  unfolding add_milestone_def update_milestone_def delete_milestone_def request_upload_def
    confirm_upload_def delete_document_def purge_objects_def on_commit_def Let_def
  by (auto intro!: preserves_intros deal_reads milestone_write_preserves
      split: option.splits patch.splits prod.splits)

section \<open>Steps of the module\<close>

inductive deal_step :: "tenant_context \<Rightarrow> actor \<Rightarrow> db \<Rightarrow> db \<Rightarrow> bool" where
  create: "create_deal ten a data i ids now s = (Inr d, s') \<Longrightarrow> i \<notin> deal_id ` set (deals s) \<Longrightarrow>
    deal_step ten a s s'"
| update: "update_deal ten a i p s = (Inr u, s') \<Longrightarrow> deal_step ten a s s'"
| transition: "transition_deal w ten a i target reason now s = (Inr u, s') \<Longrightarrow> deal_step ten a s s'"
| delete: "delete_deal bucket ten a i s = (Inr u, s') \<Longrightarrow> deal_step ten a s s'"
| commission: "set_commission ten a i c s = (Inr u, s') \<Longrightarrow> deal_step ten a s s'"
| milestone_add: "add_milestone ten a i title due owner position j now s = (Inr m, s') \<Longrightarrow>
    deal_step ten a s s'"
| milestone_update: "update_milestone ten a i j mp now s = (Inr u, s') \<Longrightarrow> deal_step ten a s s'"
| milestone_delete: "delete_milestone ten a i j s = (Inr u, s') \<Longrightarrow> deal_step ten a s s'"
| upload: "request_upload w presign ten a i ty filename content n j now s = (Inr r, s') \<Longrightarrow>
    deal_step ten a s s'"
| confirm: "confirm_upload stored sha ten a i j s = (Inr u, s') \<Longrightarrow> deal_step ten a s s'"
| document_delete: "delete_document bucket ten a i j s = (Inr u, s') \<Longrightarrow> deal_step ten a s s'"

text \<open>
  A well-formed deal: the close stamps match the status, a lost deal has its reason and no
  other deal has one, and the commission columns fit the basis.
\<close>

fun commission_fits :: "commission_basis option \<Rightarrow> decimal option \<Rightarrow> decimal option \<Rightarrow> bool" where
  "commission_fits None rate amount \<longleftrightarrow> rate = None \<and> amount = None"
| "commission_fits (Some PERCENTAGE) rate amount \<longleftrightarrow> rate \<noteq> None"
| "commission_fits (Some FLAT) rate amount \<longleftrightarrow> rate = None \<and> amount \<noteq> None"

definition deal_wf :: "deal \<Rightarrow> bool" where
  "deal_wf d \<longleftrightarrow>
     (deal_closed_at d \<noteq> None \<longleftrightarrow> deal_status d \<in> set CLOSED_STATUSES)
   \<and> (deal_status d = CLOSED_LOST \<longrightarrow> str_given (deal_lost_reason d))
   \<and> (deal_lost_reason d \<noteq> None \<longrightarrow> deal_status d = CLOSED_LOST)
   \<and> commission_fits (deal_commission_basis d) (deal_commission_rate d) (deal_commission_amount d)"

definition deal_commission :: "deal \<Rightarrow> commission_basis option \<times> decimal option \<times> decimal option" where
  "deal_commission d = (deal_commission_basis d, deal_commission_rate d, deal_commission_amount d)"

definition same_deal :: "deal \<Rightarrow> deal \<Rightarrow> bool" where
  "same_deal x y \<longleftrightarrow> deal_id x = deal_id y \<and> deal_tenant x = deal_tenant y"

definition same_close :: "deal \<Rightarrow> deal \<Rightarrow> bool" where
  "same_close x y \<longleftrightarrow> deal_status x = deal_status y \<and> deal_closed_at x = deal_closed_at y
     \<and> deal_lost_reason x = deal_lost_reason y"

definition reachable_deal :: "tenant_context \<Rightarrow> actor \<Rightarrow> db \<Rightarrow> deal \<Rightarrow> bool" where
  "reachable_deal ten a s d \<longleftrightarrow> d \<in> set (deals s) \<and> deal_tenant d = tenant_id ten
     \<and> in_scope (scope_user_ids_for (tenant_id ten) a s) (Some (deal_owner d))"

lemma deal_get_reachable:
  "deal_get (tenant_id ten) (scope_user_ids_for (tenant_id ten) a s) i s = Some d \<Longrightarrow>
   reachable_deal ten a s d \<and> deal_id d = i"
  using deal_scope.fetch_Some unfolding reachable_deal_def by blast

lemma deal_edits:
  "same_deal (patch_deal p owner d) d" "same_close (patch_deal p owner d) d"
  "deal_commission (patch_deal p owner d) = deal_commission d"
  "deal_wf (patch_deal p owner d) = deal_wf d"
  "same_deal (closed_deal target reason now d) d"
  "deal_status (closed_deal target reason now d) = target"
  "deal_commission (closed_deal target reason now d) = deal_commission d"
  "same_deal (reopened_deal target d) d" "deal_status (reopened_deal target d) = target"
  "deal_commission (reopened_deal target d) = deal_commission d"
  by (simp_all add: patch_deal_def closed_deal_def reopened_deal_def same_deal_def same_close_def
      deal_commission_def deal_wf_def)

lemma deal_wf_moves:
  "deal_wf d \<Longrightarrow> target \<in> set CLOSED_STATUSES \<Longrightarrow> (target = CLOSED_LOST \<longrightarrow> str_given reason) \<Longrightarrow>
     deal_wf (closed_deal target reason now d)"
  "deal_wf d \<Longrightarrow> target \<notin> set CLOSED_STATUSES \<Longrightarrow> deal_wf (reopened_deal target d)"
  by (auto simp: deal_wf_def closed_deal_def reopened_deal_def CLOSED_STATUSES_def)

lemma deal_step_rows:
  assumes "deal_step ten a s s'"
  obtains (same) "deals s' = deals s"
    | (created) d where "deals s' = deals s @ [d]" "deal_id d \<notin> deal_id ` set (deals s)"
        "deal_tenant d = tenant_id ten" "deal_status d = OPEN" "deal_wf d"
    | (edited) d f where "reachable_deal ten a s d"
        "deals s' = upd_rows (\<lambda>x. deal_id x = deal_id d) f (deals s)"
        "\<And>x. same_deal (f x) x" "\<And>x. same_close (f x) x" "\<And>x. deal_wf x \<Longrightarrow> deal_wf (f x)"
        "\<And>x. actor_role a \<noteq> ADMIN \<Longrightarrow> deal_commission (f x) = deal_commission x"
    | (moved) d target f where "reachable_deal ten a s d"
        "deals s' = upd_rows (\<lambda>x. deal_id x = deal_id d) f (deals s)"
        "target \<in> set (TRANSITIONS (deal_status d))" "\<And>x. deal_status (f x) = target"
        "\<And>x. same_deal (f x) x" "\<And>x. deal_wf x \<Longrightarrow> deal_wf (f x)"
        "\<And>x. deal_commission (f x) = deal_commission x"
    | (deleted) d where "reachable_deal ten a s d"
        "deals s' = del_rows (\<lambda>x. deal_id x = deal_id d) (deals s)"
  using assms
proof (cases rule: deal_step.cases)
  case (create data i ids now d)
  from create_deal_Inr [OF create(1)] obtain owner ms where d: "d = new_deal ten owner data i now"
    and s': "s' = s\<lparr>deals := deals s @ [d], milestones := milestones s @ ms\<rparr>" by metis
  from s' have "deals s' = deals s @ [d]" by simp
  then show thesis
    by (rule created) (use create(2) in \<open>simp_all add: d new_deal_def deal_wf_def CLOSED_STATUSES_def\<close>)
next
  case (update i p u)
  from update_deal_Inr [OF this] obtain d owner where
    d: "deal_get (tenant_id ten) (scope_user_ids_for (tenant_id ten) a s) i s = Some d"
    and s': "s' = s\<lparr>deals := upd_rows (\<lambda>d. deal_id d = i) (patch_deal p owner) (deals s)\<rparr>" by metis
  from deal_get_reachable [OF d] show thesis
    by (intro edited [of d "patch_deal p owner"]) (simp_all add: s' deal_edits)
next
  case (transition w i target reason now u)
  from transition_deal_Inr [OF this] show thesis
  proof cases
    case (1 d)
    from 1(2) show thesis
    proof (elim disjE conjE)
      assume "s' = s"
      then show thesis by (simp add: same)
    next
      assume t: "target \<in> set (TRANSITIONS (deal_status d))" "target = CLOSED_LOST \<longrightarrow> str_given reason"
        and s': "if target \<in> set CLOSED_STATUSES
          then s' = s\<lparr>deals := upd_rows (\<lambda>d. deal_id d = i) (closed_deal target reason now) (deals s),
                 outbox := outbox s @ [\<lparr>ev_tenant = tenant_id ten, ev_type = EVENT_DEAL_CLOSED,
                   ev_payload = [(''dealId'', JStr (uuid_text w i)),
                     (''outcome'', JStr (deal_status_value target)),
                     (''title'', JStr (deal_title d))]\<rparr>]\<rparr>
          else s' = s\<lparr>deals := upd_rows (\<lambda>d. deal_id d = i) (reopened_deal target) (deals s)\<rparr>"
      show thesis
      proof (cases "target \<in> set CLOSED_STATUSES")
        case True
        with s' t deal_get_reachable [OF 1(1)] show thesis
          by (intro moved [of d "closed_deal target reason now" target])
            (auto simp: deal_edits deal_wf_moves)
      next
        case False
        with s' t deal_get_reachable [OF 1(1)] show thesis
          by (intro moved [of d "reopened_deal target" target]) (auto simp: deal_edits deal_wf_moves)
      qed
    qed
  qed
next
  case (delete bucket i u)
  from delete_deal_Inr [OF this] obtain d where
    d: "deal_get (tenant_id ten) (scope_user_ids_for (tenant_id ten) a s) i s = Some d"
    "deals s' = del_rows (\<lambda>x. deal_id x = i) (deals s)" by metis
  with deal_get_reachable [OF d(1)] show thesis by (intro deleted [of d]) auto
next
  case (commission i c u)
  from set_commission_Inr [OF this] obtain d amount where adm: "actor_role a = ADMIN"
    and d: "deal_get (tenant_id ten) (scope_user_ids_for (tenant_id ten) a s) i s = Some d"
    and s': "s' = s\<lparr>deals := upd_rows (\<lambda>d. deal_id d = i) (commissioned c amount) (deals s)\<rparr>"
    by metis
  from deal_get_reachable [OF d] s' adm show thesis
    by (intro edited [of d "commissioned c amount"])
      (auto simp: commissioned_def same_deal_def same_close_def deal_wf_def split: commission_update.splits)
qed (auto intro: same dest: deals_kept [OF milestone_handlers_keep_deals(1) refl]
    deals_kept [OF milestone_handlers_keep_deals(2) refl]
    deals_kept [OF milestone_handlers_keep_deals(3) refl]
    deals_kept [OF milestone_handlers_keep_deals(4) refl]
    deals_kept [OF milestone_handlers_keep_deals(5) refl]
    deals_kept [OF milestone_handlers_keep_deals(6) refl])

section \<open>Invariants of the steps\<close>

definition deals_ok :: "db \<Rightarrow> bool" where
  "deals_ok s \<longleftrightarrow> distinct (map deal_id (deals s)) \<and> (\<forall>d \<in> set (deals s). deal_wf d)"

lemma map_id_upd:
  assumes "\<And>x. same_deal (f x) x" shows "map deal_id (upd_rows P f rows) = map deal_id rows"
  using assms by (intro map_upd_rows) (simp add: same_deal_def)

lemma deal_step_ok:
  assumes "deal_step ten a s s'" "deals_ok s" shows "deals_ok s'"
  using assms(1)
proof (cases rule: deal_step_rows)
  case (created d)
  with assms(2) show ?thesis by (simp add: deals_ok_def)
next
  case (edited d f)
  with assms(2) show ?thesis by (auto simp: deals_ok_def map_id_upd in_upd_rows)
next
  case (moved d target f)
  with assms(2) show ?thesis by (auto simp: deals_ok_def map_id_upd in_upd_rows)
next
  case (deleted d)
  with assms(2) show ?thesis by (auto simp: deals_ok_def del_rows_def distinct_map_filterI)
qed (use assms(2) in \<open>simp add: deals_ok_def\<close>)

text \<open>A step changes only rows the actor can reach: the rest of the table stays as it is.\<close>

lemma filter_upd_other:
  "(\<And>x. x \<in> set rows \<Longrightarrow> P x \<Longrightarrow> \<not> Q x) \<Longrightarrow> (\<And>x. x \<in> set rows \<Longrightarrow> P x \<Longrightarrow> \<not> Q (f x)) \<Longrightarrow>
   filter Q (upd_rows P f rows) = filter Q rows"
  by (induction rows) (auto simp: upd_rows_def)

lemma deal_step_isolated:
  assumes "deal_step ten a s s'" "distinct (map deal_id (deals s))"
  shows "filter (\<lambda>d. deal_tenant d \<noteq> tenant_id ten) (deals s') =
    filter (\<lambda>d. deal_tenant d \<noteq> tenant_id ten) (deals s)"
proof -
  have only: "deal_tenant x = tenant_id ten"
    if "reachable_deal ten a s d" "x \<in> set (deals s)" "deal_id x = deal_id d" for x d
    using that assms(2) distinct_key_eq [of deal_id] unfolding reachable_deal_def by metis
  from assms(1) show ?thesis
  proof (cases rule: deal_step_rows)
    case (edited d f)
    with only show ?thesis by (auto simp: same_deal_def intro!: filter_upd_other)
  next
    case (moved d target f)
    with only show ?thesis by (auto simp: same_deal_def intro!: filter_upd_other)
  next
    case (deleted d)
    with only show ?thesis by (auto simp: del_rows_def intro!: filter_cong)
  qed auto
qed

section \<open>The deal workflow\<close>

definition deal_status_of :: "db \<Rightarrow> uuid \<Rightarrow> deal_status option" where
  "deal_status_of s i = map_option deal_status (find (\<lambda>d. deal_id d = i) (deals s))"

text \<open>A step of any tenant and actor, from a table whose ids are distinct.\<close>

definition any_deal_step :: "db \<Rightarrow> db \<Rightarrow> bool" where
  "any_deal_step s s' \<longleftrightarrow> distinct (map deal_id (deals s)) \<and> (\<exists>ten a. deal_step ten a s s')"

lemma find_edited:
  "(\<And>x. same_deal (f x) x) \<Longrightarrow>
   find (\<lambda>d. deal_id d = i) (upd_rows P f rows) =
     map_option (\<lambda>d. if P d then f d else d) (find (\<lambda>d. deal_id d = i) rows)"
  by (rule find_upd_rows) (simp add: same_deal_def)

lemma find_deleted:
  "find (\<lambda>d. deal_id d = i) (del_rows (\<lambda>x. deal_id x = j) rows) =
     (if i = j then None else find (\<lambda>d. deal_id d = i) rows)"
  by (induction rows) (auto simp: del_rows_def)

interpretation deal_flow: workflow TRANSITIONS OPEN deal_status_of any_deal_step
proof
  fix s s' i x y
  assume "any_deal_step s s'" and st: "deal_status_of s i = Some x" "deal_status_of s' i = Some y"
  then obtain ten a where ids: "distinct (map deal_id (deals s))" and step: "deal_step ten a s s'"
    by (auto simp: any_deal_step_def)
  from st(1) obtain d where d: "find (\<lambda>d. deal_id d = i) (deals s) = Some d" "deal_status d = x"
    by (auto simp: deal_status_of_def)
  from step show "y = x \<or> y \<in> set (TRANSITIONS x)"
  proof (cases rule: deal_step_rows)
    case (created d')
    with d st(2) show ?thesis by (simp add: deal_status_of_def find_app)
  next
    case (edited d' f)
    with d st(2) show ?thesis
      by (auto simp: deal_status_of_def find_edited same_close_def split: if_splits)
  next
    case (moved d' target f)
    have "d = d'" if "deal_id d = deal_id d'"
      using that ids find_in [OF d(1)] moved(1) distinct_key_eq unfolding reachable_deal_def by metis
    with moved d st(2) show ?thesis
      by (auto simp: deal_status_of_def find_edited split: if_splits)
  next
    case (deleted d')
    with d st(2) show ?thesis by (auto simp: deal_status_of_def find_deleted split: if_splits)
  qed (use d st(2) in \<open>simp add: deal_status_of_def\<close>)
next
  fix s s' i y
  assume "any_deal_step s s'" and st: "deal_status_of s i = None" "deal_status_of s' i = Some y"
  then obtain ten a where step: "deal_step ten a s s'" by (auto simp: any_deal_step_def)
  from st(1) have none: "find (\<lambda>d. deal_id d = i) (deals s) = None" by (auto simp: deal_status_of_def)
  from step show "y = OPEN"
  proof (cases rule: deal_step_rows)
    case (created d)
    with none st(2) show ?thesis by (auto simp: deal_status_of_def find_app split: if_splits)
  next
    case (edited d f)
    with none st(2) show ?thesis by (simp add: deal_status_of_def find_edited)
  next
    case (moved d target f)
    with none st(2) show ?thesis by (simp add: deal_status_of_def find_edited)
  next
    case (deleted d)
    with none st(2) show ?thesis by (simp add: deal_status_of_def find_deleted split: if_splits)
  qed (use none st(2) in \<open>simp add: deal_status_of_def\<close>)
qed

section \<open>The list of deals\<close>

type_synonym deal_query = "tenant_context \<times> actor \<times> deal_status option \<times> db"

definition visible_deals :: "deal_query \<Rightarrow> deal list" where
  "visible_deals q = (case q of (ten, a, status, s) \<Rightarrow>
     newest_first deal_key
       (filter (deal_matches (tenant_id ten) (scope_user_ids_for (tenant_id ten) a s) status) (deals s)))"

definition deal_page ::
  "deal_query \<Rightarrow> (instant \<times> uuid) option \<Rightarrow> int \<Rightarrow> deal list \<times> (instant \<times> uuid) cursor option" where
  "deal_page q after n = (case q of (ten, a, status, s) \<Rightarrow>
     (case list_deals ten a status (map_option Keyset after) (Some n) s of
        Inl e \<Rightarrow> ([], None) | Inr (items, next, _) \<Rightarrow> (items, next)))"

definition deal_query_ok :: "deal_query \<Rightarrow> bool" where
  "deal_query_ok q = (case q of (ten, a, status, s) \<Rightarrow> distinct (map deal_id (deals s)))"

lemma decode_keyset_ok: "decode_keyset (map_option Keyset after) = Inr after"
  by (cases after) (simp_all add: decode_keyset_def)

lemma distinct_keys: "distinct (map deal_id rows) \<Longrightarrow> distinct (map deal_key rows)"
  by (auto simp: deal_key_def distinct_map inj_on_def)

lemma list_deals_eq:
  "list_deals ten a status (map_option Keyset after) limit s =
     (case cut_page deal_key (clamp_limit limit) (repo_list_deals (tenant_id ten)
        (scope_user_ids_for (tenant_id ten) a s) status after (clamp_limit limit) s) of
      (items, next) \<Rightarrow> Inr (items, next,
        count_deals (tenant_id ten) (scope_user_ids_for (tenant_id ten) a s) status s))"
  by (simp add: list_deals_def decode_keyset_ok Let_def split: prod.splits)

interpretation deal_pages: keyset_pages deal_key "\<lambda>a b. b < a" deal_query_ok visible_deals deal_page
proof
  fix q :: deal_query assume ok: "deal_query_ok q"
  obtain ten a status s where q: "q = (ten, a, status, s)" by (metis prod_cases4)
  let ?rows = "filter (deal_matches (tenant_id ten) (scope_user_ids_for (tenant_id ten) a s) status) (deals s)"
  from ok have d: "distinct (map deal_key ?rows)"
    by (intro distinct_keys distinct_map_filterI) (simp add: q deal_query_ok_def)
  show "sorted_wrt (\<lambda>a b. b < a) (map deal_key (visible_deals q))"
    using newest_first_sorted [OF d] by (simp add: q visible_deals_def)
  fix after n assume n: "1 \<le> n" "n \<le> MAX_PAGE_SIZE"
  then have "clamp_limit (Some n) = n" by (simp add: clamp_limit_def)
  then show "deal_page q after n = cut_page deal_key n (take (nat (n + 1))
      (filter (\<lambda>r. case after of None \<Rightarrow> True | Some k \<Rightarrow> deal_key r < k) (visible_deals q)))"
    by (simp add: q deal_page_def list_deals_eq visible_deals_def repo_list_deals_def
        newest_first_page split: prod.splits)
qed auto

section \<open>The reminder sweep\<close>

lemma notify_run:
  "notify ten u ty p s = (Inr (), s\<lparr>notifications := notifications s @
     [\<lparr>ntf_tenant = tenant_id ten, ntf_user = u, ntf_type = ty, ntf_payload = p\<rparr>]\<rparr>)"
  by (simp add: notify_def modify_def)

definition milestone_note ::
  "world \<Rightarrow> (date \<Rightarrow> string) \<Rightarrow> tenant_context \<Rightarrow> (uuid \<Rightarrow> user_identity option) \<Rightarrow>
   deal_milestone \<times> deal \<Rightarrow> notification list" where
  "milestone_note w isodate ten identities md = (case md of (m, d) \<Rightarrow>
     (case identities (recipient_of m d) of
        None \<Rightarrow> []
      | Some ident \<Rightarrow> [\<lparr>ntf_tenant = tenant_id ten, ntf_user = recipient_of m d,
          ntf_type = ''milestone_due'', ntf_payload =
          [(''milestoneTitle'', JStr (ms_title m)), (''dealTitle'', JStr (deal_title d)),
           (''dealId'', JStr (uuid_text w (deal_id d))), (''milestoneId'', JStr (uuid_text w (ms_id m))),
           (''dueDate'', JStr (case ms_due_date m of None \<Rightarrow> [] | Some x \<Rightarrow> isodate x)),
           (''email'', JStr (ident_email ident))]\<rparr>]))"

lemma remind_one_run:
  "remind_one w isodate ten ids now md s = (Inr (), s\<lparr>milestones :=
      upd_rows (\<lambda>x. ms_id x = ms_id (fst md)) (\<lambda>x. x\<lparr>ms_reminder_sent_at := Some now\<rparr>) (milestones s),
      notifications := notifications s @ milestone_note w isodate ten ids md\<rparr>)"
  by (simp add: remind_one_def milestone_note_def notify_run ret_def split: option.splits prod.splits)

definition stamp :: "instant \<Rightarrow> uuid list \<Rightarrow> deal_milestone list \<Rightarrow> deal_milestone list" where
  "stamp now ids ms = upd_rows (\<lambda>x. ms_id x \<in> set ids) (\<lambda>x. x\<lparr>ms_reminder_sent_at := Some now\<rparr>) ms"

lemma stamp_step: "stamp now ids (upd_rows (\<lambda>x. ms_id x = i)
    (\<lambda>x. x\<lparr>ms_reminder_sent_at := Some now\<rparr>) ms) = stamp now (i # ids) ms"
  by (simp add: stamp_def upd_rows_def)

lemma remind_all_run:
  "for_each due (remind_one w isodate ten ids now) s = (Inr (), s\<lparr>milestones :=
      stamp now (map (\<lambda>md. ms_id (fst md)) due) (milestones s),
      notifications := notifications s @ concat (map (milestone_note w isodate ten ids) due)\<rparr>)"
proof (induction due arbitrary: s)
  case Nil
  have "stamp now [] (milestones s) = milestones s" by (simp add: stamp_def upd_rows_def)
  then show ?case by (simp add: ret_def)
next
  case (Cons md due)
  then show ?case by (simp add: andthen_def remind_one_run stamp_step)
qed

lemma due_milestones_in:
  "(m, d) \<in> set (due_milestones t today n s) \<Longrightarrow>
     m \<in> set (milestones s) \<and> d \<in> set (deals s) \<and> milestone_due t today m d"
  by (auto simp: due_milestones_def dest!: in_set_takeD)

lemma remind_tenant_run:
  fixes t s today ten
  defines "due \<equiv> due_milestones (tenant_id ten) today BATCH_LIMIT s"
  defines "ids \<equiv> identities_for (tenant_id ten) (map (\<lambda>(m, d). recipient_of m d) due) s"
  shows "remind_tenant w isodate ten today now s =
    (Inr (length (filter (\<lambda>(m, d). ids (recipient_of m d) \<noteq> None) due)), s\<lparr>milestones :=
       stamp now (map (\<lambda>md. ms_id (fst md)) due) (milestones s),
       notifications := notifications s @ concat (map (milestone_note w isodate ten ids) due)\<rparr>)"
proof (cases "due = []")
  case True
  have "stamp now [] (milestones s) = milestones s" by (simp add: stamp_def upd_rows_def)
  with True show ?thesis by (simp add: remind_tenant_def due_def ret_def)
next
  case False
  then show ?thesis
    by (simp add: remind_tenant_def due_def [symmetric] ids_def [symmetric] andthen_def [of "for_each _ _"]
        remind_all_run ret_def)
qed

lemma stamped_not_due:
  assumes "(m, d) \<in> set (due_milestones t today' n' (s\<lparr>milestones := stamp now ids (milestones s),
      notifications := ns\<rparr>))"
  shows "ms_id m \<notin> set ids"
  using due_milestones_in [OF assms] by (auto simp: stamp_def in_upd_rows milestone_due_def)

section \<open>Who sees the commission\<close>

definition without_commission :: "deal \<Rightarrow> deal" where
  "without_commission d = d\<lparr>deal_commission_basis := None, deal_commission_rate := None,
     deal_commission_amount := None\<rparr>"

definition commissions_hidden :: "db \<Rightarrow> db" where
  "commissions_hidden s = s\<lparr>deals := map without_commission (deals s)\<rparr>"

text \<open>An action whose outcome and effects do not depend on the figures.\<close>

definition blind :: "(db, 'a) action \<Rightarrow> bool" where
  "blind m \<longleftrightarrow> (\<forall>s. m (commissions_hidden s) = (fst (m s), commissions_hidden (snd (m s))))"

lemma without_commission_fields [simp]:
  "deal_id (without_commission d) = deal_id d" "deal_tenant (without_commission d) = deal_tenant d"
  "deal_owner (without_commission d) = deal_owner d" "deal_status (without_commission d) = deal_status d"
  "deal_title (without_commission d) = deal_title d" "deal_key (without_commission d) = deal_key d"
  "deal_shape_of (without_commission d) = deal_shape_of d"
  by (simp_all add: without_commission_def deal_key_def deal_shape_of_def)

lemma hidden_frame [simp]:
  "deals (commissions_hidden s) = map without_commission (deals s)"
  "scope_user_ids_for t a (commissions_hidden s) = scope_user_ids_for t a s"
  "listing_exists t i (commissions_hidden s) = listing_exists t i s"
  "lead_exists t i (commissions_hidden s) = lead_exists t i s"
  "contact_exists t i (commissions_hidden s) = contact_exists t i s"
  "identities_for t us (commissions_hidden s) = identities_for t us s"
  by (simp_all add: commissions_hidden_def scope_user_ids_for_def team_scope_user_ids_def
      led_team_member_user_ids_def listing_exists_def lead_exists_def contact_exists_def
      identities_for_def list_active_by_ids_def listing_get_def lead_get_def contact_get_def)

lemma find_without:
  "(\<And>d. P (without_commission d) = P d) \<Longrightarrow>
     find P (map without_commission ds) = map_option without_commission (find P ds)"
  by (induction ds) auto

lemma deal_get_hidden [simp]:
  "deal_get t sc i (commissions_hidden s) = map_option without_commission (deal_get t sc i s)"
  unfolding deal_get_def hidden_frame by (rule find_without) simp

lemma blind_simple:
  "blind (ret x)" "blind (raise e)" "blind (check b e)"
  "(\<And>s. f (commissions_hidden s) = commissions_hidden (f s)) \<Longrightarrow> blind (modify f)"
  by (auto simp: blind_def ret_def raise_def check_def gets_def modify_def)

lemma blind_gets: "blind (gets f) \<longleftrightarrow> (\<forall>s. f (commissions_hidden s) = f s)"
  by (auto simp: blind_def gets_def)

lemma blind_andthen: "blind m \<Longrightarrow> (\<And>x. blind (f x)) \<Longrightarrow> blind (andthen m f)"
  unfolding blind_def andthen_def by (auto split: prod.splits sum.splits)

text \<open>After the lookup of a deal: what follows may use the row, but not its figures.\<close>

lemma blind_deal:
  assumes "\<And>d. blind (f d)" and "\<And>d. f (without_commission d) = f d"
  shows "blind (andthen (deal_or_404 ten a i) f)"
  using assms unfolding blind_def deal_scope.andthen_or_404
  by (auto split: option.splits)

lemma blind_deal_write:
  "(\<And>d. f (without_commission d) = without_commission (f d)) \<Longrightarrow> blind (deal_write i f)"
  unfolding deal_write_def by (rule blind_simple)
    (simp add: commissions_hidden_def upd_rows_def)

lemma blind_links: "blind (validate_links ten l d c)" "blind (validate_owner ten u)"
  unfolding validate_links_def validate_owner_def
  by (auto intro!: blind_andthen blind_simple simp: blind_gets split: option.splits)

lemma blind_create: "blind (create_deal ten a data i ids now)"
  unfolding create_deal_def Let_def
  by (auto intro!: blind_andthen blind_simple blind_links
      simp: blind_gets)
    (simp_all add: commissions_hidden_def without_commission_def new_deal_def)

lemma blind_update: "blind (update_deal ten a i p)"
  unfolding update_deal_def
  by (rule blind_deal) (auto intro!: blind_andthen blind_simple blind_links blind_deal_write
      simp: blind_gets patch_deal_def without_commission_def split: patch.splits option.splits)

lemma blind_transition: "blind (transition_deal w ten a i target reason now)"
  unfolding transition_deal_def
  by (rule blind_deal) (auto intro!: blind_andthen blind_simple blind_deal_write
      simp: closed_deal_def reopened_deal_def without_commission_def emit_event_def commissions_hidden_def)

lemma blind_saved:
  assumes "\<And>d. blind (f d)" and "\<And>d. f (without_commission d) = f d"
  shows "blind (andthen (saved_deal i) f)"
  using assms unfolding blind_def saved_deal_def
  by (auto simp: andthen_def gets_def find_without ret_def raise_def split: option.splits)

lemma deal_out_plain: "actor_role a \<noteq> ADMIN \<Longrightarrow> deal_out a d = DealOut (deal_shape_of d)"
  by (simp add: deal_out_def can_see_commission_def)

lemma newest_first_hidden:
  "newest_first deal_key (map without_commission ds) = map without_commission (newest_first deal_key ds)"
proof -
  have "sort_key deal_key (map without_commission ds) = map without_commission (sort_key deal_key ds)"
  proof (induction ds)
    case (Cons d ds)
    have "insort_key deal_key (without_commission d) (map without_commission xs) =
        map without_commission (insort_key deal_key d xs)" for xs
      by (induction xs) auto
    with Cons show ?case by simp
  qed simp
  then show ?thesis by (simp add: newest_first_def rev_map)
qed

lemma cut_page_hidden:
  assumes "1 \<le> n"
  shows "cut_page deal_key n (map without_commission rows) =
    (map without_commission (fst (cut_page deal_key n rows)), snd (cut_page deal_key n rows))"
proof -
  have "take (nat n) rows \<noteq> []" if "\<not> int (length rows) \<le> n" using that assms by auto
  then show ?thesis by (simp add: cut_page_def Let_def take_map last_map)
qed

lemma list_deals_hidden:
  "map_sum id (\<lambda>(items, r). (map deal_shape_of items, r)) (list_deals ten a status c limit (commissions_hidden s))
   = map_sum id (\<lambda>(items, r). (map deal_shape_of items, r)) (list_deals ten a status c limit s)"
proof (cases "decode_keyset c")
  case (Inr after)
  have f: "filter P (map without_commission ds) = map without_commission (filter P ds)"
    if "\<And>d. P (without_commission d) = P d" for P ds
    using that by (simp add: filter_map comp_def)
  have p: "past deal_key after (without_commission d) = past deal_key after d"
    "deal_matches t sc status (without_commission d) = deal_matches t sc status d" for d t sc
    by (simp_all add: past_def deal_matches_def deal_key_def without_commission_def split: option.splits)
  have "1 \<le> clamp_limit limit" using clamp_limit_bounds by blast
  with Inr show ?thesis
    by (auto simp: list_deals_def Let_def repo_list_deals_def count_deals_def fetch_page_def
        f p newest_first_hidden take_map cut_page_hidden comp_def split: prod.splits)
qed (simp add: list_deals_def)

lemma blind_list:
  assumes "actor_role a \<noteq> ADMIN"
  shows "blind (list_deals_route ten a status c limit)"
proof -
  have "map_sum id (\<lambda>(items, next, n). (map (deal_out a) items, next, n)) (list_deals ten a status c limit s) =
      map_sum id (\<lambda>(xs, r). (map DealOut xs, r))
        (map_sum id (\<lambda>(items, r). (map deal_shape_of items, r)) (list_deals ten a status c limit s))" for s
    using deal_out_plain [OF assms] by (cases "list_deals ten a status c limit s") (auto simp: comp_def)
  then have "map_sum id (\<lambda>(items, next, n). (map (deal_out a) items, next, n))
        (list_deals ten a status c limit (commissions_hidden s)) =
      map_sum id (\<lambda>(items, next, n). (map (deal_out a) items, next, n)) (list_deals ten a status c limit s)" for s
    by (simp only: list_deals_hidden)
  moreover have "andthen (gets (list_deals ten a status c limit)) (\<lambda>r.
      andthen (lift_res r) (\<lambda>(items, next, total). ret (map (deal_out a) items, next, total))) =
    (\<lambda>s. (map_sum id (\<lambda>(items, next, n). (map (deal_out a) items, next, n))
        (list_deals ten a status c limit s), s))"
    by (auto simp: andthen_def gets_def lift_res_def ret_def fun_eq_iff split: sum.splits)
  ultimately have "blind (andthen (gets (list_deals ten a status c limit)) (\<lambda>r.
      andthen (lift_res r) (\<lambda>(items, next, total). ret (map (deal_out a) items, next, total))))"
    by (simp add: blind_def)
  then show ?thesis unfolding list_deals_route_def deal_guard_def
    by (rule blind_andthen [OF blind_simple(3)])
qed

lemma blind_route:
  assumes "actor_role a \<noteq> ADMIN"
  shows "blind (deal_route w ten a now req)"
proof -
  note plain = deal_out_plain [OF assms]
  have refused: "get_deal_with_commission ten a i = raise (PermissionDeniedError
        ''Only an admin can view or set commission figures.'')"
    "set_commission ten a i c = raise (PermissionDeniedError
        ''Only an admin can view or set commission figures.'')" for i c
    using assms by (auto simp: get_deal_with_commission_def set_commission_def
        require_commission_access_def check_def andthen_def raise_def)
  have stop: "andthen (raise e) (f :: 'b \<Rightarrow> (db, 'c) action) = raise e" for e f
    by (simp add: andthen_def raise_def fun_eq_iff)
  show ?thesis
    by (cases req) (auto simp: create_deal_route_def get_deal_route_def update_deal_route_def
        transition_deal_route_def get_commission_route_def set_commission_route_def deal_guard_def
        plain refused stop intro!: blind_andthen blind_simple blind_list [OF assms] blind_create blind_update
        blind_transition blind_deal blind_saved)
qed

lemma route_plain:
  assumes "actor_role a \<noteq> ADMIN" and "deal_route w ten a now req s = (Inr xs, s')" and "x \<in> set xs"
  shows "\<exists>y. x = DealOut y"
  using assms(2,3) deal_out_plain [OF assms(1)] assms(1)
  by (cases req) (auto simp: create_deal_route_def get_deal_route_def update_deal_route_def
      list_deals_route_def transition_deal_route_def get_commission_route_def set_commission_route_def
      get_deal_with_commission_def set_commission_def require_commission_access_def
      andthen_Inr_iff ret_def raise_def check_def split: if_splits)

section \<open>Sample runs\<close>

definition sample_deal :: deal_create where
  "sample_deal = \<lparr>dc_title = ''Villa'', dc_listing = None, dc_lead = None, dc_contact = None,
     dc_owner = Some 11, dc_price = Some (Dec 100000000 (-2)), dc_currency = ''DZD'', dc_notes = None,
     dc_seed_milestones = True\<rparr>"

definition sample_opened :: "(error + deal) \<times> db" where
  "sample_opened = create_deal sample_tenant sample_admin sample_deal 7 (\<lambda>n. 20 + n) 0 sample_db"

definition sample_lost :: "(error + unit) \<times> db" where
  "sample_lost = transition_deal sample_world sample_tenant sample_agent 7 CLOSED_LOST
     (Some ''financing'') 9 (snd sample_opened)"

lemma sample_opened_step: "any_deal_step sample_db (snd sample_opened)"
proof -
  have "\<not> isl (fst sample_opened)" by code_simp
  from Inr_run [OF this] have "create_deal sample_tenant sample_admin sample_deal 7 (\<lambda>n. 20 + n) 0 sample_db
      = (Inr (projr (fst sample_opened)), snd sample_opened)"
    by (simp only: sample_opened_def [symmetric])
  then have "deal_step sample_tenant sample_admin sample_db (snd sample_opened)"
    by (rule deal_step.create) (simp add: sample_db_def empty_db_def)
  moreover have "distinct (map deal_id (deals sample_db))" by code_simp
  ultimately show ?thesis unfolding any_deal_step_def by blast
qed

lemma sample_lost_run: "transition_deal sample_world sample_tenant sample_agent 7 CLOSED_LOST
     (Some ''financing'') 9 (snd sample_opened) = (Inr (), snd sample_lost)"
proof -
  have "\<not> isl (fst sample_lost)" by code_simp
  from unit_run [OF this] show ?thesis by (simp only: sample_lost_def [symmetric])
qed

lemma sample_lost_step: "deal_step sample_tenant sample_agent (snd sample_opened) (snd sample_lost)"
  by (rule deal_step.transition [OF sample_lost_run])

lemma sample_distinct: "distinct (map deal_id (deals (snd sample_opened)))"
  "distinct (map deal_id (deals (snd sample_lost)))"
  by code_simp+

lemma sample_deal_run: "deal_flow.run sample_db (snd sample_lost)"
  using deal_flow.more [OF deal_flow.more [OF deal_flow.start sample_opened_step]]
    sample_lost_step sample_distinct(1) by (auto simp: any_deal_step_def)

section \<open>Properties\<close>

lemma run_deals_ok: "deal_flow.run s s' \<Longrightarrow> deals_ok s \<Longrightarrow> deals_ok s'"
  by (induction rule: deal_flow.run.induct) (auto simp: any_deal_step_def deal_step_ok)

text \<open>
  C2: after any sequence of successful calls by any tenants and actors, starting from a table
  of well-formed deals, every deal is well-formed: its closing time is set exactly when it is
  closed, a lost deal has a reason and only a lost deal has one, its commission columns fit its
  basis; and no two deals share an id.
\<close>

theorem deals_stay_well_formed:
  assumes "deals_ok s" and "deal_flow.run s s'"
  shows "deals_ok s'"
  by (rule run_deals_ok [OF assms(2,1)])

theorem deals_stay_well_formed_witness:
  "map deal_status (deals (snd sample_lost)) = [CLOSED_LOST]
   \<and> list_all deal_wf (deals (snd sample_lost))"
proof
  show "map deal_status (deals (snd sample_lost)) = [CLOSED_LOST]" by code_simp
  have "deals_ok sample_db" by (simp add: deals_ok_def sample_db_def empty_db_def)
  from deals_stay_well_formed [OF this sample_deal_run]
  show "list_all deal_wf (deals (snd sample_lost))" by (simp add: deals_ok_def list_all_iff)
qed

lemma closed_step:
  assumes step: "any_deal_step s s'" and d: "find (\<lambda>d. deal_id d = i) (deals s) = Some d"
    and closed: "deal_status d \<in> set CLOSED_STATUSES"
    and kept: "find (\<lambda>d. deal_id d = i) (deals s') = Some d'"
  shows "same_close d' d"
proof -
  from step obtain ten a where ids: "distinct (map deal_id (deals s))" and st: "deal_step ten a s s'"
    by (auto simp: any_deal_step_def)
  from st show ?thesis
  proof (cases rule: deal_step_rows)
    case (created e)
    with d kept show ?thesis by (simp add: find_app same_close_def)
  next
    case (edited e f)
    with d kept show ?thesis by (auto simp: find_edited same_close_def split: if_splits)
  next
    case (moved e target f)
    have "d = e" if "deal_id d = deal_id e"
      using that ids find_in [OF d] moved(1) distinct_key_eq unfolding reachable_deal_def by metis
    with moved d kept closed show ?thesis
      by (auto simp: find_edited same_close_def CLOSED_STATUSES_def TRANSITIONS_def split: if_splits)
  next
    case (deleted e)
    with d kept show ?thesis by (auto simp: find_deleted same_close_def split: if_splits)
  qed (use d kept in \<open>simp add: same_close_def\<close>)
qed

text \<open>
  C20: closing a deal is final: as long as the row is not deleted, no sequence of successful
  calls changes its status, its closing time or its lost reason again.
\<close>

theorem closed_deal_is_frozen:
  assumes "deal_flow.kept_run i s s'"
    and "find (\<lambda>d. deal_id d = i) (deals s) = Some d" and "deal_status d \<in> set CLOSED_STATUSES"
  shows "\<exists>d'. find (\<lambda>d. deal_id d = i) (deals s') = Some d' \<and> same_close d' d"
  using assms
proof (induction rule: deal_flow.kept_run.induct)
  case (kept_start s i)
  then show ?case by (simp add: same_close_def)
next
  case (kept_more i s s' s'')
  then obtain d' where d': "find (\<lambda>d. deal_id d = i) (deals s') = Some d'" "same_close d' d" by blast
  from kept_more.hyps(3) obtain d'' where d'': "find (\<lambda>d. deal_id d = i) (deals s'') = Some d''"
    by (auto simp: deal_status_of_def)
  have "deal_status d' \<in> set CLOSED_STATUSES" using d'(2) kept_more.prems by (simp add: same_close_def)
  from closed_step [OF kept_more.hyps(2) d'(1) this d''] d'(2) d'' show ?case
    by (auto simp: same_close_def)
qed

definition sample_reprice :: deal_update where
  "sample_reprice = \<lparr>du_title = Unset, du_price = SetTo (Some (Dec 200000000 (-2))), du_currency = Unset,
     du_owner = Unset, du_listing = Unset, du_lead = Unset, du_contact = Unset, du_notes = Unset\<rparr>"

definition sample_repriced :: "(error + unit) \<times> db" where
  "sample_repriced = update_deal sample_tenant sample_agent 7 sample_reprice (snd sample_lost)"

lemma sample_repriced_step:
  "deal_step sample_tenant sample_agent (snd sample_lost) (snd sample_repriced)"
proof -
  have "\<not> isl (fst sample_repriced)" by code_simp
  from Inr_run [OF this] have "update_deal sample_tenant sample_agent 7 sample_reprice (snd sample_lost)
      = (Inr (projr (fst sample_repriced)), snd sample_repriced)"
    by (simp only: sample_repriced_def [symmetric])
  then show ?thesis by (rule deal_step.update)
qed

theorem closed_deal_is_frozen_witness:
  "map deal_price (deals (snd sample_repriced)) = [Some (Dec 200000000 (-2))]
   \<and> (\<exists>d. find (\<lambda>d. deal_id d = 7) (deals (snd sample_repriced)) = Some d
        \<and> deal_status d = CLOSED_LOST \<and> deal_closed_at d = Some 9)"
proof
  show "map deal_price (deals (snd sample_repriced)) = [Some (Dec 200000000 (-2))]" by code_simp
  have "map_option (\<lambda>d. (deal_status d, deal_closed_at d))
      (find (\<lambda>d. deal_id d = 7) (deals (snd sample_lost))) = Some (CLOSED_LOST, Some 9)" by code_simp
  then obtain d where d: "find (\<lambda>d. deal_id d = 7) (deals (snd sample_lost)) = Some d"
    "deal_status d = CLOSED_LOST" "deal_closed_at d = Some 9" by auto
  have "deal_status_of (snd sample_repriced) 7 = Some CLOSED_LOST" by code_simp
  with d sample_repriced_step sample_distinct(2)
  have "deal_flow.kept_run 7 (snd sample_lost) (snd sample_repriced)"
    by (intro deal_flow.kept_more [OF deal_flow.kept_start])
      (auto simp: deal_status_of_def any_deal_step_def)
  from closed_deal_is_frozen [OF this d(1)] d
  show "\<exists>d. find (\<lambda>d. deal_id d = 7) (deals (snd sample_repriced)) = Some d
        \<and> deal_status d = CLOSED_LOST \<and> deal_closed_at d = Some 9"
    by (auto simp: CLOSED_STATUSES_def same_close_def)
qed

text \<open>
  C21: a successful call touches only deals of its own tenant that the actor's scope holds: every
  other row is still there unchanged, and the other tenants' deals are exactly the same.
\<close>

theorem deals_isolated:
  assumes "deal_step ten a s s'" and "distinct (map deal_id (deals s))"
  shows "(\<forall>d \<in> set (deals s). \<not> reachable_deal ten a s d \<longrightarrow> d \<in> set (deals s'))
    \<and> filter (\<lambda>d. deal_tenant d \<noteq> tenant_id ten) (deals s') =
      filter (\<lambda>d. deal_tenant d \<noteq> tenant_id ten) (deals s)"
proof (rule conjI [OF _ deal_step_isolated [OF assms]], intro ballI impI)
  fix d assume d: "d \<in> set (deals s)" "\<not> reachable_deal ten a s d"
  have other: "deal_id d \<noteq> deal_id e" if "reachable_deal ten a s e" for e
    using that d assms(2) distinct_key_eq [of deal_id] unfolding reachable_deal_def by metis
  from assms(1) show "d \<in> set (deals s')"
    by (cases rule: deal_step_rows) (use d(1) other in \<open>simp_all add: upd_rows_other\<close>)
qed

definition sample_owner_deal :: deal_create where
  "sample_owner_deal = sample_deal\<lparr>dc_owner := None\<rparr>"

definition sample_two_deals :: "(error + deal) \<times> db" where
  "sample_two_deals = create_deal sample_tenant sample_admin sample_owner_deal 8 (\<lambda>n. 30 + n) 1
     (snd sample_opened)"

definition sample_agent_close :: "(error + unit) \<times> db" where
  "sample_agent_close = transition_deal sample_world sample_tenant sample_agent 7 CLOSED_WON None 9
     (snd sample_two_deals)"

lemma sample_agent_close_run: "transition_deal sample_world sample_tenant sample_agent 7 CLOSED_WON
     None 9 (snd sample_two_deals) = (Inr (), snd sample_agent_close)"
proof -
  have "\<not> isl (fst sample_agent_close)" by code_simp
  from unit_run [OF this] show ?thesis by (simp only: sample_agent_close_def [symmetric])
qed

theorem deals_isolated_witness:
  "\<exists>d. deal_id d = 8 \<and> d \<in> set (deals (snd sample_two_deals))
     \<and> \<not> reachable_deal sample_tenant sample_agent (snd sample_two_deals) d
     \<and> d \<in> set (deals (snd sample_agent_close))"
proof -
  let ?s = "snd sample_two_deals"
  have ids: "distinct (map deal_id (deals ?s))" by code_simp
  have step: "deal_step sample_tenant sample_agent ?s (snd sample_agent_close)"
    by (rule deal_step.transition [OF sample_agent_close_run])
  have "map_option (\<lambda>d. in_scope (scope_user_ids_for (tenant_id sample_tenant) sample_agent ?s)
      (Some (deal_owner d))) (find (\<lambda>d. deal_id d = 8) (deals ?s)) = Some False" by code_simp
  then obtain d where "find (\<lambda>d. deal_id d = 8) (deals ?s) = Some d"
    "\<not> reachable_deal sample_tenant sample_agent ?s d" by (auto simp: reachable_deal_def)
  with find_in deals_isolated [OF step ids] show ?thesis by fast
qed

text \<open>
  C22: commission figures are the admin's. Over every route that answers with deals, the answer
  to any other role holds the plain shape only, with no commission keys, and is the same
  answer that the route would give if no deal had a commission: the figures reach neither the
  body nor the choice, order or paging of the rows. The commission read and write are refused
  before the deal is looked up, and nothing such a role can successfully do moves the commission
  columns of any deal.
\<close>

theorem commission_is_admin_only:
  assumes "actor_role a \<noteq> ADMIN"
  shows "fst (deal_route w ten a now req s) = fst (deal_route w ten a now req (commissions_hidden s))
    \<and> (fst (deal_route w ten a now req s) = Inr xs \<longrightarrow> x \<in> set xs \<longrightarrow> (\<exists>shape. x = DealOut shape))
    \<and> get_deal_with_commission ten a i s =
      (Inl (PermissionDeniedError ''Only an admin can view or set commission figures.''), s)
    \<and> set_commission ten a i c s =
      (Inl (PermissionDeniedError ''Only an admin can view or set commission figures.''), s)
    \<and> (deal_step ten a s s' \<longrightarrow> deals_ok s \<longrightarrow> d \<in> set (deals s) \<longrightarrow> d' \<in> set (deals s') \<longrightarrow>
         deal_id d' = deal_id d \<longrightarrow> deal_commission d' = deal_commission d)"
proof (intro conjI impI)
  show "fst (deal_route w ten a now req s) = fst (deal_route w ten a now req (commissions_hidden s))"
    using blind_route [OF assms] by (simp add: blind_def)
  show "\<exists>shape. x = DealOut shape" if "fst (deal_route w ten a now req s) = Inr xs" "x \<in> set xs"
    using route_plain [OF assms _ that(2)] that(1) by (metis prod.collapse)
  show "get_deal_with_commission ten a i s =
      (Inl (PermissionDeniedError ''Only an admin can view or set commission figures.''), s)"
    "set_commission ten a i c s =
      (Inl (PermissionDeniedError ''Only an admin can view or set commission figures.''), s)"
    using assms by (simp_all add: get_deal_with_commission_def set_commission_def
        require_commission_access_def)
next
  assume st: "deal_step ten a s s'" "deals_ok s"
    and d: "d \<in> set (deals s)" "d' \<in> set (deals s')" "deal_id d' = deal_id d"
  from st(2) have uniq: "x = d" if "x \<in> set (deals s)" "deal_id x = deal_id d" for x
    using that d(1) distinct_key_eq unfolding deals_ok_def by metis
  from st(1) show "deal_commission d' = deal_commission d"
  proof (cases rule: deal_step_rows)
    case (created e)
    with d uniq show ?thesis by (auto simp: image_iff)
  next
    case (edited e f)
    with d(2,3) assms have "\<exists>x \<in> set (deals s). deal_id x = deal_id d \<and> deal_commission d' = deal_commission x"
      by (auto simp: in_upd_rows same_deal_def)
    with uniq show ?thesis by blast
  next
    case (moved e target f)
    with d(2,3) have "\<exists>x \<in> set (deals s). deal_id x = deal_id d \<and> deal_commission d' = deal_commission x"
      by (auto simp: in_upd_rows same_deal_def)
    with uniq show ?thesis by blast
  next
    case (deleted e)
    with d(2,3) uniq show ?thesis by auto
  qed (use d uniq in auto)
qed

theorem commission_is_admin_only_witness:
  "get_deal_with_commission sample_tenant sample_agent 7 (snd sample_opened) =
     (Inl (PermissionDeniedError ''Only an admin can view or set commission figures.''),
      snd sample_opened)
   \<and> map_sum id (map (\<lambda>r. case r of DealOut x \<Rightarrow> Some (out_id x) | _ \<Rightarrow> None))
       (fst (deal_route sample_world sample_tenant sample_agent 9 (ListDeals None None None)
         (snd sample_opened))) = Inr [Some 7]"
proof
  have a: "actor_role sample_agent \<noteq> ADMIN" by (simp add: sample_agent_def)
  from commission_is_admin_only [OF this] show "get_deal_with_commission sample_tenant sample_agent 7 (snd sample_opened) =
     (Inl (PermissionDeniedError ''Only an admin can view or set commission figures.''),
      snd sample_opened)" by blast
qed code_simp

text \<open>An admin does get the figures of every deal the list answers with.\<close>

lemma admin_sees_commission:
  "actor_role a = ADMIN \<Longrightarrow> list_deals ten a status c n s = Inr (ds, cursor, n') \<Longrightarrow>
     deal_route w ten a now (ListDeals status c n) s = (Inr (map with_commission_out ds), s)"
  by (simp add: list_deals_route_def deal_guard_def has_permission_def ROLE_PERMISSIONS_def
      andthen_def gets_def lift_res_def ret_def deal_out_def [abs_def] can_see_commission_def check_def)

text \<open>
  C26: following the cursors of the deal list, with any page size the API accepts, visits every
  deal the actor may see exactly once, newest first, and ends; a page never repeats what the
  cursor has passed.
\<close>

theorem deal_list_complete:
  assumes "distinct (map deal_id (deals s))" and "1 \<le> n" and "n \<le> MAX_PAGE_SIZE"
    and "length (deals s) < fuel"
  shows "deal_pages.walk (ten, a, status, s) fuel n None = visible_deals (ten, a, status, s)
    \<and> set (visible_deals (ten, a, status, s)) = {d \<in> set (deals s).
        reachable_deal ten a s d \<and> (status = None \<or> status = Some (deal_status d))}"
proof
  have "length (visible_deals (ten, a, status, s)) \<le> length (deals s)"
    by (simp add: visible_deals_def)
  with assms show "deal_pages.walk (ten, a, status, s) fuel n None = visible_deals (ten, a, status, s)"
    by (intro deal_pages.walk_all) (simp_all add: deal_query_ok_def)
qed (auto simp: visible_deals_def deal_matches_def reachable_deal_def)

theorem deal_list_complete_witness:
  "map deal_id (deal_pages.walk (sample_tenant, sample_admin, None, snd sample_two_deals) 5 1 None) = [8, 7]"
proof -
  have "distinct (map deal_id (deals (snd sample_two_deals)))" "length (deals (snd sample_two_deals)) < 5"
    by code_simp+
  moreover have "map deal_id (visible_deals (sample_tenant, sample_admin, None, snd sample_two_deals)) = [8, 7]"
    by code_simp
  ultimately show ?thesis using deal_list_complete [of "snd sample_two_deals" 1 5]
    by (simp add: MAX_PAGE_SIZE_def)
qed





text \<open>
  a percentage commission is the deal's price times the rate, rounded half-up to the cent,
  and a later change of the price leaves that amount as it was: the stored figure belongs to
  the price at the time the commission was set.
\<close>

lemma commission_not_recomputed:
  assumes "set_commission ten a i (SetPercentage rate) s = (Inr u, s1)"
    and "update_deal ten b i p s1 = (Inr v, s2)"
    and "deal_get (tenant_id ten) (scope_user_ids_for (tenant_id ten) a s) i s = Some d"
    and "deal_price d = Some price"
  shows "\<exists>amount. commission_amount price rate = Inr amount
    \<and> (\<forall>x \<in> set (deals s2). deal_id x = i \<longrightarrow> deal_commission x = (Some PERCENTAGE, Some rate, Some amount))"
  using assms(1)
proof (rule set_commission_Inr)
  fix d' amount
  assume d': "deal_get (tenant_id ten) (scope_user_ids_for (tenant_id ten) a s) i s = Some d'"
    and s1: "s1 = s\<lparr>deals := upd_rows (\<lambda>d. deal_id d = i) (commissioned (SetPercentage rate) amount) (deals s)\<rparr>"
    and am: "\<And>r. SetPercentage rate = SetPercentage r \<Longrightarrow> (case deal_price d' of None \<Rightarrow> amount = None
       | Some price \<Rightarrow> \<exists>x. commission_amount price r = Inr x \<and> amount = Some x)"
  from d' assms(3) have "d' = d" by simp
  with am [OF refl] assms(4) obtain x where x: "commission_amount price rate = Inr x" "amount = Some x"
    by auto
  from assms(2) obtain owner where
    s2: "deals s2 = upd_rows (\<lambda>d. deal_id d = i) (patch_deal p owner) (deals s1)"
    by (rule update_deal_Inr) (rule that, simp)
  have "deal_commission y = (Some PERCENTAGE, Some rate, Some x)"
    if y: "y \<in> set (deals s2)" "deal_id y = i" for y
  proof -
    from y(1) s2 obtain z where z: "z \<in> set (deals s1)" "y = (if deal_id z = i then patch_deal p owner z else z)"
      by (auto simp: set_upd_rows)
    have zi: "deal_id z = i" using z(2) y(2) by (simp split: if_splits)
    have "set (deals s1) = (\<lambda>v. if deal_id v = i then commissioned (SetPercentage rate) amount v else v) ` set (deals s)"
      by (simp add: s1 set_upd_rows)
    with z(1) obtain v where v: "z = (if deal_id v = i then commissioned (SetPercentage rate) amount v else v)"
      by blast
    have "deal_id v = i" using v zi by (simp split: if_splits)
    with z(2) zi v have "deal_commission y = deal_commission (commissioned (SetPercentage rate) amount v)"
      by (simp add: deal_edits)
    then show ?thesis by (simp add: commissioned_def deal_commission_def x(2))
  qed
  with x(1) show ?thesis by blast
qed

definition sample_rated :: db where
  "sample_rated = (snd sample_opened)\<lparr>deals := upd_rows (\<lambda>x. deal_id x = 7)
     (\<lambda>x. x\<lparr>deal_commission_basis := Some PERCENTAGE, deal_commission_rate := Some (Dec 2500 (-3)),
        deal_commission_amount := Some (Dec 2500000 (-2))\<rparr>) (deals (snd sample_opened))\<rparr>"

definition sample_rate_repriced :: "(error + unit) \<times> db" where
  "sample_rate_repriced = update_deal sample_tenant sample_agent 7 sample_reprice sample_rated"

lemma commission_not_recomputed_at_work:
  "map deal_price (deals (snd sample_rate_repriced)) = [Some (Dec 200000000 (-2))]
   \<and> map deal_commission (deals (snd sample_rate_repriced)) =
       [(Some PERCENTAGE, Some (Dec 2500 (-3)), Some (Dec 2500000 (-2)))]"
proof
  show "map deal_price (deals (snd sample_rate_repriced)) = [Some (Dec 200000000 (-2))]" by code_simp
  have "map_option deal_price (deal_get (tenant_id sample_tenant) (scope_user_ids_for
      (tenant_id sample_tenant) sample_admin (snd sample_opened)) 7 (snd sample_opened)) =
      Some (Some (Dec 100000000 (-2)))" by code_simp
  then obtain d where d: "deal_get (tenant_id sample_tenant) (scope_user_ids_for
      (tenant_id sample_tenant) sample_admin (snd sample_opened)) 7 (snd sample_opened) = Some d"
      "deal_price d = Some (Dec 100000000 (-2))" by auto
  have am: "commission_amount (Dec 100000000 (-2)) (Dec 2500 (-3)) = Inr (Dec 2500000 (-2))"
    using commission_exact_nat [of 100000000 2500] by simp
  have r: "set_commission sample_tenant sample_admin 7 (SetPercentage (Dec 2500 (-3)))
      (snd sample_opened) = (Inr (), sample_rated)"
    using d am by (simp add: set_commission_def require_commission_access_def sample_admin_def
        deal_scope.andthen_or_404 sample_rated_def andthen_assoc)
  have "\<not> isl (fst sample_rate_repriced)" by code_simp
  from unit_run [OF this] have p: "update_deal sample_tenant sample_agent 7 sample_reprice
      sample_rated = (Inr (), snd sample_rate_repriced)"
    by (simp only: sample_rate_repriced_def [symmetric])
  have "map deal_id (deals (snd sample_rate_repriced)) = [7]" by code_simp
  with commission_not_recomputed [OF r p d] am
  show "map deal_commission (deals (snd sample_rate_repriced)) =
       [(Some PERCENTAGE, Some (Dec 2500 (-3)), Some (Dec 2500000 (-2)))]"
    by (auto simp: map_eq_Cons_conv)
qed

section \<open>The upload and the sweep\<close>

text \<open>
  C27: confirming an upload whose object is missing answers 409, and the request leaves no trace:
  the \<open>failed\<close> status that the handler writes is undone with the transaction, so the document
  stays pending and can be confirmed again; with the object there, the document becomes ready
  with the object's size and digest and no second confirmation is accepted.
\<close>

lemma scope_frame [simp]:
  "scope_user_ids_for t a (s\<lparr>documents := x\<rparr>) = scope_user_ids_for t a s"
  "scope_user_ids_for t a (s\<lparr>post_commit := y\<rparr>) = scope_user_ids_for t a s"
  by (simp_all add: scope_user_ids_for_def team_scope_user_ids_def led_team_member_user_ids_def)

lemma andthen_document_or_404:
  "andthen (document_or_404 ten d i) f s = (case document_get (tenant_id ten) d i s of
     None \<Rightarrow> (Inl (NotFoundError ''Document not found.''), s) | Some x \<Rightarrow> f x s)"
  by (simp add: document_or_404_def andthen_def gets_def raise_def ret_def split: option.splits)

theorem confirm_upload_outcome:
  assumes "deal_get (tenant_id ten) (scope_user_ids_for (tenant_id ten) a s) d s = Some deal"
    and "document_get (tenant_id ten) d i s = Some x" and "doc_status x = DOC_PENDING"
    and "post_commit s = []"
  shows "case stored (doc_storage_key x) of
      None \<Rightarrow> run_request (confirm_upload stored sha256 ten a d i) s =
        (Inl (ConflictError ''No uploaded file was found for this document.''), s)
    | Some (n, body) \<Rightarrow>
        (case run_request (confirm_upload stored sha256 ten a d i) s of (r, s') \<Rightarrow>
          r = Inr () \<and> (\<forall>y \<in> set (documents s'). doc_id y = i \<longrightarrow> doc_status y = DOC_READY
             \<and> doc_size_bytes y = Some n \<and> doc_sha256 y = Some (sha256 body))
          \<and> fst (run_request (confirm_upload stored sha256 ten a d i) s') \<noteq> Inr ())"
proof -
  have s: "s\<lparr>post_commit := []\<rparr> = s" using assms(4) by simp
  have id: "doc_id x = i" using find_in [of _ "documents s" x] assms(2) by (auto simp: document_get_def)
  have run: "confirm_upload stored sha256 ten a d i s = (case stored (doc_storage_key x) of
      None \<Rightarrow> (Inl (ConflictError ''No uploaded file was found for this document.''),
        s\<lparr>documents := upd_rows (\<lambda>y. doc_id y = i) (\<lambda>y. y\<lparr>doc_status := DOC_FAILED\<rparr>) (documents s)\<rparr>)
    | Some (n, body) \<Rightarrow> (Inr (), s\<lparr>documents := upd_rows (\<lambda>y. doc_id y = i) (\<lambda>y. y\<lparr>doc_size_bytes := Some n,
          doc_sha256 := Some (sha256 body), doc_status := DOC_READY\<rparr>) (documents s)\<rparr>))"
    using assms(1-3) by (simp add: confirm_upload_def deal_scope.andthen_or_404 andthen_document_or_404
        raise_def split: option.splits prod.splits)
  show ?thesis
  proof (cases "stored (doc_storage_key x)")
    case None
    then show ?thesis by (simp add: run_request_def s run)
  next
    case (Some p)
    obtain n body where p: "p = (n, body)" by (cases p)
    let ?f = "\<lambda>y. y\<lparr>doc_size_bytes := Some n, doc_sha256 := Some (sha256 body), doc_status := DOC_READY\<rparr>"
    let ?s = "s\<lparr>documents := upd_rows (\<lambda>y. doc_id y = i) ?f (documents s)\<rparr>"
    have fin: "run_request (confirm_upload stored sha256 ten a d i) s = (Inr (), ?s)"
      using assms(4) by (simp add: run_request_def s run Some p)
    have "document_get (tenant_id ten) d i ?s = map_option (\<lambda>y. if doc_id y = i then ?f y else y)
        (document_get (tenant_id ten) d i s)"
      unfolding document_get_def by (simp add: find_upd_rows)
    then have "document_get (tenant_id ten) d i (?s\<lparr>post_commit := []\<rparr>) = Some (?f x)"
      using assms(2) id by (simp add: document_get_def)
    moreover have "deal_get (tenant_id ten) (scope_user_ids_for (tenant_id ten) a (?s\<lparr>post_commit := []\<rparr>)) d
        (?s\<lparr>post_commit := []\<rparr>) = Some deal"
      using assms(1) by (simp add: deal_get_def)
    ultimately have again: "fst (run_request (confirm_upload stored sha256 ten a d i) ?s) \<noteq> Inr ()"
      by (simp add: run_request_def confirm_upload_def deal_scope.andthen_or_404 andthen_document_or_404)
    have docs: "documents ?s = upd_rows (\<lambda>y. doc_id y = i) ?f (documents s)" by simp
    have "\<forall>y \<in> set (documents ?s). doc_id y = i \<longrightarrow> doc_status y = DOC_READY
        \<and> doc_size_bytes y = Some n \<and> doc_sha256 y = Some (sha256 body)" 
      unfolding docs by (rule upd_rows_all) simp_all
    with again show ?thesis unfolding Some p option.case prod.case fin by (intro conjI refl)
  qed
qed

definition sample_requested :: "(error + deal_document \<times> string) \<times> db" where
  "sample_requested = request_upload sample_world (\<lambda>k c. k) sample_tenant sample_agent 7
     ''contract'' ''a.pdf'' ''application/pdf'' None 40 3 (snd sample_opened)"

theorem confirm_upload_outcome_witness:
  "map doc_status (documents (snd sample_requested)) = [DOC_PENDING]
   \<and> run_request (confirm_upload (\<lambda>_. None) (\<lambda>b. b) sample_tenant sample_agent 7 40) (snd sample_requested)
     = (Inl (ConflictError ''No uploaded file was found for this document.''), snd sample_requested)"
proof
  let ?s = "snd sample_requested"
  show st: "map doc_status (documents ?s) = [DOC_PENDING]" by code_simp
  have "deal_get (tenant_id sample_tenant) (scope_user_ids_for (tenant_id sample_tenant) sample_agent ?s) 7 ?s \<noteq> None"
    by code_simp
  then obtain d where d: "deal_get (tenant_id sample_tenant) (scope_user_ids_for (tenant_id sample_tenant)
      sample_agent ?s) 7 ?s = Some d" by blast
  have "map_option doc_status (document_get (tenant_id sample_tenant) 7 40 ?s) = Some DOC_PENDING"
    by code_simp
  then obtain x where x: "document_get (tenant_id sample_tenant) 7 40 ?s = Some x" "doc_status x = DOC_PENDING"
    by auto
  have "post_commit ?s = []" by code_simp
  from confirm_upload_outcome [OF d x this, of "\<lambda>_. None" "\<lambda>b. b"]
  show "run_request (confirm_upload (\<lambda>_. None) (\<lambda>b. b) sample_tenant sample_agent 7 40) ?s
     = (Inl (ConflictError ''No uploaded file was found for this document.''), ?s)" by simp
qed

text \<open>What is due: the uncompleted, unreminded milestones of open deals whose date has come.\<close>

definition overdue :: "uuid \<Rightarrow> date \<Rightarrow> db \<Rightarrow> (deal_milestone \<times> deal) set" where
  "overdue t today s = {(m, d). m \<in> set (milestones s) \<and> d \<in> set (deals s) \<and> milestone_due t today m d}"

lemma due_pairs_distinct:
  assumes "distinct (map ms_id ms)" and "distinct (map deal_id ds)"
  shows "distinct (map (ms_id \<circ> fst) [(m, d). m \<leftarrow> ms, d \<leftarrow> ds, milestone_due t today m d])"
  using assms(1)
proof (induction ms)
  case (Cons m ms)
  have "distinct (map (ms_id \<circ> fst) [(m, d). d \<leftarrow> ds, milestone_due t today m d])"
    using assms(2)
  proof (induction ds)
    case (Cons d ds)
    then show ?case by (auto simp: milestone_due_def image_iff)
  qed simp
  with Cons show ?case by (auto simp: image_iff comp_def)
qed simp

lemma due_milestones_facts:
  assumes "distinct (map ms_id (milestones s))" and "distinct (map deal_id (deals s))"
  shows "distinct (map (ms_id \<circ> fst) (due_milestones t today n s))"
    and "length (due_milestones t today n s) = min n (card (overdue t today s))"
proof -
  let ?l = "[(m, d). m \<leftarrow> milestones s, d \<leftarrow> deals s, milestone_due t today m d]"
  have d: "distinct (map (ms_id \<circ> fst) ?l)" by (rule due_pairs_distinct [OF assms])
  then have "distinct (map (ms_id \<circ> fst) (sort_key f ?l))" for f :: "_ \<Rightarrow> date \<times> uuid"
    by (simp add: distinct_map)
  then show "distinct (map (ms_id \<circ> fst) (due_milestones t today n s))"
    unfolding due_milestones_def by (simp add: take_map [symmetric])
  have "overdue t today s = set ?l" by (auto simp: overdue_def)
  moreover from d have "distinct ?l" by (simp only: distinct_map)
  ultimately have "card (overdue t today s) = length ?l" by (simp only: distinct_card)
  then show "length (due_milestones t today n s) = min n (card (overdue t today s))"
    by (simp add: due_milestones_def)
qed

lemma identities_for_one:
  "u \<in> set us \<Longrightarrow> identities_for t us s u = identities_for t [u] s u"
proof -
  assume u: "u \<in> set us"
  have "map_of (map (\<lambda>x. (user_id x, to_identity x)) (filter (\<lambda>x. P x \<and> user_id x \<in> set us) xs)) u
      = map_of (map (\<lambda>x. (user_id x, to_identity x)) (filter (\<lambda>x. P x \<and> user_id x = u) xs)) u" for P xs
    by (induction xs) (use u in auto)
  from this [of "\<lambda>x. user_tenant x = Some t \<and> user_status x = ACTIVE \<and> user_deleted_at x = None" "users s"]
  show ?thesis
    by (simp add: identities_for_def list_active_by_ids_def conj_ac cong: conj_cong)
qed

lemma notes_of_due:
  "concat (map (milestone_note w isodate ten
       (identities_for t (map (\<lambda>(m, d). recipient_of m d) due) s)) due)
   = concat (map (milestone_note w isodate ten (\<lambda>u. identities_for t [u] s u)) due)"
proof (intro arg_cong [of _ _ concat] map_cong refl)
  fix md assume "md \<in> set due"
  then have "recipient_of (fst md) (snd md) \<in> set (map (\<lambda>(m, d). recipient_of m d) due)" by force
  from identities_for_one [OF this]
  show "milestone_note w isodate ten (identities_for t (map (\<lambda>(m, d). recipient_of m d) due) s) md
      = milestone_note w isodate ten (\<lambda>u. identities_for t [u] s u) md"
    by (cases md) (simp add: milestone_note_def)
qed

lemma note_count:
  "length (concat (map (milestone_note w isodate ten ids) due))
   = length (filter (\<lambda>(m, d). ids (recipient_of m d) \<noteq> None) due)"
  by (induction due) (auto simp: milestone_note_def split: option.splits)

text \<open>
  C28: a reminder sweep that runs alone picks up to two hundred due milestones, all of them when
  there are no more, each once; it notifies the milestone's owner, or else the deal's, exactly
  once for each if that account is active, and nobody else; it stamps exactly the milestones it
  picked and counts its notifications; and none of them is due again in any later sweep.
\<close>

theorem milestone_reminded_once:
  assumes "distinct (map ms_id (milestones s))" and "distinct (map deal_id (deals s))"
    and "remind_tenant w isodate ten today now s = (r, s')"
  shows "\<exists>due. distinct (map (ms_id \<circ> fst) due) \<and> set due \<subseteq> overdue (tenant_id ten) today s
    \<and> length due = min BATCH_LIMIT (card (overdue (tenant_id ten) today s))
    \<and> notifications s' = notifications s
        @ concat (map (milestone_note w isodate ten (\<lambda>u. identities_for (tenant_id ten) [u] s u)) due)
    \<and> r = Inr (length (concat (map (milestone_note w isodate ten (\<lambda>u. identities_for (tenant_id ten) [u] s u)) due)))
    \<and> milestones s' = map (\<lambda>m. if m \<in> fst ` set due then m\<lparr>ms_reminder_sent_at := Some now\<rparr> else m) (milestones s)
    \<and> (\<forall>(m, d) \<in> set due. \<forall>t later n. ms_id m \<notin> set (map (ms_id \<circ> fst) (due_milestones t later n s')))"
proof -
  define due where "due = due_milestones (tenant_id ten) today BATCH_LIMIT s"
  define ids where "ids = identities_for (tenant_id ten) (map (\<lambda>(m, d). recipient_of m d) due) s"
  from assms(3) have s': "s' = s\<lparr>milestones := stamp now (map (\<lambda>md. ms_id (fst md)) due) (milestones s),
       notifications := notifications s @ concat (map (milestone_note w isodate ten ids) due)\<rparr>"
    and r: "r = Inr (length (filter (\<lambda>(m, d). ids (recipient_of m d) \<noteq> None) due))"
    unfolding remind_tenant_run due_def ids_def by simp_all
  have r': "r = Inr (length (concat (map (milestone_note w isodate ten (\<lambda>u. identities_for (tenant_id ten) [u] s u)) due)))"
    unfolding r note_count [symmetric, of ids due w isodate ten] unfolding ids_def notes_of_due ..
  have sub: "set due \<subseteq> overdue (tenant_id ten) today s"
  proof
    fix md assume "md \<in> set due"
    with due_milestones_in [of "fst md" "snd md" "tenant_id ten" today BATCH_LIMIT s]
    show "md \<in> overdue (tenant_id ten) today s" by (simp add: due_def overdue_def case_prod_unfold)
  qed
  have "(ms_id m \<in> (\<lambda>md. ms_id (fst md)) ` set due) = (m \<in> fst ` set due)" if m: "m \<in> set (milestones s)" for m
  proof
    assume "ms_id m \<in> (\<lambda>md. ms_id (fst md)) ` set due"
    then obtain md where md: "md \<in> set due" "ms_id m = ms_id (fst md)" by blast
    with sub have "fst md \<in> set (milestones s)" by (auto simp: overdue_def)
    with md m assms(1) have "m = fst md" by (metis distinct_key_eq)
    with md(1) show "m \<in> fst ` set due" by blast
  qed blast
  then have ms: "milestones s' = map (\<lambda>m. if m \<in> fst ` set due then m\<lparr>ms_reminder_sent_at := Some now\<rparr> else m) (milestones s)"
    by (simp add: s' stamp_def upd_rows_def)
  have later: "ms_id m \<notin> set (map (ms_id \<circ> fst) (due_milestones t later n s'))" if "(m, d) \<in> set due" for m d t later n
  proof
    assume "ms_id m \<in> set (map (ms_id \<circ> fst) (due_milestones t later n s'))"
    then obtain m' d' where "(m', d') \<in> set (due_milestones t later n s')" "ms_id m' = ms_id m" by auto
    with stamped_not_due [OF this(1) [unfolded s']] that show False by force
  qed
  have told: "notifications s' = notifications s
        @ concat (map (milestone_note w isodate ten (\<lambda>u. identities_for (tenant_id ten) [u] s u)) due)"
    unfolding s' ids_def by (simp add: notes_of_due)
  note facts = due_milestones_facts [OF assms(1,2), of "tenant_id ten" today BATCH_LIMIT, folded due_def]
  show ?thesis
    by (intro exI [of _ due] conjI facts sub told r' ms) (use later in blast)
qed

definition sample_due :: db where
  "sample_due = (snd sample_opened)\<lparr>milestones := upd_rows (\<lambda>m. ms_id m = 21)
     (\<lambda>m. m\<lparr>ms_due_date := Some 5\<rparr>) (milestones (snd sample_opened))\<rparr>"

definition sample_reminded :: "(error + nat) \<times> db" where
  "sample_reminded = remind_tenant sample_world (\<lambda>_. []) sample_tenant 6 100 sample_due"

theorem milestone_reminded_once_witness:
  "map ntf_user (notifications (snd sample_reminded)) = [11]
   \<and> card (overdue 1 6 sample_due) = 1 \<and> fst sample_reminded = Inr 1
   \<and> map ms_reminder_sent_at (milestones (snd sample_reminded)) = [None, Some 100, None, None, None]"
proof -
  have d: "distinct (map ms_id (milestones sample_due))" "distinct (map deal_id (deals sample_due))"
    by code_simp+
  have run: "remind_tenant sample_world (\<lambda>_. []) sample_tenant 6 100 sample_due =
      (fst sample_reminded, snd sample_reminded)"
    by (simp add: sample_reminded_def)
  have f: "fst sample_reminded = Inr 1" "map ntf_user (notifications (snd sample_reminded)) = [11]"
    "map ms_reminder_sent_at (milestones (snd sample_reminded)) = [None, Some 100, None, None, None]"
    by code_simp+
  have l: "length (due_milestones 1 6 BATCH_LIMIT sample_due) = 1" by code_simp
  from milestone_reminded_once [OF d run] obtain due where "set due \<subseteq> overdue 1 6 sample_due"
      "length due = min BATCH_LIMIT (card (overdue 1 6 sample_due))"
    by (auto simp: sample_tenant_def)
  from f l show ?thesis
    using due_milestones_facts(2) [OF d, of 1 6 BATCH_LIMIT] by (simp add: BATCH_LIMIT_def min_def split: if_splits)
qed

end
