(* ===== verification/Net.thy ===== *)
theory Net
  imports I18n "HOL-Library.Word"
begin

text \<open>
  \<open>core/net.py\<close>: the guard in front of every URL that a tenant controls. URL and address parsing
  are those of CPython 3.13 (\<open>urllib.parse.urlsplit\<close>, \<open>ipaddress\<close>); the resolver is a parameter,
  and it may answer differently each time it is asked.
\<close>

section \<open>Addresses\<close>

datatype ip = V4 "32 word" | V6 "128 word"

definition digits_int :: "string \<Rightarrow> int" where
  "digits_int s = foldl (\<lambda>n c. 10 * n + (of_char c - 48)) 0 s"

definition parse_octet :: "string \<Rightarrow> int option" where
  "parse_octet s =
     (if s = [] \<or> \<not> list_all is_digit s \<or> 3 < length s then None
      else if s \<noteq> ''0'' \<and> hd s = CHR ''0'' then None
      else if 255 < digits_int s then None else Some (digits_int s))"

definition v4 :: "int \<Rightarrow> int \<Rightarrow> int \<Rightarrow> int \<Rightarrow> 32 word" where
  "v4 a b c d = word_of_int (((a * 256 + b) * 256 + c) * 256 + d)"

definition parse_v4 :: "string \<Rightarrow> 32 word option" where
  "parse_v4 s = (case map parse_octet (split_on (CHR ''.'') s) of
      [Some a, Some b, Some c, Some d] \<Rightarrow> Some (v4 a b c d)
    | _ \<Rightarrow> None)"

definition hex_value :: "char \<Rightarrow> int option" where
  "hex_value c = (let n = of_char (lower_char c) :: int in
     if is_digit c then Some (n - 48) else if 97 \<le> n \<and> n \<le> 102 then Some (n - 87) else None)"

definition parse_hextet :: "string \<Rightarrow> int option" where
  "parse_hextet s =
     (if s = [] \<or> 4 < length s \<or> list_ex (\<lambda>c. hex_value c = None) s then None
      else Some (foldl (\<lambda>n c. 16 * n + or_else (hex_value c) 0) 0 s))"

definition v6 :: "int list \<Rightarrow> 128 word" where
  "v6 groups = word_of_int (foldl (\<lambda>n g. 65536 * n + g) 0 groups)"

text \<open>The last part may be a dotted quad, which counts for two groups.\<close>

definition v6_groups :: "string list \<Rightarrow> int option list option" where
  "v6_groups parts =
     (if length parts < 3 then None
      else if CHR ''.'' \<in> set (last parts)
      then (case parse_v4 (last parts) of
              None \<Rightarrow> None
            | Some a \<Rightarrow> Some (map (\<lambda>p. if p = [] then None else Some (or_else (parse_hextet p) 65536)) (butlast parts)
                @ [Some (uint (drop_bit 16 a)), Some (uint (take_bit 16 a))]))
      else Some (map (\<lambda>p. if p = [] then None else Some (or_else (parse_hextet p) 65536)) parts))"

text \<open>
  An inner empty part is the run of zero groups and may occur once; an empty first or last part
  belongs to it. A part that is no hextet has the out-of-range value 65536 above.
\<close>

definition group_values :: "int option list \<Rightarrow> int list option" where
  "group_values gs =
     (let inner = filter (\<lambda>i. gs ! i = None) [1..<length gs - 1] in
      if 9 < length gs \<or> 1 < length inner then None
      else case inner of
        [] \<Rightarrow> if length gs = 8 \<and> list_all (\<lambda>g. g \<noteq> None) gs then Some (map the gs) else None
      | i # _ \<Rightarrow>
          let hi = take i gs; lo = drop (Suc i) gs;
              hi' = (if hd gs = None then tl hi else hi);
              lo' = (if last gs = None then butlast lo else lo)
          in if (hd gs = None \<and> hi' \<noteq> []) \<or> (last gs = None \<and> lo' \<noteq> []) then None
             else if 8 \<le> length hi' + length lo' then None
             else Some (map the hi' @ replicate (8 - (length hi' + length lo')) 0 @ map the lo'))"

text \<open>A scope identifier follows a percent sign; it is not empty and holds no other one.\<close>

definition parse_v6 :: "string \<Rightarrow> 128 word option" where
  "parse_v6 s =
     (case split_on (CHR ''%'') s of
        addr # scope \<Rightarrow>
          if 1 < length scope \<or> scope = [[]] then None
          else case v6_groups (split_on (CHR '':'') addr) of
              None \<Rightarrow> None
            | Some gs \<Rightarrow> (case group_values gs of
                None \<Rightarrow> None
              | Some vs \<Rightarrow> if list_all (\<lambda>v. v < 65536) vs then Some (v6 vs) else None)
      | [] \<Rightarrow> None)"

definition ip_address :: "string \<Rightarrow> ip option" where
  "ip_address s = (case parse_v4 s of
      Some a \<Rightarrow> Some (V4 a) | None \<Rightarrow> map_option V6 (parse_v6 s))"

section \<open>Networks\<close>

definition in_net :: "'a::len word \<Rightarrow> 'a word \<times> nat \<Rightarrow> bool" where
  "in_net a net = (case net of (base, plen) \<Rightarrow>
     drop_bit (LENGTH('a) - plen) a = drop_bit (LENGTH('a) - plen) base)"

definition V4_PRIVATE :: "(32 word \<times> nat) list" where
  "V4_PRIVATE = [(v4 0 0 0 0, 8), (v4 10 0 0 0, 8), (v4 127 0 0 0, 8), (v4 169 254 0 0, 16),
     (v4 172 16 0 0, 12), (v4 192 0 0 0, 24), (v4 192 0 0 170, 31), (v4 192 0 2 0, 24),
     (v4 192 168 0 0, 16), (v4 198 18 0 0, 15), (v4 198 51 100 0, 24), (v4 203 0 113 0, 24),
     (v4 240 0 0 0, 4), (v4 255 255 255 255, 32)]"

definition V4_PRIVATE_EXCEPT :: "(32 word \<times> nat) list" where
  "V4_PRIVATE_EXCEPT = [(v4 192 0 0 9, 32), (v4 192 0 0 10, 32)]"

definition V4_SHARED :: "32 word \<times> nat" where
  "V4_SHARED = (v4 100 64 0 0, 10)"

definition V6_PRIVATE :: "(128 word \<times> nat) list" where
  "V6_PRIVATE = [(1, 128), (0, 128), (v6 [0, 0, 0, 0, 0, 0xffff, 0, 0], 96),
     (v6 [0x64, 0xff9b, 1, 0, 0, 0, 0, 0], 48), (v6 [0x100, 0, 0, 0, 0, 0, 0, 0], 64),
     (v6 [0x2001, 0, 0, 0, 0, 0, 0, 0], 23), (v6 [0x2001, 0xdb8, 0, 0, 0, 0, 0, 0], 32),
     (v6 [0x2002, 0, 0, 0, 0, 0, 0, 0], 16), (v6 [0x3fff, 0, 0, 0, 0, 0, 0, 0], 20),
     (v6 [0xfc00, 0, 0, 0, 0, 0, 0, 0], 7), (v6 [0xfe80, 0, 0, 0, 0, 0, 0, 0], 10)]"

definition V6_PRIVATE_EXCEPT :: "(128 word \<times> nat) list" where
  "V6_PRIVATE_EXCEPT = [(v6 [0x2001, 1, 0, 0, 0, 0, 0, 1], 128), (v6 [0x2001, 1, 0, 0, 0, 0, 0, 2], 128),
     (v6 [0x2001, 3, 0, 0, 0, 0, 0, 0], 32), (v6 [0x2001, 4, 0x112, 0, 0, 0, 0, 0], 48),
     (v6 [0x2001, 0x20, 0, 0, 0, 0, 0, 0], 28), (v6 [0x2001, 0x30, 0, 0, 0, 0, 0, 0], 28)]"

definition v4_is_global :: "32 word \<Rightarrow> bool" where
  "v4_is_global a \<longleftrightarrow> \<not> in_net a V4_SHARED
     \<and> \<not> (list_ex (in_net a) V4_PRIVATE \<and> \<not> list_ex (in_net a) V4_PRIVATE_EXCEPT)"

definition ipv4_mapped :: "128 word \<Rightarrow> 32 word option" where
  "ipv4_mapped a = (if drop_bit 32 a = 0xffff then Some (ucast a) else None)"

definition v6_is_global :: "128 word \<Rightarrow> bool" where
  "v6_is_global a \<longleftrightarrow> \<not> (list_ex (in_net a) V6_PRIVATE \<and> \<not> list_ex (in_net a) V6_PRIVATE_EXCEPT)"

definition addr_is_blocked :: "string \<Rightarrow> bool" where
  "addr_is_blocked s = (case ip_address s of
      None \<Rightarrow> True
    | Some (V4 a) \<Rightarrow> \<not> v4_is_global a
    | Some (V6 a) \<Rightarrow> (case ipv4_mapped a of Some b \<Rightarrow> \<not> v4_is_global b | None \<Rightarrow> \<not> v6_is_global a))"

section \<open>URLs\<close>

text \<open>\<open>urlsplit\<close> up to the host: the scheme in lower case, and the text between \<open>//\<close> and the path.\<close>

definition is_ascii_alpha :: "char \<Rightarrow> bool" where
  "is_ascii_alpha c = (let n = of_char (lower_char c) :: nat in 97 \<le> n \<and> n \<le> 122)"

definition scheme_char :: "char \<Rightarrow> bool" where
  "scheme_char c \<longleftrightarrow> is_ascii_alpha c \<or> is_digit c \<or> c \<in> set ''+-.''"

definition url_clean :: "string \<Rightarrow> string" where
  "url_clean url = filter (\<lambda>c. of_char c \<notin> {9 :: nat, 10, 13})
     (dropWhile (\<lambda>c. (of_char c :: nat) \<le> 32) url)"

definition url_scheme :: "string \<Rightarrow> string \<times> string" where
  "url_scheme url = (let pre = takeWhile (\<lambda>c. c \<noteq> CHR '':'') url in
     if CHR '':'' \<in> set url \<and> pre \<noteq> [] \<and> is_ascii_alpha (hd pre) \<and> list_all scheme_char pre
     then (str_lower pre, drop (Suc (length pre)) url) else ([], url))"

definition url_netloc :: "string \<Rightarrow> string" where
  "url_netloc rest = (if take 2 rest = ''//'' then takeWhile (\<lambda>c. c \<notin> set ''/?#'') (drop 2 rest) else [])"

text \<open>What stands between brackets must be an IPv6 literal or a future one (\<open>v1.x\<close>).\<close>

definition bracketed_host_ok :: "string \<Rightarrow> bool" where
  "bracketed_host_ok h =
     (if take 1 h = ''v''
      then (let digits = takeWhile (\<lambda>c. c \<noteq> CHR ''.'') (tl h) in
        digits \<noteq> [] \<and> list_all (\<lambda>c. hex_value c \<noteq> None) digits \<and> Suc (Suc (length digits)) < length h)
      else (case ip_address h of Some (V6 _) \<Rightarrow> True | _ \<Rightarrow> False))"

definition urlsplit :: "string \<Rightarrow> error + string \<times> string" where
  "urlsplit url =
     (case url_scheme (url_clean url) of (scheme, rest) \<Rightarrow>
        let netloc = url_netloc rest;
            opens = CHR ''['' \<in> set netloc; closes = CHR '']'' \<in> set netloc;
            inner = fst (str_partition (CHR '']'') (snd (str_partition (CHR ''['') netloc)))
        in if opens \<noteq> closes then Inl ValueError
           else if opens \<and> \<not> bracketed_host_ok inner then Inl ValueError
           else Inr (scheme, netloc))"

text \<open>\<open>SplitResult.hostname\<close>: without user, port and brackets, in lower case up to a scope.\<close>

definition url_hostname :: "string \<Rightarrow> string" where
  "url_hostname netloc =
     (let hostinfo = last (split_on (CHR ''@'') netloc);
          host = (if CHR ''['' \<in> set hostinfo
                  then fst (str_partition (CHR '']'') (snd (str_partition (CHR ''['') hostinfo)))
                  else fst (str_partition (CHR '':'') hostinfo))
      in str_lower (takeWhile (\<lambda>c. c \<noteq> CHR ''%'') host) @ dropWhile (\<lambda>c. c \<noteq> CHR ''%'') host)"

section \<open>The guard\<close>

definition ALLOWED_SCHEMES :: "string list" where
  "ALLOWED_SCHEMES = [''http'', ''https'']"

definition literal_ip :: "string \<Rightarrow> string option" where
  "literal_ip host = (if ip_address host = None then None else Some host)"

text \<open>
  The resolver gives the addresses of a name, none when the lookup fails. \<open>getaddrinfo\<close> first
  encodes the name, and a label that is empty or too long raises a \<open>UnicodeError\<close> there (a
  \<open>ValueError\<close>), which is no \<open>gaierror\<close>. Names here are in ASCII, as the client sends them.
\<close>

type_synonym resolver = "string \<Rightarrow> string list"

definition idna_encodable :: "string \<Rightarrow> bool" where
  "idna_encodable host = (let labels = split_on (CHR ''.'') host in
     list_all (\<lambda>l. 0 < length l \<and> length l < 64) (butlast labels) \<and> length (last labels) < 64)"

definition resolve_addresses :: "resolver \<Rightarrow> string \<Rightarrow> error + string list" where
  "resolve_addresses resolve host = (if idna_encodable host then Inr (resolve host) else Inl ValueError)"

definition addresses_of :: "resolver \<Rightarrow> string \<Rightarrow> error + string list" where
  "addresses_of resolve host = (case literal_ip host of Some l \<Rightarrow> Inr [l] | None \<Rightarrow> resolve_addresses resolve host)"

text \<open>
  The error a URL is refused with: \<open>SsrfError\<close> with its message, or an error that escapes from
  the URL parser or the resolver.
\<close>

datatype url_error = SsrfError string | UrlParseError error

definition blocked_message :: "string \<Rightarrow> string \<Rightarrow> string" where
  "blocked_message host addr =
     ''Host '' @ quoted host @ '' resolves to a non-public address ('' @ addr @ '').''"

definition validate_public_url :: "resolver \<Rightarrow> bool \<Rightarrow> string \<Rightarrow> url_error + unit" where
  "validate_public_url resolve allow_private_hosts url =
     (case urlsplit url of
        Inl e \<Rightarrow> Inl (UrlParseError e)
      | Inr (scheme, netloc) \<Rightarrow>
          let host = url_hostname netloc in
          if scheme \<notin> set ALLOWED_SCHEMES
          then Inl (SsrfError (''URL scheme must be http or https, got '' @ quoted scheme @ ''.''))
          else if host = [] then Inl (SsrfError ''URL has no host.'')
          else if allow_private_hosts then Inr ()
          else (case addresses_of resolve host of
              Inl e \<Rightarrow> Inl (UrlParseError e)
            | Inr addresses \<Rightarrow>
                if addresses = [] then Inl (SsrfError (''Host '' @ quoted host @ '' does not resolve.''))
                else (case find addr_is_blocked addresses of
                    Some addr \<Rightarrow> Inl (SsrfError (blocked_message host addr))
                  | None \<Rightarrow> Inr ())))"

text \<open>
  \<open>SsrfProtectedTransport\<close>: a request of the HTTP client, already split into its scheme and host,
  and the connection it turns into: where the socket goes, and the name kept for TLS.
\<close>

record http_request =
  rq_url :: string
  rq_scheme :: string
  rq_host :: string

record connection =
  conn_target :: string
  conn_sni :: string

definition handle_async_request :: "resolver \<Rightarrow> bool \<Rightarrow> http_request \<Rightarrow> url_error + connection" where
  "handle_async_request resolve allow rq =
     (if allow
      then (case validate_public_url resolve True (rq_url rq) of
          Inl e \<Rightarrow> Inl e
        | Inr _ \<Rightarrow> Inr \<lparr>conn_target = rq_host rq, conn_sni = rq_host rq\<rparr>)
      else
        (case addresses_of resolve (rq_host rq) of
           Inl e \<Rightarrow> Inl (UrlParseError e)
         | Inr [] \<Rightarrow> Inl (SsrfError (''Host '' @ quoted (rq_host rq) @ '' does not resolve.''))
         | Inr (pinned # _) \<Rightarrow>
             if addr_is_blocked pinned then Inl (SsrfError (blocked_message (rq_host rq) pinned))
             else if rq_scheme rq \<notin> set ALLOWED_SCHEMES
             then Inl (SsrfError (''URL scheme must be http or https, got '' @ quoted (rq_scheme rq) @ ''.''))
             else Inr \<lparr>conn_target = pinned, conn_sni = rq_host rq\<rparr>))"

text \<open>
  A client that follows redirects sends one request after the other through the transport, each
  under the answers the resolver gives by then, until one is refused.
\<close>

fun guarded_hops :: "bool \<Rightarrow> (resolver \<times> http_request) list \<Rightarrow> connection list \<times> url_error option" where
  "guarded_hops allow [] = ([], None)"
| "guarded_hops allow ((resolve, rq) # hops) =
     (case handle_async_request resolve allow rq of
        Inl e \<Rightarrow> ([], Some e)
      | Inr c \<Rightarrow> (case guarded_hops allow hops of (cs, e) \<Rightarrow> (c # cs, e)))"

section \<open>What the guard lets through\<close>

lemma transport_target:
  assumes "handle_async_request resolve False rq = Inr c"
  shows "\<not> addr_is_blocked (conn_target c)
    \<and> rq_scheme rq \<in> set ALLOWED_SCHEMES \<and> conn_sni c = rq_host rq
    \<and> (\<exists>others. addresses_of resolve (rq_host rq) = Inr (conn_target c # others))"
  using assms by (auto simp: handle_async_request_def split: list.splits sum.splits if_splits)

text \<open>
  The internal ranges in the notation of their documents, by octets and by groups of 16 bits. Of
  version 4: this host, private, loopback, link-local (the metadata service of the clouds),
  carrier-shared and reserved. Of version 6: unspecified, loopback, unique local, link-local,
  documentation and the addresses that embed one of version 4 in 2002::/16.
\<close>

definition octet :: "nat \<Rightarrow> 32 word \<Rightarrow> nat" where
  "octet i a = unat a div 256 ^ (3 - i) mod 256"

definition internal_v4 :: "32 word \<Rightarrow> bool" where
  "internal_v4 a \<longleftrightarrow> (let p = octet 0 a; q = octet 1 a in
     p = 0 \<or> p = 10 \<or> p = 127 \<or> (p = 169 \<and> q = 254) \<or> (p = 172 \<and> 16 \<le> q \<and> q \<le> 31)
     \<or> (p = 192 \<and> q = 168) \<or> (p = 100 \<and> 64 \<le> q \<and> q \<le> 127) \<or> 240 \<le> p)"

definition hextet :: "nat \<Rightarrow> 128 word \<Rightarrow> nat" where
  "hextet i a = unat a div 65536 ^ (7 - i) mod 65536"

definition internal_v6 :: "128 word \<Rightarrow> bool" where
  "internal_v6 a \<longleftrightarrow> a = 0 \<or> a = 1 \<or> (let g = hextet 0 a in
     (0xfc00 \<le> g \<and> g \<le> 0xfdff) \<or> (0xfe80 \<le> g \<and> g \<le> 0xfebf)
     \<or> (g = 0x2001 \<and> hextet 1 a = 0xdb8) \<or> g = 0x2002)"

text \<open>What is no address at all counts as internal, and a mapped address of version 4 as itself.\<close>

definition internal_address :: "string \<Rightarrow> bool" where
  "internal_address s = (case ip_address s of
      None \<Rightarrow> True
    | Some (V4 a) \<Rightarrow> internal_v4 a
    | Some (V6 a) \<Rightarrow> (case ipv4_mapped a of Some b \<Rightarrow> internal_v4 b | None \<Rightarrow> internal_v6 a))"

lemma in_net_div:
  "in_net (a :: 32 word) (b, plen) \<longleftrightarrow> unat a div 2 ^ (32 - plen) = unat b div 2 ^ (32 - plen)"
  by (simp only: in_net_def prod.case word_unat_eq_iff unat_drop_bit_eq) (simp add: drop_bit_eq_div)

lemma div_below:
  fixes m :: nat
  shows "m div 16 = 16 * (m div 256) + m mod 256 div 16" "m div 64 = 4 * (m div 256) + m mod 256 div 64"
proof -
  have a: "m = m mod 256 + 16 * (16 * (m div 256))" and b: "m = m mod 256 + 64 * (4 * (m div 256))" by simp_all
  show "m div 16 = 16 * (m div 256) + m mod 256 div 16" by (subst a) (simp only: div_mult_self2)
  show "m div 64 = 4 * (m div 256) + m mod 256 div 64" by (subst b) (simp only: div_mult_self2)
qed

lemma octet_div:
  fixes a :: "32 word"
  shows "unat a div 16777216 = octet 0 a" "unat a div 65536 = 256 * octet 0 a + octet 1 a"
    "unat a div 1048576 = 16 * octet 0 a + octet 1 a div 16"
    "unat a div 4194304 = 4 * octet 0 a + octet 1 a div 64"
    "unat a div 268435456 = octet 0 a div 16"
proof -
  define m where "m = unat a div 65536"
  have "unat a < 4294967296" using unsigned_less [of a, where 'a = nat] by simp
  then have o: "octet 0 a = m div 256" "octet 1 a = m mod 256"
    by (simp_all add: octet_def m_def div_mult2_eq [symmetric])
  have d: "unat a div 16777216 = m div 256" "unat a div 1048576 = m div 16"
    "unat a div 4194304 = m div 64" "unat a div 268435456 = m div 256 div 16"
    by (simp_all add: m_def div_mult2_eq [symmetric])
  show "unat a div 16777216 = octet 0 a" "unat a div 268435456 = octet 0 a div 16"
    by (simp_all only: o d)
  show "unat a div 65536 = 256 * octet 0 a + octet 1 a"
    by (simp only: o m_def [symmetric] mult_div_mod_eq)
  show "unat a div 1048576 = 16 * octet 0 a + octet 1 a div 16"
    "unat a div 4194304 = 4 * octet 0 a + octet 1 a div 64"
    unfolding o d by (rule div_below)+
qed

lemma div_in_range:
  "16 \<le> q \<Longrightarrow> q \<le> 31 \<Longrightarrow> q div 16 = (1 :: nat)"
  "64 \<le> q \<Longrightarrow> q \<le> 127 \<Longrightarrow> q div 64 = (1 :: nat)"
  "240 \<le> q \<Longrightarrow> q < 256 \<Longrightarrow> q div 16 = (15 :: nat)"
  by (auto intro: div_nat_eqI)

lemma octet_range: "octet i a < 256"
  by (simp add: octet_def)

lemma private_nets:
  fixes a :: "32 word"
  shows "in_net a (v4 0 0 0 0, 8) \<longleftrightarrow> octet 0 a = 0"
    "in_net a (v4 10 0 0 0, 8) \<longleftrightarrow> octet 0 a = 10"
    "in_net a (v4 127 0 0 0, 8) \<longleftrightarrow> octet 0 a = 127"
    "in_net a (v4 169 254 0 0, 16) \<longleftrightarrow> 256 * octet 0 a + octet 1 a = 43518"
    "in_net a (v4 172 16 0 0, 12) \<longleftrightarrow> unat a div 1048576 = 2753"
    "in_net a (v4 192 168 0 0, 16) \<longleftrightarrow> 256 * octet 0 a + octet 1 a = 49320"
    "in_net a (v4 240 0 0 0, 4) \<longleftrightarrow> unat a div 268435456 = 15"
    "in_net a V4_SHARED \<longleftrightarrow> unat a div 4194304 = 401"
    "in_net a (v4 192 0 0 9, 32) \<longleftrightarrow> unat a = 3221225481"
    "in_net a (v4 192 0 0 10, 32) \<longleftrightarrow> unat a = 3221225482"
  by (simp_all add: in_net_div v4_def V4_SHARED_def octet_div)

lemma global_not_internal:
  assumes "v4_is_global a" shows "\<not> internal_v4 a"
proof
  assume int: "internal_v4 a"
  have shared: "unat a div 4194304 \<noteq> 401"
    using assms by (simp add: v4_is_global_def private_nets)
  have except: "list_ex (in_net a) V4_PRIVATE \<Longrightarrow> unat a = 3221225481 \<or> unat a = 3221225482"
    using assms by (auto simp: v4_is_global_def V4_PRIVATE_EXCEPT_def private_nets)
  from int octet_range [of 0 a] have "octet 0 a = 0 \<or> octet 0 a = 10 \<or> octet 0 a = 127
      \<or> 256 * octet 0 a + octet 1 a = 43518 \<or> 16 * octet 0 a + octet 1 a div 16 = 2753
      \<or> 256 * octet 0 a + octet 1 a = 49320 \<or> octet 0 a div 16 = 15
      \<or> 4 * octet 0 a + octet 1 a div 64 = 401"
    unfolding internal_v4_def Let_def by (elim disjE conjE) (simp_all add: div_in_range)
  then have "list_ex (in_net a) V4_PRIVATE \<or> in_net a V4_SHARED"
    by (auto simp: V4_PRIVATE_def private_nets octet_div)
  moreover from int have "unat a \<noteq> 3221225481" "unat a \<noteq> 3221225482"
    by (auto simp: internal_v4_def octet_def)
  ultimately show False using except shared by (auto simp: private_nets)
qed

lemma v6_local: "\<not> v6_is_global 0" "\<not> v6_is_global 1"
  by (simp_all add: v6_is_global_def V6_PRIVATE_def V6_PRIVATE_EXCEPT_def in_net_def v6_def)

lemma in_net_div6:
  "in_net (a :: 128 word) (b, plen) \<longleftrightarrow> unat a div 2 ^ (128 - plen) = unat b div 2 ^ (128 - plen)"
  by (simp only: in_net_def prod.case word_unat_eq_iff unat_drop_bit_eq) (simp add: drop_bit_eq_div)

text \<open>The networks by the first two groups of an address, as one number.\<close>

definition two_groups :: "128 word \<Rightarrow> nat" where
  "two_groups a = unat a div 2 ^ 96"

lemma hextet_groups: "hextet 0 a = two_groups a div 65536" "hextet 1 a = two_groups a mod 65536"
proof -
  have "unat a < 2 ^ 128" using unsigned_less [of a, where 'a = nat] by simp
  then have "unat a div 2 ^ 96 div 65536 < 65536"
    by (simp add: div_mult2_eq [symmetric] less_mult_imp_div_less)
  then show "hextet 0 a = two_groups a div 65536" "hextet 1 a = two_groups a mod 65536"
    by (simp_all add: hextet_def two_groups_def div_mult2_eq [symmetric])
qed

lemma private_nets6:
  "in_net a (v6 [0xfc00, 0, 0, 0, 0, 0, 0, 0], 7) \<longleftrightarrow> two_groups a div 33554432 = 126"
  "in_net a (v6 [0xfe80, 0, 0, 0, 0, 0, 0, 0], 10) \<longleftrightarrow> two_groups a div 4194304 = 1018"
  "in_net a (v6 [0x2001, 0xdb8, 0, 0, 0, 0, 0, 0], 32) \<longleftrightarrow> two_groups a = 0x20010db8"
  "in_net a (v6 [0x2002, 0, 0, 0, 0, 0, 0, 0], 16) \<longleftrightarrow> two_groups a div 65536 = 0x2002"
  by (simp_all add: in_net_div6 v6_def two_groups_def div_mult2_eq [symmetric])

lemma except_nets6:
  assumes "list_ex (in_net a) V6_PRIVATE_EXCEPT"
  shows "two_groups a div 256 = 0x200100"
proof -
  have up: "unat a div 2 ^ (k + n) = c div 2 ^ n" if "unat a div 2 ^ k = c" for k n c
    using that by (simp add: power_add div_mult2_eq)
  have "unat a = v \<Longrightarrow> unat a div 2 ^ 104 = v div 2 ^ 104" for v by simp
  with assms show ?thesis
    using up [of 96 8] up [of 80 24] up [of 100 4]
    by (auto simp: V6_PRIVATE_EXCEPT_def in_net_div6 v6_def two_groups_def div_mult2_eq [symmetric])
qed

lemma global_not_internal6:
  assumes "v6_is_global a" shows "\<not> internal_v6 a"
proof
  assume "internal_v6 a"
  then consider "a = 0 \<or> a = 1" | "two_groups a div 33554432 = 126" | "two_groups a div 4194304 = 1018"
    | "two_groups a = 0x20010db8" | "two_groups a div 65536 = 0x2002"
  proof -
    have q: "two_groups a div 33554432 = hextet 0 a div 512" "two_groups a div 4194304 = hextet 0 a div 64"
      by (simp_all add: hextet_groups div_mult2_eq [symmetric])
    have r: "65536 * hextet 0 a + hextet 1 a = two_groups a"
      by (simp only: hextet_groups mult_div_mod_eq)
    have "g div 512 = 126" if "0xfc00 \<le> g" "g \<le> 0xfdff" for g :: nat
      using that by (intro div_nat_eqI) simp_all
    moreover have "g div 64 = 1018" if "0xfe80 \<le> g" "g \<le> 0xfebf" for g :: nat
      using that by (intro div_nat_eqI) simp_all
    moreover note \<open>internal_v6 a\<close>
    ultimately show thesis
      using that q r hextet_groups(1) [of a] unfolding internal_v6_def Let_def by auto
  qed
  then show False
  proof cases
    case 1
    with assms v6_local show False by auto
  next
    case 2
    then have "list_ex (in_net a) V6_PRIVATE" by (simp add: V6_PRIVATE_def private_nets6)
    moreover have "two_groups a div 256 \<noteq> 0x200100"
    proof
      assume "two_groups a div 256 = 0x200100"
      then have "two_groups a div 256 div 131072 = 0x200100 div 131072" by simp
      with 2 show False by (simp add: div_mult2_eq [symmetric])
    qed
    ultimately show False using assms except_nets6 by (auto simp: v6_is_global_def)
  next
    case 3
    then have "list_ex (in_net a) V6_PRIVATE" by (simp add: V6_PRIVATE_def private_nets6)
    moreover have "two_groups a div 256 \<noteq> 0x200100"
    proof
      assume "two_groups a div 256 = 0x200100"
      then have "two_groups a div 256 div 16384 = 0x200100 div 16384" by simp
      with 3 show False by (simp add: div_mult2_eq [symmetric])
    qed
    ultimately show False using assms except_nets6 by (auto simp: v6_is_global_def)
  next
    case 4
    then have "list_ex (in_net a) V6_PRIVATE" by (simp add: V6_PRIVATE_def private_nets6)
    with 4 assms except_nets6 [of a] show False by (auto simp: v6_is_global_def)
  next
    case 5
    then have "list_ex (in_net a) V6_PRIVATE" by (simp add: V6_PRIVATE_def private_nets6)
    moreover have "two_groups a div 256 \<noteq> 0x200100"
    proof
      assume "two_groups a div 256 = 0x200100"
      then have "two_groups a div 256 div 256 = 0x200100 div 256" by simp
      with 5 show False by (simp add: div_mult2_eq [symmetric])
    qed
    ultimately show False using assms except_nets6 by (auto simp: v6_is_global_def)
  qed
qed

lemma passed_not_internal: "\<not> addr_is_blocked s \<Longrightarrow> \<not> internal_address s"
  by (auto simp: addr_is_blocked_def internal_address_def global_not_internal global_not_internal6
      split: option.splits ip.splits)

lemma guarded_hops_spec:
  "let conns = fst (guarded_hops False hops); served = take (length conns) hops in
     length conns \<le> length hops
   \<and> list_all2 (\<lambda>c h. conn_sni c = rq_host (snd h)
        \<and> (\<exists>others. addresses_of (fst h) (rq_host (snd h)) = Inr (conn_target c # others))) conns served
   \<and> list_all (\<lambda>c. \<not> internal_address (conn_target c)) conns
   \<and> (snd (guarded_hops False hops) = None) = (length conns = length hops)"
proof (induction hops)
  case (Cons h hops)
  obtain resolve rq where h: "h = (resolve, rq)" by (cases h)
  show ?case
  proof (cases "handle_async_request resolve False rq")
    case (Inr c)
    with transport_target [OF Inr] passed_not_internal [of "conn_target c"] Cons show ?thesis
      by (auto simp: h Let_def case_prod_unfold)
  qed (simp add: h)
qed simp

text \<open>
  C8: A delivery never opens a connection to an internal address. Whatever URL the tenant
  registered, wherever the receiver redirects to and whatever the resolver answers each time it
  is asked, the connections of a guarded client belong to its first hops, in order; each goes to
  the first address that its hop's name resolved to, the very one that was checked, with the name
  kept for TLS; none goes to a private, loopback, link-local, carrier-shared or reserved address
  of version 4, mapped or not, nor to an unspecified, loopback, unique local, link-local,
  documentation or 2002::/16 address of version 6; and the hops end early only in an error.
\<close>

theorem no_internal_connection:
  "let conns = fst (guarded_hops False hops); served = take (length conns) hops in
     length conns \<le> length hops
   \<and> list_all2 (\<lambda>c h. conn_sni c = rq_host (snd h)
        \<and> (\<exists>others. addresses_of (fst h) (rq_host (snd h)) = Inr (conn_target c # others))) conns served
   \<and> list_all (\<lambda>c. \<not> internal_address (conn_target c)) conns
   \<and> (snd (guarded_hops False hops) = None) = (length conns = length hops)"
  by (rule guarded_hops_spec)

text \<open>
  A rebinding resolver: the name was public when the endpoint was registered and resolves to the
  metadata service when it is used; the first hop is refused and nothing is connected. A hop to
  a public address that redirects to a private one stops at the second hop.
\<close>

definition hop_to :: "string \<Rightarrow> string \<Rightarrow> resolver \<times> http_request" where
  "hop_to addr host = ((\<lambda>_. [addr]), \<lparr>rq_url = ''http://'' @ host, rq_scheme = ''http'', rq_host = host\<rparr>)"

lemma sample_addresses:
  "\<not> addr_is_blocked ''8.8.8.8''" "addr_is_blocked ''169.254.169.254''" "addr_is_blocked ''::ffff:10.0.0.1''"
  by code_simp+

lemma sample_names:
  "addresses_of r ''hook'' = Inr (r ''hook'')" "addresses_of r ''a'' = Inr (r ''a'')" "addresses_of r ''b'' = Inr (r ''b'')"
proof -
  have "literal_ip ''hook'' = None" "literal_ip ''a'' = None" "literal_ip ''b'' = None"
    "idna_encodable ''hook''" "idna_encodable ''a''" "idna_encodable ''b''" by code_simp+
  then show "addresses_of r ''hook'' = Inr (r ''hook'')" "addresses_of r ''a'' = Inr (r ''a'')"
    "addresses_of r ''b'' = Inr (r ''b'')"
    by (simp_all add: addresses_of_def resolve_addresses_def)
qed

lemma rebinding_refused: "fst (guarded_hops False [hop_to ''169.254.169.254'' ''hook'']) = []"
  by (simp add: hop_to_def handle_async_request_def sample_names sample_addresses)

theorem no_internal_connection_witness:
  "map conn_target (fst (guarded_hops False [hop_to ''8.8.8.8'' ''a'', hop_to ''::ffff:10.0.0.1'' ''b'']))
     = [''8.8.8.8'']
   \<and> snd (guarded_hops False [hop_to ''8.8.8.8'' ''a'', hop_to ''::ffff:10.0.0.1'' ''b'']) \<noteq> None
   \<and> \<not> internal_address ''8.8.8.8''"
proof -
  have conns: "map conn_target (fst (guarded_hops False [hop_to ''8.8.8.8'' ''a'', hop_to ''::ffff:10.0.0.1'' ''b'']))
     = [''8.8.8.8'']"
    by (simp add: hop_to_def handle_async_request_def sample_names sample_addresses ALLOWED_SCHEMES_def)
  obtain cs e where run: "guarded_hops False [hop_to ''8.8.8.8'' ''a'', hop_to ''::ffff:10.0.0.1'' ''b''] = (cs, e)"
    by (rule prod.exhaust)
  have cs: "map conn_target cs = [''8.8.8.8'']" using conns unfolding run fst_conv .
  from no_internal_connection [of "[hop_to ''8.8.8.8'' ''a'', hop_to ''::ffff:10.0.0.1'' ''b'']"]
  have "list_all (\<lambda>c. \<not> internal_address (conn_target c)) cs \<and> (e = None) = (length cs = length [(), ()])"
    unfolding run fst_conv snd_conv Let_def list.size by (elim conjE, intro conjI)
  with cs show ?thesis unfolding run fst_conv snd_conv by (cases cs) auto
qed

text \<open>
  Gaps against the module's own description: \<open>is_global\<close> holds of multicast addresses, of the
  reserved and the deprecated site-local ranges of version 6 and of version 4 addresses in their
  old embedding.
\<close>

lemma multicast_is_not_blocked: "\<not> addr_is_blocked ''224.0.0.1''"
  by code_simp

lemma reserved_v6_is_not_blocked:
  "\<not> addr_is_blocked ''4000::1''" "\<not> addr_is_blocked ''fec0::1''" "\<not> addr_is_blocked ''::127.0.0.1''"
proof -
  have ips: "ip_address ''4000::1'' = Some (V6 (v6 [0x4000, 0, 0, 0, 0, 0, 0, 1]))"
    "ip_address ''fec0::1'' = Some (V6 (v6 [0xfec0, 0, 0, 0, 0, 0, 0, 1]))"
    "ip_address ''::127.0.0.1'' = Some (V6 (v6 [0, 0, 0, 0, 0, 0, 0x7f00, 1]))"
    by code_simp+
  show "\<not> addr_is_blocked ''4000::1''" "\<not> addr_is_blocked ''fec0::1''" "\<not> addr_is_blocked ''::127.0.0.1''"
    by (simp_all add: addr_is_blocked_def ips ipv4_mapped_def v6_is_global_def V6_PRIVATE_def in_net_div6 v6_def
        word_unat_eq_iff unat_drop_bit_eq drop_bit_eq_div)
qed

text \<open>
  Two more errors than \<open>SsrfError\<close> escape, which no caller translates: brackets that do not match
  raise a \<open>ValueError\<close> in \<open>urlparse\<close>, and a label that is too long one in the resolver, also at
  a redirect.
\<close>

lemma bad_brackets_escape:
  "validate_public_url resolve allow ''http://[::1/'' = Inl (UrlParseError ValueError)"
proof -
  have "urlsplit ''http://[::1/'' = Inl ValueError" by code_simp
  then show ?thesis by (simp add: validate_public_url_def)
qed

lemma long_label_escapes:
  assumes "\<not> idna_encodable (rq_host rq)" "literal_ip (rq_host rq) = None"
  shows "handle_async_request resolve False rq = Inl (UrlParseError ValueError)"
  using assms by (simp add: handle_async_request_def addresses_of_def resolve_addresses_def)

end
