(* ===== verification/Webhooks.thy ===== *)
theory Webhooks
  imports Net Leads Transactions Signing "HOL-Library.Char_ord" "HOL-Library.List_Lexorder"
begin

text \<open>
  \<open>modules/webhooks\<close>: the endpoints a tenant registers, the delivery rows that the fan-out of a
  domain event writes, and the delivery of one row with its circuit breaker and the retries of
  its task (\<open>workers/tasks/webhooks.py\<close>).
\<close>

section \<open>Schemas\<close>

definition SUBSCRIBABLE_EVENTS :: "string list" where
  "SUBSCRIBABLE_EVENTS = [EVENT_LEAD_CREATED, EVENT_LISTING_PUBLISHED, EVENT_DEAL_CLOSED]"

text \<open>The validator of both bodies: known events only, sorted and without duplicates.\<close>

definition known_events :: "string list \<Rightarrow> error + string list" where
  "known_events events =
     (if events = [] then Inl (ValidationError ''events'')
      else if filter (\<lambda>e. e \<notin> set SUBSCRIBABLE_EVENTS) events \<noteq> []
      then Inl (ValidationError ''unknown event types'')
      else Inr (sort (remdups events)))"

record endpoint_create =
  ec_url :: string
  ec_events :: "string list"
  ec_description :: "string option"

record endpoint_update =
  eu_url :: "string option patch"
  eu_events :: "string list option patch"
  eu_description :: "string option patch"
  eu_is_active :: "bool option patch"

section \<open>Repository\<close>

definition get_endpoint :: "uuid \<Rightarrow> uuid \<Rightarrow> db \<Rightarrow> webhook_endpoint option" where
  "get_endpoint t i s = find (\<lambda>e. wep_tenant e = t \<and> wep_id e = i) (hook_endpoints s)"

definition endpoint_key :: "webhook_endpoint \<Rightarrow> instant \<times> uuid" where
  "endpoint_key e = (wep_created_at e, wep_id e)"

definition repo_list_endpoints :: "uuid \<Rightarrow> db \<Rightarrow> webhook_endpoint list" where
  "repo_list_endpoints t s = newest_first endpoint_key (filter (\<lambda>e. wep_tenant e = t) (hook_endpoints s))"

definition endpoints_for_event :: "uuid \<Rightarrow> string \<Rightarrow> db \<Rightarrow> webhook_endpoint list" where
  "endpoints_for_event t event_type s =
     filter (\<lambda>e. wep_tenant e = t \<and> wep_is_active e \<and> \<not> wep_circuit_open e \<and> event_type \<in> set (wep_events e))
       (hook_endpoints s)"

definition get_delivery :: "uuid \<Rightarrow> uuid \<Rightarrow> db \<Rightarrow> webhook_delivery option" where
  "get_delivery t i s = find (\<lambda>d. wdl_tenant d = t \<and> wdl_id d = i) (hook_deliveries s)"

definition delivery_key :: "webhook_delivery \<Rightarrow> instant \<times> uuid" where
  "delivery_key d = (wdl_created_at d, wdl_id d)"

definition repo_list_deliveries ::
  "uuid \<Rightarrow> uuid option \<Rightarrow> (instant \<times> uuid) option \<Rightarrow> int \<Rightarrow> db \<Rightarrow> webhook_delivery list" where
  "repo_list_deliveries t endpoint after limit s = fetch_page delivery_key after limit
     (filter (\<lambda>d. wdl_tenant d = t \<and> (endpoint = None \<or> endpoint = Some (wdl_endpoint d))) (hook_deliveries s))"

definition endpoint_write :: "uuid \<Rightarrow> (webhook_endpoint \<Rightarrow> webhook_endpoint) \<Rightarrow> (db, unit) action" where
  "endpoint_write i f =
     modify (\<lambda>s. s\<lparr>hook_endpoints := upd_rows (\<lambda>e. wep_id e = i) f (hook_endpoints s)\<rparr>)"

definition delivery_write :: "uuid \<Rightarrow> (webhook_delivery \<Rightarrow> webhook_delivery) \<Rightarrow> (db, unit) action" where
  "delivery_write i f =
     modify (\<lambda>s. s\<lparr>hook_deliveries := upd_rows (\<lambda>d. wdl_id d = i) f (hook_deliveries s)\<rparr>)"

section \<open>The environment\<close>

text \<open>
  The keyed digest, the compact JSON text of a body, the resolver, and what comes of a POST of a
  body to a URL under an event name and a signature: the number of redirects that the guarded
  client followed, and the guard's refusal, an error of the client, a status, or another
  exception (the guard's own \<open>ValueError\<close> at a hop whose name cannot be encoded).
\<close>

datatype post_outcome = PostRefused string | PostTransportError string | PostStatus int | PostCrashed error

record hook_world =
  hw_mac :: mac
  hw_dumps :: "string \<Rightarrow> json_obj \<Rightarrow> string"
  hw_resolve :: resolver
  hw_allow_private_hosts :: bool
  hw_post :: "string \<Rightarrow> string \<Rightarrow> string \<Rightarrow> string \<Rightarrow> nat \<times> post_outcome"

text \<open>The client's own limit: after so many redirects it gives up with an error.\<close>

definition MAX_REDIRECTS :: nat where
  "MAX_REDIRECTS = 20"

definition redirects_bounded :: "hook_world \<Rightarrow> bool" where
  "redirects_bounded hw \<longleftrightarrow> (\<forall>url body ev sig. fst (hw_post hw url body ev sig) \<le> MAX_REDIRECTS)"

definition WEBHOOK_BREAKER_THRESHOLD :: int where
  "WEBHOOK_BREAKER_THRESHOLD = 5"

definition MAX_DELIVERY_RETRIES :: nat where
  "MAX_DELIVERY_RETRIES = 6"

definition sign_webhook :: "hook_world \<Rightarrow> string \<Rightarrow> string \<Rightarrow> instant \<Rightarrow> string" where
  "sign_webhook hw secret payload now =
     (let ts = show_nat (nat (now div seconds 1))
      in ''t='' @ ts @ '',v1='' @ hw_mac hw secret (ts @ ''.'' @ payload))"

definition validate_url :: "hook_world \<Rightarrow> string \<Rightarrow> (db, unit) action" where
  "validate_url hw url = (case validate_public_url (hw_resolve hw) (hw_allow_private_hosts hw) url of
      Inl (SsrfError m) \<Rightarrow> raise (InvalidWebhookUrlError m)
    | Inl (UrlParseError e) \<Rightarrow> raise e
    | Inr _ \<Rightarrow> ret ())"

section \<open>Administration\<close>

definition new_endpoint :: "uuid \<Rightarrow> endpoint_create \<Rightarrow> string list \<Rightarrow> string \<Rightarrow> uuid \<Rightarrow> instant \<Rightarrow> webhook_endpoint" where
  "new_endpoint t data events secret new_id now = \<lparr>wep_id = new_id, wep_tenant = t, wep_url = ec_url data,
     wep_secret = secret, wep_events = events, wep_is_active = True,
     wep_description = ec_description data, wep_consecutive_failures = 0, wep_circuit_open = False,
     wep_last_error = None, wep_last_delivered_at = None, wep_created_at = now\<rparr>"

definition create_endpoint ::
  "hook_world \<Rightarrow> tenant_context \<Rightarrow> endpoint_create \<Rightarrow> string \<Rightarrow> uuid \<Rightarrow> instant \<Rightarrow> (db, webhook_endpoint) action" where
  "create_endpoint hw ten data secret new_id now =
     andthen (lift_res (known_events (ec_events data))) (\<lambda>events.
     andthen (validate_url hw (ec_url data)) (\<lambda>_.
     let e = new_endpoint (tenant_id ten) data events secret new_id now
     in andthen (modify (\<lambda>s. s\<lparr>hook_endpoints := hook_endpoints s @ [e]\<rparr>)) (\<lambda>_. ret e)))"

definition endpoint_or_404 :: "tenant_context \<Rightarrow> uuid \<Rightarrow> (db, webhook_endpoint) action" where
  "endpoint_or_404 ten i = andthen (gets (get_endpoint (tenant_id ten) i)) (\<lambda>e. case e of
      None \<Rightarrow> raise (NotFoundError ''Webhook endpoint not found.'') | Some e \<Rightarrow> ret e)"

text \<open>Turning an endpoint on also closes its breaker.\<close>

definition patch_endpoint :: "endpoint_update \<Rightarrow> string list option \<Rightarrow> webhook_endpoint \<Rightarrow> webhook_endpoint" where
  "patch_endpoint u events e =
     (let e1 = e\<lparr>wep_url := or_else (patch_get (eu_url u)) (wep_url e),
                 wep_events := or_else events (wep_events e),
                 wep_description := patched (eu_description u) (wep_description e)\<rparr>
      in case patch_get (eu_is_active u) of
           None \<Rightarrow> e1
         | Some False \<Rightarrow> e1\<lparr>wep_is_active := False\<rparr>
         | Some True \<Rightarrow> e1\<lparr>wep_is_active := True, wep_circuit_open := False, wep_consecutive_failures := 0\<rparr>)"

definition update_endpoint :: "hook_world \<Rightarrow> tenant_context \<Rightarrow> uuid \<Rightarrow> endpoint_update \<Rightarrow> (db, unit) action" where
  "update_endpoint hw ten i u =
     andthen (case patch_get (eu_events u) of
         None \<Rightarrow> ret None | Some es \<Rightarrow> lift_res (map_sum id Some (known_events es))) (\<lambda>events.
     andthen (endpoint_or_404 ten i) (\<lambda>e.
     andthen (case patch_get (eu_url u) of None \<Rightarrow> ret () | Some url \<Rightarrow> validate_url hw url) (\<lambda>_.
     endpoint_write i (patch_endpoint u events))))"

text \<open>The delivery log goes with the endpoint (\<open>ON DELETE CASCADE\<close>).\<close>

definition delete_endpoint :: "tenant_context \<Rightarrow> uuid \<Rightarrow> (db, unit) action" where
  "delete_endpoint ten i =
     andthen (endpoint_or_404 ten i) (\<lambda>_.
     modify (\<lambda>s. s\<lparr>hook_endpoints := del_rows (\<lambda>e. wep_id e = i) (hook_endpoints s),
       hook_deliveries := del_rows (\<lambda>d. wdl_endpoint d = i) (hook_deliveries s)\<rparr>))"

definition list_deliveries ::
  "tenant_context \<Rightarrow> uuid option \<Rightarrow> (instant \<times> uuid) cursor option \<Rightarrow> int option \<Rightarrow> db \<Rightarrow>
   error + (webhook_delivery list \<times> (instant \<times> uuid) cursor option)" where
  "list_deliveries ten endpoint cursor limit s =
     (case decode_keyset cursor of
        Inl e \<Rightarrow> Inl e
      | Inr after \<Rightarrow> (let page_size = clamp_limit limit in
          Inr (cut_page delivery_key page_size
            (repo_list_deliveries (tenant_id ten) endpoint after page_size s))))"

section \<open>Fan-out\<close>

definition new_delivery :: "uuid \<Rightarrow> uuid \<Rightarrow> string \<Rightarrow> json_obj \<Rightarrow> uuid \<Rightarrow> instant \<Rightarrow> webhook_delivery" where
  "new_delivery t endpoint event_type payload new_id now = \<lparr>wdl_id = new_id, wdl_tenant = t,
     wdl_endpoint = endpoint, wdl_event_type = event_type, wdl_payload = payload,
     wdl_status = DELIVERY_PENDING, wdl_attempts = 0, wdl_response_status = None,
     wdl_last_error = None, wdl_delivered_at = None, wdl_created_at = now\<rparr>"

text \<open>The row for an endpoint takes the id \<open>new_id\<close> of that endpoint.\<close>

definition dispatch_event ::
  "tenant_context \<Rightarrow> string \<Rightarrow> json_obj \<Rightarrow> (uuid \<Rightarrow> uuid) \<Rightarrow> instant \<Rightarrow> (db, nat) action" where
  "dispatch_event ten event_type payload new_id now =
     andthen (gets (endpoints_for_event (tenant_id ten) event_type)) (\<lambda>endpoints.
     andthen (for_each endpoints (\<lambda>e.
       let d = new_delivery (tenant_id ten) (wep_id e) event_type payload (new_id (wep_id e)) now
       in andthen (modify (\<lambda>s. s\<lparr>hook_deliveries := hook_deliveries s @ [d]\<rparr>)) (\<lambda>_.
          on_commit (DeliverWebhook (tenant_id ten) (wdl_id d))))) (\<lambda>_.
     ret (length endpoints)))"

section \<open>Delivery\<close>

record delivery_outcome =
  do_status :: string
  do_retry :: bool
  do_detail :: string

definition outcome :: "string \<Rightarrow> bool \<Rightarrow> string \<Rightarrow> delivery_outcome" where
  "outcome st retry detail = \<lparr>do_status = st, do_retry = retry, do_detail = detail\<rparr>"

definition http_detail :: "int \<Rightarrow> string" where
  "http_detail code = ''HTTP '' @ show_nat (nat code)"

definition endpoint_succeeded :: "instant \<Rightarrow> webhook_endpoint \<Rightarrow> webhook_endpoint" where
  "endpoint_succeeded now e = e\<lparr>wep_consecutive_failures := 0, wep_circuit_open := False,
     wep_last_error := None, wep_last_delivered_at := Some now\<rparr>"

definition endpoint_failed :: "string \<Rightarrow> webhook_endpoint \<Rightarrow> webhook_endpoint" where
  "endpoint_failed detail e =
     (let n = wep_consecutive_failures e + 1 in
      e\<lparr>wep_consecutive_failures := n, wep_last_error := Some (take 2000 detail),
        wep_circuit_open := (wep_circuit_open e \<or> WEBHOOK_BREAKER_THRESHOLD \<le> n)\<rparr>)"

definition record_success :: "webhook_delivery \<Rightarrow> webhook_endpoint \<Rightarrow> int \<Rightarrow> instant \<Rightarrow> (db, delivery_outcome) action" where
  "record_success d e code now =
     andthen (delivery_write (wdl_id d) (\<lambda>x. x\<lparr>wdl_status := DELIVERED, wdl_response_status := Some code,
       wdl_delivered_at := Some now, wdl_last_error := None\<rparr>)) (\<lambda>_.
     andthen (endpoint_write (wep_id e) (endpoint_succeeded now)) (\<lambda>_.
     ret (outcome ''delivered'' False (http_detail code))))"

definition record_failure_hook ::
  "webhook_delivery \<Rightarrow> webhook_endpoint \<Rightarrow> string \<Rightarrow> bool \<Rightarrow> int option \<Rightarrow> (db, delivery_outcome) action" where
  "record_failure_hook d e detail permanent response_status =
     andthen (delivery_write (wdl_id d) (\<lambda>x. x\<lparr>wdl_response_status := response_status,
       wdl_last_error := Some (take 2000 detail)\<rparr>)) (\<lambda>_.
     andthen (endpoint_write (wep_id e) (endpoint_failed detail)) (\<lambda>_.
     if WEBHOOK_BREAKER_THRESHOLD \<le> wep_consecutive_failures e + 1
     then andthen (delivery_write (wdl_id d) (\<lambda>x. x\<lparr>wdl_status := DELIVERY_FAILED\<rparr>)) (\<lambda>_.
       ret (outcome ''paused'' False detail))
     else if permanent
     then andthen (delivery_write (wdl_id d) (\<lambda>x. x\<lparr>wdl_status := DELIVERY_FAILED\<rparr>)) (\<lambda>_.
       ret (outcome ''failed'' False detail))
     else ret (outcome ''failed'' True detail)))"

text \<open>A request leaves at once: no rollback takes it back. Each redirect is one more.\<close>

definition post_webhook ::
  "hook_world \<Rightarrow> webhook_endpoint \<Rightarrow> string \<Rightarrow> string \<Rightarrow> string \<Rightarrow> (db, post_outcome) action" where
  "post_webhook hw e body event_type signature =
     (case hw_post hw (wep_url e) body event_type signature of (redirects, reply) \<Rightarrow>
      andthen (send_now (PostWebhook (wep_id e) (wep_url e) body event_type signature)) (\<lambda>_.
      andthen (modify (\<lambda>s. s\<lparr>sent := sent s @ replicate redirects (FollowRedirect (wep_id e))\<rparr>)) (\<lambda>_.
      ret reply)))"

definition is_success :: "int \<Rightarrow> bool" where
  "is_success code \<longleftrightarrow> 200 \<le> code \<and> code < 300"

definition is_permanent :: "int \<Rightarrow> bool" where
  "is_permanent code \<longleftrightarrow> 400 \<le> code \<and> code < 500 \<and> code \<notin> {408, 429}"

definition deliver :: "hook_world \<Rightarrow> tenant_context \<Rightarrow> uuid \<Rightarrow> instant \<Rightarrow> (db, delivery_outcome) action" where
  "deliver hw ten i now =
     andthen (gets (get_delivery (tenant_id ten) i)) (\<lambda>found. case found of
       None \<Rightarrow> ret (outcome ''skipped'' False ''delivery gone'')
     | Some d \<Rightarrow>
       if wdl_status d = DELIVERED then ret (outcome ''delivered'' False ''already delivered'')
       else andthen (gets (get_endpoint (tenant_id ten) (wdl_endpoint d))) (\<lambda>target. case target of
         None \<Rightarrow> andthen (delivery_write i (\<lambda>x. x\<lparr>wdl_status := DELIVERY_FAILED,
             wdl_last_error := Some ''endpoint deleted''\<rparr>)) (\<lambda>_.
           ret (outcome ''failed'' False ''endpoint gone''))
       | Some e \<Rightarrow>
         if wep_circuit_open e
         then andthen (delivery_write i (\<lambda>x. x\<lparr>wdl_status := DELIVERY_FAILED,
             wdl_last_error := Some ''circuit open''\<rparr>)) (\<lambda>_.
           ret (outcome ''paused'' False ''circuit open''))
         else
           let body = hw_dumps hw (wdl_event_type d) (wdl_payload d);
               signature = sign_webhook hw (wep_secret e) body now
           in andthen (delivery_write i (\<lambda>x. x\<lparr>wdl_attempts := wdl_attempts x + 1\<rparr>)) (\<lambda>_.
              andthen (post_webhook hw e body (wdl_event_type d) signature) (\<lambda>reply. case reply of
                PostCrashed err \<Rightarrow> raise err
              | PostRefused m \<Rightarrow> record_failure_hook d e m True None
              | PostTransportError m \<Rightarrow> record_failure_hook d e (''transport error: '' @ m) False None
              | PostStatus code \<Rightarrow>
                  if is_success code then record_success d e code now
                  else record_failure_hook d e (http_detail code) (is_permanent code) (Some code)))))"

text \<open>
  The task: Celery runs it again after a retry, at most \<open>MAX_DELIVERY_RETRIES\<close> more times. Each
  attempt is a transaction of its own, under the world and the clock of its time.
\<close>

fun deliver_attempts ::
  "tenant_context \<Rightarrow> uuid \<Rightarrow> (hook_world \<times> instant) list \<Rightarrow> db \<Rightarrow> (error + delivery_outcome) option \<times> db" where
  "deliver_attempts ten i [] s = (None, s)"
| "deliver_attempts ten i ((hw, now) # later) s =
     (case run_request (deliver hw ten i now) s of (r, s') \<Rightarrow>
        if \<not> isl r \<and> do_retry (projr r) \<and> later \<noteq> [] then deliver_attempts ten i later s' else (Some r, s'))"

definition deliver_webhook ::
  "tenant_context \<Rightarrow> uuid \<Rightarrow> (hook_world \<times> instant) list \<Rightarrow> db \<Rightarrow> (error + delivery_outcome) option \<times> db" where
  "deliver_webhook ten i attempts s = deliver_attempts ten i (take (Suc MAX_DELIVERY_RETRIES) attempts) s"

end
