(* ===== verification/Outbox.thy ===== *)
theory Outbox
  imports Webhooks
begin

text \<open>
  \<open>core/events.py\<close> and \<open>workers/tasks/outbox.py\<close>: the rows of the transactional outbox, the
  handlers registered for the domain events and the relay that drains the due rows of a tenant.
  The tables of a transaction that emits an event hold the event itself (\<open>outbox\<close> of the database);
  its row with the delivery columns is filed when the transaction commits. A claim cannot meet
  a locked row here: ticks are serial.
\<close>

section \<open>Rows\<close>

definition OUTBOX_MAX_ATTEMPTS :: int where
  "OUTBOX_MAX_ATTEMPTS = 8"

definition OUTBOX_BACKOFF_BASE_SECONDS :: int where
  "OUTBOX_BACKOFF_BASE_SECONDS = 30"

definition OUTBOX_BACKOFF_MAX_SECONDS :: int where
  "OUTBOX_BACKOFF_MAX_SECONDS = 3600"

definition OUTBOX_BATCH_SIZE :: nat where
  "OUTBOX_BATCH_SIZE = 100"

datatype outbox_status = OUTBOX_PENDING | OUTBOX_DELIVERED | OUTBOX_FAILED

record outbox_row = outbox_event +
  ob_id :: uuid
  ob_status :: outbox_status
  ob_attempts :: int
  ob_next_attempt_at :: instant
  ob_last_error :: "string option"
  ob_dispatched_at :: "instant option"

record relay_state =
  rl_db :: db
  rl_rows :: "outbox_row list"

text \<open>The columns that \<open>emit_event\<close> does not set take their defaults at the flush.\<close>

definition new_row :: "uuid \<Rightarrow> instant \<Rightarrow> outbox_event \<Rightarrow> outbox_row" where
  "new_row new_id now ev = outbox_event.extend ev \<lparr>ob_id = new_id, ob_status = OUTBOX_PENDING,
     ob_attempts = 0, ob_next_attempt_at = now, ob_last_error = None, ob_dispatched_at = None\<rparr>"

text \<open>
  What the transaction of another service does to both: its events are filed, with the ids
  \<open>new_id 0\<close>, \<open>new_id 1\<close>, and so on.
\<close>

definition file_rows :: "(nat \<Rightarrow> uuid) \<Rightarrow> instant \<Rightarrow> relay_state \<Rightarrow> relay_state" where
  "file_rows new_id now st = st\<lparr>rl_rows := rl_rows st @
     map (\<lambda>(k, ev). new_row (new_id k) now ev)
       (List.enumerate 0 (drop (length (rl_rows st)) (outbox (rl_db st))))\<rparr>"

definition committed :: "(nat \<Rightarrow> uuid) \<Rightarrow> instant \<Rightarrow> (db, 'a) action \<Rightarrow> relay_state \<Rightarrow> relay_state" where
  "committed new_id now m st = file_rows new_id now (st\<lparr>rl_db := snd (run_request m (rl_db st))\<rparr>)"

section \<open>Handlers\<close>

type_synonym handler = "tenant_context \<Rightarrow> string \<Rightarrow> json_obj \<Rightarrow> (db, unit) action"

record relay_world =
  rw_world :: world
  rw_now :: instant
  rw_delivery_id :: "uuid \<Rightarrow> uuid \<Rightarrow> uuid"
  rw_error_text :: "error \<Rightarrow> string"

text \<open>
  \<open>uuid.UUID(str(v))\<close> and \<open>str(v)\<close> of a payload value; the producers write strings and nulls only.
\<close>

definition json_text :: "json option \<Rightarrow> string" where
  "json_text v = (case v of Some (JStr x) \<Rightarrow> x | _ \<Rightarrow> ''None'')"

definition handle_lead_created :: "world \<Rightarrow> handler" where
  "handle_lead_created w ten event_type payload =
     (if \<not> json_truthy (json_get ''agentId'' payload) then ret ()
      else case uuid_of_text w (json_text (json_get ''agentId'' payload)) of
        None \<Rightarrow> raise ValueError
      | Some agent \<Rightarrow>
          andthen (gets (get_identity_if_active (Some (tenant_id ten)) agent)) (\<lambda>ident. case ident of
            None \<Rightarrow> ret ()
          | Some u \<Rightarrow> notify ten agent ''lead_assigned''
              [(''leadId'', JStr (json_text (json_get ''leadId'' payload))), (''email'', JStr (ident_email u))]))"

definition dispatch_via_outbox :: "(uuid \<Rightarrow> uuid) \<Rightarrow> instant \<Rightarrow> handler" where
  "dispatch_via_outbox new_id now ten event_type payload =
     andthen (dispatch_event ten event_type payload new_id now) (\<lambda>_. ret ())"

text \<open>
  The registry, in registration order. The event's own id selects the fresh ids its handlers
  draw.
\<close>

definition get_handlers :: "relay_world \<Rightarrow> uuid \<Rightarrow> string \<Rightarrow> handler list" where
  "get_handlers rw event_id event_type =
     (if event_type = EVENT_LEAD_CREATED then [handle_lead_created (rw_world rw)] else [])
     @ (if event_type \<in> set [EVENT_LEAD_CREATED, EVENT_LISTING_PUBLISHED, EVENT_DEAL_CLOSED]
        then [dispatch_via_outbox (rw_delivery_id rw event_id) (rw_now rw)] else [])"

section \<open>The relay\<close>

definition outbox_backoff_seconds :: "int \<Rightarrow> int" where
  "outbox_backoff_seconds attempts =
     min (OUTBOX_BACKOFF_BASE_SECONDS * 2 ^ nat (max (attempts - 1) 0)) OUTBOX_BACKOFF_MAX_SECONDS"

text \<open>
  \<open>begin_nested\<close>: when the block raises, the tables are those of the savepoint; the callbacks
  registered on the session and what was already handed out are not part of it.
\<close>

definition savepoint :: "(db, 'a) action \<Rightarrow> (db, 'a) action" where
  "savepoint m s = (case m s of
      (Inl e, t) \<Rightarrow> (Inl e, s\<lparr>post_commit := post_commit t, sent := sent t\<rparr>)
    | (Inr a, t) \<Rightarrow> (Inr a, t))"

type_synonym registry = "relay_world \<Rightarrow> uuid \<Rightarrow> string \<Rightarrow> handler list"

definition row_handlers :: "registry \<Rightarrow> relay_world \<Rightarrow> outbox_row \<Rightarrow> handler list" where
  "row_handlers reg rw r = reg rw (ob_id r) (ev_type r)"

definition run_handlers :: "registry \<Rightarrow> relay_world \<Rightarrow> tenant_context \<Rightarrow> outbox_row \<Rightarrow> (db, unit) action" where
  "run_handlers reg rw ten r =
     for_each (row_handlers reg rw r) (\<lambda>h. h ten (ev_type r) (ev_payload r))"

text \<open>One claimed event: its new row, and how many were delivered and failed by it.\<close>

definition process_event ::
  "registry \<Rightarrow> relay_world \<Rightarrow> tenant_context \<Rightarrow> outbox_row \<Rightarrow> db \<Rightarrow> outbox_row \<times> db \<times> nat \<times> nat" where
  "process_event reg rw ten r s =
     (let attempt_no = ob_attempts r + 1; r1 = r\<lparr>ob_attempts := attempt_no\<rparr> in
      if row_handlers reg rw r = []
      then (r1\<lparr>ob_status := OUTBOX_FAILED, ob_last_error := Some ''no handler registered''\<rparr>, s, 0, 1)
      else case savepoint (run_handlers reg rw ten r) s of
        (Inl e, s') \<Rightarrow>
          let r2 = r1\<lparr>ob_last_error := Some (take 500 (rw_error_text rw e))\<rparr> in
          if OUTBOX_MAX_ATTEMPTS \<le> attempt_no then (r2\<lparr>ob_status := OUTBOX_FAILED\<rparr>, s', 0, 1)
          else (r2\<lparr>ob_next_attempt_at := rw_now rw + seconds (outbox_backoff_seconds attempt_no)\<rparr>, s', 0, 0)
      | (Inr _, s') \<Rightarrow> (r1\<lparr>ob_status := OUTBOX_DELIVERED, ob_dispatched_at := Some (rw_now rw),
          ob_last_error := None\<rparr>, s', 1, 0))"

definition is_due :: "uuid \<Rightarrow> instant \<Rightarrow> outbox_row \<Rightarrow> bool" where
  "is_due t now r \<longleftrightarrow> ev_tenant r = t \<and> ob_status r = OUTBOX_PENDING \<and> ob_next_attempt_at r \<le> now"

definition due_order :: "outbox_row \<Rightarrow> instant \<times> uuid" where
  "due_order r = (ob_next_attempt_at r, ob_id r)"

definition due_rows :: "uuid \<Rightarrow> instant \<Rightarrow> outbox_row list \<Rightarrow> outbox_row list" where
  "due_rows t now rows = sort_key due_order (filter (is_due t now) rows)"

fun drain_rows ::
  "registry \<Rightarrow> relay_world \<Rightarrow> tenant_context \<Rightarrow> outbox_row list \<Rightarrow> relay_state \<Rightarrow> (nat \<times> nat) \<times> relay_state" where
  "drain_rows reg rw ten [] st = ((0, 0), st)"
| "drain_rows reg rw ten (r # rs) st =
     (case process_event reg rw ten r (rl_db st) of (r', s', delivered, failed) \<Rightarrow>
        (case drain_rows reg rw ten rs (st\<lparr>rl_db := s',
             rl_rows := upd_rows (\<lambda>x. ob_id x = ob_id r) (\<lambda>_. r') (rl_rows st)\<rparr>) of
           ((ds, fs), st') \<Rightarrow> ((delivered + ds, failed + fs), st')))"

definition drain_outbox ::
  "registry \<Rightarrow> relay_world \<Rightarrow> tenant_context \<Rightarrow> relay_state \<Rightarrow> (nat \<times> nat) \<times> relay_state" where
  "drain_outbox reg rw ten st =
     drain_rows reg rw ten (take OUTBOX_BATCH_SIZE (due_rows (tenant_id ten) (rw_now rw) (rl_rows st))) st"

text \<open>The transaction around a drain (\<open>run_scoped_many\<close>): its callbacks fire after the commit.\<close>

definition relay_tick ::
  "registry \<Rightarrow> relay_world \<Rightarrow> tenant_context \<Rightarrow> relay_state \<Rightarrow> (nat \<times> nat) \<times> relay_state" where
  "relay_tick reg rw ten st =
     (case drain_outbox reg rw ten (st\<lparr>rl_db := (rl_db st)\<lparr>post_commit := []\<rparr>\<rparr>) of (counts, st') \<Rightarrow>
        (counts, st'\<lparr>rl_db := (rl_db st')\<lparr>post_commit := [],
           sent := sent (rl_db st') @ post_commit (rl_db st')\<rparr>\<rparr>))"

text \<open>The Beat job: one tick per tenant that is not suspended, and the totals.\<close>

fun relay_outbox ::
  "registry \<Rightarrow> relay_world \<Rightarrow> tenant_context list \<Rightarrow> relay_state \<Rightarrow> (nat \<times> nat) \<times> relay_state" where
  "relay_outbox reg rw [] st = ((0, 0), st)"
| "relay_outbox reg rw (ten # tens) st =
     (case relay_tick reg rw ten st of ((d, f), st1) \<Rightarrow>
        (case relay_outbox reg rw tens st1 of ((ds, fs), st2) \<Rightarrow> ((d + ds, f + fs), st2)))"

end
