(* ===== verification/Relay_Desk.thy ===== *)
theory Relay_Desk
  imports Outbox
begin

text \<open>
  What the outbox promises: the tables are those of a ledger in which every delivered event ran
  its handlers exactly once, in order, between the transactions of the other services; rows stay
  well-formed; a tick takes the oldest hundred due rows out of the way.
\<close>

section \<open>Handlers that do not look at the side effects\<close>

definition tables :: "db \<Rightarrow> db" where
  "tables s = s\<lparr>post_commit := [], sent := []\<rparr>"

definition oblivious :: "(db, 'a) action \<Rightarrow> bool" where
  "oblivious m \<longleftrightarrow> (\<forall>s t. tables s = tables t \<longrightarrow>
     fst (m s) = fst (m t) \<and> tables (snd (m s)) = tables (snd (m t)))"

named_theorems oblivious_intros \<open>introduction rules for oblivious\<close>

lemma tables_eq: "tables s = tables t \<Longrightarrow> t = s\<lparr>post_commit := post_commit t, sent := sent t\<rparr>"
  by (cases s; cases t) (simp add: tables_def)

lemma tables_simps [simp]:
  "tables (s\<lparr>post_commit := p\<rparr>) = tables s" "tables (s\<lparr>sent := q\<rparr>) = tables s"
  "tables (tables s) = tables s"
  by (simp_all add: tables_def)

lemma notifications_tables: "notifications (tables s) = notifications s"
  by (simp add: tables_def)

lemma obliviousD:
  "oblivious m \<Longrightarrow> tables s = tables t \<Longrightarrow> fst (m s) = fst (m t) \<and> tables (snd (m s)) = tables (snd (m t))"
  unfolding oblivious_def by blast

lemma oblivious_basics [oblivious_intros]:
  "oblivious (ret a)" "oblivious (raise e)" "oblivious (check b e)" "oblivious (lift_res r)"
  by (simp_all add: oblivious_def ret_def raise_def check_def lift_res_def)

lemma oblivious_on_commit [oblivious_intros]: "oblivious (on_commit c)"
  unfolding oblivious_def by (intro allI impI) (simp only: on_commit_run fst_conv snd_conv tables_simps)

lemma oblivious_gets [oblivious_intros]:
  assumes "\<And>s p q. f (s\<lparr>post_commit := p, sent := q\<rparr>) = f s" shows "oblivious (gets f)"
proof -
  have "f s = f t" if "tables s = tables t" for s t
    using tables_eq [OF that] assms [where s = s and p = "post_commit t" and q = "sent t"] by metis
  then show ?thesis unfolding oblivious_def gets_def fst_conv snd_conv by blast
qed

lemma oblivious_modify [oblivious_intros]:
  assumes "\<And>s p q. tables (g (s\<lparr>post_commit := p, sent := q\<rparr>)) = tables (g s)" shows "oblivious (modify g)"
proof -
  have "tables (g s) = tables (g t)" if "tables s = tables t" for s t
    using tables_eq [OF that] assms [where s = s and p = "post_commit t" and q = "sent t"] by metis
  then show ?thesis unfolding oblivious_def modify_def fst_conv snd_conv by blast
qed

lemma oblivious_andthen [oblivious_intros]:
  assumes m: "oblivious m" and f: "\<And>a. oblivious (f a)" shows "oblivious (andthen m f)"
  unfolding oblivious_def
proof (intro allI impI)
  fix s t :: db assume st: "tables s = tables t"
  obtain r s' where s': "m s = (r, s')" by (cases "m s")
  obtain r' t' where t': "m t = (r', t')" by (cases "m t")
  from obliviousD [OF m st] have e: "r' = r" "tables s' = tables t'"
    by (simp_all only: s' t' fst_conv snd_conv)
  show "fst (andthen m f s) = fst (andthen m f t) \<and> tables (snd (andthen m f s)) = tables (snd (andthen m f t))"
  proof (cases r)
    case (Inl x)
    then show ?thesis by (simp only: andthen_def s' t' e prod.case sum.case fst_conv snd_conv simp_thms)
  next
    case (Inr a)
    with obliviousD [OF f e(2)] show ?thesis
      by (simp only: andthen_def s' t' e(1) prod.case sum.case simp_thms)
  qed
qed

lemma oblivious_if [oblivious_intros]:
  "oblivious m \<Longrightarrow> oblivious n \<Longrightarrow> oblivious (if b then m else n)"
  by simp

lemma oblivious_option [oblivious_intros]:
  "oblivious m \<Longrightarrow> (\<And>y. oblivious (f y)) \<Longrightarrow> oblivious (case x of None \<Rightarrow> m | Some y \<Rightarrow> f y)"
  by (cases x) auto

lemma oblivious_for_each [oblivious_intros]:
  "(\<And>x. x \<in> set xs \<Longrightarrow> oblivious (f x)) \<Longrightarrow> oblivious (for_each xs f)"
  by (induction xs) (auto intro!: oblivious_intros)

text \<open>A savepoint gives the tables back when its block raises, and hides that it is one otherwise.\<close>

lemma savepoint_tables:
  "fst (savepoint m s) = fst (m s)"
  "tables (snd (savepoint m s)) = (if isl (fst (m s)) then tables s else tables (snd (m s)))"
  by (auto simp: savepoint_def tables_def split: prod.splits sum.splits)

section \<open>The ledger\<close>

datatype entry = Tx db | Handled relay_world tenant_context outbox_row

fun replay :: "registry \<Rightarrow> entry list \<Rightarrow> db \<Rightarrow> db" where
  "replay reg [] d = d"
| "replay reg (Tx t # es) d = replay reg es t"
| "replay reg (Handled rw ten r # es) d = replay reg es (tables (snd (run_handlers reg rw ten r d)))"

fun handled :: "entry list \<Rightarrow> uuid list" where
  "handled [] = []"
| "handled (Tx t # es) = handled es"
| "handled (Handled rw ten r # es) = ob_id r # handled es"

text \<open>The events of a batch whose handlers all return, each on the tables the ones before left.\<close>

fun deliveries :: "registry \<Rightarrow> relay_world \<Rightarrow> tenant_context \<Rightarrow> outbox_row list \<Rightarrow> db \<Rightarrow> entry list" where
  "deliveries reg rw ten [] d = []"
| "deliveries reg rw ten (r # rs) d =
     (case run_handlers reg rw ten r d of (res, d') \<Rightarrow>
        if row_handlers reg rw r = [] \<or> isl res then deliveries reg rw ten rs d
        else Handled rw ten r # deliveries reg rw ten rs (tables d'))"

inductive relay_run :: "registry \<Rightarrow> relay_state \<Rightarrow> entry list \<Rightarrow> relay_state \<Rightarrow> bool" for reg where
  run_start: "relay_run reg st [] st"
| run_other: "relay_run reg st log a \<Longrightarrow> b = committed new_id now (m :: (db, unit) action) a \<Longrightarrow> distinct (map ob_id (rl_rows b)) \<Longrightarrow>
    relay_run reg st (log @ [Tx (tables (rl_db b))]) b"
| run_tick: "relay_run reg st log a \<Longrightarrow> relay_tick reg rw ten a = (n, b) \<Longrightarrow>
    relay_run reg st (log @ deliveries reg rw ten
      (take OUTBOX_BATCH_SIZE (due_rows (tenant_id ten) (rw_now rw) (rl_rows a))) (tables (rl_db a))) b"

lemma replay_append: "replay reg (es @ fs) d = replay reg fs (replay reg es d)"
  by (induction reg es d rule: replay.induct) simp_all

lemma handled_append [simp]: "handled (es @ fs) = handled es @ handled fs"
  by (induction es rule: handled.induct) simp_all

definition delivered :: "outbox_row list \<Rightarrow> uuid set" where
  "delivered rows = ob_id ` {r \<in> set rows. ob_status r = OUTBOX_DELIVERED}"

section \<open>One claimed event\<close>

lemma process_row:
  assumes "process_event reg rw ten r s = (r', s', d, f)"
  shows "ob_id r' = ob_id r" "ob_attempts r' = ob_attempts r + 1"
    "outbox_event.truncate r' = outbox_event.truncate r"
    "ob_status r' = OUTBOX_PENDING \<Longrightarrow> ob_status r = OUTBOX_PENDING \<Longrightarrow>
       ob_attempts r' < OUTBOX_MAX_ATTEMPTS \<and> ob_dispatched_at r' = ob_dispatched_at r
       \<and> ob_next_attempt_at r' = rw_now rw + seconds (outbox_backoff_seconds (ob_attempts r'))"
  using assms by (auto simp: process_event_def Let_def outbox_event.truncate_def
      split: if_splits prod.splits sum.splits)

lemma backoff_bounds: "30 \<le> outbox_backoff_seconds n \<and> outbox_backoff_seconds n \<le> 3600"
proof -
  have "(1 :: int) \<le> 2 ^ nat (max (n - 1) 0)" by simp
  then show ?thesis
    by (simp add: outbox_backoff_seconds_def OUTBOX_BACKOFF_BASE_SECONDS_def OUTBOX_BACKOFF_MAX_SECONDS_def)
qed

lemma settled_not_due:
  assumes "process_event reg rw ten r s = (r', s', d, f)" shows "\<not> is_due t (rw_now rw) r'"
proof
  assume due: "is_due t (rw_now rw) r'"
  then have p: "ob_status r' = OUTBOX_PENDING" "ob_next_attempt_at r' \<le> rw_now rw" by (simp_all add: is_due_def)
  with assms have "ob_next_attempt_at r' = rw_now rw + seconds (outbox_backoff_seconds (ob_attempts r + 1))"
    by (auto simp: process_event_def Let_def split: if_splits prod.splits sum.splits)
  with p(2) backoff_bounds [of "ob_attempts r + 1"] show False by (simp add: seconds_def)
qed

section \<open>A registry of oblivious handlers\<close>

text \<open>
  What the relay relies on: no handler looks at the callbacks or at what was already sent. Its
  delivery of a batch then is a function of the tables.
\<close>

locale event_relay =
  fixes reg :: registry
  assumes handlers_oblivious: "h \<in> set (reg rw i ty) \<Longrightarrow> oblivious (h ten ty' p)"
begin

definition returns :: "relay_world \<Rightarrow> tenant_context \<Rightarrow> outbox_row \<Rightarrow> db \<Rightarrow> bool" where
  "returns rw ten r d \<longleftrightarrow> row_handlers reg rw r \<noteq> [] \<and> \<not> isl (fst (run_handlers reg rw ten r d))"

lemma run_oblivious: "oblivious (run_handlers reg rw ten r)"
  unfolding run_handlers_def
  by (rule oblivious_for_each) (auto simp: row_handlers_def intro: handlers_oblivious)

lemma run_on_tables:
  "fst (run_handlers reg rw ten r s) = fst (run_handlers reg rw ten r (tables s))"
  "tables (snd (run_handlers reg rw ten r s)) = tables (snd (run_handlers reg rw ten r (tables s)))"
  using obliviousD [OF run_oblivious, of s "tables s"] by simp_all

lemma process_tables:
  assumes "process_event reg rw ten r s = (r', s', d, f)"
  shows "tables s' = (if returns rw ten r (tables s)
      then tables (snd (run_handlers reg rw ten r (tables s))) else tables s)"
proof (cases "row_handlers reg rw r = []")
  case True
  with assms show ?thesis by (simp add: process_event_def returns_def)
next
  case False
  with assms have "s' = snd (savepoint (run_handlers reg rw ten r) s)"
    by (auto simp: process_event_def Let_def split: prod.splits sum.splits if_splits)
  with False run_on_tables [of rw ten r s] show ?thesis
    by (simp add: savepoint_tables returns_def)
qed

lemma process_status:
  assumes "process_event reg rw ten r s = (r', s', d, f)" "ob_status r = OUTBOX_PENDING"
  shows "ob_status r' = OUTBOX_DELIVERED \<longleftrightarrow> returns rw ten r (tables s)"
proof (cases "row_handlers reg rw r = []")
  case True
  with assms show ?thesis by (auto simp: process_event_def returns_def Let_def)
next
  case False
  have "isl (fst (savepoint (run_handlers reg rw ten r) s)) \<longleftrightarrow> ob_status r' \<noteq> OUTBOX_DELIVERED"
    using assms False by (auto simp: process_event_def Let_def split: prod.splits sum.splits if_splits)
  with False run_on_tables (1) [of rw ten r s] show ?thesis by (simp add: savepoint_tables returns_def)
qed

lemma deliveries_Cons:
  "deliveries reg rw ten (r # rs) d =
     (if returns rw ten r d
      then Handled rw ten r # deliveries reg rw ten rs (tables (snd (run_handlers reg rw ten r d)))
      else deliveries reg rw ten rs d)"
  by (auto simp: returns_def split: prod.splits)

lemma drain_tables:
  "drain_rows reg rw ten rs st = (n, st') \<Longrightarrow>
     tables (rl_db st') = replay reg (deliveries reg rw ten rs (tables (rl_db st))) (tables (rl_db st))"
proof (induction rs arbitrary: st n)
  case (Cons r rs)
  obtain r' s' d f where p: "process_event reg rw ten r (rl_db st) = (r', s', d, f)"
    by (metis prod_cases4)
  let ?st = "st\<lparr>rl_db := s', rl_rows := upd_rows (\<lambda>x. ob_id x = ob_id r) (\<lambda>_. r') (rl_rows st)\<rparr>"
  from Cons.prems p obtain m where "drain_rows reg rw ten rs ?st = (m, st')"
    by (auto split: prod.splits)
  from Cons.IH [OF this] process_tables [OF p] show ?case
    by (simp add: deliveries_Cons del: deliveries.simps)
qed simp

end

section \<open>The rows of a batch\<close>

lemma drain_ids:
  "drain_rows reg rw ten rs st = (n, st') \<Longrightarrow> map ob_id (rl_rows st') = map ob_id (rl_rows st)"
proof (induction rs arbitrary: st n)
  case (Cons r rs)
  obtain r' s' d f where p: "process_event reg rw ten r (rl_db st) = (r', s', d, f)"
    by (metis prod_cases4)
  let ?st = "st\<lparr>rl_db := s', rl_rows := upd_rows (\<lambda>x. ob_id x = ob_id r) (\<lambda>_. r') (rl_rows st)\<rparr>"
  from Cons.prems p obtain m where "drain_rows reg rw ten rs ?st = (m, st')"
    by (auto split: prod.splits)
  from Cons.IH [OF this] process_row(1) [OF p] show ?case by (simp add: upd_rows_def)
qed simp

lemma delivered_upd:
  assumes "distinct (map ob_id rows)" "r \<in> set rows" "ob_status r = OUTBOX_PENDING" "ob_id r' = ob_id r"
  shows "delivered (upd_rows (\<lambda>x. ob_id x = ob_id r) (\<lambda>_. r') rows)
    = (if ob_status r' = OUTBOX_DELIVERED then insert (ob_id r) (delivered rows) else delivered rows)"
proof -
  have u: "x = r" if "x \<in> set rows" "ob_id x = ob_id r" for x
    using assms(1,2) that by (metis distinct_key_eq)
  have m: "i \<in> delivered (upd_rows (\<lambda>x. ob_id x = ob_id r) (\<lambda>_. r') rows) \<longleftrightarrow>
      (if i = ob_id r then ob_status r' = OUTBOX_DELIVERED else i \<in> delivered rows)" for i
  proof -
    have "i \<in> delivered (upd_rows (\<lambda>x. ob_id x = ob_id r) (\<lambda>_. r') rows) \<longleftrightarrow> (\<exists>x \<in> set rows.
        ob_status (if ob_id x = ob_id r then r' else x) = OUTBOX_DELIVERED
        \<and> i = ob_id (if ob_id x = ob_id r then r' else x))"
      unfolding delivered_def set_upd_rows by blast
    also have "\<dots> \<longleftrightarrow> (if i = ob_id r then ob_status r' = OUTBOX_DELIVERED else i \<in> delivered rows)"
      using assms(2,4) by (auto simp: delivered_def split: if_splits)
    finally show ?thesis .
  qed
  have n: "ob_id r \<notin> delivered rows" using assms(3) by (auto simp: delivered_def dest: u)
  show ?thesis
    by (cases "ob_status r' = OUTBOX_DELIVERED"; rule set_eqI) (use n in \<open>auto simp: m\<close>)
qed

context event_relay
begin

lemma drain_delivered:
  "drain_rows reg rw ten rs st = (n, st') \<Longrightarrow> distinct (map ob_id (rl_rows st)) \<Longrightarrow>
   distinct (map ob_id rs) \<Longrightarrow> set rs \<subseteq> set (rl_rows st) \<Longrightarrow> (\<And>r. r \<in> set rs \<Longrightarrow> ob_status r = OUTBOX_PENDING) \<Longrightarrow>
   delivered (rl_rows st') = delivered (rl_rows st)
     \<union> set (handled (deliveries reg rw ten rs (tables (rl_db st))))
   \<and> distinct (handled (deliveries reg rw ten rs (tables (rl_db st))))
   \<and> set (handled (deliveries reg rw ten rs (tables (rl_db st)))) \<subseteq> ob_id ` set rs"
proof (induction rs arbitrary: st n)
  case (Cons r rs)
  obtain r' s' d f where p: "process_event reg rw ten r (rl_db st) = (r', s', d, f)"
    by (metis prod_cases4)
  let ?rows = "upd_rows (\<lambda>x. ob_id x = ob_id r) (\<lambda>_. r') (rl_rows st)"
  let ?st = "st\<lparr>rl_db := s', rl_rows := ?rows\<rparr>"
  from Cons.prems(1) p obtain m where q: "drain_rows reg rw ten rs ?st = (m, st')"
    by (auto split: prod.splits)
  have ids: "map ob_id ?rows = map ob_id (rl_rows st)"
    using process_row(1) [OF p] by (simp add: upd_rows_def)
  have sub: "set rs \<subseteq> set ?rows"
    using Cons.prems(3,4) by (auto intro!: upd_rows_other simp: image_iff)
  have r: "ob_status r = OUTBOX_PENDING" "r \<in> set (rl_rows st)" using Cons.prems(4,5) by auto
  from Cons.IH [OF q] ids sub Cons.prems(2,3,5)
  have ih: "delivered (rl_rows st') = delivered ?rows \<union> set (handled (deliveries reg rw ten rs (tables s')))"
    "distinct (handled (deliveries reg rw ten rs (tables s')))"
    "set (handled (deliveries reg rw ten rs (tables s'))) \<subseteq> ob_id ` set rs" by simp_all
  from delivered_upd [OF Cons.prems(2) r(2) r(1) process_row(1) [OF p]] process_status [OF p r(1)]
  have del: "delivered ?rows = (if returns rw ten r (tables (rl_db st))
      then insert (ob_id r) (delivered (rl_rows st)) else delivered (rl_rows st))" by simp
  show ?case
    using ih del Cons.prems(3) process_tables [OF p]
    by (auto simp: deliveries_Cons simp del: deliveries.simps)
qed simp

end

section \<open>Ticks and runs\<close>

lemma due_rows_facts:
  "set (take k (due_rows t now rows)) \<subseteq> {r \<in> set rows. is_due t now r}"
  "distinct (map ob_id rows) \<Longrightarrow> distinct (map ob_id (due_rows t now rows))"
  by (auto simp: due_rows_def distinct_map inj_on_def dest: in_set_takeD)

lemma tick_drain:
  assumes "relay_tick reg rw ten a = (n, b)"
  obtains st where "drain_rows reg rw ten
      (take OUTBOX_BATCH_SIZE (due_rows (tenant_id ten) (rw_now rw) (rl_rows a)))
      (a\<lparr>rl_db := (rl_db a)\<lparr>post_commit := []\<rparr>\<rparr>) = (n, st)"
    "rl_rows b = rl_rows st" "tables (rl_db b) = tables (rl_db st)"
  using assms that by (auto simp: relay_tick_def drain_outbox_def tables_def split: prod.splits)

lemma new_row_simps [simp]:
  "ob_id (new_row i now ev) = i" "ob_status (new_row i now ev) = OUTBOX_PENDING"
  "ob_attempts (new_row i now ev) = 0" "ob_dispatched_at (new_row i now ev) = None"
  "ob_last_error (new_row i now ev) = None"
  by (simp_all add: new_row_def outbox_event.extend_def)

lemma committed_rows:
  obtains new where "rl_rows (committed new_id now m a) = rl_rows a @ new"
    "list_all (\<lambda>r. ob_status r = OUTBOX_PENDING \<and> ob_attempts r = 0 \<and> ob_dispatched_at r = None) new"
proof
  let ?new = "map (\<lambda>(k, ev). new_row (new_id k) now ev)
    (List.enumerate 0 (drop (length (rl_rows a)) (outbox (snd (run_request m (rl_db a))))))"
  show "rl_rows (committed new_id now m a) = rl_rows a @ ?new" by (simp add: committed_def file_rows_def)
  show "list_all (\<lambda>r. ob_status r = OUTBOX_PENDING \<and> ob_attempts r = 0 \<and> ob_dispatched_at r = None) ?new"
    by (auto simp: list_all_iff)
qed

context event_relay
begin

lemma run_ledger:
  assumes "relay_run reg st log st'" "rl_rows st = []"
  shows "distinct (map ob_id (rl_rows st')) \<and> tables (rl_db st') = replay reg log (tables (rl_db st))
    \<and> distinct (handled log) \<and> set (handled log) = delivered (rl_rows st')"
  using assms
proof (induction rule: relay_run.induct)
  case (run_start st)
  then show ?case by (simp add: delivered_def)
next
  case (run_other st log a b new_id now m)
  obtain new where new: "rl_rows b = rl_rows a @ new" "list_all (\<lambda>r. ob_status r = OUTBOX_PENDING
      \<and> ob_attempts r = 0 \<and> ob_dispatched_at r = None) new"
    by (rule committed_rows [of new_id now m a, folded run_other.hyps(2)])
  have "delivered (rl_rows b) = delivered (rl_rows a)"
    using new by (auto simp: delivered_def list_all_iff)
  with run_other.IH [OF run_other.prems] run_other.hyps(3) show ?case by (simp add: replay_append)
next
  case (run_tick st log a rw ten n b)
  let ?rs = "take OUTBOX_BATCH_SIZE (due_rows (tenant_id ten) (rw_now rw) (rl_rows a))"
  obtain c where c: "drain_rows reg rw ten ?rs (a\<lparr>rl_db := (rl_db a)\<lparr>post_commit := []\<rparr>\<rparr>) = (n, c)"
    "rl_rows b = rl_rows c" "tables (rl_db b) = tables (rl_db c)"
    by (rule tick_drain [OF run_tick.hyps(2)])
  note ih = run_tick.IH [OF run_tick.prems]
  have sub: "set ?rs \<subseteq> {r \<in> set (rl_rows a). is_due (tenant_id ten) (rw_now rw) r}"
    by (rule due_rows_facts)
  have dist: "distinct (map ob_id ?rs)"
    using due_rows_facts(2) ih by (simp add: take_map [symmetric])
  from drain_delivered [OF c(1)] sub dist ih
  have d: "delivered (rl_rows c) = delivered (rl_rows a) \<union> set (handled (deliveries reg rw ten ?rs (tables (rl_db a))))"
    "distinct (handled (deliveries reg rw ten ?rs (tables (rl_db a))))"
    "set (handled (deliveries reg rw ten ?rs (tables (rl_db a)))) \<subseteq> ob_id ` set ?rs"
    by (auto simp: is_due_def subset_iff)
  have "ob_id r \<notin> delivered (rl_rows a)" if "r \<in> set ?rs" for r
  proof
    assume "ob_id r \<in> delivered (rl_rows a)"
    then obtain x where x: "x \<in> set (rl_rows a)" "ob_status x = OUTBOX_DELIVERED" "ob_id x = ob_id r"
      by (auto simp: delivered_def)
    from that sub have r: "r \<in> set (rl_rows a)" "ob_status r = OUTBOX_PENDING" by (auto simp: is_due_def)
    from distinct_key_eq [of ob_id, OF _ x(1) r(1) x(3)] ih have "x = r" by blast
    with x r show False by simp
  qed
  then have "ob_id ` set ?rs \<inter> delivered (rl_rows a) = {}" by auto
  with d ih drain_tables [OF c(1)] drain_ids [OF c(1)] show ?case
    by (auto simp: c(2,3) replay_append)
qed

end

section \<open>The registered handlers\<close>

lemma handle_lead_created_oblivious: "oblivious (handle_lead_created w ten ty p)"
  unfolding handle_lead_created_def notify_def
  by (intro oblivious_intros) (simp_all add: get_identity_if_active_def user_get_def tables_def split: option.splits)

lemma dispatch_oblivious: "oblivious (dispatch_via_outbox new_id now ten ty p)"
  unfolding dispatch_via_outbox_def dispatch_event_def Let_def
  by (intro oblivious_intros) (simp_all add: endpoints_for_event_def tables_def)

interpretation outbox: event_relay get_handlers
  by unfold_locales
    (auto simp: get_handlers_def handle_lead_created_oblivious dispatch_oblivious split: if_splits)

section \<open>Well-formed rows\<close>

definition row_ok :: "outbox_row \<Rightarrow> bool" where
  "row_ok r \<longleftrightarrow> 0 \<le> ob_attempts r \<and> ob_attempts r \<le> OUTBOX_MAX_ATTEMPTS
     \<and> (ob_status r = OUTBOX_PENDING \<longrightarrow> ob_attempts r < OUTBOX_MAX_ATTEMPTS)
     \<and> (ob_status r = OUTBOX_DELIVERED \<longleftrightarrow> ob_dispatched_at r \<noteq> None)
     \<and> (ob_status r = OUTBOX_DELIVERED \<longrightarrow> ob_last_error r = None \<and> 1 \<le> ob_attempts r)
     \<and> (ob_status r = OUTBOX_FAILED \<longrightarrow> ob_attempts r = OUTBOX_MAX_ATTEMPTS
          \<or> ob_last_error r = Some ''no handler registered'')"

lemma process_row_ok:
  assumes "process_event reg rw ten r s = (r', s', d, f)" "row_ok r" "ob_status r = OUTBOX_PENDING"
  shows "row_ok r'"
  using assms by (auto simp: process_event_def Let_def row_ok_def OUTBOX_MAX_ATTEMPTS_def
      split: if_splits prod.splits sum.splits)

lemma drain_rows_ok:
  "drain_rows reg rw ten rs st = (n, st') \<Longrightarrow> list_all row_ok (rl_rows st) \<Longrightarrow>
   list_all (\<lambda>r. row_ok r \<and> ob_status r = OUTBOX_PENDING) rs \<Longrightarrow> list_all row_ok (rl_rows st')"
proof (induction rs arbitrary: st n)
  case (Cons r rs)
  obtain r' s' d f where p: "process_event reg rw ten r (rl_db st) = (r', s', d, f)"
    by (metis prod_cases4)
  let ?st = "st\<lparr>rl_db := s', rl_rows := upd_rows (\<lambda>x. ob_id x = ob_id r) (\<lambda>_. r') (rl_rows st)\<rparr>"
  from Cons.prems(1) p obtain m where q: "drain_rows reg rw ten rs ?st = (m, st')"
    by (auto split: prod.splits)
  from Cons.prems(3) process_row_ok [OF p] have "row_ok r'" by simp
  with Cons.prems(2) have "list_all row_ok (rl_rows ?st)" by (auto simp: list_all_iff in_upd_rows)
  with Cons.IH [OF q] Cons.prems(3) show ?case by simp
qed simp

lemma run_rows_ok:
  "relay_run reg st log st' \<Longrightarrow> list_all row_ok (rl_rows st) \<Longrightarrow> list_all row_ok (rl_rows st')"
proof (induction rule: relay_run.induct)
  case (run_other st log a b new_id now m)
  obtain new where new: "rl_rows b = rl_rows a @ new" "list_all (\<lambda>r. ob_status r = OUTBOX_PENDING
      \<and> ob_attempts r = 0 \<and> ob_dispatched_at r = None) new"
    by (rule committed_rows [of new_id now m a, folded run_other.hyps(2)])
  from new(2) have "list_all row_ok new"
    by (auto simp: list_all_iff row_ok_def OUTBOX_MAX_ATTEMPTS_def)
  with run_other.IH [OF run_other.prems] new(1) show ?case by simp
next
  case (run_tick st log a rw ten n b)
  let ?rs = "take OUTBOX_BATCH_SIZE (due_rows (tenant_id ten) (rw_now rw) (rl_rows a))"
  obtain c where c: "drain_rows reg rw ten ?rs (a\<lparr>rl_db := (rl_db a)\<lparr>post_commit := []\<rparr>\<rparr>) = (n, c)"
    "rl_rows b = rl_rows c"
    by (rule tick_drain [OF run_tick.hyps(2)])
  note ok = run_tick.IH [OF run_tick.prems]
  have "list_all (\<lambda>r. row_ok r \<and> ob_status r = OUTBOX_PENDING) ?rs"
    using ok due_rows_facts(1) by (fastforce simp: list_all_iff is_due_def)
  with drain_rows_ok [OF c(1)] ok c(2) show ?case by simp
qed simp

section \<open>The due rows of a tick\<close>

lemma drain_due:
  "drain_rows reg rw ten rs st = (n, st') \<Longrightarrow>
   filter (is_due t (rw_now rw)) (rl_rows st') =
     filter (\<lambda>x. ob_id x \<notin> ob_id ` set rs \<and> is_due t (rw_now rw) x) (rl_rows st)"
proof (induction rs arbitrary: st n)
  case (Cons r rs)
  obtain r' s' d f where p: "process_event reg rw ten r (rl_db st) = (r', s', d, f)"
    by (metis prod_cases4)
  let ?st = "st\<lparr>rl_db := s', rl_rows := upd_rows (\<lambda>x. ob_id x = ob_id r) (\<lambda>_. r') (rl_rows st)\<rparr>"
  from Cons.prems p obtain m where q: "drain_rows reg rw ten rs ?st = (m, st')"
    by (auto split: prod.splits)
  note gone = settled_not_due [OF p, of t]
  have u: "filter (\<lambda>x. ob_id x \<notin> ids \<and> is_due t (rw_now rw) x)
      (upd_rows (\<lambda>x. ob_id x = ob_id r) (\<lambda>_. r') rows)
    = filter (\<lambda>x. ob_id x \<noteq> ob_id r \<and> ob_id x \<notin> ids \<and> is_due t (rw_now rw) x) rows" for ids rows
    using gone by (induction rows) (auto simp: upd_rows_def)
  from Cons.IH [OF q] show ?case by (simp add: u conj_assoc)
qed simp

lemma filter_after_take:
  assumes "distinct (map key xs)"
  shows "filter (\<lambda>x. key x \<notin> key ` set (take n xs)) xs = drop n xs"
proof -
  have "filter (\<lambda>x. key x \<notin> key ` set (take n xs)) (take n xs @ drop n xs) = drop n xs"
  proof -
    from assms have "distinct (map key (take n xs @ drop n xs))" by simp
    then have "key x \<notin> key ` set (take n xs)" if "x \<in> set (drop n xs)" for x
      using that by (simp only: map_append distinct_append set_map) blast
    then have "filter (\<lambda>x. key x \<notin> key ` set (take n xs)) (drop n xs) = drop n xs"
      by (intro filter_True) simp
    moreover have "filter (\<lambda>x. key x \<notin> key ` set (take n xs)) (take n xs) = []"
      by (auto simp: filter_empty_conv)
    ultimately show ?thesis by (simp only: filter_append append_Nil)
  qed
  then show ?thesis by simp
qed

section \<open>The properties\<close>

text \<open>
  C9: Exactly once, whatever fails. After any sequence of ticks and transactions of other
  services the tables are those of the ledger: every event it lists ran all its handlers once,
  on the tables that the entries before left, and no failed attempt left a trace in them. No
  event is listed twice, and the listed ones are exactly those whose row says delivered.
\<close>

theorem outbox_exactly_once:
  assumes "relay_run get_handlers st log st'" "rl_rows st = []"
  shows "tables (rl_db st') = replay get_handlers log (tables (rl_db st))
    \<and> distinct (handled log) \<and> set (handled log) = delivered (rl_rows st')"
  using outbox.run_ledger [OF assms] by simp

text \<open>
  C11: The rows stay well-formed under any run: at most eight attempts, fewer while an event is
  pending, a dispatch time exactly when it is delivered, and an event that failed has used its
  attempts up or has no handler.
\<close>

theorem outbox_rows_well_formed:
  assumes "relay_run get_handlers st log st'" "rl_rows st = []"
  shows "list_all row_ok (rl_rows st')"
  by (rule run_rows_ok [OF assms(1)]) (simp add: assms(2))

text \<open>
  C10: No event blocks the queue. Whatever its handlers do, a tick takes exactly the first
  hundred due rows of its tenant out of the way (delivered, parked, or put off by at least half a
  minute), and the rest of the queue keeps its order.
\<close>

theorem tick_clears_the_batch:
  assumes "distinct (map ob_id (rl_rows st))" "relay_tick get_handlers rw ten st = (n, st')"
  shows "due_rows (tenant_id ten) (rw_now rw) (rl_rows st')
    = drop OUTBOX_BATCH_SIZE (due_rows (tenant_id ten) (rw_now rw) (rl_rows st))"
proof -
  let ?due = "due_rows (tenant_id ten) (rw_now rw) (rl_rows st)"
  obtain c where c: "drain_rows get_handlers rw ten (take OUTBOX_BATCH_SIZE ?due)
      (st\<lparr>rl_db := (rl_db st)\<lparr>post_commit := []\<rparr>\<rparr>) = (n, c)" "rl_rows st' = rl_rows c"
    by (rule tick_drain [OF assms(2)])
  from drain_due [OF c(1), of "tenant_id ten"] c(2)
  have "due_rows (tenant_id ten) (rw_now rw) (rl_rows st')
    = sort_key due_order (filter (\<lambda>x. ob_id x \<notin> ob_id ` set (take OUTBOX_BATCH_SIZE ?due))
        (filter (is_due (tenant_id ten) (rw_now rw)) (rl_rows st)))"
    by (simp add: due_rows_def conj_commute)
  also have "\<dots> = filter (\<lambda>x. ob_id x \<notin> ob_id ` set (take OUTBOX_BATCH_SIZE ?due)) ?due"
    by (simp only: due_rows_def filter_sort)
  also have "\<dots> = drop OUTBOX_BATCH_SIZE ?due"
    by (rule filter_after_take) (rule due_rows_facts(2) [OF assms(1)])
  finally show ?thesis .
qed

section \<open>A run\<close>

text \<open>
  A lead for agent 11 is captured, with one endpoint subscribed; the tick notifies the agent and
  writes the delivery row. A second lead names an agent id that does not parse: its handlers
  raise, nothing is kept, and the row waits for half a minute.
\<close>

definition demo_endpoint :: webhook_endpoint where
  "demo_endpoint = \<lparr>wep_id = 50, wep_tenant = 1, wep_url = ''http://h/'', wep_secret = ''k'',
     wep_events = [EVENT_LEAD_CREATED], wep_is_active = True, wep_description = None,
     wep_consecutive_failures = 0, wep_circuit_open = False, wep_last_error = None,
     wep_last_delivered_at = None, wep_created_at = 0\<rparr>"

definition demo_relay_world :: relay_world where
  "demo_relay_world = \<lparr>rw_world = sample_world, rw_now = 5,
     rw_delivery_id = (\<lambda>ev ep. ev + ep), rw_error_text = (\<lambda>_. ''boom'')\<rparr>"

definition demo_capture :: "string \<Rightarrow> (db, unit) action" where
  "demo_capture agent = emit_event sample_tenant EVENT_LEAD_CREATED
     [(''leadId'', JStr ''L''), (''agentId'', JStr agent)]"

definition demo_relay :: "nat \<Rightarrow> relay_state" where
  "demo_relay n =
     (let a = \<lparr>rl_db = sample_db\<lparr>hook_endpoints := [demo_endpoint]\<rparr>, rl_rows = []\<rparr>;
          b = committed (\<lambda>k. 100 + k) 0 (demo_capture [char_of (11 :: nat)]) a;
          c = committed (\<lambda>k. 200 + k) 1 (demo_capture ''?!'') b
      in [a, b, c, snd (relay_tick get_handlers demo_relay_world sample_tenant c)] ! n)"

definition demo_log :: "entry list" where
  "demo_log = (([] @ [Tx (tables (rl_db (demo_relay 1)))]) @ [Tx (tables (rl_db (demo_relay 2)))])
     @ deliveries get_handlers demo_relay_world sample_tenant
         (take OUTBOX_BATCH_SIZE (due_rows (tenant_id sample_tenant) (rw_now demo_relay_world)
           (rl_rows (demo_relay 2)))) (tables (rl_db (demo_relay 2)))"

lemma demo_relay_steps:
  "demo_relay (Suc 0) = committed (\<lambda>k. 100 + k) 0 (demo_capture [char_of (11 :: nat)]) (demo_relay 0)"
  "demo_relay 2 = committed (\<lambda>k. 200 + k) 1 (demo_capture ''?!'') (demo_relay (Suc 0))"
  "demo_relay 3 = snd (relay_tick get_handlers demo_relay_world sample_tenant (demo_relay 2))"
  by (simp_all add: demo_relay_def Let_def)

lemma demo_relay_run: "relay_run get_handlers (demo_relay 0) demo_log (demo_relay 3)"
proof -
  have d: "map ob_id (rl_rows (demo_relay (Suc 0))) = [100]" "map ob_id (rl_rows (demo_relay 2)) = [100, 200]"
    by code_simp+
  have "relay_run get_handlers (demo_relay 0) ([] @ [Tx (tables (rl_db (demo_relay (Suc 0))))]) (demo_relay (Suc 0))"
    by (rule run_other [OF run_start demo_relay_steps(1)]) (simp add: d)
  then have "relay_run get_handlers (demo_relay 0)
      (([] @ [Tx (tables (rl_db (demo_relay (Suc 0))))]) @ [Tx (tables (rl_db (demo_relay 2)))]) (demo_relay 2)"
    by (rule run_other [OF _ demo_relay_steps(2)]) (simp add: d)
  from run_tick [OF this, of demo_relay_world sample_tenant] show ?thesis
    by (metis (no_types, lifting) demo_log_def demo_relay_steps(3) One_nat_def surjective_pairing)
qed

lemma demo_relay_start: "rl_rows (demo_relay 0) = []"
  by (simp add: demo_relay_def)

lemma demo_relay_rows:
  "map ob_id (filter (\<lambda>r. ob_status r = OUTBOX_DELIVERED) (rl_rows (demo_relay 3))) = [100]"
  "handled demo_log = [100]"
  "map ntf_user (notifications (rl_db (demo_relay 3))) = [11]"
  by code_simp+

theorem outbox_exactly_once_witness:
  "tables (rl_db (demo_relay 3)) = replay get_handlers demo_log (tables (rl_db (demo_relay 0)))
    \<and> map ntf_user (notifications (replay get_handlers demo_log (tables (rl_db (demo_relay 0))))) = [11]
    \<and> handled demo_log = [100]"
proof -
  note e = outbox_exactly_once [OF demo_relay_run demo_relay_start]
  then have "notifications (replay get_handlers demo_log (tables (rl_db (demo_relay 0))))
      = notifications (rl_db (demo_relay 3))"
    by (metis notifications_tables)
  with e demo_relay_rows show ?thesis by simp
qed

theorem outbox_rows_well_formed_witness:
  "list_all row_ok (rl_rows (demo_relay 3))
    \<and> map ob_attempts (rl_rows (demo_relay 3)) = [1, 1]
    \<and> map ob_next_attempt_at (rl_rows (demo_relay 3)) = [0, 30000005]"
  using outbox_rows_well_formed [OF demo_relay_run demo_relay_start] by (simp, code_simp)

theorem tick_clears_the_batch_witness:
  "due_rows 1 5 (rl_rows (demo_relay 3)) = drop OUTBOX_BATCH_SIZE (due_rows 1 5 (rl_rows (demo_relay 2)))
    \<and> map ob_id (due_rows 1 5 (rl_rows (demo_relay 2))) = [100, 200]"
proof -
  have "distinct (map ob_id (rl_rows (demo_relay 2)))" by code_simp
  moreover obtain n where "relay_tick get_handlers demo_relay_world sample_tenant (demo_relay 2) = (n, demo_relay 3)"
    by (metis demo_relay_steps(3) surjective_pairing)
  ultimately have "due_rows (tenant_id sample_tenant) (rw_now demo_relay_world) (rl_rows (demo_relay 3))
      = drop OUTBOX_BATCH_SIZE (due_rows (tenant_id sample_tenant) (rw_now demo_relay_world) (rl_rows (demo_relay 2)))"
    by (rule tick_clears_the_batch)
  then have "due_rows 1 5 (rl_rows (demo_relay 3)) = drop OUTBOX_BATCH_SIZE (due_rows 1 5 (rl_rows (demo_relay 2)))"
    by (simp add: sample_tenant_def demo_relay_world_def)
  moreover have "map ob_id (due_rows 1 5 (rl_rows (demo_relay 2))) = [100, 200]" by code_simp
  ultimately show ?thesis by simp
qed

text \<open>
  The description of \<open>core/events.py\<close> allows a repeated external effect only after a replayed
  commit. The callbacks of a rolled-back savepoint fire as well: an event whose last handler
  keeps failing hands the effects of the first ones out at every attempt.
\<close>

lemma rolled_back_callbacks_fire:
  "savepoint (andthen (on_commit c) (\<lambda>_. raise e)) s = (Inl e, s\<lparr>post_commit := post_commit s @ [c]\<rparr>)"
  by (simp add: savepoint_def raise_def)

end
