(* ===== verification/Breaker.thy ===== *)
theory Breaker
  imports Prelude
begin

text \<open>
  The circuit breaker that webhook endpoints and portal states both carry: consecutive failures
  are counted, the breaker opens at a threshold, a success or an administrator closes it.
\<close>

locale breaker =
  fixes failures :: "'r \<Rightarrow> int"
    and is_open :: "'r \<Rightarrow> bool"
    and threshold :: int
    and fail :: "'e \<Rightarrow> 'r \<Rightarrow> 'r"
    and succeed :: "'v \<Rightarrow> 'r \<Rightarrow> 'r"
    and reset :: "'r \<Rightarrow> 'r"
  assumes threshold_pos: "1 \<le> threshold"
    and fail_counts: "failures (fail e r) = failures r + 1"
    and fail_opens: "is_open (fail e r) \<longleftrightarrow> is_open r \<or> threshold \<le> failures r + 1"
    and succeed_closes: "\<not> is_open (succeed v r)" "failures (succeed v r) = 0"
    and reset_closes: "\<not> is_open (reset r)"
    and reset_open: "is_open r \<Longrightarrow> failures (reset r) = 0"
    and reset_closed: "\<not> is_open r \<Longrightarrow> failures (reset r) = 0 \<or> failures (reset r) = failures r"
begin

definition consistent :: "'r \<Rightarrow> bool" where
  "consistent r \<longleftrightarrow> 0 \<le> failures r \<and> failures r \<le> threshold \<and> (is_open r \<longleftrightarrow> threshold \<le> failures r)"

text \<open>How many failures the breaker still lets through.\<close>

definition budget :: "'r \<Rightarrow> int" where
  "budget r = (if is_open r then 0 else threshold - failures r)"

lemma consistent_fail: "consistent r \<Longrightarrow> \<not> is_open r \<Longrightarrow> consistent (fail e r)"
  by (auto simp: consistent_def fail_counts fail_opens)

lemma consistent_succeed: "consistent (succeed v r)"
  using threshold_pos by (simp add: consistent_def succeed_closes)

lemma consistent_reset: "consistent r \<Longrightarrow> consistent (reset r)"
  using reset_closed [of r] reset_open [of r] reset_closes [of r] threshold_pos
  by (cases "is_open r") (auto simp: consistent_def)

lemma budget_fail: "consistent r \<Longrightarrow> \<not> is_open r \<Longrightarrow> budget (fail e r) = budget r - 1"
  by (auto simp: budget_def consistent_def fail_counts fail_opens)

lemma budget_bounds: "consistent r \<Longrightarrow> 0 \<le> budget r \<and> budget r \<le> threshold"
  by (auto simp: budget_def consistent_def)

text \<open>An attempt is made only while the breaker is closed; the rest of the failures never happen.\<close>

fun attempts :: "'e list \<Rightarrow> 'r \<Rightarrow> nat" where
  "attempts [] r = 0"
| "attempts (e # es) r = (if is_open r then 0 else Suc (attempts es (fail e r)))"

lemma attempts_budget: "consistent r \<Longrightarrow> int (attempts es r) \<le> budget r"
proof (induction es arbitrary: r)
  case (Cons e es)
  show ?case
  proof (cases "is_open r")
    case True
    with Cons.prems budget_bounds show ?thesis by simp
  next
    case False
    with Cons.IH [OF consistent_fail [OF Cons.prems False], of e] budget_fail [OF Cons.prems False]
    show ?thesis by simp
  qed
qed (simp add: budget_bounds)

end

end
