(* ===== verification/Hook_Desk.thy ===== *)
theory Hook_Desk
  imports Webhooks Breaker
begin

text \<open>
  What the webhooks promise: breakers that agree with their counters, a receiver that keeps
  failing is left alone, and the outcome of every delivery.
\<close>

section \<open>The breaker of an endpoint\<close>

definition reenabled :: "webhook_endpoint \<Rightarrow> webhook_endpoint" where
  "reenabled e = e\<lparr>wep_is_active := True, wep_circuit_open := False, wep_consecutive_failures := 0\<rparr>"

interpretation hook: breaker wep_consecutive_failures wep_circuit_open WEBHOOK_BREAKER_THRESHOLD
  endpoint_failed endpoint_succeeded reenabled
  by unfold_locales
    (simp_all add: endpoint_failed_def endpoint_succeeded_def reenabled_def WEBHOOK_BREAKER_THRESHOLD_def Let_def)

definition endpoints_ok :: "db \<Rightarrow> bool" where
  "endpoints_ok s \<longleftrightarrow> distinct (map wep_id (hook_endpoints s)) \<and> list_all hook.consistent (hook_endpoints s)"

section \<open>Runs\<close>

text \<open>
  One rule per operation of the service, failures included, and one for everything else the
  program does, which writes no endpoint and posts nothing. A label tells what was done to which
  endpoint.
\<close>

fun is_post :: "uuid \<Rightarrow> side_effect \<Rightarrow> bool" where
  "is_post i (PostWebhook e url body ev sig) = (e = i)"
| "is_post i x = False"

fun is_redirect :: "uuid \<Rightarrow> side_effect \<Rightarrow> bool" where
  "is_redirect i (FollowRedirect e) = (e = i)"
| "is_redirect i x = False"

definition posts :: "uuid \<Rightarrow> db \<Rightarrow> int" where
  "posts i s = int (length (filter (is_post i) (sent s)))"

definition redirects :: "uuid \<Rightarrow> db \<Rightarrow> int" where
  "redirects i s = int (length (filter (is_redirect i) (sent s)))"

datatype hook_label = Created uuid | Changed uuid endpoint_update | Removed uuid | Attempted hook_world | Elsewhere

inductive hook_step :: "hook_label \<Rightarrow> db \<Rightarrow> db \<Rightarrow> bool" where
  hook_create: "run_request (create_endpoint hw ten data secret i now) s = (r, s') \<Longrightarrow>
    i \<notin> wep_id ` set (hook_endpoints s) \<Longrightarrow> hook_step (Created i) s s'"
| hook_update: "run_request (update_endpoint hw ten i u) s = (r, s') \<Longrightarrow> hook_step (Changed i u) s s'"
| hook_delete: "run_request (delete_endpoint ten i) s = (r, s') \<Longrightarrow> hook_step (Removed i) s s'"
| hook_fan_out: "run_request (dispatch_event ten ev p ids now) s = (n, s') \<Longrightarrow> hook_step Elsewhere s s'"
| hook_deliver: "run_request (deliver hw ten i now) s = (d, s') \<Longrightarrow> hook_step (Attempted hw) s s'"
| hook_elsewhere: "hook_endpoints s' = hook_endpoints s \<Longrightarrow>
    (\<And>i. posts i s' = posts i s \<and> redirects i s' = redirects i s) \<Longrightarrow> hook_step Elsewhere s s'"

inductive hook_run :: "db \<Rightarrow> hook_label list \<Rightarrow> db \<Rightarrow> bool" where
  hook_start: "hook_run s [] s"
| hook_more: "hook_run s ls t \<Longrightarrow> hook_step l t s' \<Longrightarrow> hook_run s (ls @ [l]) s'"

section \<open>The operations\<close>

lemma run_request_frame:
  assumes "m (s\<lparr>post_commit := []\<rparr>) = (r, t)"
  shows "snd (run_request m s) = (if isl r then s\<lparr>sent := sent t\<rparr>
    else t\<lparr>post_commit := [], sent := sent t @ post_commit t\<rparr>)"
  using assms by (auto simp: run_request_def split: sum.splits)

lemma create_rows:
  assumes "create_endpoint hw ten data secret i now s = (r, t)"
  shows "sent t = sent s \<and> post_commit t = post_commit s \<and> (hook_endpoints t = hook_endpoints s
    \<or> (\<exists>es. hook_endpoints t = hook_endpoints s @ [new_endpoint (tenant_id ten) data es secret i now]))"
  using assms by (auto simp: create_endpoint_def validate_url_def andthen_def lift_res_def raise_def ret_def
      modify_def Let_def split: prod.splits sum.splits url_error.splits)

lemma update_rows:
  assumes "update_endpoint hw ten i u s = (r, t)"
  shows "sent t = sent s \<and> post_commit t = post_commit s \<and> (hook_endpoints t = hook_endpoints s
    \<or> (\<exists>es. hook_endpoints t = upd_rows (\<lambda>e. wep_id e = i) (patch_endpoint u es) (hook_endpoints s)))"
  using assms by (auto simp: update_endpoint_def validate_url_def endpoint_or_404_def endpoint_write_def
      andthen_def gets_def lift_res_def raise_def ret_def modify_def split: prod.splits sum.splits url_error.splits option.splits)

lemma delete_rows:
  assumes "delete_endpoint ten i s = (r, t)"
  shows "sent t = sent s \<and> post_commit t = post_commit s \<and> (hook_endpoints t = hook_endpoints s
    \<or> hook_endpoints t = del_rows (\<lambda>e. wep_id e = i) (hook_endpoints s))"
  using assms by (auto simp: delete_endpoint_def endpoint_or_404_def andthen_def gets_def raise_def ret_def
      modify_def split: prod.splits sum.splits option.splits)

lemma fan_out_each:
  "for_each es (\<lambda>e. let d = g e in andthen (modify (\<lambda>s. s\<lparr>hook_deliveries := hook_deliveries s @ [d]\<rparr>))
      (\<lambda>_. on_commit (DeliverWebhook t (wdl_id d)))) s
   = (Inr (), s\<lparr>hook_deliveries := hook_deliveries s @ map g es,
       post_commit := post_commit s @ map (\<lambda>e. DeliverWebhook t (wdl_id (g e))) es\<rparr>)"
  by (induction es arbitrary: s) (simp_all add: ret_def Let_def andthen_def modify_def)

lemma dispatch_run:
  "dispatch_event ten ev p ids now s =
     (let es = endpoints_for_event (tenant_id ten) ev s;
          g = (\<lambda>e. new_delivery (tenant_id ten) (wep_id e) ev p (ids (wep_id e)) now)
      in (Inr (length es), s\<lparr>hook_deliveries := hook_deliveries s @ map g es,
           post_commit := post_commit s @ map (\<lambda>e. DeliverWebhook (tenant_id ten) (ids (wep_id e))) es\<rparr>))"
  unfolding dispatch_event_def andthen_gets
  by (subst andthen_simps(1) [OF fan_out_each]) (simp add: ret_def Let_def new_delivery_def)

lemma no_posts: "filter (is_post i) (map (\<lambda>e. DeliverWebhook t (f e)) es) = []"
  by (simp add: filter_empty_conv)

lemma redirect_effects:
  "filter (is_post i) (replicate n (FollowRedirect e)) = []"
  "filter (is_redirect i) (replicate n (FollowRedirect e)) = (if e = i then replicate n (FollowRedirect e) else [])"
  by (induction n) auto

lemma andthen_post [simp]:
  "andthen (post_webhook hw e body ev sig) f s = f (snd (hw_post hw (wep_url e) body ev sig))
     (s\<lparr>sent := sent s @ PostWebhook (wep_id e) (wep_url e) body ev sig
        # replicate (fst (hw_post hw (wep_url e) body ev sig)) (FollowRedirect (wep_id e))\<rparr>)"
  by (simp add: post_webhook_def andthen_assoc case_prod_beta)

lemma andthen_writes [simp]:
  "andthen (delivery_write i f) g s = g () (s\<lparr>hook_deliveries := upd_rows (\<lambda>d. wdl_id d = i) f (hook_deliveries s)\<rparr>)"
  "andthen (endpoint_write i f') g s = g () (s\<lparr>hook_endpoints := upd_rows (\<lambda>e. wep_id e = i) f' (hook_endpoints s)\<rparr>)"
  by (simp_all add: delivery_write_def endpoint_write_def)

lemma upd_rows_twice:
  "(\<And>x. P x \<Longrightarrow> P (g x)) \<Longrightarrow> upd_rows P f (upd_rows P g xs) = upd_rows P (\<lambda>x. f (g x)) xs"
  by (simp add: upd_rows_def)

text \<open>What a failed attempt writes to the delivery, and what it tells the task.\<close>

definition gives_up :: "webhook_endpoint \<Rightarrow> bool \<Rightarrow> bool" where
  "gives_up e permanent \<longleftrightarrow> permanent \<or> WEBHOOK_BREAKER_THRESHOLD \<le> wep_consecutive_failures e + 1"

definition failed_delivery :: "bool \<Rightarrow> string \<Rightarrow> int option \<Rightarrow> webhook_delivery \<Rightarrow> webhook_delivery" where
  "failed_delivery final detail code x = x\<lparr>wdl_response_status := code,
     wdl_last_error := Some (take 2000 detail),
     wdl_status := (if final then DELIVERY_FAILED else wdl_status x)\<rparr>"

definition failure_outcome :: "webhook_endpoint \<Rightarrow> bool \<Rightarrow> string \<Rightarrow> delivery_outcome" where
  "failure_outcome e permanent detail =
     outcome (if WEBHOOK_BREAKER_THRESHOLD \<le> wep_consecutive_failures e + 1 then ''paused'' else ''failed'')
       (\<not> gives_up e permanent) detail"

lemma record_failure_run:
  "record_failure_hook d e detail permanent code s = (Inr (failure_outcome e permanent detail),
     s\<lparr>hook_deliveries := upd_rows (\<lambda>x. wdl_id x = wdl_id d) (failed_delivery (gives_up e permanent) detail code)
         (hook_deliveries s),
       hook_endpoints := upd_rows (\<lambda>x. wep_id x = wep_id e) (endpoint_failed detail) (hook_endpoints s)\<rparr>)"
  unfolding record_failure_hook_def
  by (simp add: ret_def failure_outcome_def gives_up_def failed_delivery_def [abs_def] upd_rows_twice)

lemma record_success_run:
  "record_success d e code now s = (Inr (outcome ''delivered'' False (http_detail code)),
     s\<lparr>hook_deliveries := upd_rows (\<lambda>x. wdl_id x = wdl_id d) (\<lambda>x. x\<lparr>wdl_status := DELIVERED,
         wdl_response_status := Some code, wdl_delivered_at := Some now, wdl_last_error := None\<rparr>) (hook_deliveries s),
       hook_endpoints := upd_rows (\<lambda>x. wep_id x = wep_id e) (endpoint_succeeded now) (hook_endpoints s)\<rparr>)"
  by (simp add: record_success_def ret_def)

text \<open>An attempt on a closed endpoint: the POST, then what its reply does.\<close>

definition attempted :: "hook_world \<Rightarrow> webhook_endpoint \<Rightarrow> webhook_delivery \<Rightarrow> instant \<Rightarrow> db \<Rightarrow> db" where
  "attempted hw e d now s =
     (let body = hw_dumps hw (wdl_event_type d) (wdl_payload d) in
      s\<lparr>hook_deliveries := upd_rows (\<lambda>x. wdl_id x = wdl_id d) (\<lambda>x. x\<lparr>wdl_attempts := wdl_attempts x + 1\<rparr>)
          (hook_deliveries s),
        sent := sent s @ PostWebhook (wep_id e) (wep_url e) body (wdl_event_type d)
            (sign_webhook hw (wep_secret e) body now)
          # replicate (fst (hw_post hw (wep_url e) body (wdl_event_type d)
              (sign_webhook hw (wep_secret e) body now))) (FollowRedirect (wep_id e))\<rparr>)"

definition reply_to :: "hook_world \<Rightarrow> webhook_endpoint \<Rightarrow> webhook_delivery \<Rightarrow> instant \<Rightarrow> post_outcome" where
  "reply_to hw e d now =
     (let body = hw_dumps hw (wdl_event_type d) (wdl_payload d)
      in snd (hw_post hw (wep_url e) body (wdl_event_type d) (sign_webhook hw (wep_secret e) body now)))"

lemma get_delivery_Some: "get_delivery t i s = Some d \<Longrightarrow> wdl_id d = i \<and> d \<in> set (hook_deliveries s)"
  by (auto simp: get_delivery_def dest: find_in)

lemma deliver_closed:
  assumes "get_delivery (tenant_id ten) i s = Some d" "wdl_status d \<noteq> DELIVERED"
    "get_endpoint (tenant_id ten) (wdl_endpoint d) s = Some e" "\<not> wep_circuit_open e"
  shows "deliver hw ten i now s = (case reply_to hw e d now of
      PostCrashed err \<Rightarrow> raise err
    | PostRefused m \<Rightarrow> record_failure_hook d e m True None
    | PostTransportError m \<Rightarrow> record_failure_hook d e (''transport error: '' @ m) False None
    | PostStatus code \<Rightarrow> if is_success code then record_success d e code now
        else record_failure_hook d e (http_detail code) (is_permanent code) (Some code)) (attempted hw e d now s)"
proof -
  have "wdl_id d = i" using get_delivery_Some [OF assms(1)] by simp
  with assms show ?thesis
    by (simp add: deliver_def reply_to_def attempted_def Let_def del: append.simps split: post_outcome.split)
qed

text \<open>Anything else posts nothing and writes no endpoint.\<close>

definition attempts_post :: "tenant_context \<Rightarrow> uuid \<Rightarrow> db \<Rightarrow> (webhook_delivery \<times> webhook_endpoint) option" where
  "attempts_post ten i s = (case get_delivery (tenant_id ten) i s of
      None \<Rightarrow> None
    | Some d \<Rightarrow> if wdl_status d = DELIVERED then None
        else (case get_endpoint (tenant_id ten) (wdl_endpoint d) s of
            None \<Rightarrow> None | Some e \<Rightarrow> if wep_circuit_open e then None else Some (d, e)))"

lemma deliver_quiet:
  assumes "attempts_post ten i s = None" "deliver hw ten i now s = (r, t)"
  shows "sent t = sent s \<and> post_commit t = post_commit s \<and> hook_endpoints t = hook_endpoints s"
  using assms by (auto simp: attempts_post_def deliver_def ret_def split: option.splits if_splits)

lemma deliver_rows:
  assumes "deliver hw ten i now s = (r, t)" "attempts_post ten i s = Some (d, e)"
  obtains f url body ev sig where "e \<in> set (hook_endpoints s)" "\<not> wep_circuit_open e"
      "sent t = sent s @ PostWebhook (wep_id e) url body ev sig
        # replicate (fst (hw_post hw url body ev sig)) (FollowRedirect (wep_id e))" "post_commit t = post_commit s"
      "(\<exists>err. isl r \<and> snd (hw_post hw url body ev sig) = PostCrashed err)
       \<or> \<not> isl r \<and> hook_endpoints t = upd_rows (\<lambda>x. wep_id x = wep_id e) f (hook_endpoints s)
         \<and> (f = endpoint_succeeded now \<and> (\<exists>c. snd (hw_post hw url body ev sig) = PostStatus c \<and> is_success c)
            \<or> (\<exists>m. f = endpoint_failed m))"
proof -
  let ?b = "hw_dumps hw (wdl_event_type d) (wdl_payload d)"
  let ?g = "sign_webhook hw (wep_secret e) ?b now"
  from assms(2) have de: "get_delivery (tenant_id ten) i s = Some d" "wdl_status d \<noteq> DELIVERED"
    "get_endpoint (tenant_id ten) (wdl_endpoint d) s = Some e" "\<not> wep_circuit_open e"
    by (auto simp: attempts_post_def split: option.splits if_splits)
  then have e: "e \<in> set (hook_endpoints s)" by (auto simp: get_endpoint_def dest: find_in)
  note run = assms(1) [unfolded deliver_closed [OF de]]
  note ans = that [OF e de(4), where url = "wep_url e" and body = ?b and ev = "wdl_event_type d" and sig = ?g]
  show thesis
  proof (cases "reply_to hw e d now")
    case (PostCrashed err)
    then have "snd (hw_post hw (wep_url e) ?b (wdl_event_type d) ?g) = PostCrashed err" by (simp add: reply_to_def Let_def)
    with PostCrashed run show thesis
      by (intro ans [where f = id]) (auto simp: attempted_def raise_def Let_def)
  next
    case (PostRefused m)
    with run show thesis
      by (intro ans [where f = "endpoint_failed m"]) (auto simp: record_failure_run attempted_def Let_def)
  next
    case (PostTransportError m)
    with run show thesis
      by (intro ans [where f = "endpoint_failed (''transport error: '' @ m)"])
        (auto simp: record_failure_run attempted_def Let_def)
  next
    case (PostStatus c)
    then have "snd (hw_post hw (wep_url e) ?b (wdl_event_type d) ?g) = PostStatus c" by (simp add: reply_to_def Let_def)
    with PostStatus run show thesis
      by (intro ans [where f = "if is_success c then endpoint_succeeded now else endpoint_failed (http_detail c)"])
        (auto simp: record_failure_run record_success_run attempted_def Let_def split: if_splits)
  qed
qed

section \<open>Steps\<close>

lemma request_effect:
  assumes "run_request m s = (r, s')" "m (s\<lparr>post_commit := []\<rparr>) = (q, t)"
  shows "hook_endpoints s' = (if isl q then hook_endpoints s else hook_endpoints t)"
    "filter (is_post i) (post_commit t) = [] \<Longrightarrow> posts i s' = int (length (filter (is_post i) (sent t)))"
    "filter (is_redirect i) (post_commit t) = [] \<Longrightarrow> redirects i s' = int (length (filter (is_redirect i) (sent t)))"
  using run_request_frame [where m = m and s = s, OF assms(2)] assms(1)
  by (auto simp: posts_def redirects_def split: if_splits)

text \<open>What a step does to the endpoints.\<close>

definition writes_endpoint :: "hook_label \<Rightarrow> uuid \<Rightarrow> (webhook_endpoint \<Rightarrow> webhook_endpoint) \<Rightarrow> bool" where
  "writes_endpoint l i f = (case l of
      Changed j u \<Rightarrow> i = j \<and> (\<exists>es. f = patch_endpoint u es)
    | _ \<Rightarrow> False)"

lemma hook_step_cases:
  assumes "hook_step l s s'"
  obtains (same) "hook_endpoints s' = hook_endpoints s" "\<And>i. posts i s' = posts i s \<and> redirects i s' = redirects i s"
  | (created) i e where "l = Created i" "i \<notin> wep_id ` set (hook_endpoints s)" "wep_id e = i"
      "hook.consistent e" "hook_endpoints s' = hook_endpoints s @ [e]"
      "\<And>j. posts j s' = posts j s \<and> redirects j s' = redirects j s"
  | (changed) i u es where "l = Changed i u"
      "hook_endpoints s' = upd_rows (\<lambda>e. wep_id e = i) (patch_endpoint u es) (hook_endpoints s)"
      "\<And>j. posts j s' = posts j s \<and> redirects j s' = redirects j s"
  | (removed) i where "l = Removed i" "hook_endpoints s' = del_rows (\<lambda>e. wep_id e = i) (hook_endpoints s)"
      "\<And>j. posts j s' = posts j s \<and> redirects j s' = redirects j s"
  | (crashed) hw url body ev sig err where "l = Attempted hw" "hook_endpoints s' = hook_endpoints s"
      "snd (hw_post hw url body ev sig) = PostCrashed err"
  | (tried) hw e f url body ev sig now where "l = Attempted hw" "e \<in> set (hook_endpoints s)"
      "\<not> wep_circuit_open e" "hook_endpoints s' = upd_rows (\<lambda>x. wep_id x = wep_id e) f (hook_endpoints s)"
      "\<And>j. posts j s' = posts j s + (if j = wep_id e then 1 else 0)"
      "f = endpoint_succeeded now \<and> (\<exists>c. snd (hw_post hw url body ev sig) = PostStatus c \<and> is_success c)
       \<or> (\<exists>m. f = endpoint_failed m)"
      "\<And>j. redirects j s' = redirects j s + (if j = wep_id e then int (fst (hw_post hw url body ev sig)) else 0)"
  using assms
proof cases
  case (hook_create hw ten data secret i now r)
  obtain q t where m: "create_endpoint hw ten data secret i now (s\<lparr>post_commit := []\<rparr>) = (q, t)"
    by (metis surj_pair)
  from create_rows [OF m] request_effect [OF hook_create(2) m] have
    "\<And>j. posts j s' = posts j s \<and> redirects j s' = redirects j s" by (simp add: posts_def redirects_def)
  moreover have "wep_id (new_endpoint (tenant_id ten) data es secret i now) = i"
    "hook.consistent (new_endpoint (tenant_id ten) data es secret i now)" for es
    unfolding hook.consistent_def by (simp_all add: new_endpoint_def WEBHOOK_BREAKER_THRESHOLD_def)
  ultimately show ?thesis
    using create_rows [OF m] request_effect(1) [OF hook_create(2) m] same created [OF hook_create(1,3)]
    by (cases "isl q") auto
next
  case (hook_update hw ten i u r)
  obtain q t where m: "update_endpoint hw ten i u (s\<lparr>post_commit := []\<rparr>) = (q, t)" by (metis surj_pair)
  from update_rows [OF m] request_effect [OF hook_update(2) m] have
    "\<And>j. posts j s' = posts j s \<and> redirects j s' = redirects j s" by (simp add: posts_def redirects_def)
  with update_rows [OF m] request_effect(1) [OF hook_update(2) m] hook_update(1) same changed show ?thesis
    by (auto split: if_splits)
next
  case (hook_delete ten i r)
  obtain q t where m: "delete_endpoint ten i (s\<lparr>post_commit := []\<rparr>) = (q, t)" by (metis surj_pair)
  from delete_rows [OF m] request_effect [OF hook_delete(2) m] have
    "\<And>j. posts j s' = posts j s \<and> redirects j s' = redirects j s" by (simp add: posts_def redirects_def)
  with delete_rows [OF m] request_effect(1) [OF hook_delete(2) m] hook_delete(1) same removed show ?thesis
    by (auto split: if_splits)
next
  case (hook_fan_out ten ev p ids now n)
  obtain q t where m: "dispatch_event ten ev p ids now (s\<lparr>post_commit := []\<rparr>) = (q, t)" by (metis surj_pair)
  then have "hook_endpoints t = hook_endpoints s" "sent t = sent s" "\<And>i. filter (is_post i) (post_commit t) = []"
    "\<And>i. filter (is_redirect i) (post_commit t) = []"
    by (auto simp: dispatch_run Let_def filter_empty_conv)
  with request_effect [OF hook_fan_out(2) m] same show ?thesis by (auto simp: posts_def redirects_def)
next
  case (hook_deliver hw ten i now d)
  obtain q t where m: "deliver hw ten i now (s\<lparr>post_commit := []\<rparr>) = (q, t)" by (metis surj_pair)
  show ?thesis
  proof (cases "attempts_post ten i (s\<lparr>post_commit := []\<rparr>)")
    case None
    from deliver_quiet [OF None m] request_effect [OF hook_deliver(2) m] same show ?thesis
      by (auto simp: posts_def redirects_def)
  next
    case (Some de)
    then obtain dl e where "attempts_post ten i (s\<lparr>post_commit := []\<rparr>) = Some (dl, e)" by (cases de) auto
    then obtain f url body ev sig where
      "e \<in> set (hook_endpoints (s\<lparr>post_commit := []\<rparr>))" "\<not> wep_circuit_open e"
      "sent t = sent (s\<lparr>post_commit := []\<rparr>) @ PostWebhook (wep_id e) url body ev sig
        # replicate (fst (hw_post hw url body ev sig)) (FollowRedirect (wep_id e))"
      "post_commit t = post_commit (s\<lparr>post_commit := []\<rparr>)"
      "(\<exists>err. isl q \<and> snd (hw_post hw url body ev sig) = PostCrashed err)
       \<or> \<not> isl q \<and> hook_endpoints t = upd_rows (\<lambda>x. wep_id x = wep_id e) f (hook_endpoints (s\<lparr>post_commit := []\<rparr>))
         \<and> (f = endpoint_succeeded now \<and> (\<exists>c. snd (hw_post hw url body ev sig) = PostStatus c \<and> is_success c)
            \<or> (\<exists>m. f = endpoint_failed m))" by (rule deliver_rows [OF m])
    note f = this [simplified]
    from f(5) consider (escaped) err where "isl q" "snd (hw_post hw url body ev sig) = PostCrashed err"
      | (handled) "\<not> isl q" "hook_endpoints t = upd_rows (\<lambda>x. wep_id x = wep_id e) f (hook_endpoints s)"
        "f = endpoint_succeeded now \<and> (\<exists>c. snd (hw_post hw url body ev sig) = PostStatus c \<and> is_success c)
          \<or> (\<exists>m. f = endpoint_failed m)" by auto
    then show ?thesis
    proof cases
      case escaped
      with request_effect(1) [OF hook_deliver(2) m] show ?thesis by (intro crashed [OF hook_deliver(1)]) auto
    next
      case handled
      with f request_effect [OF hook_deliver(2) m] show ?thesis
        by (intro tried [OF hook_deliver(1) f(1,2), where f = f and url = url and body = body and ev = ev and sig = sig and now = now])
          (auto simp: posts_def redirects_def redirect_effects)
    qed
  qed
next
  case hook_elsewhere
  with same show ?thesis by blast
qed

section \<open>The invariants of a step\<close>

lemma patch_fields:
  "wep_id (patch_endpoint u es e) = wep_id e"
  "hook.consistent e \<Longrightarrow> hook.consistent (patch_endpoint u es e)"
  "patch_get (eu_is_active u) \<noteq> Some True \<Longrightarrow> hook.budget (patch_endpoint u es e) = hook.budget e"
  using hook.consistent_reset [of e]
  by (auto simp: patch_endpoint_def Let_def hook.consistent_def hook.budget_def reenabled_def
      split: option.splits bool.splits)

lemma written_ids:
  "f = endpoint_succeeded now \<or> (\<exists>m. f = endpoint_failed m) \<Longrightarrow> wep_id (f e) = wep_id e"
  by (auto simp: endpoint_succeeded_def endpoint_failed_def Let_def)

lemma upd_ids: "(\<And>x. wep_id (f x) = wep_id x) \<Longrightarrow> map wep_id (upd_rows P f rows) = map wep_id rows"
  by (simp add: upd_rows_def)

lemma hook_step_ok:
  assumes "hook_step l s s'" "endpoints_ok s" shows "endpoints_ok s'"
  using assms(1)
proof (cases rule: hook_step_cases)
  case same
  with assms(2) show ?thesis by (simp add: endpoints_ok_def)
next
  case (created i e)
  with assms(2) show ?thesis by (auto simp: endpoints_ok_def)
next
  case (changed i u es)
  with assms(2) patch_fields(2) show ?thesis
    by (auto simp: endpoints_ok_def upd_ids patch_fields(1) list_all_iff in_upd_rows)
next
  case (removed i)
  with assms(2) show ?thesis by (auto simp: endpoints_ok_def list_all_iff del_rows_def intro: distinct_map_filterI)
next
  case (crashed hw url body ev sig err)
  with assms(2) show ?thesis by (simp add: endpoints_ok_def)
next
  case (tried hw e f url body ev sig now)
  from tried(6) have ids: "wep_id (f x) = wep_id x" for x using written_ids by blast
  have "hook.consistent (f x)" if "x \<in> set (hook_endpoints s)" "wep_id x = wep_id e" for x
  proof -
    from that tried(2) assms(2) have "x = e" "hook.consistent e"
      by (auto simp: endpoints_ok_def list_all_iff dest: distinct_key_eq)
    with tried(3,6) hook.consistent_fail hook.consistent_succeed show ?thesis by auto
  qed
  with tried(4) assms(2) show ?thesis
    by (auto simp: endpoints_ok_def upd_ids ids list_all_iff in_upd_rows)
qed





lemma hook_run_ok: "hook_run s ls s' \<Longrightarrow> endpoints_ok s \<Longrightarrow> endpoints_ok s'"
  by (induction rule: hook_run.induct) (auto intro: hook_step_ok)


section \<open>The properties\<close>

text \<open>
  A breaker never disagrees with its counter. Whatever an administrator, the fan-out and the
  delivery tasks do, in any order and with any replies, every endpoint's breaker is open exactly
  when its counter of consecutive failures has reached five, and the counter never passes it.
\<close>

lemma breakers_match_counters:
  assumes "hook_run s ls s'" "endpoints_ok s"
  shows "list_all (\<lambda>e. (wep_circuit_open e \<longleftrightarrow> wep_consecutive_failures e = 5)
    \<and> 0 \<le> wep_consecutive_failures e \<and> wep_consecutive_failures e \<le> 5) (hook_endpoints s')"
proof -
  have "hook.consistent e" if "e \<in> set (hook_endpoints s')" for e
    using hook_run_ok [OF assms] that by (simp add: endpoints_ok_def list_all_iff)
  then show ?thesis
    unfolding hook.consistent_def list_all_iff by (force simp: WEBHOOK_BREAKER_THRESHOLD_def)
qed


text \<open>
  The condition on handled failures is needed: an exception that the delivery does not catch
  undoes the attempt and the failure, so that the breaker never opens while every event posts
  again.
\<close>

lemma crash_forgets_the_failure:
  assumes "get_delivery (tenant_id ten) i s = Some d" "wdl_status d \<noteq> DELIVERED"
    "get_endpoint (tenant_id ten) (wdl_endpoint d) s = Some e" "\<not> wep_circuit_open e"
    "reply_to hw e d now = PostCrashed err"
  shows "fst (run_request (deliver hw ten i now) s) = Inl err
    \<and> hook_endpoints (snd (run_request (deliver hw ten i now) s)) = hook_endpoints s
    \<and> hook_deliveries (snd (run_request (deliver hw ten i now) s)) = hook_deliveries s
    \<and> posts (wep_id e) (snd (run_request (deliver hw ten i now) s)) = posts (wep_id e) s + 1"
proof -
  let ?s = "s\<lparr>post_commit := []\<rparr>"
  have d: "get_delivery (tenant_id ten) i ?s = Some d" "get_endpoint (tenant_id ten) (wdl_endpoint d) ?s = Some e"
    using assms(1,3) by (simp_all add: get_delivery_def get_endpoint_def)
  have "deliver hw ten i now ?s = (Inl err, attempted hw e d now ?s)"
    using deliver_closed [OF d(1) assms(2) d(2) assms(4), of hw now] assms(5) by (simp add: raise_def)
  then show ?thesis
    by (simp add: run_request_def posts_def attempted_def redirect_effects Let_def)
qed


text \<open>
  An event goes to exactly the endpoints that subscribed to it. The fan-out writes one
  pending row for each endpoint of the tenant that is active, closed and subscribed, and for no
  other, and enqueues each once; nothing is posted inside the transaction.
\<close>

lemma fan_out_exact:
  assumes "run_request (dispatch_event ten ev p ids now) s = (r, s')"
  shows "r = Inr (length (endpoints_for_event (tenant_id ten) ev s))
    \<and> hook_deliveries s' = hook_deliveries s
        @ map (\<lambda>e. new_delivery (tenant_id ten) (wep_id e) ev p (ids (wep_id e)) now)
            (endpoints_for_event (tenant_id ten) ev s)
    \<and> sent s' = sent s @ map (\<lambda>e. DeliverWebhook (tenant_id ten) (ids (wep_id e)))
        (endpoints_for_event (tenant_id ten) ev s)"
  using assms by (auto simp: run_request_def dispatch_run endpoints_for_event_def Let_def)

text \<open>
  The delivery model calls \<open>failed\<close> the state of a delivery that exhausted its retries. A retry
  that is asked for leaves the row pending, and the task that has no retry left ends there.
\<close>

lemma last_retry_leaves_pending:
  assumes "deliver hw ten i now s = (Inr o', t)" "do_retry o'"
    "get_delivery (tenant_id ten) i s = Some d"
  shows "map_option wdl_status (get_delivery (tenant_id ten) i t) = Some (wdl_status d)"
proof (cases "attempts_post ten i s")
  case None
  with assms(1,2,3) show ?thesis
    by (auto simp: attempts_post_def deliver_def outcome_def ret_def split: option.splits if_splits)
next
  case (Some de)
  then obtain e where "wdl_status d \<noteq> DELIVERED" "get_endpoint (tenant_id ten) (wdl_endpoint d) s = Some e"
    "\<not> wep_circuit_open e"
    using assms(3) by (auto simp: attempts_post_def split: option.splits if_splits)
  note run = assms(1) [unfolded deliver_closed [OF assms(3) this]]
  have "find (\<lambda>x. wdl_tenant x = tenant_id ten \<and> wdl_id x = i) (hook_deliveries s) = Some d"
    using assms(3) by (simp add: get_delivery_def)
  with run assms(2) get_delivery_Some [OF assms(3)] show ?thesis
    by (auto simp: get_delivery_def attempted_def record_failure_run record_success_run failure_outcome_def
        failed_delivery_def outcome_def find_upd_rows raise_def Let_def simp del: append.simps
        split: post_outcome.splits if_splits)
qed

section \<open>A run\<close>

text \<open>
  An endpoint with four failures behind it and one pending delivery: the fifth failure opens the
  breaker.
\<close>

definition demo_hook_world :: "post_outcome \<Rightarrow> hook_world" where
  "demo_hook_world reply = \<lparr>hw_mac = (\<lambda>_ _. ''ab''), hw_dumps = (\<lambda>ev _. ev), hw_resolve = (\<lambda>_. []),
     hw_allow_private_hosts = False, hw_post = (\<lambda>_ _ _ _. (2, reply))\<rparr>"

definition demo_hook_db :: db where
  "demo_hook_db = empty_db\<lparr>hook_endpoints := [\<lparr>wep_id = 50, wep_tenant = 1, wep_url = ''u'', wep_secret = ''k'',
       wep_events = [''lead.created''], wep_is_active = True, wep_description = None,
       wep_consecutive_failures = 4, wep_circuit_open = False, wep_last_error = None,
       wep_last_delivered_at = None, wep_created_at = 0\<rparr>],
     hook_deliveries := [new_delivery 1 50 ''lead.created'' [] 70 0]\<rparr>"

definition demo_hook_after :: db where
  "demo_hook_after = snd (run_request (deliver (demo_hook_world (PostStatus 503)) sample_tenant 70 9) demo_hook_db)"

lemma demo_hook_ok: "endpoints_ok demo_hook_db"
  unfolding endpoints_ok_def hook.consistent_def [abs_def]
  by (simp add: demo_hook_db_def WEBHOOK_BREAKER_THRESHOLD_def)

lemma demo_hook_run:
  "hook_run demo_hook_db ([] @ [Attempted (demo_hook_world (PostStatus 503))]) demo_hook_after"
proof (rule hook_more [OF hook_start])
  obtain d where "run_request (deliver (demo_hook_world (PostStatus 503)) sample_tenant 70 9) demo_hook_db
      = (d, demo_hook_after)"
    unfolding demo_hook_after_def by (metis surjective_pairing)
  then show "hook_step (Attempted (demo_hook_world (PostStatus 503))) demo_hook_db demo_hook_after"
    by (rule hook_deliver)
qed

lemma breakers_match_counters_at_work:
  "list_all (\<lambda>e. (wep_circuit_open e \<longleftrightarrow> wep_consecutive_failures e = 5)
     \<and> 0 \<le> wep_consecutive_failures e \<and> wep_consecutive_failures e \<le> 5) (hook_endpoints demo_hook_after)
   \<and> map wep_circuit_open (hook_endpoints demo_hook_after) = [True]"
  using breakers_match_counters [OF demo_hook_run demo_hook_ok] by (rule conjI) code_simp



lemma fan_out_exact_at_work:
  "length (hook_deliveries (snd (run_request (dispatch_event sample_tenant ''lead.created'' [] Suc 9) demo_hook_db))) = 2"
  using fan_out_exact [of sample_tenant "''lead.created''" "[]" Suc 9 demo_hook_db, OF surjective_pairing]
  by (simp add: endpoints_for_event_def demo_hook_db_def sample_tenant_def empty_db_def)

end
