(* ===== verification/Syndication.thy ===== *)
theory Syndication
  imports Listings I18n Signing
begin

text \<open>
  \<open>modules/syndication\<close> with the portal adapters of \<open>integrations/portals\<close>: the configuration of
  the portals, the sync of one listing to one portal with its circuit breaker, the manual
  re-push and the list of states. The HTTP answers of a portal and the photo URLs of a listing
  are parameters.
\<close>

definition SYNC_BREAKER_THRESHOLD :: int where
  "SYNC_BREAKER_THRESHOLD = 5"

definition MAX_SYNC_RETRIES :: nat where
  "MAX_SYNC_RETRIES = 6"

section \<open>Configuration\<close>

record portal_config_in =
  pc_enabled :: bool
  pc_base_url :: "string option"
  pc_api_key :: "string option"

text \<open>\<open>model_dump(exclude_none=True)\<close>, with a stored key carried forward when none is given.\<close>

definition stored_api_key :: "json_obj \<Rightarrow> string \<Rightarrow> json option" where
  "stored_api_key current key = (case json_get key current of
      Some (JObj cfg) \<Rightarrow> (let k = json_get ''api_key'' cfg in if json_truthy k then k else None)
    | _ \<Rightarrow> None)"

definition dumped_config :: "json_obj \<Rightarrow> string \<Rightarrow> portal_config_in \<Rightarrow> json_obj" where
  "dumped_config current key cfg =
     [(''enabled'', JBool (pc_enabled cfg))]
     @ (case pc_base_url cfg of None \<Rightarrow> [] | Some u \<Rightarrow> [(''base_url'', JStr u)])
     @ (case pc_api_key cfg of
          Some k \<Rightarrow> [(''api_key'', JStr k)]
        | None \<Rightarrow> (case stored_api_key current key of None \<Rightarrow> [] | Some k \<Rightarrow> [(''api_key'', k)]))"

text \<open>The tenants boundary: one top-level object of the settings, replaced as a whole.\<close>

definition get_settings_key :: "string \<Rightarrow> json_obj \<Rightarrow> json_obj" where
  "get_settings_key key settings = (case json_get key settings of Some (JObj obj) \<Rightarrow> obj | _ \<Rightarrow> [])"

definition replace_settings_key :: "string \<Rightarrow> json_obj \<Rightarrow> json_obj \<Rightarrow> json_obj" where
  "replace_settings_key key v settings = json_set key (JObj v) settings"

definition replace_portal_settings ::
  "(string \<times> portal_config_in) list \<Rightarrow> json_obj \<Rightarrow> error + json_obj" where
  "replace_portal_settings portals settings =
     (if \<not> list_all (\<lambda>(key, _). key \<in> set KNOWN_PORTALS) portals
      then Inl (ValidationError ''unknown portal keys'')
      else let current = get_settings_key ''syndication'' settings in
        Inr (replace_settings_key ''syndication''
          (map (\<lambda>(key, cfg). (key, JObj (dumped_config current key cfg))) portals) settings))"

section \<open>The adapter\<close>

text \<open>
  What the server answers to a call: nothing, or a status with the \<open>id\<close> of the JSON object in
  its body, if there is one.
\<close>

datatype portal_reply = Unreachable string | Responded int "string option"

text \<open>\<open>PortalError\<close> with its \<open>permanent\<close> flag, and \<open>PortalResult\<close>.\<close>

datatype portal_error = PortalError string bool

record portal_result =
  pr_remote_id :: "string option"
  pr_detail :: string

definition TRANSIENT_STATUSES :: "int list" where
  "TRANSIENT_STATUSES = [408, 425, 429, 500, 502, 503, 504]"

definition adapter_request :: "int list \<Rightarrow> portal_reply \<Rightarrow> portal_error + string option" where
  "adapter_request expect reply = (case reply of
      Unreachable m \<Rightarrow> Inl (PortalError (''portal unreachable: '' @ m) False)
    | Responded code body \<Rightarrow>
        if code \<in> set expect then Inr body
        else Inl (PortalError (''portal returned '' @ show_nat (nat code)) (code \<notin> set TRANSIENT_STATUSES)))"

definition adapter_result :: "portal_call \<Rightarrow> portal_reply \<Rightarrow> portal_error + portal_result" where
  "adapter_result call reply = (case call of
      PushCall _ \<Rightarrow> (case adapter_request [200, 201] reply of
          Inl e \<Rightarrow> Inl e
        | Inr None \<Rightarrow> Inl (PortalError ''portal did not return a remote id'' True)
        | Inr (Some i) \<Rightarrow> Inr \<lparr>pr_remote_id = Some i, pr_detail = ''pushed''\<rparr>)
    | UpdateCall _ i \<Rightarrow> map_sum id (\<lambda>_. \<lparr>pr_remote_id = Some i, pr_detail = ''updated''\<rparr>)
        (adapter_request [200, 204] reply)
    | RemoveCall i \<Rightarrow> map_sum id (\<lambda>_. \<lparr>pr_remote_id = Some i, pr_detail = ''removed''\<rparr>)
        (adapter_request [200, 204, 404] reply))"

text \<open>\<open>build_adapter\<close>: whether the portal is enabled and has a base URL.\<close>

definition has_adapter :: "json_obj \<Rightarrow> string \<Rightarrow> bool" where
  "has_adapter settings key \<longleftrightarrow> is_portal_enabled settings key
     \<and> (case json_get ''base_url'' (portal_config settings key) of Some (JStr u) \<Rightarrow> u \<noteq> [] | _ \<Rightarrow> False)"

record portal_world =
  pw_reply :: "string \<Rightarrow> portal_call \<Rightarrow> portal_reply"
  pw_photos :: "uuid \<Rightarrow> string list"

section \<open>The payload\<close>

definition portal_payload_for :: "uuid \<Rightarrow> uuid \<Rightarrow> db \<Rightarrow> portal_listing option" where
  "portal_payload_for t i s = (case listing_get t None i s of
      None \<Rightarrow> None
    | Some l \<Rightarrow> if lst_status l \<noteq> PUBLISHED then None else
        Some \<lparr>pl_listing_id = lst_id l, pl_reference_code = lst_reference_code l,
          pl_title = (let v = pick_localized (fact_title (lst_facts l)) DEFAULT_LOCALE
            in if str_given v then or_else v [] else lst_reference_code l),
          pl_description = or_else (pick_localized (fact_description (lst_facts l)) DEFAULT_LOCALE) [],
          pl_purpose = lst_purpose l, pl_property_type = fact_property_type (lst_facts l),
          pl_price = lst_price l, pl_currency = lst_currency l, pl_beds = fact_beds (lst_facts l),
          pl_baths = fact_baths (lst_facts l), pl_area_built = fact_area_built (lst_facts l),
          pl_address = fact_address (lst_facts l), pl_location = lst_location l,
          pl_features = fact_features (lst_facts l), pl_photo_urls = [], pl_detail_url = None\<rparr>)"

definition sync_payload :: "portal_world \<Rightarrow> uuid \<Rightarrow> uuid \<Rightarrow> db \<Rightarrow> portal_listing option" where
  "sync_payload pw t i s =
     map_option (\<lambda>p. p\<lparr>pl_photo_urls := pw_photos pw i\<rparr>) (portal_payload_for t i s)"

section \<open>States\<close>

definition state_get :: "uuid \<Rightarrow> uuid \<Rightarrow> string \<Rightarrow> db \<Rightarrow> portal_sync_state option" where
  "state_get t l key s =
     find (\<lambda>x. pss_tenant x = t \<and> pss_listing x = l \<and> pss_portal_key x = key) (sync_states s)"

definition states_for_listing :: "uuid \<Rightarrow> uuid \<Rightarrow> db \<Rightarrow> portal_sync_state list" where
  "states_for_listing t l s = filter (\<lambda>x. pss_tenant x = t \<and> pss_listing x = l) (sync_states s)"

definition state_key :: "portal_sync_state \<Rightarrow> instant \<times> uuid" where
  "state_key x = (pss_updated_at x, pss_id x)"

definition repo_list_states :: "uuid \<Rightarrow> string option \<Rightarrow> (instant \<times> uuid) option \<Rightarrow> int \<Rightarrow> db \<Rightarrow> portal_sync_state list" where
  "repo_list_states t key after limit s = fetch_page state_key after limit
     (filter (\<lambda>x. pss_tenant x = t \<and> (key = None \<or> key = Some (pss_portal_key x))) (sync_states s))"

definition list_states ::
  "tenant_context \<Rightarrow> string option \<Rightarrow> (instant \<times> uuid) cursor option \<Rightarrow> int option \<Rightarrow> db \<Rightarrow>
   error + (portal_sync_state list \<times> (instant \<times> uuid) cursor option)" where
  "list_states ten key cursor limit s =
     (case decode_keyset cursor of
        Inl e \<Rightarrow> Inl e
      | Inr after \<Rightarrow> (let page_size = clamp_limit limit in
          Inr (cut_page state_key page_size (repo_list_states (tenant_id ten) key after page_size s))))"

text \<open>A write that changes a column stamps \<open>updated_at\<close> (\<open>onupdate\<close>).\<close>

definition stamped :: "instant \<Rightarrow> (portal_sync_state \<Rightarrow> portal_sync_state) \<Rightarrow> portal_sync_state \<Rightarrow> portal_sync_state" where
  "stamped now f x = (if f x = x then x else (f x)\<lparr>pss_updated_at := now\<rparr>)"

definition state_write :: "uuid \<Rightarrow> instant \<Rightarrow> (portal_sync_state \<Rightarrow> portal_sync_state) \<Rightarrow> (db, unit) action" where
  "state_write i now f =
     modify (\<lambda>s. s\<lparr>sync_states := upd_rows (\<lambda>x. pss_id x = i) (stamped now f) (sync_states s)\<rparr>)"

definition new_state :: "uuid \<Rightarrow> uuid \<Rightarrow> string \<Rightarrow> uuid \<Rightarrow> instant \<Rightarrow> portal_sync_state" where
  "new_state t l key new_id now = \<lparr>pss_id = new_id, pss_tenant = t, pss_listing = l, pss_portal_key = key,
     pss_remote_id = None, pss_last_status = SYNC_PENDING, pss_last_pushed_at = None,
     pss_last_error = None, pss_retry_count = 0, pss_consecutive_failures = 0,
     pss_circuit_open = False, pss_updated_at = now\<rparr>"

definition state_row :: "uuid \<Rightarrow> uuid \<Rightarrow> string \<Rightarrow> uuid \<Rightarrow> instant \<Rightarrow> (db, portal_sync_state) action" where
  "state_row t l key new_id now = andthen (gets (state_get t l key)) (\<lambda>found. case found of
      Some x \<Rightarrow> ret x
    | None \<Rightarrow> (let x = new_state t l key new_id now in
        andthen (modify (\<lambda>s. s\<lparr>sync_states := sync_states s @ [x]\<rparr>)) (\<lambda>_. ret x)))"

section \<open>The sync of one listing\<close>

record sync_outcome =
  so_status :: string
  so_retry :: bool
  so_detail :: string

definition sync_outcome_of :: "string \<Rightarrow> bool \<Rightarrow> string \<Rightarrow> sync_outcome" where
  "sync_outcome_of st retry detail = \<lparr>so_status = st, so_retry = retry, so_detail = detail\<rparr>"

definition action_value :: "portal_action \<Rightarrow> string" where
  "action_value a = (case a of PORTAL_PUSH \<Rightarrow> ''push'' | PORTAL_UPDATE \<Rightarrow> ''update'' | PORTAL_REMOVE \<Rightarrow> ''remove'')"

definition effective_action :: "portal_action \<Rightarrow> portal_sync_state \<Rightarrow> portal_action option" where
  "effective_action act x =
     (if act = PORTAL_REMOVE \<and> pss_remote_id x = None then None
      else if act = PORTAL_UPDATE \<and> pss_remote_id x = None then Some PORTAL_PUSH
      else Some act)"

text \<open>The adapter call of an action, or the error raised before any call.\<close>

definition portal_call_for :: "portal_action \<Rightarrow> portal_listing option \<Rightarrow> string option \<Rightarrow> portal_error + portal_call" where
  "portal_call_for act payload remote =
     (case (act, remote) of
        (PORTAL_REMOVE, Some i) \<Rightarrow> Inr (RemoveCall i)
      | _ \<Rightarrow> (case payload of
          None \<Rightarrow> (case remote of
              None \<Rightarrow> Inl (PortalError ''listing is not published'' True)
            | Some i \<Rightarrow> Inr (RemoveCall i))
        | Some p \<Rightarrow> (case (act, remote) of
              (PORTAL_UPDATE, Some i) \<Rightarrow> Inr (UpdateCall p i)
            | _ \<Rightarrow> Inr (PushCall p))))"

definition invoke ::
  "portal_world \<Rightarrow> uuid \<Rightarrow> uuid \<Rightarrow> string \<Rightarrow> portal_action \<Rightarrow> string option \<Rightarrow> (db, portal_error + portal_result) action" where
  "invoke pw t l key act remote =
     andthen (gets (sync_payload pw t l)) (\<lambda>payload. case portal_call_for act payload remote of
         Inl e \<Rightarrow> ret (Inl e)
       | Inr call \<Rightarrow> andthen (send_now (CallPortal key call)) (\<lambda>_.
           ret (adapter_result call (pw_reply pw key call))))"

definition sync_succeeded :: "portal_action \<Rightarrow> portal_result \<Rightarrow> instant \<Rightarrow> portal_sync_state \<Rightarrow> portal_sync_state" where
  "sync_succeeded act result now x =
     (let y = (if act = PORTAL_REMOVE then x\<lparr>pss_last_status := SYNC_REMOVED\<rparr>
               else x\<lparr>pss_last_status := SYNCED,
                 pss_remote_id := (case pr_remote_id result of None \<Rightarrow> pss_remote_id x | Some i \<Rightarrow> Some i)\<rparr>)
      in y\<lparr>pss_last_pushed_at := Some now, pss_last_error := None, pss_consecutive_failures := 0,
           pss_circuit_open := False\<rparr>)"

definition sync_failed :: "string \<Rightarrow> portal_sync_state \<Rightarrow> portal_sync_state" where
  "sync_failed detail x =
     (let n = pss_consecutive_failures x + 1 in
      x\<lparr>pss_last_error := Some detail, pss_consecutive_failures := n,
        pss_retry_count := pss_retry_count x + 1,
        pss_circuit_open := (pss_circuit_open x \<or> SYNC_BREAKER_THRESHOLD \<le> n),
        pss_last_status := (if SYNC_BREAKER_THRESHOLD \<le> n then SYNC_PAUSED else SYNC_FAILED)\<rparr>)"

definition record_sync_failure :: "portal_sync_state \<Rightarrow> portal_error \<Rightarrow> instant \<Rightarrow> (db, sync_outcome) action" where
  "record_sync_failure x e now = (case e of PortalError detail permanent \<Rightarrow>
     andthen (state_write (pss_id x) now (sync_failed detail)) (\<lambda>_.
     if SYNC_BREAKER_THRESHOLD \<le> pss_consecutive_failures x + 1
     then ret (sync_outcome_of ''paused'' False detail)
     else ret (sync_outcome_of ''failed'' (\<not> permanent) detail)))"

definition sync_to_portal ::
  "portal_world \<Rightarrow> tenant_context \<Rightarrow> uuid \<Rightarrow> string \<Rightarrow> portal_action \<Rightarrow> uuid \<Rightarrow> instant \<Rightarrow> (db, sync_outcome) action" where
  "sync_to_portal pw ten l key act new_id now =
     (if key \<notin> set KNOWN_PORTALS then ret (sync_outcome_of ''skipped'' False ''unknown portal'')
      else andthen (state_row (tenant_id ten) l key new_id now) (\<lambda>x.
        if pss_circuit_open x then ret (sync_outcome_of ''paused'' False ''circuit open'')
        else if \<not> has_adapter (tenant_settings ten) key
        then andthen (state_write (pss_id x) now (\<lambda>y. y\<lparr>pss_last_status := SYNC_PENDING\<rparr>)) (\<lambda>_.
          ret (sync_outcome_of ''skipped'' False ''portal not enabled''))
        else (case effective_action act x of
          None \<Rightarrow> andthen (state_write (pss_id x) now (\<lambda>y. y\<lparr>pss_last_status := SYNC_REMOVED\<rparr>)) (\<lambda>_.
            ret (sync_outcome_of ''skipped'' False ''nothing to remove''))
        | Some eff \<Rightarrow>
            andthen (invoke pw (tenant_id ten) l key eff (pss_remote_id x)) (\<lambda>res. case res of
                Inl e \<Rightarrow> record_sync_failure x e now
              | Inr result \<Rightarrow> andthen (state_write (pss_id x) now (sync_succeeded eff result now)) (\<lambda>_.
                  ret (sync_outcome_of (action_value eff) False (pr_detail result)))))))"

section \<open>The manual re-push\<close>

definition breaker_cleared :: "portal_sync_state \<Rightarrow> portal_sync_state" where
  "breaker_cleared x = (if pss_circuit_open x
     then x\<lparr>pss_circuit_open := False, pss_consecutive_failures := 0\<rparr> else x)"

definition request_repush :: "tenant_context \<Rightarrow> uuid \<Rightarrow> instant \<Rightarrow> (db, string list) action" where
  "request_repush ten l now =
     andthen (gets (portal_payload_for (tenant_id ten) l)) (\<lambda>payload.
     andthen (check (payload \<noteq> None) (NotFoundError ''Published listing not found.'')) (\<lambda>_.
     let portals = enabled_portal_keys (tenant_settings ten) in
     andthen (check (portals \<noteq> []) (ConflictError ''No portals are enabled for this tenant.'')) (\<lambda>_.
     andthen (for_each portals (\<lambda>key.
       andthen (gets (state_get (tenant_id ten) l key)) (\<lambda>x.
       andthen (case x of None \<Rightarrow> ret () | Some x \<Rightarrow> state_write (pss_id x) now breaker_cleared) (\<lambda>_.
       on_commit (SyncListing l key PORTAL_PUSH))))) (\<lambda>_.
     ret portals))))"

text \<open>The task: at most \<open>MAX_SYNC_RETRIES\<close> more attempts, each a transaction of its own.\<close>

fun sync_attempts ::
  "tenant_context \<Rightarrow> uuid \<Rightarrow> string \<Rightarrow> portal_action \<Rightarrow> (portal_world \<times> uuid \<times> instant) list \<Rightarrow> db \<Rightarrow> db" where
  "sync_attempts ten l key act [] s = s"
| "sync_attempts ten l key act ((pw, new_id, now) # later) s =
     (case run_request (sync_to_portal pw ten l key act new_id now) s of (r, s') \<Rightarrow>
        if \<not> isl r \<and> so_retry (projr r) then sync_attempts ten l key act later s' else s')"

definition sync_listing_to_portal ::
  "tenant_context \<Rightarrow> uuid \<Rightarrow> string \<Rightarrow> portal_action \<Rightarrow> (portal_world \<times> uuid \<times> instant) list \<Rightarrow> db \<Rightarrow> db" where
  "sync_listing_to_portal ten l key act attempts s =
     sync_attempts ten l key act (take (Suc MAX_SYNC_RETRIES) attempts) s"

end
