(* ===== verification/Sync_Desk.thy ===== *)
theory Sync_Desk
  imports Syndication Breaker Contracts
begin

text \<open>
  What the syndication promises: which call a portal gets, a breaker that agrees with its
  counter, a dead portal that is left alone, and settings that keep their secrets. What the
  bookkeeping of remote ids does not promise is at the end.
\<close>

section \<open>The breaker of a pair\<close>

definition synced_by :: "portal_action \<times> portal_result \<times> instant \<Rightarrow> portal_sync_state \<Rightarrow> portal_sync_state" where
  "synced_by v = sync_succeeded (fst v) (fst (snd v)) (snd (snd v))"

interpretation sync: breaker pss_consecutive_failures pss_circuit_open SYNC_BREAKER_THRESHOLD
  sync_failed synced_by breaker_cleared
  by unfold_locales
    (simp_all add: sync_failed_def synced_by_def sync_succeeded_def breaker_cleared_def
      SYNC_BREAKER_THRESHOLD_def Let_def)

definition pair_key :: "portal_sync_state \<Rightarrow> uuid \<times> uuid \<times> string" where
  "pair_key x = (pss_tenant x, pss_listing x, pss_portal_key x)"

definition states_ok :: "db \<Rightarrow> bool" where
  "states_ok s \<longleftrightarrow> distinct (map pss_id (sync_states s)) \<and> distinct (map pair_key (sync_states s))
     \<and> list_all sync.consistent (sync_states s)"

section \<open>The operations\<close>

definition row_of :: "uuid \<Rightarrow> uuid \<Rightarrow> string \<Rightarrow> uuid \<Rightarrow> instant \<Rightarrow> db \<Rightarrow> portal_sync_state" where
  "row_of t l key new_id now s = or_else (state_get t l key s) (new_state t l key new_id now)"

definition with_row :: "uuid \<Rightarrow> uuid \<Rightarrow> string \<Rightarrow> uuid \<Rightarrow> instant \<Rightarrow> db \<Rightarrow> db" where
  "with_row t l key new_id now s = (if state_get t l key s = None
     then s\<lparr>sync_states := sync_states s @ [new_state t l key new_id now]\<rparr> else s)"

definition written :: "portal_sync_state \<Rightarrow> instant \<Rightarrow> (portal_sync_state \<Rightarrow> portal_sync_state) \<Rightarrow> db \<Rightarrow> db" where
  "written x now f s = s\<lparr>sync_states := upd_rows (\<lambda>y. pss_id y = pss_id x) (stamped now f) (sync_states s)\<rparr>"

lemma andthen_state_row [simp]:
  "andthen (state_row t l key new_id now) f s
     = f (row_of t l key new_id now s) (with_row t l key new_id now s)"
  by (simp add: state_row_def row_of_def with_row_def ret_def Let_def andthen_assoc split: option.splits)

lemma andthen_state_write [simp]:
  "andthen (state_write (pss_id x) now f) g s = g () (written x now f s)"
  by (simp add: state_write_def written_def)

lemma listing_get_rows: "listing_get t vis i (s\<lparr>sync_states := rows\<rparr>) = listing_get t vis i s"
  by (simp add: listing_get_def)

lemma payload_rows: "sync_payload pw t l (with_row t' l' key new_id now s) = sync_payload pw t l s"
  by (simp add: sync_payload_def portal_payload_for_def with_row_def listing_get_rows)

text \<open>What the portal is asked for, as a table over the verb, the remote id and the payload.\<close>

definition calls_made ::
  "portal_world \<Rightarrow> tenant_context \<Rightarrow> uuid \<Rightarrow> string \<Rightarrow> portal_action \<Rightarrow> portal_sync_state \<Rightarrow> db \<Rightarrow> portal_call list" where
  "calls_made pw ten l key act x s =
     (if key \<notin> set KNOWN_PORTALS \<or> pss_circuit_open x \<or> \<not> has_adapter (tenant_settings ten) key then []
      else (case (act, pss_remote_id x, sync_payload pw (tenant_id ten) l s) of
          (PORTAL_REMOVE, None, _) \<Rightarrow> []
        | (PORTAL_REMOVE, Some i, _) \<Rightarrow> [RemoveCall i]
        | (_, None, None) \<Rightarrow> []
        | (_, Some i, None) \<Rightarrow> [RemoveCall i]
        | (PORTAL_UPDATE, Some i, Some p) \<Rightarrow> [UpdateCall p i]
        | (_, _, Some p) \<Rightarrow> [PushCall p]))"

text \<open>One run of the sync as one equation: its calls, and the one write to its row.\<close>

definition sync_write ::
  "portal_world \<Rightarrow> tenant_context \<Rightarrow> uuid \<Rightarrow> string \<Rightarrow> portal_action \<Rightarrow> portal_sync_state \<Rightarrow> instant \<Rightarrow> db \<Rightarrow>
   (portal_sync_state \<Rightarrow> portal_sync_state) option" where
  "sync_write pw ten l key act x now s =
     (if pss_circuit_open x then None
      else if \<not> has_adapter (tenant_settings ten) key then Some (\<lambda>y. y\<lparr>pss_last_status := SYNC_PENDING\<rparr>)
      else (case effective_action act x of
          None \<Rightarrow> Some (\<lambda>y. y\<lparr>pss_last_status := SYNC_REMOVED\<rparr>)
        | Some eff \<Rightarrow> Some (case portal_call_for eff (sync_payload pw (tenant_id ten) l s) (pss_remote_id x) of
              Inl (PortalError m _) \<Rightarrow> sync_failed m
            | Inr call \<Rightarrow> (case adapter_result call (pw_reply pw key call) of
                Inl (PortalError m _) \<Rightarrow> sync_failed m
              | Inr result \<Rightarrow> synced_by (eff, result, now)))))"

lemma andthen_invoke:
  "andthen (invoke pw t l key act remote) f s =
     (case portal_call_for act (sync_payload pw t l s) remote of
        Inl e \<Rightarrow> f (Inl e) s
      | Inr call \<Rightarrow> f (adapter_result call (pw_reply pw key call)) (s\<lparr>sent := sent s @ [CallPortal key call]\<rparr>))"
  by (simp add: invoke_def andthen_assoc split: sum.split)

lemma sync_failure_run:
  "\<exists>out. record_sync_failure x e now s =
     (Inr out, written x now (case e of PortalError m _ \<Rightarrow> sync_failed m) s)"
  by (simp add: record_sync_failure_def ret_def split: portal_error.split)

lemma with_row_sent:
  "sent (with_row t l key new_id now s) = sent s"
  "(with_row t l key new_id now s)\<lparr>sent := sent s\<rparr> = with_row t l key new_id now s"
  by (simp_all add: with_row_def)

lemma sync_run_eq:
  assumes "key \<in> set KNOWN_PORTALS" "x = row_of (tenant_id ten) l key new_id now s"
  shows "\<exists>out. sync_to_portal pw ten l key act new_id now s = (Inr out,
      (case sync_write pw ten l key act x now s of None \<Rightarrow> (\<lambda>u. u) | Some f \<Rightarrow> written x now f)
        ((with_row (tenant_id ten) l key new_id now s)\<lparr>sent := sent s
            @ map (CallPortal key) (calls_made pw ten l key act x s)\<rparr>))"
proof -
  note facts = sync_to_portal_def sync_write_def calls_made_def assms(2) [symmetric] payload_rows with_row_sent
  consider "pss_circuit_open x" | "\<not> pss_circuit_open x" "\<not> has_adapter (tenant_settings ten) key"
    | eff where "\<not> pss_circuit_open x" "has_adapter (tenant_settings ten) key" "effective_action act x = Some eff"
    | "\<not> pss_circuit_open x" "has_adapter (tenant_settings ten) key" "effective_action act x = None"
    by (cases "effective_action act x") auto
  then show ?thesis
  proof cases
    case 3
    let ?call = "portal_call_for eff (sync_payload pw (tenant_id ten) l s) (pss_remote_id x)"
    have calls: "calls_made pw ten l key act x s = (case ?call of Inl _ \<Rightarrow> [] | Inr call \<Rightarrow> [call])"
      using assms(1) 3 by (auto simp: calls_made_def effective_action_def portal_call_for_def
          split: portal_action.splits option.splits if_splits)
    show ?thesis
    proof (cases ?call)
      case (Inl e)
      with 3 assms(1) calls sync_failure_run [of x e now] show ?thesis
        by (simp add: facts andthen_invoke split: portal_error.split_asm)
    next
      case (Inr call)
      show ?thesis
      proof (cases "adapter_result call (pw_reply pw key call)")
        case (Inl e)
        with 3 assms(1) Inr calls sync_failure_run [of x e now] show ?thesis
          by (simp add: facts andthen_invoke split: portal_error.split_asm)
      next
        case (Inr result)
        with 3 assms(1) \<open>?call = Inr call\<close> calls show ?thesis
          by (simp add: facts andthen_invoke ret_def synced_by_def)
      qed
    qed
  qed (use assms(1) in \<open>auto simp: facts effective_action_def ret_def
      split: portal_action.split option.split if_splits\<close>)
qed

lemma rows_unaffected:
  "state_get t l key (s\<lparr>post_commit := cs\<rparr>) = state_get t l key s"
  "sync_payload pw t l (s\<lparr>post_commit := cs\<rparr>) = sync_payload pw t l s"
  by (simp_all add: state_get_def sync_payload_def portal_payload_for_def listing_get_def)

lemma tables_unaffected:
  "calls_made pw ten l key act x (s\<lparr>post_commit := cs\<rparr>) = calls_made pw ten l key act x s"
  "sync_write pw ten l key act x now (s\<lparr>post_commit := cs\<rparr>) = sync_write pw ten l key act x now s"
  "row_of t l key new_id now (s\<lparr>post_commit := cs\<rparr>) = row_of t l key new_id now s"
  "sync_states (with_row t l key new_id now (s\<lparr>post_commit := cs\<rparr>)) = sync_states (with_row t l key new_id now s)"
  "post_commit (with_row t l key new_id now s) = post_commit s"
  by (simp_all add: calls_made_def sync_write_def row_of_def with_row_def rows_unaffected cong: option.case_cong)

lemma sync_effect:
  assumes "run_request (sync_to_portal pw ten l key act new_id now) s = (r, s')"
    "x = row_of (tenant_id ten) l key new_id now s"
  shows "sent s' = sent s @ map (CallPortal key) (calls_made pw ten l key act x s)"
    "key \<in> set KNOWN_PORTALS \<Longrightarrow> sync_states s' =
       (case sync_write pw ten l key act x now s of None \<Rightarrow> (\<lambda>u. u)
        | Some f \<Rightarrow> upd_rows (\<lambda>y. pss_id y = pss_id x) (stamped now f))
       (sync_states (with_row (tenant_id ten) l key new_id now s))"
    "key \<notin> set KNOWN_PORTALS \<Longrightarrow> sync_states s' = sync_states s"
proof -
  have "sent s' = sent s @ map (CallPortal key) (calls_made pw ten l key act x s)
    \<and> sync_states s' = (if key \<in> set KNOWN_PORTALS then
       (case sync_write pw ten l key act x now s of None \<Rightarrow> (\<lambda>u. u)
        | Some f \<Rightarrow> upd_rows (\<lambda>y. pss_id y = pss_id x) (stamped now f))
       (sync_states (with_row (tenant_id ten) l key new_id now s)) else sync_states s)"
  proof (cases "key \<in> set KNOWN_PORTALS")
    case True
    from sync_run_eq [OF this, where x = x and ten = ten and l = l and new_id = new_id and now = now
        and s = "s\<lparr>post_commit := []\<rparr>" and pw = pw and act = act] assms True
    show ?thesis by (auto simp: run_request_def tables_unaffected written_def split: option.splits)
  next
    case False
    with assms show ?thesis by (auto simp: run_request_def sync_to_portal_def calls_made_def ret_def)
  qed
  then show "sent s' = sent s @ map (CallPortal key) (calls_made pw ten l key act x s)"
    "key \<in> set KNOWN_PORTALS \<Longrightarrow> sync_states s' =
       (case sync_write pw ten l key act x now s of None \<Rightarrow> (\<lambda>u. u)
        | Some f \<Rightarrow> upd_rows (\<lambda>y. pss_id y = pss_id x) (stamped now f))
       (sync_states (with_row (tenant_id ten) l key new_id now s))"
    "key \<notin> set KNOWN_PORTALS \<Longrightarrow> sync_states s' = sync_states s" by simp_all
qed

text \<open>A write keeps the keys of its row; on a closed breaker it keeps the row consistent.\<close>

lemma stamped_fields [simp]:
  "pss_consecutive_failures (stamped now f x) = pss_consecutive_failures (f x)"
  "pss_circuit_open (stamped now f x) = pss_circuit_open (f x)"
  "pss_id (f x) = pss_id x \<Longrightarrow> pss_id (stamped now f x) = pss_id x"
  "pair_key (f x) = pair_key x \<Longrightarrow> pair_key (stamped now f x) = pair_key x"
  by (simp_all add: stamped_def pair_key_def)

lemma sync_write_keys:
  assumes "sync_write pw ten l key act x now s = Some f"
  shows "pss_id (f y) = pss_id y" "pair_key (f y) = pair_key y"
  using assms by (auto simp: sync_write_def pair_key_def sync_failed_def synced_by_def sync_succeeded_def Let_def
      split: if_splits option.splits sum.splits portal_error.splits)

lemma consistent_stamped: "sync.consistent (stamped now f x) = sync.consistent (f x)"
  unfolding sync.consistent_def by simp

lemma sync_write_consistent:
  assumes "sync_write pw ten l key act x now s = Some f" "sync.consistent y" "\<not> pss_circuit_open y"
  shows "sync.consistent (f y)"
proof -
  have same: "sync.consistent (y\<lparr>pss_last_status := st\<rparr>)" for st
    using assms(2) unfolding sync.consistent_def by simp
  from assms(1) show ?thesis
    by (auto simp: sync_write_def same sync.consistent_fail [OF assms(2,3)] sync.consistent_succeed
        split: if_splits option.splits sum.splits portal_error.splits)
qed

lemma row_of_in: "row_of t l key new_id now s \<in> set (sync_states (with_row t l key new_id now s))"
  by (auto simp: row_of_def with_row_def state_get_def dest: find_in split: option.split)

lemma with_row_ok:
  assumes "states_ok s" "new_id \<notin> pss_id ` set (sync_states s)"
  shows "states_ok (with_row t l key new_id now s)"
proof -
  have "sync.consistent (new_state t l key new_id now)"
    unfolding sync.consistent_def by (simp add: new_state_def SYNC_BREAKER_THRESHOLD_def)
  moreover have "(t, l, key) \<notin> pair_key ` set (sync_states s)" if "state_get t l key s = None"
    using that by (auto simp: state_get_def pair_key_def find_None_iff)
  ultimately show ?thesis
    using assms by (auto simp: states_ok_def with_row_def pair_key_def new_state_def)
qed

lemma written_ok:
  assumes "states_ok s" "x \<in> set (sync_states s)"
    "\<And>y. pss_id (f y) = pss_id y" "\<And>y. pair_key (f y) = pair_key y" "sync.consistent (f x)"
    "sync_states s' = upd_rows (\<lambda>y. pss_id y = pss_id x) (stamped now f) (sync_states s)"
  shows "states_ok s'"
proof -
  have "y = x" if "y \<in> set (sync_states s)" "pss_id y = pss_id x" for y
    using distinct_key_eq [OF _ that(1) assms(2) that(2)] assms(1) by (simp add: states_ok_def)
  then have "sync.consistent (f y)" if "y \<in> set (sync_states s)" "pss_id y = pss_id x" for y
    using assms(5) that by metis
  with assms show ?thesis
    by (auto simp: states_ok_def list_all_iff in_upd_rows consistent_stamped)
qed

lemma sync_step_ok:
  assumes "run_request (sync_to_portal pw ten l key act new_id now) s = (r, s')" "states_ok s"
    "new_id \<notin> pss_id ` set (sync_states s)"
  shows "states_ok s'"
proof (cases "key \<in> set KNOWN_PORTALS")
  case True
  define x where "x = row_of (tenant_id ten) l key new_id now s"
  note rows = sync_effect(2) [OF assms(1) x_def True]
  note ok = with_row_ok [OF assms(2,3), where t = "tenant_id ten" and l = l and key = key and now = now]
  show ?thesis
  proof (cases "sync_write pw ten l key act x now s")
    case None
    with rows ok show ?thesis by (simp add: states_ok_def)
  next
    case (Some f)
    have "sync.consistent x"
      using ok row_of_in [of "tenant_id ten" l key new_id now s] by (simp add: states_ok_def list_all_iff x_def)
    moreover have "\<not> pss_circuit_open x" using Some by (auto simp: sync_write_def)
    ultimately show ?thesis
      using written_ok [OF ok, where x = x and f = f and now = now and s' = s'] sync_write_consistent [OF Some] sync_write_keys [OF Some]
        row_of_in [of "tenant_id ten" l key new_id now s] rows Some by (simp add: x_def)
  qed
next
  case False
  with sync_effect(3) [OF assms(1) refl] assms(2) show ?thesis by (simp add: states_ok_def)
qed

section \<open>The manual re-push\<close>

lemma repush_write_ok: "preserves states_ok (state_write i now breaker_cleared)"
proof -
  have keys: "pss_id (breaker_cleared y) = pss_id y" "pair_key (breaker_cleared y) = pair_key y" for y
    by (simp_all add: breaker_cleared_def pair_key_def)
  show ?thesis
    by (auto simp: preserves_def state_write_def modify_def states_ok_def keys list_all_iff in_upd_rows
        consistent_stamped sync.consistent_reset)
qed

lemma repush_ok: "preserves states_ok (request_repush ten l now)"
  unfolding request_repush_def Let_def on_commit_def
  by (intro preserves_intros repush_write_ok) (simp_all add: states_ok_def)

lemma run_request_ok:
  assumes "preserves states_ok m" "run_request m s = (r, s')" "states_ok s"
  shows "states_ok s'"
proof -
  obtain q t where m: "m (s\<lparr>post_commit := []\<rparr>) = (q, t)" by (metis surj_pair)
  then have "states_ok t" using preservesD [OF assms(1) _ m] assms(3) by (simp add: states_ok_def)
  with m assms(2,3) show ?thesis by (auto simp: run_request_def states_ok_def split: sum.splits)
qed

section \<open>Runs\<close>

text \<open>
  One rule per operation that writes a state, failures included, and one for everything else the
  program does. A sync label tells its pair, the portals it met and the calls it made.
\<close>

datatype sync_label = Synced "uuid \<times> uuid \<times> string" portal_world nat | Repushed uuid uuid | Other_Work

inductive sync_step :: "sync_label \<Rightarrow> db \<Rightarrow> db \<Rightarrow> bool" where
  sync_task: "run_request (sync_to_portal pw ten l key act new_id now) s = (r, s') \<Longrightarrow>
    new_id \<notin> pss_id ` set (sync_states s) \<Longrightarrow>
    sync_step (Synced (tenant_id ten, l, key) pw (length (sent s') - length (sent s))) s s'"
| sync_repush: "run_request (request_repush ten l now) s = (keys, s') \<Longrightarrow>
    sync_step (Repushed (tenant_id ten) l) s s'"
| sync_elsewhere: "sync_states s' = sync_states s \<Longrightarrow> sync_step Other_Work s s'"

inductive sync_run :: "db \<Rightarrow> sync_label list \<Rightarrow> db \<Rightarrow> bool" where
  sync_start: "sync_run s [] s"
| sync_more: "sync_run s ls t \<Longrightarrow> sync_step l t s' \<Longrightarrow> sync_run s (ls @ [l]) s'"

lemma sync_step_states_ok: "sync_step l s s' \<Longrightarrow> states_ok s \<Longrightarrow> states_ok s'"
proof (induction rule: sync_step.induct)
  case (sync_elsewhere s' s)
  then show ?case by (simp add: states_ok_def)
qed (blast intro: sync_step_ok run_request_ok [OF repush_ok])+

lemma sync_run_ok: "sync_run s ls s' \<Longrightarrow> states_ok s \<Longrightarrow> states_ok s'"
  by (induction rule: sync_run.induct) (auto intro: sync_step_states_ok)

section \<open>The budget of a pair\<close>

definition pair_budget :: "uuid \<times> uuid \<times> string \<Rightarrow> db \<Rightarrow> int" where
  "pair_budget p s = (case find (\<lambda>x. pair_key x = p) (sync_states s) of
      None \<Rightarrow> SYNC_BREAKER_THRESHOLD | Some x \<Rightarrow> sync.budget x)"

text \<open>No call is ever answered with a success.\<close>

definition unanswering :: "portal_world \<Rightarrow> bool" where
  "unanswering pw \<longleftrightarrow> (\<forall>key call. isl (adapter_result call (pw_reply pw key call)))"

fun no_revival :: "uuid \<times> uuid \<times> string \<Rightarrow> sync_label \<Rightarrow> bool" where
  "no_revival p (Synced q pw n) = (p = q \<longrightarrow> unanswering pw)"
| "no_revival p (Repushed t l) = ((t, l) \<noteq> (fst p, fst (snd p)))"
| "no_revival p Other_Work = True"

fun calls_to :: "uuid \<times> uuid \<times> string \<Rightarrow> sync_label \<Rightarrow> int" where
  "calls_to p (Synced q pw n) = (if p = q then int n else 0)"
| "calls_to p _ = 0"

lemma state_get_pair: "state_get t l key s = find (\<lambda>x. pair_key x = (t, l, key)) (sync_states s)"
  by (simp add: state_get_def pair_key_def)

lemma pair_budget_row: "pair_budget (t, l, key) s = sync.budget (row_of t l key new_id now s)"
  unfolding pair_budget_def row_of_def state_get_pair sync.budget_def
  by (auto simp: new_state_def or_else_def split: option.split)

lemma budget_stamped: "sync.budget (stamped now f x) = sync.budget (f x)"
  unfolding sync.budget_def by simp

lemma pair_budget_bounds: "states_ok s \<Longrightarrow> 0 \<le> pair_budget p s \<and> pair_budget p s \<le> 5"
  using sync.budget_bounds SYNC_BREAKER_THRESHOLD_def
  by (auto simp: pair_budget_def states_ok_def list_all_iff dest!: find_in split: option.splits)

text \<open>The write of an attempt pays for its calls.\<close>

lemma sync_write_budget:
  assumes "unanswering pw" "sync.consistent x"
  shows "int (length (calls_made pw ten l key act x s))
     + sync.budget ((case sync_write pw ten l key act x now s of None \<Rightarrow> (\<lambda>y. y) | Some f \<Rightarrow> f) x) \<le> sync.budget x"
proof (cases "pss_circuit_open x \<or> \<not> has_adapter (tenant_settings ten) key")
  case True
  then show ?thesis unfolding sync.budget_def by (auto simp: sync_write_def calls_made_def)
next
  case False
  have one: "length (calls_made pw ten l key act x s) \<le> 1"
    by (auto simp: calls_made_def split: portal_action.split option.split)
  have fail: "sync.budget (sync_failed m x) = sync.budget x - 1" for m
    using sync.budget_fail [OF assms(2)] False by blast
  show ?thesis
  proof (cases "effective_action act x")
    case None
    then have "calls_made pw ten l key act x s = []"
      by (auto simp: effective_action_def calls_made_def split: if_splits option.split)
    with None False show ?thesis unfolding sync.budget_def by (simp add: sync_write_def)
  next
    case (Some eff)
    have fails: "\<exists>m. (case adapter_result call (pw_reply pw key call) of
        Inl (PortalError m _) \<Rightarrow> sync_failed m | Inr result \<Rightarrow> f result) = sync_failed m" for call f
    proof -
      obtain m perm where "adapter_result call (pw_reply pw key call) = Inl (PortalError m perm)"
        using assms(1) by (metis isl_def portal_error.exhaust unanswering_def)
      then show ?thesis by auto
    qed
    obtain m where "sync_write pw ten l key act x now s = Some (sync_failed m)"
    proof (cases "portal_call_for eff (sync_payload pw (tenant_id ten) l s) (pss_remote_id x)")
      case (Inl e)
      with that False Some show ?thesis by (cases e) (simp add: sync_write_def)
    next
      case (Inr call)
      with that False Some fails [where call = call and f = "\<lambda>result. synced_by (eff, result, now)"] show ?thesis
        by (auto simp: sync_write_def)
    qed
    with one fail show ?thesis by simp
  qed
qed

text \<open>A re-push refills the pairs of its own listing only.\<close>

lemma upd_other_pair:
  assumes "states_ok u" "x \<in> set (sync_states u)" "pair_key x \<noteq> p" "\<And>y. pair_key (f y) = pair_key y"
    "sync_states u' = upd_rows (\<lambda>y. pss_id y = pss_id x) f (sync_states u)"
  shows "pair_budget p u' = pair_budget p u"
proof -
  have "pss_id y \<noteq> pss_id x" if "find (\<lambda>y. pair_key y = p) (sync_states u) = Some y" for y
    using find_in [OF that] distinct_key_eq [OF _ _ assms(2), of pss_id y] assms(1,3)
    by (auto simp: states_ok_def)
  then show ?thesis by (auto simp: pair_budget_def assms(4,5) find_upd_rows split: option.split)
qed

lemma repush_budget:
  assumes other: "\<And>key. p \<noteq> (tenant_id ten, l, key)"
  shows "preserves (\<lambda>u. states_ok u \<and> pair_budget p u = b) (request_repush ten l now)"
proof -
  let ?I = "\<lambda>u. states_ok u \<and> pair_budget p u = b"
  have one: "preserves ?I (andthen (gets (state_get (tenant_id ten) l key)) (\<lambda>x.
      andthen (case x of None \<Rightarrow> ret () | Some x \<Rightarrow> state_write (pss_id x) now breaker_cleared) (\<lambda>_.
      on_commit (SyncListing l key PORTAL_PUSH))))" for key
  proof (rule preservesI)
    fix u r u'
    assume u: "?I u" and run: "andthen (gets (state_get (tenant_id ten) l key)) (\<lambda>x.
        andthen (case x of None \<Rightarrow> ret () | Some x \<Rightarrow> state_write (pss_id x) now breaker_cleared) (\<lambda>_.
        on_commit (SyncListing l key PORTAL_PUSH))) u = (r, u')"
    show "?I u'"
    proof (cases "state_get (tenant_id ten) l key u")
      case None
      with u run show ?thesis by (auto simp: states_ok_def pair_budget_def)
    next
      case (Some x)
      then have x: "x \<in> set (sync_states u)" "pair_key x \<noteq> p"
        using other by (auto simp: state_get_pair dest: find_in)
      have keys: "pair_key (stamped now breaker_cleared y) = pair_key y" for y
        by (rule stamped_fields(4)) (simp add: breaker_cleared_def pair_key_def)
      have rows: "sync_states u' = upd_rows (\<lambda>y. pss_id y = pss_id x) (stamped now breaker_cleared) (sync_states u)"
        using run Some by (auto simp: written_def)
      have "states_ok (written x now breaker_cleared u)"
        using preservesD [OF repush_write_ok, of u "pss_id x" now] u
        by (simp add: state_write_def written_def modify_def)
      with rows upd_other_pair [OF _ x keys rows] u show ?thesis
        by (auto simp: states_ok_def written_def)
    qed
  qed
  show ?thesis
    unfolding request_repush_def Let_def by (intro preserves_intros one)
qed

lemma sync_step_budget:
  assumes "sync_step lb s s'" "states_ok s" "no_revival p lb"
  shows "calls_to p lb + pair_budget p s' \<le> pair_budget p s"
  using assms(1)
proof cases
  case (sync_task pw ten l key act new_id now r)
  define x where "x = row_of (tenant_id ten) l key new_id now s"
  define q where "q = (tenant_id ten, l, key)"
  note effect = sync_effect [OF sync_task(2) x_def]
  let ?s1 = "with_row (tenant_id ten) l key new_id now s"
  have ok1: "states_ok ?s1" using with_row_ok assms(2) sync_task(3) by blast
  have x_in: "x \<in> set (sync_states ?s1)" unfolding x_def by (rule row_of_in)
  have x_pair: "pair_key x = q"
    by (auto simp: x_def q_def row_of_def state_get_pair or_else_def new_state_def pair_key_def
        dest: find_in split: option.split)
  have find_x: "find (\<lambda>y. pair_key y = q) (sync_states ?s1) = Some x"
    using ok1 x_in x_pair by (auto simp: states_ok_def intro: find_distinct [where key = pair_key])
  have same1: "pair_budget p ?s1 = pair_budget p s"
    unfolding pair_budget_def with_row_def sync.budget_def
    by (auto simp: find_app new_state_def pair_key_def split: option.split)
  have calls: "length (sent s') - length (sent s) = length (calls_made pw ten l key act x s)"
    using effect(1) by simp
  show ?thesis
  proof (cases "key \<in> set KNOWN_PORTALS")
    case False
    with effect(1,3) sync_task(1) show ?thesis
      by (auto simp: pair_budget_def calls_made_def)
  next
    case True
    let ?f = "case sync_write pw ten l key act x now s of None \<Rightarrow> (\<lambda>y. y) | Some f \<Rightarrow> stamped now f"
    have rows: "sync_states s' = upd_rows (\<lambda>y. pss_id y = pss_id x) ?f (sync_states ?s1)"
      using effect(2) [OF True] by (auto simp: upd_rows_def split: option.splits)
    have keys: "pair_key (?f y) = pair_key y" for y
      using sync_write_keys [of pw ten l key act x now s] by (auto split: option.split)
    have after: "pair_budget p s' = (if p = q then sync.budget (?f x) else pair_budget p s)"
    proof (cases "p = q")
      case True
      then show ?thesis using find_x by (simp add: pair_budget_def rows find_upd_rows keys)
    next
      case False
      then show ?thesis using upd_other_pair [OF ok1 x_in _ keys rows, of p] x_pair same1 by simp
    qed
    show ?thesis
    proof (cases "p = q")
      case True
      have "sync.consistent x" using ok1 x_in by (simp add: states_ok_def list_all_iff)
      moreover have "unanswering pw" using True assms(3) sync_task(1) by (simp add: q_def)
      moreover have "pair_budget p s = sync.budget x"
        using find_x True same1 by (simp add: pair_budget_def)
      ultimately show ?thesis
        using sync_write_budget [of pw x ten l key act s now] after calls sync_task(1) True
        by (auto simp: q_def budget_stamped split: option.splits)
    next
      case False
      with after sync_task(1) show ?thesis by (simp add: q_def)
    qed
  qed
next
  case (sync_repush ten l now keys)
  have other: "p \<noteq> (tenant_id ten, l, key)" for key using assms(3) sync_repush(1) by auto
  obtain q t where m: "request_repush ten l now (s\<lparr>post_commit := []\<rparr>) = (q, t)" by (metis surj_pair)
  then have "pair_budget p t = pair_budget p s"
    using preservesD [OF repush_budget [OF other, where now = now and b = "pair_budget p s"] _ m] assms(2)
    by (simp add: states_ok_def pair_budget_def)
  with m sync_repush have "pair_budget p s' = pair_budget p s"
    by (auto simp: run_request_def pair_budget_def split: sum.splits)
  with sync_repush(1) show ?thesis by simp
next
  case sync_elsewhere
  then show ?thesis by (simp add: pair_budget_def)
qed

lemma sync_run_budget:
  "sync_run s ls s' \<Longrightarrow> states_ok s \<Longrightarrow> list_all (no_revival p) ls \<Longrightarrow>
   sum_list (map (calls_to p) ls) + pair_budget p s' \<le> pair_budget p s"
proof (induction rule: sync_run.induct)
  case (sync_more s ls t l s')
  from sync_step_budget [OF sync_more.hyps(2) sync_run_ok [OF sync_more.hyps(1) sync_more.prems(1)], of p]
    sync_more.IH sync_more.prems show ?case by simp
qed simp

section \<open>The properties\<close>

text \<open>
  C14: What a portal is asked for. Any sync, also the first one of a listing, makes the one call
  the table names and no other: none for a portal that is unknown, off or without a base URL, or
  while the breaker is open; an update or a removal only with the id that the portal gave; a
  creation or an update only for a listing that is published now.
\<close>

theorem portal_call_table:
  assumes "run_request (sync_to_portal pw ten l key act new_id now) s = (r, s')"
  shows "let state = state_get (tenant_id ten) l key s;
      paused = (case state of None \<Rightarrow> False | Some x \<Rightarrow> pss_circuit_open x);
      remote = (case state of None \<Rightarrow> None | Some x \<Rightarrow> pss_remote_id x);
      payload = portal_payload_for (tenant_id ten) l s;
      photos = (\<lambda>p. p\<lparr>pl_photo_urls := pw_photos pw l\<rparr>)
    in sent s' = sent s @ map (CallPortal key)
        (if key \<notin> set KNOWN_PORTALS \<or> paused \<or> \<not> has_adapter (tenant_settings ten) key then [] else
          (case (act, remote, payload) of
            (PORTAL_REMOVE, None, _) \<Rightarrow> []
          | (PORTAL_REMOVE, Some i, _) \<Rightarrow> [RemoveCall i]
          | (_, None, None) \<Rightarrow> []
          | (_, Some i, None) \<Rightarrow> [RemoveCall i]
          | (PORTAL_UPDATE, Some i, Some p) \<Rightarrow> [UpdateCall (photos p) i]
          | (_, _, Some p) \<Rightarrow> [PushCall (photos p)]))
      \<and> (payload = None \<or> map_option lst_status (listing_get (tenant_id ten) None l s) = Some PUBLISHED)"
proof -
  let ?x = "row_of (tenant_id ten) l key new_id now s"
  have row: "pss_circuit_open ?x = (case state_get (tenant_id ten) l key s of None \<Rightarrow> False | Some x \<Rightarrow> pss_circuit_open x)"
    "pss_remote_id ?x = (case state_get (tenant_id ten) l key s of None \<Rightarrow> None | Some x \<Rightarrow> pss_remote_id x)"
    by (simp_all add: row_of_def new_state_def split: option.split)
  have published: "payload = None \<or> map_option lst_status (listing_get (tenant_id ten) None l s) = Some PUBLISHED"
    if "payload = portal_payload_for (tenant_id ten) l s" for payload
    using that by (auto simp: portal_payload_for_def split: option.splits)
  from sync_effect(1) [OF assms(1) refl] published [OF refl] show ?thesis
    unfolding calls_made_def row Let_def
    by (auto simp: sync_payload_def split: portal_action.splits option.split)
qed

text \<open>
  C15: A breaker never disagrees with its counter, and no listing has two states at one portal.
  Through any history of syncs, re-pushes and other work each breaker is open exactly when five
  failures in a row are counted, and the unique key over tenant, listing and portal holds.
\<close>

theorem sync_breakers_match:
  assumes "sync_run s ls s'" "states_ok s"
  shows "list_all (\<lambda>x. (pss_circuit_open x \<longleftrightarrow> pss_consecutive_failures x = 5)
      \<and> 0 \<le> pss_consecutive_failures x \<and> pss_consecutive_failures x \<le> 5) (sync_states s')
    \<and> distinct (map (\<lambda>x. (pss_tenant x, pss_listing x, pss_portal_key x)) (sync_states s'))"
proof -
  note ok = sync_run_ok [OF assms]
  have "sync.consistent x" if "x \<in> set (sync_states s')" for x
    using ok that by (simp add: states_ok_def list_all_iff)
  then have "list_all (\<lambda>x. (pss_circuit_open x \<longleftrightarrow> pss_consecutive_failures x = 5)
      \<and> 0 \<le> pss_consecutive_failures x \<and> pss_consecutive_failures x \<le> 5) (sync_states s')"
    unfolding sync.consistent_def list_all_iff by (force simp: SYNC_BREAKER_THRESHOLD_def)
  with ok show ?thesis by (simp add: states_ok_def pair_key_def [abs_def])
qed

text \<open>
  C16: A dead portal is left alone. While no call for a listing succeeds and no administrator
  re-pushes it, the portal gets at most five calls for it, over all its syncs and retries and
  whatever happens to other listings and portals in between.
\<close>

theorem dead_portal_is_left_alone:
  assumes "sync_run s ls s'" "states_ok s" "list_all (no_revival p) ls"
  shows "sum_list (map (calls_to p) ls) \<le> 5"
  using sync_run_budget [OF assms] pair_budget_bounds [OF assms(2), of p]
    pair_budget_bounds [OF sync_run_ok [OF assms(1,2)], of p] by linarith

section \<open>Settings\<close>

lemma json_get_set: "json_get k (json_set k' v obj) = (if k = k' then Some v else json_get k obj)"
proof -
  have "map_of (map (\<lambda>(a, b). (a, if a = k' then v else b)) obj) k
      = (if k = k' then map_option (\<lambda>_. v) (map_of obj k) else map_of obj k)"
    by (induction obj) auto
  moreover have "map_of (obj @ [(k', v)]) k
      = (case map_of obj k of None \<Rightarrow> if k = k' then Some v else None | Some w \<Rightarrow> Some w)"
    by (induction obj) auto
  moreover have mem: "k' \<in> fst ` set obj \<longleftrightarrow> map_of obj k' \<noteq> None"
    by (metis map_of_eq_None_iff)
  ultimately show ?thesis
    unfolding json_get_def json_set_def mem
    by (cases "k = k'"; cases "map_of obj k'") (simp_all add: option.case_eq_if)
qed

lemma json_get_dumped:
  "json_get key (map (\<lambda>(key, cfg). (key, g key cfg)) portals) = map_option (g key) (map_of portals key)"
  by (induction portals) (auto simp: json_get_def)

lemma dumped_fields:
  "json_get ''enabled'' (dumped_config current key cfg) = Some (JBool (pc_enabled cfg))"
  "json_get ''base_url'' (dumped_config current key cfg) = map_option JStr (pc_base_url cfg)"
  "json_get ''api_key'' (dumped_config current key cfg) = (case pc_api_key cfg of
      Some k \<Rightarrow> Some (JStr k) | None \<Rightarrow> stored_api_key current key)"
  by (auto simp: json_get_def dumped_config_def split: option.split)

text \<open>
  C17: A replacement of the syndication settings that runs alone. What was put is read back; a
  portal that is put without an \<open>api_key\<close> keeps the stored one; a portal that is left out is off
  and loses its settings, its key included; and no other namespace of the settings changes.
\<close>

theorem portal_settings_roundtrip:
  assumes "replace_portal_settings portals settings = Inr settings'"
  shows "(case map_of portals key of
      None \<Rightarrow> portal_config settings' key = [] \<and> \<not> is_portal_enabled settings' key
    | Some cfg \<Rightarrow> (is_portal_enabled settings' key \<longleftrightarrow> pc_enabled cfg)
        \<and> json_get ''base_url'' (portal_config settings' key) = map_option JStr (pc_base_url cfg)
        \<and> json_get ''api_key'' (portal_config settings' key) = (case pc_api_key cfg of
            Some k \<Rightarrow> Some (JStr k)
          | None \<Rightarrow> (let old = json_get ''api_key'' (portal_config settings key) in
              if json_truthy old then old else None)))
    \<and> (k = ''syndication'' \<or> json_get k settings' = json_get k settings)"
proof -
  have known: "list_all (\<lambda>(key, _). key \<in> set KNOWN_PORTALS) portals"
    and new: "settings' = json_set ''syndication''
      (JObj (map (\<lambda>(key, cfg). (key, JObj (dumped_config (get_settings_key ''syndication'' settings) key cfg))) portals)) settings"
    using assms by (auto simp: replace_portal_settings_def replace_settings_key_def Let_def split: if_splits)
  have cfg: "portal_config settings' key = (case map_of portals key of None \<Rightarrow> []
      | Some cfg \<Rightarrow> dumped_config (get_settings_key ''syndication'' settings) key cfg)" for key
    by (simp add: new portal_config_def json_get_set json_get_dumped split: option.split)
  have key: "key \<in> set KNOWN_PORTALS" if "map_of portals key = Some cfg" for key cfg
    using known map_of_SomeD [OF that] by (auto simp: list_all_iff)
  have old: "stored_api_key (get_settings_key ''syndication'' settings) key
      = (let old = json_get ''api_key'' (portal_config settings key) in if json_truthy old then old else None)" for key
    by (auto simp: stored_api_key_def get_settings_key_def portal_config_def json_get_def Let_def
        split: option.splits json.splits)
  have off: "json_get ''enabled'' [] = None" by (simp add: json_get_def)
  have others: "k = ''syndication'' \<or> json_get k settings' = json_get k settings"
    by (simp add: new json_get_set)
  show ?thesis
  proof (cases "map_of portals key")
    case None
    with others off cfg [of key] show ?thesis by (simp add: is_portal_enabled_def)
  next
    case (Some c)
    with others cfg [of key] key [OF Some] show ?thesis
      by (simp only: option.case dumped_fields old is_portal_enabled_def json_truthy.simps simp_thms)
  qed
qed

text \<open>
  Running alone matters. The settings are one column that is read, changed and written as a whole
  without a lock: of two replacements that read it before either commits, of different
  namespaces too, the later one brings back what the other had replaced.
\<close>

lemma racing_replacements_lose_one:
  assumes "k \<noteq> k'"
  shows "json_get k (replace_settings_key k' v' settings) = json_get k settings"
    "json_get k (replace_settings_key k' v' (replace_settings_key k v settings)) = Some (JObj v)"
  using assms by (simp_all add: replace_settings_key_def json_get_set)

section \<open>What remote ids do not promise\<close>

text \<open>
  A removal keeps the remote id. The listing that is published again then gets an update of the
  object the portal has removed, never a new creation, and the failure repeats.
\<close>

lemma removal_keeps_remote_id:
  "pss_remote_id (sync_succeeded PORTAL_REMOVE result now x) = pss_remote_id x"
  "syndication_action DRAFT PUBLISHED = Some PORTAL_UPDATE"
  "pss_remote_id x = Some i \<Longrightarrow> effective_action PORTAL_UPDATE x = Some PORTAL_UPDATE
     \<and> portal_call_for PORTAL_UPDATE (Some p) (Some i) = Inr (UpdateCall p i)"
  by (simp_all add: sync_succeeded_def syndication_action_def effective_action_def portal_call_for_def Let_def)

text \<open>
  A re-push always creates. A listing that is on the portal already is created there a second
  time, and its state forgets the id of the first copy.
\<close>

lemma repush_creates_again:
  assumes "pss_remote_id x = Some i" "pw_reply pw key (PushCall p) = Responded 201 (Some j)"
  shows "effective_action PORTAL_PUSH x = Some PORTAL_PUSH"
    "portal_call_for PORTAL_PUSH (Some p) (pss_remote_id x) = Inr (PushCall p)"
    "map_sum id (\<lambda>result. pss_remote_id (sync_succeeded PORTAL_PUSH result now x))
       (adapter_result (PushCall p) (pw_reply pw key (PushCall p))) = Inr (Some j)"
  using assms by (simp_all add: effective_action_def portal_call_for_def adapter_result_def adapter_request_def
      sync_succeeded_def Let_def)

text \<open>An update that finds the listing withdrawn removes it and records it as synced.\<close>

lemma withdrawal_recorded_as_synced:
  assumes "pss_remote_id x = Some i"
  shows "portal_call_for PORTAL_UPDATE None (pss_remote_id x) = Inr (RemoveCall i)"
    "pss_last_status (sync_succeeded PORTAL_UPDATE result now x) = SYNCED"
  using assms by (simp_all add: portal_call_for_def sync_succeeded_def Let_def)

section \<open>A run\<close>

text \<open>A pair with four failures behind it meets a portal that answers 503.\<close>

definition demo_portal_settings :: json_obj where
  "demo_portal_settings = [(''locale'', JStr ''fr''), (''syndication'', JObj [(''mock'',
     JObj [(''enabled'', JBool True), (''base_url'', JStr ''https://portal''), (''api_key'', JStr ''k1'')])])]"

definition demo_portal_tenant :: tenant_context where
  "demo_portal_tenant = \<lparr>tenant_id = 1, tenant_slug = ''dar-immo'', tenant_settings = demo_portal_settings,
     tenant_plan = ''trial''\<rparr>"

definition demo_portal_world :: portal_world where
  "demo_portal_world = \<lparr>pw_reply = (\<lambda>_ _. Responded 503 None), pw_photos = (\<lambda>_. [])\<rparr>"

definition demo_sync_db :: db where
  "demo_sync_db = empty_db\<lparr>sync_states := [(new_state 1 7 ''mock'' 90 0)\<lparr>pss_remote_id := Some ''r1'',
     pss_consecutive_failures := 4\<rparr>]\<rparr>"

definition demo_sync_after :: db where
  "demo_sync_after = snd (run_request (sync_to_portal demo_portal_world demo_portal_tenant 7 ''mock'' PORTAL_REMOVE 91 5)
     demo_sync_db)"

lemma demo_sync_ok: "states_ok demo_sync_db"
  unfolding states_ok_def sync.consistent_def [abs_def]
  by (simp add: demo_sync_db_def new_state_def SYNC_BREAKER_THRESHOLD_def)

lemma demo_sync_run:
  "sync_run demo_sync_db ([] @ [Synced (1, 7, ''mock'') demo_portal_world 1]) demo_sync_after"
proof (rule sync_more [OF sync_start])
  obtain r where "run_request (sync_to_portal demo_portal_world demo_portal_tenant 7 ''mock'' PORTAL_REMOVE 91 5)
      demo_sync_db = (r, demo_sync_after)"
    unfolding demo_sync_after_def by (metis surjective_pairing)
  moreover have "91 \<notin> pss_id ` set (sync_states demo_sync_db)"
    by (simp add: demo_sync_db_def new_state_def)
  ultimately have "sync_step (Synced (tenant_id demo_portal_tenant, 7, ''mock'') demo_portal_world
      (length (sent demo_sync_after) - length (sent demo_sync_db))) demo_sync_db demo_sync_after"
    by (rule sync_task)
  moreover have "length (sent demo_sync_after) - length (sent demo_sync_db) = 1"
    "tenant_id demo_portal_tenant = 1" by code_simp+
  ultimately show "sync_step (Synced (1, 7, ''mock'') demo_portal_world 1) demo_sync_db demo_sync_after" by simp
qed

theorem portal_call_table_witness:
  "sent demo_sync_after = [CallPortal ''mock'' (RemoveCall ''r1'')]
   \<and> sent (snd (run_request (sync_to_portal demo_portal_world demo_portal_tenant 8 ''mock'' PORTAL_UPDATE 92 5) demo_sync_db)) = []"
proof -
  have known: "''mock'' \<in> set KNOWN_PORTALS" "has_adapter (tenant_settings demo_portal_tenant) ''mock''" by code_simp+
  have facts: "sent demo_sync_db = []" "\<not> pss_circuit_open (hd (sync_states demo_sync_db))"
    "pss_remote_id (hd (sync_states demo_sync_db)) = Some ''r1''"
    by (simp_all add: demo_sync_db_def empty_db_def new_state_def)
  have "state_get (tenant_id demo_portal_tenant) 7 ''mock'' demo_sync_db = Some (hd (sync_states demo_sync_db))"
    by code_simp
  with portal_call_table [where pw = demo_portal_world and ten = demo_portal_tenant and l = 7
      and key = "''mock''" and act = PORTAL_REMOVE and new_id = 91 and now = 5 and s = demo_sync_db, OF surjective_pairing]
  have "sent demo_sync_after = [CallPortal ''mock'' (RemoveCall ''r1'')]"
    by (simp add: facts known Let_def demo_sync_after_def)
  moreover have "state_get (tenant_id demo_portal_tenant) 8 ''mock'' demo_sync_db = None"
    "portal_payload_for (tenant_id demo_portal_tenant) 8 demo_sync_db = None"
    by code_simp+
  with portal_call_table [where pw = demo_portal_world and ten = demo_portal_tenant and l = 8
      and key = "''mock''" and act = PORTAL_UPDATE and new_id = 92 and now = 5 and s = demo_sync_db, OF surjective_pairing]
  have "sent (snd (run_request (sync_to_portal demo_portal_world demo_portal_tenant 8 ''mock'' PORTAL_UPDATE 92 5) demo_sync_db)) = []"
    by (simp add: facts known Let_def)
  ultimately show ?thesis ..
qed

theorem sync_breakers_match_witness:
  "list_all (\<lambda>x. (pss_circuit_open x \<longleftrightarrow> pss_consecutive_failures x = 5)
      \<and> 0 \<le> pss_consecutive_failures x \<and> pss_consecutive_failures x \<le> 5) (sync_states demo_sync_after)
    \<and> map pss_last_status (sync_states demo_sync_after) = [SYNC_PAUSED]"
  using sync_breakers_match [OF demo_sync_run demo_sync_ok] by (auto; code_simp)

theorem dead_portal_is_left_alone_witness:
  "sum_list (map (calls_to (1, 7, ''mock'')) [Synced (1, 7, ''mock'') demo_portal_world 1]) \<le> 5"
proof -
  have "unanswering demo_portal_world"
    by (auto simp: unanswering_def demo_portal_world_def adapter_result_def adapter_request_def split: portal_call.split)
  then have "list_all (no_revival (1, 7, ''mock'')) ([] @ [Synced (1, 7, ''mock'') demo_portal_world 1])" by simp
  from dead_portal_is_left_alone [OF demo_sync_run demo_sync_ok this] show ?thesis by simp
qed

theorem portal_settings_roundtrip_witness:
  "map_sum id (\<lambda>settings. (json_get ''api_key'' (portal_config settings ''mock''), json_get ''locale'' settings))
     (replace_portal_settings [(''mock'', \<lparr>pc_enabled = False, pc_base_url = None, pc_api_key = None\<rparr>)]
        demo_portal_settings) = Inr (Some (JStr ''k1''), Some (JStr ''fr''))"
proof -
  let ?put = "[(''mock'', \<lparr>pc_enabled = False, pc_base_url = None, pc_api_key = None\<rparr>)]"
  obtain new where new: "replace_portal_settings ?put demo_portal_settings = Inr new"
    by (simp add: replace_portal_settings_def KNOWN_PORTALS_def Let_def)
  have old: "json_get ''api_key'' (portal_config demo_portal_settings ''mock'') = Some (JStr ''k1'')"
    "json_get ''locale'' demo_portal_settings = Some (JStr ''fr'')"
    by code_simp+
  from portal_settings_roundtrip [OF new, of "''mock''" "''locale''"] new show ?thesis
    by (simp add: old Let_def)
qed

end
