(* ===== verification/Reviews.thy ===== *)
theory Reviews
  imports Listings Complex_Main
begin

text \<open>
  \<open>modules/reviews\<close>: the public submission with its spam checks, the moderation queue, the public
  feed and the aggregates. An average is the exact quotient, before it is rounded to a float.
\<close>

section \<open>Submissions\<close>

definition MIN_FILL_SECONDS :: int where
  "MIN_FILL_SECONDS = 3"

definition MAX_FORM_AGE_SECONDS :: int where
  "MAX_FORM_AGE_SECONDS = 24 * 3600"

record review_submit =
  rs_agent_slug :: "string option"
  rs_listing_ref :: "string option"
  rs_rating :: int
  rs_title :: "string option"
  rs_body :: string
  rs_author_name :: string
  rs_author_email :: "string option"
  rs_hp :: string
  rs_rendered_at :: instant

definition at_most :: "nat \<Rightarrow> string option \<Rightarrow> bool" where
  "at_most n v \<longleftrightarrow> (case v of None \<Rightarrow> True | Some x \<Rightarrow> length x \<le> n)"

text \<open>
  The constraints of the fields are checked on what was sent, then the field validators clean the
  values, then the whole form is checked against the clock.
\<close>

definition submit_fields_ok :: "review_submit \<Rightarrow> bool" where
  "submit_fields_ok d \<longleftrightarrow> at_most 120 (rs_agent_slug d) \<and> at_most 120 (rs_listing_ref d)
     \<and> 1 \<le> rs_rating d \<and> rs_rating d \<le> 5 \<and> at_most 200 (rs_title d)
     \<and> 1 \<le> length (rs_body d) \<and> length (rs_body d) \<le> 4000
     \<and> 1 \<le> length (rs_author_name d) \<and> length (rs_author_name d) \<le> 120 \<and> at_most 320 (rs_author_email d)"

definition normalize_author_email :: "string option \<Rightarrow> string option" where
  "normalize_author_email value = (if str_given value
     then (let v = str_lower (str_strip (or_else value [])) in if v = [] then None else Some v) else None)"

definition cleaned_submit :: "review_submit \<Rightarrow> review_submit" where
  "cleaned_submit d = d\<lparr>rs_author_email := normalize_author_email (rs_author_email d),
     rs_body := str_strip (rs_body d), rs_author_name := str_strip (rs_author_name d)\<rparr>"

definition not_too_fast :: "instant \<Rightarrow> review_submit \<Rightarrow> error + review_submit" where
  "not_too_fast now d =
     (if rs_hp d \<noteq> [] then Inr d
      else let elapsed = now - rs_rendered_at d in
        if elapsed < seconds MIN_FILL_SECONDS then Inl (ValidationError ''form submitted too quickly'')
        else if elapsed > seconds MAX_FORM_AGE_SECONDS then Inl (ValidationError ''form is stale'')
        else Inr d)"

definition parse_submit :: "instant \<Rightarrow> review_submit \<Rightarrow> error + review_submit" where
  "parse_submit now d =
     (if submit_fields_ok d then not_too_fast now (cleaned_submit d)
      else Inl (ValidationError ''invalid review''))"

record review_moderate =
  rm_status :: review_status
  rm_is_verified :: "bool option"
  rm_note :: "string option"

definition terminal_only :: "review_moderate \<Rightarrow> error + review_moderate" where
  "terminal_only d = (if rm_status d = REVIEW_PENDING \<or> \<not> at_most 500 (rm_note d)
     then Inl (ValidationError ''a review can only be approved or rejected'') else Inr d)"

section \<open>Repository\<close>

definition review_get :: "uuid \<Rightarrow> uuid \<Rightarrow> db \<Rightarrow> review option" where
  "review_get t i s = find (\<lambda>r. rev_tenant r = t \<and> rev_id r = i) (reviews s)"

definition review_key :: "review \<Rightarrow> instant \<times> uuid" where
  "review_key r = (rev_created_at r, rev_id r)"

definition portal_base :: "uuid \<Rightarrow> review_status option \<Rightarrow> uuid option \<Rightarrow> review \<Rightarrow> bool" where
  "portal_base t st agent r \<longleftrightarrow> rev_tenant r = t \<and> (st = None \<or> st = Some (rev_status r))
     \<and> (agent = None \<or> agent = rev_agent r)"

definition public_base :: "uuid \<Rightarrow> uuid option \<Rightarrow> bool \<Rightarrow> review \<Rightarrow> bool" where
  "public_base t agent agency_only r \<longleftrightarrow> rev_tenant r = t \<and> rev_status r = REVIEW_APPROVED
     \<and> (case agent of Some u \<Rightarrow> rev_agent r = Some u | None \<Rightarrow> agency_only \<longrightarrow> rev_agent r = None)"

definition repo_portal_reviews ::
  "uuid \<Rightarrow> review_status option \<Rightarrow> uuid option \<Rightarrow> (instant \<times> uuid) option \<Rightarrow> int \<Rightarrow> db \<Rightarrow> review list" where
  "repo_portal_reviews t st agent after limit s =
     fetch_page review_key after limit (filter (portal_base t st agent) (reviews s))"

definition count_portal :: "uuid \<Rightarrow> review_status option \<Rightarrow> uuid option \<Rightarrow> db \<Rightarrow> nat" where
  "count_portal t st agent s = length (filter (portal_base t st agent) (reviews s))"

definition repo_public_reviews ::
  "uuid \<Rightarrow> uuid option \<Rightarrow> bool \<Rightarrow> (instant \<times> uuid) option \<Rightarrow> int \<Rightarrow> db \<Rightarrow> review list" where
  "repo_public_reviews t agent agency_only after limit s =
     fetch_page review_key after limit (filter (public_base t agent agency_only) (reviews s))"

definition average_of :: "int list \<Rightarrow> rat option" where
  "average_of xs = (if xs = [] then None else Some (of_int (sum_list xs) / of_nat (length xs)))"

definition review_aggregate :: "uuid \<Rightarrow> uuid option \<Rightarrow> bool \<Rightarrow> db \<Rightarrow> nat \<times> rat option" where
  "review_aggregate t agent agency_only s =
     (let rows = filter (public_base t agent agency_only) (reviews s)
      in (length rows, average_of (map rev_rating rows)))"

text \<open>One group per agent that has an approved review, in the order the agents first appear.\<close>

definition review_aggregate_by_agent :: "uuid \<Rightarrow> uuid list \<Rightarrow> db \<Rightarrow> (uuid \<times> nat \<times> rat) list" where
  "review_aggregate_by_agent t agents s =
     (let rows = filter (\<lambda>r. rev_tenant r = t \<and> rev_status r = REVIEW_APPROVED
            \<and> (case rev_agent r of None \<Rightarrow> False | Some u \<Rightarrow> u \<in> set agents)) (reviews s);
          group = (\<lambda>u. map rev_rating (filter (\<lambda>r. rev_agent r = Some u) rows))
      in map (\<lambda>u. (u, length (group u), or_else (average_of (group u)) 0))
           (remdups (map (\<lambda>r. or_else (rev_agent r) 0) rows)))"

definition review_write :: "uuid \<Rightarrow> (review \<Rightarrow> review) \<Rightarrow> (db, unit) action" where
  "review_write i f = modify (\<lambda>s. s\<lparr>reviews := upd_rows (\<lambda>r. rev_id r = i) f (reviews s)\<rparr>)"

section \<open>Service\<close>

definition published_user_id_for_slug :: "uuid \<Rightarrow> string \<Rightarrow> db \<Rightarrow> uuid option" where
  "published_user_id_for_slug t slug s = map_option prof_user (profile_get_published_by_slug t slug s)"

definition new_review ::
  "uuid \<Rightarrow> review_submit \<Rightarrow> uuid option \<Rightarrow> uuid option \<Rightarrow> uuid \<Rightarrow> instant \<Rightarrow> review" where
  "new_review t d agent listing new_id now =
     \<lparr>rev_id = new_id, rev_tenant = t, rev_agent = agent, rev_listing = listing, rev_rating = rs_rating d,
      rev_title = rs_title d, rev_body = rs_body d, rev_author_name = rs_author_name d,
      rev_author_email = rs_author_email d, rev_status = REVIEW_PENDING, rev_is_verified = False,
      rev_moderated_by = None, rev_moderated_at = None, rev_moderation_note = None, rev_created_at = now\<rparr>"

definition submit_review ::
  "(string \<Rightarrow> uuid option) \<Rightarrow> tenant_context \<Rightarrow> review_submit \<Rightarrow> uuid \<Rightarrow> instant \<Rightarrow> (db, review option) action" where
  "submit_review parse_uuid ten raw new_id now =
     andthen (lift_res (parse_submit now raw)) (\<lambda>d.
     if rs_hp d \<noteq> [] then ret None
     else
       andthen (case rs_agent_slug d of
           None \<Rightarrow> ret None
         | Some slug \<Rightarrow> andthen (gets (published_user_id_for_slug (tenant_id ten) slug)) (\<lambda>u. case u of
             None \<Rightarrow> raise (NotFoundError ''Agent not found.'')
           | Some i \<Rightarrow> ret (Some i))) (\<lambda>agent.
       andthen (case rs_listing_ref d of
           None \<Rightarrow> ret None
         | Some ref \<Rightarrow> andthen (listing_get_public parse_uuid ten ref) (\<lambda>l. ret (Some (lst_id l)))) (\<lambda>listing.
       let r = new_review (tenant_id ten) d agent listing new_id now in
       andthen (modify (\<lambda>s. s\<lparr>reviews := reviews s @ [r]\<rparr>)) (\<lambda>_. ret (Some r)))))"

definition review_or_404 :: "tenant_context \<Rightarrow> uuid \<Rightarrow> (db, review) action" where
  "review_or_404 ten i = andthen (gets (review_get (tenant_id ten) i)) (\<lambda>found. case found of
      None \<Rightarrow> raise (NotFoundError ''Review not found.'')
    | Some r \<Rightarrow> ret r)"

definition moderated :: "actor \<Rightarrow> review_moderate \<Rightarrow> instant \<Rightarrow> review \<Rightarrow> review" where
  "moderated a d now r = r\<lparr>rev_status := rm_status d,
     rev_is_verified := or_else (rm_is_verified d) (rev_is_verified r),
     rev_moderated_by := Some (actor_id a), rev_moderated_at := Some now, rev_moderation_note := rm_note d\<rparr>"

definition moderate_review ::
  "tenant_context \<Rightarrow> actor \<Rightarrow> uuid \<Rightarrow> review_moderate \<Rightarrow> instant \<Rightarrow> (db, review) action" where
  "moderate_review ten a i raw now =
     andthen (lift_res (terminal_only raw)) (\<lambda>d.
     andthen (review_or_404 ten i) (\<lambda>r.
     andthen (check (rev_status r = REVIEW_PENDING \<or> rev_status r = rm_status d)
       (ConflictError ''This review has already been moderated. Delete it to change the decision.'')) (\<lambda>_.
     andthen (review_write i (moderated a d now)) (\<lambda>_. ret (moderated a d now r)))))"

definition delete_review :: "tenant_context \<Rightarrow> uuid \<Rightarrow> (db, unit) action" where
  "delete_review ten i = andthen (review_or_404 ten i) (\<lambda>_.
     modify (\<lambda>s. s\<lparr>reviews := del_rows (\<lambda>r. rev_id r = i) (reviews s)\<rparr>))"

definition list_portal_reviews ::
  "tenant_context \<Rightarrow> review_status option \<Rightarrow> uuid option \<Rightarrow> (instant \<times> uuid) cursor option \<Rightarrow> int option \<Rightarrow> db \<Rightarrow>
   error + (review list \<times> (instant \<times> uuid) cursor option \<times> nat)" where
  "list_portal_reviews ten st agent cursor limit s =
     (case decode_keyset cursor of
        Inl e \<Rightarrow> Inl e
      | Inr after \<Rightarrow> (let page_size = clamp_limit limit in
          case cut_page review_key page_size (repo_portal_reviews (tenant_id ten) st agent after page_size s) of
            (items, next) \<Rightarrow> Inr (items, next, count_portal (tenant_id ten) st agent s)))"

definition list_public_reviews ::
  "tenant_context \<Rightarrow> uuid option \<Rightarrow> bool \<Rightarrow> (instant \<times> uuid) cursor option \<Rightarrow> int option \<Rightarrow> db \<Rightarrow>
   error + (review list \<times> (instant \<times> uuid) cursor option)" where
  "list_public_reviews ten agent agency_only cursor limit s =
     (case decode_keyset cursor of
        Inl e \<Rightarrow> Inl e
      | Inr after \<Rightarrow> (let page_size = clamp_limit limit in
          Inr (cut_page review_key page_size
            (repo_public_reviews (tenant_id ten) agent agency_only after page_size s))))"

definition list_public_for_slug ::
  "tenant_context \<Rightarrow> string \<Rightarrow> (instant \<times> uuid) cursor option \<Rightarrow> int option \<Rightarrow> db \<Rightarrow>
   error + (review list \<times> (instant \<times> uuid) cursor option)" where
  "list_public_for_slug ten slug cursor limit s =
     (case published_user_id_for_slug (tenant_id ten) slug s of
        None \<Rightarrow> Inl (NotFoundError ''Agent not found.'')
      | Some u \<Rightarrow> list_public_reviews ten (Some u) False cursor limit s)"

definition aggregate_for_agent :: "uuid \<Rightarrow> uuid \<Rightarrow> db \<Rightarrow> nat \<times> rat option" where
  "aggregate_for_agent t u s = review_aggregate t (Some u) False s"

definition aggregate_for_tenant :: "uuid \<Rightarrow> db \<Rightarrow> nat \<times> rat option" where
  "aggregate_for_tenant t s = review_aggregate t None False s"

definition aggregates_by_agent :: "uuid \<Rightarrow> uuid list \<Rightarrow> db \<Rightarrow> (uuid \<times> nat \<times> rat) list" where
  "aggregates_by_agent t agents s = review_aggregate_by_agent t agents s"

end
