(* ===== verification/Review_Desk.thy ===== *)
theory Review_Desk
  imports Reviews Contracts
begin

text \<open>
  What the reviews promise: a decision stands, only what a moderator approved is public, the
  ratings shown in different places agree, and the pages of the feed are complete.
\<close>

section \<open>Runs\<close>

text \<open>
  One rule per operation, failures included, and one for the rest of the program, which writes
  no review. The list holds the ids the submissions drew.
\<close>

inductive review_step :: "uuid list \<Rightarrow> db \<Rightarrow> db \<Rightarrow> bool" where
  rev_submit: "run_request (submit_review pu ten raw i now) s = (r, s') \<Longrightarrow>
    i \<notin> rev_id ` set (reviews s) \<Longrightarrow> review_step [i] s s'"
| rev_moderate: "run_request (moderate_review ten a i d now) s = (r', s') \<Longrightarrow> review_step [] s s'"
| rev_delete: "run_request (delete_review ten i) s = (r'', s') \<Longrightarrow> review_step [] s s'"
| rev_elsewhere: "reviews s' = reviews s \<Longrightarrow> review_step [] s s'"

inductive review_run :: "db \<Rightarrow> uuid list \<Rightarrow> db \<Rightarrow> bool" where
  rev_start: "review_run s [] s"
| rev_more: "review_run s is t \<Longrightarrow> review_step js t s' \<Longrightarrow> review_run s (is @ js) s'"

section \<open>The operations\<close>

lemma submit_rows:
  assumes "submit_review pu ten raw i now s = (r, t)"
  shows "reviews t = reviews s \<or> (\<exists>d agent listing. parse_submit now raw = Inr d
    \<and> reviews t = reviews s @ [new_review (tenant_id ten) d agent listing i now])"
proof -
  have read: "listing_get_public pu ten ref u = (x, v) \<Longrightarrow> v = u" for ref u x v
    by (auto simp: listing_get_public_def split: sum.splits option.splits)
  show ?thesis
  proof (cases "parse_submit now raw")
    case (Inl e)
    with assms show ?thesis by (simp add: submit_review_def)
  next
    case (Inr d)
    from assms Inr show ?thesis
      unfolding submit_review_def
      by (auto simp: andthen_def gets_def raise_def ret_def modify_def Let_def lift_res_def
          dest!: read split: prod.splits sum.splits option.splits if_splits) blast+
  qed
qed

definition may_decide :: "review_moderate \<Rightarrow> review \<Rightarrow> bool" where
  "may_decide d r \<longleftrightarrow> rm_status d \<noteq> REVIEW_PENDING \<and> (rev_status r = REVIEW_PENDING \<or> rev_status r = rm_status d)"

lemma moderate_rows:
  assumes "moderate_review ten a i raw now s = (r, t)"
  shows "reviews t = reviews s \<or> (\<exists>x. x \<in> set (reviews s) \<and> rev_id x = i \<and> may_decide raw x
    \<and> reviews t = upd_rows (\<lambda>r. rev_id r = i) (moderated a raw now) (reviews s))"
  using assms
  by (auto simp: moderate_review_def terminal_only_def review_or_404_def review_write_def andthen_def gets_def
      lift_res_def raise_def ret_def modify_def check_def may_decide_def review_get_def
      dest!: find_in split: prod.splits sum.splits option.splits if_splits)

lemma delete_review_rows:
  assumes "delete_review ten i s = (r, t)"
  shows "reviews t = reviews s \<or> reviews t = del_rows (\<lambda>r. rev_id r = i) (reviews s)"
  using assms
  by (auto simp: delete_review_def review_or_404_def andthen_def gets_def raise_def ret_def modify_def
      split: prod.splits sum.splits option.splits)

lemma request_reviews:
  assumes "run_request m s = (r, s')"
  obtains "reviews s' = reviews s" | q t where "m (s\<lparr>post_commit := []\<rparr>) = (q, t)" "reviews s' = reviews t"
  using assms by (auto simp: run_request_def split: prod.splits sum.splits)

lemma review_step_cases:
  assumes "review_step js s s'"
  obtains (same) "reviews s' = reviews s"
  | (submitted) i now raw d t agent listing where "js = [i]" "i \<notin> rev_id ` set (reviews s)"
      "parse_submit now raw = Inr d" "reviews s' = reviews s @ [new_review t d agent listing i now]"
  | (decided) x a d now where "x \<in> set (reviews s)" "may_decide d x"
      "reviews s' = upd_rows (\<lambda>r. rev_id r = rev_id x) (moderated a d now) (reviews s)"
  | (deleted) i where "reviews s' = del_rows (\<lambda>r. rev_id r = i) (reviews s)"
  using assms
proof cases
  case (rev_submit pu ten raw i now r)
  show ?thesis
    by (rule request_reviews [OF rev_submit(2)])
      (use submit_rows rev_submit(1,3) same submitted in \<open>fastforce+\<close>)
next
  case (rev_moderate ten a i d now r')
  show ?thesis
    by (rule request_reviews [OF rev_moderate(2)]) (use moderate_rows same decided in \<open>fastforce+\<close>)
next
  case (rev_delete ten i r'')
  show ?thesis
    by (rule request_reviews [OF rev_delete(2)]) (use delete_review_rows same deleted in \<open>fastforce+\<close>)
next
  case rev_elsewhere
  with same show ?thesis by blast
qed

section \<open>The invariant\<close>

definition review_ok :: "review \<Rightarrow> bool" where
  "review_ok r \<longleftrightarrow> 1 \<le> rev_rating r \<and> rev_rating r \<le> 5
     \<and> (rev_status r = REVIEW_PENDING \<longleftrightarrow> rev_moderated_by r = None)
     \<and> (rev_moderated_at r = None \<longleftrightarrow> rev_moderated_by r = None)"

definition reviews_ok :: "db \<Rightarrow> bool" where
  "reviews_ok s \<longleftrightarrow> distinct (map rev_id (reviews s)) \<and> list_all review_ok (reviews s)"

lemma parse_submit_rating: "parse_submit now raw = Inr d \<Longrightarrow> 1 \<le> rs_rating d \<and> rs_rating d \<le> 5"
  by (auto simp: parse_submit_def submit_fields_ok_def not_too_fast_def cleaned_submit_def Let_def split: if_splits)

lemma moderated_ok: "may_decide d x \<Longrightarrow> review_ok r \<Longrightarrow> review_ok (moderated a d now r)"
  by (simp add: review_ok_def moderated_def may_decide_def)

lemma moderated_id [simp]: "rev_id (moderated a d now r) = rev_id r"
  by (simp add: moderated_def)

lemma review_step_ok: "review_step js s s' \<Longrightarrow> reviews_ok s \<Longrightarrow> reviews_ok s'"
proof (erule review_step_cases)
  fix i now raw d t agent listing
  assume "i \<notin> rev_id ` set (reviews s)" "parse_submit now raw = Inr d" "reviews_ok s"
    "reviews s' = reviews s @ [new_review t d agent listing i now]"
  then show "reviews_ok s'"
    using parse_submit_rating by (auto simp: reviews_ok_def review_ok_def new_review_def)
next
  fix x a d now
  assume "x \<in> set (reviews s)" "may_decide d x" "reviews_ok s"
    "reviews s' = upd_rows (\<lambda>r. rev_id r = rev_id x) (moderated a d now) (reviews s)"
  then show "reviews_ok s'"
    by (auto simp: reviews_ok_def list_all_iff in_upd_rows moderated_ok)
qed (auto simp: reviews_ok_def list_all_iff del_rows_def distinct_map_filterI)

lemma review_run_ok: "review_run s is s' \<Longrightarrow> reviews_ok s \<Longrightarrow> reviews_ok s'"
  by (induction rule: review_run.induct) (auto intro: review_step_ok)

text \<open>The part of a review that its author wrote, with the decision.\<close>

definition shown :: "review \<Rightarrow> (uuid \<times> uuid option \<times> int) \<times> (string option \<times> string \<times> string) \<times> review_status" where
  "shown r = ((rev_tenant r, rev_agent r, rev_rating r), (rev_title r, rev_body r, rev_author_name r), rev_status r)"

lemma shown_moderated: "rev_status r = rm_status d \<Longrightarrow> shown (moderated a d now r) = shown r"
  by (simp add: shown_def moderated_def)

lemma decided_step:
  assumes "review_step js s s'" "reviews_ok s" "st \<noteq> REVIEW_PENDING" "i \<notin> set js"
    "\<And>r. r \<in> set (reviews s) \<Longrightarrow> rev_id r = i \<Longrightarrow> shown r = v" "snd (snd v) = st"
    "r' \<in> set (reviews s')" "rev_id r' = i"
  shows "shown r' = v"
  using assms(1)
proof (cases rule: review_step_cases)
  case same
  with assms show ?thesis by simp
next
  case (submitted j now raw d t agent listing)
  with assms show ?thesis by (auto simp: new_review_def)
next
  case (decided x a d now)
  show ?thesis
  proof (cases "r' \<in> set (reviews s)")
    case True
    with assms show ?thesis by blast
  next
    case False
    with decided assms(7) obtain r where r: "r \<in> set (reviews s)" "rev_id r = rev_id x" "r' = moderated a d now r"
      by (auto simp: in_upd_rows)
    have "r = x"
      using distinct_key_eq [OF _ r(1) decided(1) r(2)] assms(2) by (simp add: reviews_ok_def)
    moreover have v: "shown r = v" using r assms(5,8) by simp
    moreover have "rev_status r = st" using assms(6) v by (auto simp: shown_def)
    ultimately show ?thesis using decided(2) assms(3) r(3) by (auto simp: may_decide_def shown_moderated)
  qed
next
  case (deleted j)
  with assms show ?thesis by simp
qed

section \<open>The properties\<close>

text \<open>
  C39: A moderation decision stands. Whatever is submitted, moderated and deleted afterwards, a
  review that was approved or rejected keeps its decision and its text, rating and author as
  long as it exists; only deleting it undoes the decision.
\<close>

theorem decision_stands:
  assumes "review_run s is s'" "reviews_ok s" "r \<in> set (reviews s)" "rev_status r \<noteq> REVIEW_PENDING"
    "rev_id r \<notin> set is" "r' \<in> set (reviews s')" "rev_id r' = rev_id r"
  shows "rev_status r' = rev_status r \<and> rev_rating r' = rev_rating r \<and> rev_body r' = rev_body r
    \<and> rev_title r' = rev_title r \<and> rev_author_name r' = rev_author_name r \<and> rev_agent r' = rev_agent r"
proof -
  have "shown r' = shown r"
    using assms
  proof (induction arbitrary: r' rule: review_run.induct)
    case (rev_start s)
    then show ?case by (auto simp: reviews_ok_def dest: distinct_key_eq)
  next
    case (rev_more s "is" t js s')
    have before: "shown y = shown r" if "y \<in> set (reviews t)" "rev_id y = rev_id r" for y
      using rev_more.IH [OF rev_more.prems(1-3) _ that] rev_more.prems(4) by simp
    show ?case
      by (rule decided_step [OF rev_more.hyps(2) review_run_ok [OF rev_more.hyps(1) rev_more.prems(1)]
            rev_more.prems(3) _ before _ rev_more.prems(5,6)])
        (use rev_more.prems(4) in \<open>auto simp: shown_def\<close>)
  qed
  then show ?thesis by (simp add: shown_def)
qed


section \<open>Aggregates\<close>

lemma public_base_agent:
  "public_base t (Some u) False r \<longleftrightarrow> rev_tenant r = t \<and> rev_status r = REVIEW_APPROVED \<and> rev_agent r = Some u"
  by (simp add: public_base_def)

lemma average_of_nonempty: "xs \<noteq> [] \<Longrightarrow> average_of xs = Some (or_else (average_of xs) 0)"
  by (simp add: average_of_def)

lemma map_of_keyed: "map_of (map (\<lambda>u. (u, f u)) us) u = (if u \<in> set us then Some (f u) else None)"
  by (induction us) auto

lemma sum_groups:
  "distinct us \<Longrightarrow> (\<And>x. x \<in> set xs \<Longrightarrow> f x \<in> set us) \<Longrightarrow>
   sum_list (map (\<lambda>u. length (filter (\<lambda>x. f x = u) xs)) us) = length xs"
proof (induction us arbitrary: xs)
  case (Cons u us)
  have "length xs = length (filter (\<lambda>x. f x = u) xs) + length (filter (\<lambda>x. f x \<noteq> u) xs)"
    by (metis sum_length_filter_compl)
  moreover have "sum_list (map (\<lambda>v. length (filter (\<lambda>x. f x = v) (filter (\<lambda>x. f x \<noteq> u) xs))) us)
      = length (filter (\<lambda>x. f x \<noteq> u) xs)"
    using Cons.prems by (intro Cons.IH) auto
  moreover have "filter (\<lambda>x. f x = v) (filter (\<lambda>x. f x \<noteq> u) xs) = filter (\<lambda>x. f x = v) xs" if "v \<in> set us" for v
    using Cons.prems(1) that by (auto intro: filter_cong)
  ultimately show ?case by (simp cong: map_cong)
next
  case Nil
  then show ?case by (cases xs) auto
qed

definition agent_rows :: "uuid \<Rightarrow> db \<Rightarrow> uuid \<Rightarrow> review list" where
  "agent_rows t s u = filter (public_base t (Some u) False) (reviews s)"

definition rated_agents :: "uuid \<Rightarrow> uuid list \<Rightarrow> db \<Rightarrow> uuid list" where
  "rated_agents t us s = remdups (map (\<lambda>r. or_else (rev_agent r) 0)
     (filter (\<lambda>r. rev_tenant r = t \<and> rev_status r = REVIEW_APPROVED
        \<and> (case rev_agent r of None \<Rightarrow> False | Some u \<Rightarrow> u \<in> set us)) (reviews s)))"

lemma rated_agents: "set (rated_agents t us s) = {u \<in> set us. agent_rows t s u \<noteq> []}"
  by (force simp: rated_agents_def agent_rows_def filter_empty_conv public_base_agent split: option.splits)

lemma by_agent_eq:
  "aggregates_by_agent t us s = map (\<lambda>u. (u, length (agent_rows t s u),
     or_else (average_of (map rev_rating (agent_rows t s u))) 0)) (rated_agents t us s)"
proof -
  have "filter (\<lambda>r. rev_agent r = Some u) (filter (\<lambda>r. rev_tenant r = t \<and> rev_status r = REVIEW_APPROVED
      \<and> (case rev_agent r of None \<Rightarrow> False | Some u \<Rightarrow> u \<in> set us)) (reviews s)) = agent_rows t s u"
    if "u \<in> set (rated_agents t us s)" for u
    using that unfolding rated_agents agent_rows_def filter_filter
    by (auto simp: public_base_agent intro: filter_cong)
  then show ?thesis
    unfolding aggregates_by_agent_def review_aggregate_by_agent_def Let_def
    by (simp only: rated_agents_def [symmetric] length_map cong: map_cong)
qed

text \<open>
  The ratings agree wherever they are shown. The directory's batch gives every agent exactly
  what the agent's own page shows, leaves out those without an approved review, and the tenant's
  count is the agency's own reviews plus those of its agents.
\<close>

lemma ratings_agree:
  "map_of (aggregates_by_agent t us s) u =
     (if u \<in> set us then map_option (\<lambda>avg. (fst (aggregate_for_agent t u s), avg)) (snd (aggregate_for_agent t u s))
      else None)
   \<and> fst (aggregate_for_tenant t s) = fst (review_aggregate t None True s)
     + length (filter (\<lambda>r. rev_agent r \<noteq> None) (filter (public_base t None False) (reviews s)))
   \<and> sum_list (map (fst \<circ> snd) (aggregates_by_agent t us s))
     = length (filter (\<lambda>r. \<exists>u \<in> set us. rev_agent r = Some u) (filter (public_base t None False) (reviews s)))"
proof (intro conjI)
  show "map_of (aggregates_by_agent t us s) u =
     (if u \<in> set us then map_option (\<lambda>avg. (fst (aggregate_for_agent t u s), avg)) (snd (aggregate_for_agent t u s))
      else None)"
    using average_of_nonempty [of "map rev_rating (agent_rows t s u)"]
    by (auto simp: by_agent_eq map_of_keyed rated_agents aggregate_for_agent_def review_aggregate_def
        agent_rows_def [symmetric] Let_def average_of_def)
  have "length (filter (public_base t None False) (reviews s))
      = length (filter (\<lambda>r. rev_agent r = None) (filter (public_base t None False) (reviews s)))
      + length (filter (\<lambda>r. rev_agent r \<noteq> None) (filter (public_base t None False) (reviews s)))"
    by (metis sum_length_filter_compl)
  moreover have "filter (\<lambda>r. rev_agent r = None) (filter (public_base t None False) (reviews s))
      = filter (public_base t None True) (reviews s)"
    by (auto simp: public_base_def intro: filter_cong)
  ultimately show "fst (aggregate_for_tenant t s) = fst (review_aggregate t None True s)
     + length (filter (\<lambda>r. rev_agent r \<noteq> None) (filter (public_base t None False) (reviews s)))"
    by (simp add: aggregate_for_tenant_def review_aggregate_def Let_def)
  have "rev_agent r = Some u \<longleftrightarrow> or_else (rev_agent r) 0 = u"
    if "case rev_agent r of None \<Rightarrow> False | Some u \<Rightarrow> u \<in> set us" for r u
    using that by (auto split: option.splits)
  then have rows: "agent_rows t s u = filter (\<lambda>r. or_else (rev_agent r) 0 = u) (filter (\<lambda>r. rev_tenant r = t
      \<and> rev_status r = REVIEW_APPROVED \<and> (case rev_agent r of None \<Rightarrow> False | Some u \<Rightarrow> u \<in> set us)) (reviews s))"
    if "u \<in> set us" for u
    using that unfolding agent_rows_def filter_filter
    by (intro filter_cong) (auto simp: public_base_agent)
  have "sum_list (map (\<lambda>u. length (agent_rows t s u)) (rated_agents t us s))
    = length (filter (\<lambda>r. rev_tenant r = t \<and> rev_status r = REVIEW_APPROVED
      \<and> (case rev_agent r of None \<Rightarrow> False | Some u \<Rightarrow> u \<in> set us)) (reviews s))"
    using rated_agents [of t us s]
    by (subst map_cong [OF refl, OF arg_cong [of _ _ length, OF rows]])
      (auto simp: rated_agents_def intro!: sum_groups simp del: filter_filter)
  moreover have "filter (\<lambda>r. rev_tenant r = t \<and> rev_status r = REVIEW_APPROVED
      \<and> (case rev_agent r of None \<Rightarrow> False | Some u \<Rightarrow> u \<in> set us)) (reviews s)
    = filter (\<lambda>r. \<exists>u \<in> set us. rev_agent r = Some u) (filter (public_base t None False) (reviews s))"
    unfolding filter_filter by (rule filter_cong) (auto simp: public_base_def split: option.splits)
  ultimately show "sum_list (map (fst \<circ> snd) (aggregates_by_agent t us s))
     = length (filter (\<lambda>r. \<exists>u \<in> set us. rev_agent r = Some u) (filter (public_base t None False) (reviews s)))"
    by (simp add: by_agent_eq comp_def)
qed

section \<open>The feed\<close>

type_synonym feed_query = "tenant_context \<times> uuid option \<times> bool \<times> db"

definition feed_rows :: "feed_query \<Rightarrow> review list" where
  "feed_rows q = (case q of (ten, agent, agency_only, s) \<Rightarrow>
     newest_first review_key (filter (public_base (tenant_id ten) agent agency_only) (reviews s)))"

definition feed_page :: "feed_query \<Rightarrow> (instant \<times> uuid) option \<Rightarrow> int \<Rightarrow> review list \<times> (instant \<times> uuid) cursor option" where
  "feed_page q after n = (case q of (ten, agent, agency_only, s) \<Rightarrow>
     (case list_public_reviews ten agent agency_only (map_option Keyset after) (Some n) s of
        Inl e \<Rightarrow> ([], None) | Inr page \<Rightarrow> page))"

definition feed_ok :: "feed_query \<Rightarrow> bool" where
  "feed_ok q = (case q of (ten, agent, agency_only, s) \<Rightarrow> distinct (map rev_id (reviews s)))"

interpretation review_pages: keyset_pages review_key "\<lambda>a b. b < a" feed_ok feed_rows feed_page
proof
  fix q :: feed_query assume ok: "feed_ok q"
  obtain ten agent ao s where q: "q = (ten, agent, ao, s)" by (metis prod_cases4)
  have "distinct (map review_key (filter (public_base (tenant_id ten) agent ao) (reviews s)))"
    using ok by (intro distinct_map_filterI) (auto simp: q feed_ok_def review_key_def distinct_map inj_on_def)
  from newest_first_sorted [OF this] show "sorted_wrt (\<lambda>a b. b < a) (map review_key (feed_rows q))"
    by (simp add: q feed_rows_def)
  fix after n assume "1 \<le> n" "n \<le> MAX_PAGE_SIZE"
  then have "clamp_limit (Some n) = n" by (simp add: clamp_limit_def)
  then show "feed_page q after n = cut_page review_key n (take (nat (n + 1))
      (filter (\<lambda>r. case after of None \<Rightarrow> True | Some k \<Rightarrow> review_key r < k) (feed_rows q)))"
    by (cases after) (simp_all add: q feed_page_def list_public_reviews_def decode_keyset_def feed_rows_def
        repo_public_reviews_def newest_first_page Let_def)
qed auto

lemma public_feed_complete:
  assumes "distinct (map rev_id (reviews s))" "1 \<le> n" "n \<le> MAX_PAGE_SIZE" "length (reviews s) < fuel"
  shows "review_pages.walk (ten, agent, ao, s) fuel n None = feed_rows (ten, agent, ao, s)
    \<and> set (feed_rows (ten, agent, ao, s)) = {r \<in> set (reviews s). public_base (tenant_id ten) agent ao r}"
proof
  have "length (feed_rows (ten, agent, ao, s)) \<le> length (reviews s)" by (simp add: feed_rows_def)
  with assms show "review_pages.walk (ten, agent, ao, s) fuel n None = feed_rows (ten, agent, ao, s)"
    by (intro review_pages.walk_all) (simp_all add: feed_ok_def)
qed (auto simp: feed_rows_def)

text \<open>
  The lengths are checked before the text is stripped: a review of blanks only is accepted with
  an empty body and an empty author.
\<close>

lemma blank_review_accepted:
  assumes "rs_body d = '' ''" "rs_author_name d = '' ''" "rs_rating d = 5" "rs_hp d = []"
    "rs_agent_slug d = None" "rs_listing_ref d = None" "rs_title d = None" "rs_author_email d = None"
    "now = rs_rendered_at d + seconds 60"
  shows "map_sum id (\<lambda>x. (rs_body x, rs_author_name x)) (parse_submit now d) = Inr ([], [])"
proof -
  have "str_strip '' '' = []" by code_simp
  with assms show ?thesis
    by (simp add: parse_submit_def submit_fields_ok_def at_most_def cleaned_submit_def not_too_fast_def
        MIN_FILL_SECONDS_def MAX_FORM_AGE_SECONDS_def seconds_def normalize_author_email_def)
qed

section \<open>A run\<close>

text \<open>A review is submitted and approved; the decision cannot be turned afterwards.\<close>

definition demo_review :: review_submit where
  "demo_review = \<lparr>rs_agent_slug = None, rs_listing_ref = None, rs_rating = 4, rs_title = None, rs_body = ''ok'',
     rs_author_name = ''A'', rs_author_email = None, rs_hp = [], rs_rendered_at = 0\<rparr>"

definition demo_verdict :: "review_status \<Rightarrow> review_moderate" where
  "demo_verdict st = \<lparr>rm_status = st, rm_is_verified = Some True, rm_note = None\<rparr>"

definition demo_submitted :: db where
  "demo_submitted = snd (run_request (submit_review (\<lambda>_. None) sample_tenant demo_review 3 (seconds 60)) empty_db)"

definition demo_approved :: db where
  "demo_approved = snd (run_request (moderate_review sample_tenant sample_admin 3 (demo_verdict REVIEW_APPROVED) 7) demo_submitted)"

definition demo_turned :: db where
  "demo_turned = snd (run_request (moderate_review sample_tenant sample_admin 3 (demo_verdict REVIEW_REJECTED) 8) demo_approved)"

lemma demo_review_steps: "review_step [3] empty_db demo_submitted" "review_step [] demo_submitted demo_approved"
  "review_step [] demo_approved demo_turned"
proof -
  show "review_step [3] empty_db demo_submitted"
    unfolding demo_submitted_def by (rule rev_submit [OF surjective_pairing]) (simp add: empty_db_def)
  show "review_step [] demo_submitted demo_approved" "review_step [] demo_approved demo_turned"
    unfolding demo_approved_def demo_turned_def by (rule rev_moderate [OF surjective_pairing])+
qed

lemma demo_review_run: "review_run empty_db [3] demo_approved" "review_run demo_approved [] demo_turned"
  using rev_more [OF rev_more [OF rev_start demo_review_steps(1)] demo_review_steps(2)]
    rev_more [OF rev_start demo_review_steps(3)] by simp_all

theorem decision_stands_witness:
  "map rev_status (reviews demo_turned) = [REVIEW_APPROVED]"
proof -
  have rows: "map rev_status (reviews demo_approved) = [REVIEW_APPROVED]" "map rev_id (reviews demo_approved) = [3]"
    "map rev_id (reviews demo_turned) = [3]" by code_simp+
  then obtain r r' where r: "reviews demo_approved = [r]" "rev_status r = REVIEW_APPROVED" "rev_id r = 3"
    and r': "reviews demo_turned = [r']" "rev_id r' = 3" by auto
  have "reviews_ok demo_approved"
    by (rule review_run_ok [OF demo_review_run(1)]) (simp add: reviews_ok_def empty_db_def)
  from decision_stands [OF demo_review_run(2) this, of r r'] r r' show ?thesis by simp
qed


end
