(* ===== verification/Content.thy ===== *)
theory Content
  imports Leads I18n Signing
begin

text \<open>
  \<open>modules/content\<close>: pages with their draft and published states and preview tokens, versioned
  legal pages, and market reports with the task that renders their PDF. The renderer and the
  object store behind it are parameters; guides are in \<open>Guides\<close>.
\<close>

section \<open>Texts, slugs and blocks\<close>

definition validate_i18n :: "nat \<Rightarrow> bool \<Rightarrow> i18n_text option \<Rightarrow> error + i18n_text option" where
  "validate_i18n max_length require_content value = (case value of
      None \<Rightarrow> Inr None
    | Some v \<Rightarrow>
        if \<not> list_all (\<lambda>(k, _). k \<in> set SUPPORTED_LOCALES) v
        then Inl (ValidationError ''unsupported locale keys'')
        else let cleaned = map (\<lambda>(k, x). (k, str_strip x)) (filter (\<lambda>(_, x). str_strip x \<noteq> []) v) in
          if \<not> list_all (\<lambda>(_, x). length x \<le> max_length) cleaned
          then Inl (ValidationError ''text exceeds its length'')
          else if require_content \<and> cleaned = []
          then Inl (ValidationError ''at least one locale must have content'')
          else Inr (Some cleaned))"

definition slug_char :: "char \<Rightarrow> bool" where
  "slug_char c = (let n = of_char c :: nat in (48 \<le> n \<and> n \<le> 57) \<or> (97 \<le> n \<and> n \<le> 122))"

text \<open>Runs of slug characters joined by single dashes; the flag tells that a run has to start.\<close>

fun slug_runs :: "bool \<Rightarrow> string \<Rightarrow> bool" where
  "slug_runs start [] = (\<not> start)"
| "slug_runs start (c # cs) = (if c = CHR 0x2D then \<not> start \<and> slug_runs True cs else slug_char c \<and> slug_runs False cs)"

definition slug_ok :: "string \<Rightarrow> bool" where
  "slug_ok s \<longleftrightarrow> 1 \<le> length s \<and> length s \<le> 160 \<and> slug_runs True s"

definition BLOCK_TYPES :: "string list" where
  "BLOCK_TYPES = [''hero'', ''richtext'', ''listings_grid'', ''cta'', ''image'', ''gallery'', ''faq'', ''stats'', ''contact'']"

type_synonym page_block = "string \<times> json_obj"

definition dump_block :: "page_block \<Rightarrow> json_obj" where
  "dump_block b = [(''type'', JStr (fst b)), (''data'', JObj (snd b))]"

record seo_meta =
  seo_title :: "i18n_text option"
  seo_description :: "i18n_text option"
  seo_og_image :: "string option"

definition json_i18n :: "i18n_text \<Rightarrow> json" where
  "json_i18n v = JObj (map (\<lambda>(k, x). (k, JStr x)) v)"

definition dump_seo :: "seo_meta option \<Rightarrow> json_obj" where
  "dump_seo m = (case m of None \<Rightarrow> [] | Some m \<Rightarrow>
     (case seo_title m of None \<Rightarrow> [] | Some v \<Rightarrow> [(''title'', json_i18n v)])
     @ (case seo_description m of None \<Rightarrow> [] | Some v \<Rightarrow> [(''description'', json_i18n v)])
     @ (case seo_og_image m of None \<Rightarrow> [] | Some v \<Rightarrow> [(''og_image'', JStr v)]))"

definition valid_seo :: "seo_meta option \<Rightarrow> error + seo_meta option" where
  "valid_seo m = (case m of None \<Rightarrow> Inr None | Some m \<Rightarrow>
     (case (validate_i18n 200 False (seo_title m), validate_i18n 400 False (seo_description m)) of
        (Inr t, Inr d) \<Rightarrow> (case seo_og_image m of
            Some u \<Rightarrow> if length u \<le> 500 then Inr (Some (m\<lparr>seo_title := t, seo_description := d\<rparr>))
              else Inl (ValidationError ''ogImage is too long'')
          | None \<Rightarrow> Inr (Some (m\<lparr>seo_title := t, seo_description := d\<rparr>)))
      | (Inl e, _) \<Rightarrow> Inl e
      | (_, Inl e) \<Rightarrow> Inl e))"

section \<open>Pages\<close>

record page_create =
  pgc_slug :: string
  pgc_title :: i18n_text
  pgc_blocks :: "page_block list"
  pgc_seo_meta :: "seo_meta option"
  pgc_status :: page_status

definition parse_page_create :: "page_create \<Rightarrow> error + page_create" where
  "parse_page_create d =
     (if \<not> slug_ok (pgc_slug d) then Inl (ValidationError ''invalid slug'')
      else if \<not> list_all (\<lambda>b. fst b \<in> set BLOCK_TYPES) (pgc_blocks d)
      then Inl (ValidationError ''unknown block type'')
      else (case (validate_i18n 200 True (Some (pgc_title d)), valid_seo (pgc_seo_meta d)) of
          (Inr t, Inr m) \<Rightarrow> Inr (d\<lparr>pgc_title := or_else t [], pgc_seo_meta := m\<rparr>)
        | (Inl e, _) \<Rightarrow> Inl e
        | (_, Inl e) \<Rightarrow> Inl e))"

record page_update =
  pgu_slug :: "string option patch"
  pgu_title :: "i18n_text option patch"
  pgu_blocks :: "page_block list option patch"
  pgu_seo_meta :: "seo_meta option patch"
  pgu_status :: "page_status option patch"

definition parse_page_update :: "page_update \<Rightarrow> error + page_update" where
  "parse_page_update d =
     (if pgu_slug d = SetTo None \<or> pgu_status d = SetTo None
      then Inl (ValidationError ''fields cannot be set to null'')
      else if \<not> (case patch_get (pgu_slug d) of None \<Rightarrow> True | Some v \<Rightarrow> slug_ok v)
      then Inl (ValidationError ''invalid slug'')
      else if \<not> (case patch_get (pgu_blocks d) of None \<Rightarrow> True | Some bs \<Rightarrow> list_all (\<lambda>b. fst b \<in> set BLOCK_TYPES) bs)
      then Inl (ValidationError ''unknown block type'')
      else (case (validate_i18n 200 True (patch_get (pgu_title d)), valid_seo (patch_get (pgu_seo_meta d))) of
          (Inr t, Inr m) \<Rightarrow> Inr (d\<lparr>pgu_title := (if pgu_title d = Unset then Unset else SetTo t),
              pgu_seo_meta := (if pgu_seo_meta d = Unset then Unset else SetTo m)\<rparr>)
        | (Inl e, _) \<Rightarrow> Inl e
        | (_, Inl e) \<Rightarrow> Inl e))"

definition page_get :: "uuid \<Rightarrow> uuid \<Rightarrow> db \<Rightarrow> content_page option" where
  "page_get t i s = find (\<lambda>p. page_tenant p = t \<and> page_id p = i) (content_pages s)"

definition get_published_page_by_slug :: "uuid \<Rightarrow> string \<Rightarrow> db \<Rightarrow> content_page option" where
  "get_published_page_by_slug t slug s =
     find (\<lambda>p. page_tenant p = t \<and> page_slug p = slug \<and> page_status p = PAGE_PUBLISHED) (content_pages s)"

definition page_key :: "content_page \<Rightarrow> instant \<times> uuid" where
  "page_key p = (page_created_at p, page_id p)"

definition repo_list_pages :: "uuid \<Rightarrow> (instant \<times> uuid) option \<Rightarrow> int \<Rightarrow> db \<Rightarrow> content_page list" where
  "repo_list_pages t after limit s = fetch_page page_key after limit (filter (\<lambda>p. page_tenant p = t) (content_pages s))"

definition count_pages :: "uuid \<Rightarrow> db \<Rightarrow> nat" where
  "count_pages t s = length (filter (\<lambda>p. page_tenant p = t) (content_pages s))"

definition published_pages_for_sitemap :: "uuid \<Rightarrow> nat \<Rightarrow> db \<Rightarrow> content_page list" where
  "published_pages_for_sitemap t limit s = take limit (newest_first page_key
     (filter (\<lambda>p. page_tenant p = t \<and> page_status p = PAGE_PUBLISHED) (content_pages s)))"

text \<open>The unique constraint over tenant and slug, checked at the flush.\<close>

definition page_slug_taken :: "uuid \<Rightarrow> string \<Rightarrow> uuid \<Rightarrow> db \<Rightarrow> bool" where
  "page_slug_taken t slug i s \<longleftrightarrow>
     list_ex (\<lambda>p. page_tenant p = t \<and> page_slug p = slug \<and> page_id p \<noteq> i) (content_pages s)"

definition page_write :: "uuid \<Rightarrow> (content_page \<Rightarrow> content_page) \<Rightarrow> (db, unit) action" where
  "page_write i f = modify (\<lambda>s. s\<lparr>content_pages := upd_rows (\<lambda>p. page_id p = i) f (content_pages s)\<rparr>)"

definition invalidate_public_after_commit :: "uuid \<Rightarrow> string \<Rightarrow> (db, unit) action" where
  "invalidate_public_after_commit t entity = on_commit (BumpVersion t entity)"

definition new_page :: "uuid \<Rightarrow> page_create \<Rightarrow> uuid \<Rightarrow> instant \<Rightarrow> content_page" where
  "new_page t d new_id now = \<lparr>page_id = new_id, page_tenant = t, page_slug = pgc_slug d,
     page_title = Some (pgc_title d), page_blocks = map dump_block (pgc_blocks d),
     page_seo_meta = dump_seo (pgc_seo_meta d), page_status = pgc_status d,
     page_published_at = (if pgc_status d = PAGE_PUBLISHED then Some now else None), page_created_at = now\<rparr>"

definition create_page :: "tenant_context \<Rightarrow> page_create \<Rightarrow> uuid \<Rightarrow> instant \<Rightarrow> (db, content_page) action" where
  "create_page ten raw new_id now =
     andthen (lift_res (parse_page_create raw)) (\<lambda>d.
     let p = new_page (tenant_id ten) d new_id now in
     andthen (gets (page_slug_taken (tenant_id ten) (page_slug p) new_id)) (\<lambda>taken.
     andthen (check (\<not> taken) (ConflictError ''A page with this slug already exists.'')) (\<lambda>_.
     andthen (modify (\<lambda>s. s\<lparr>content_pages := content_pages s @ [p]\<rparr>)) (\<lambda>_.
     andthen (invalidate_public_after_commit (tenant_id ten) ''content_page'') (\<lambda>_. ret p)))))"

definition page_or_404 :: "tenant_context \<Rightarrow> uuid \<Rightarrow> (db, content_page) action" where
  "page_or_404 ten i = andthen (gets (page_get (tenant_id ten) i)) (\<lambda>found. case found of
      None \<Rightarrow> raise (NotFoundError ''Page not found.'')
    | Some p \<Rightarrow> ret p)"

definition list_pages ::
  "tenant_context \<Rightarrow> (instant \<times> uuid) cursor option \<Rightarrow> int option \<Rightarrow> db \<Rightarrow>
   error + (content_page list \<times> (instant \<times> uuid) cursor option \<times> nat)" where
  "list_pages ten cursor limit s =
     (case decode_keyset cursor of
        Inl e \<Rightarrow> Inl e
      | Inr after \<Rightarrow> (let page_size = clamp_limit limit in
          case cut_page page_key page_size (repo_list_pages (tenant_id ten) after page_size s) of
            (items, next) \<Rightarrow> Inr (items, next, count_pages (tenant_id ten) s)))"

text \<open>The first move into published stamps the page; later edits keep the stamp.\<close>

definition stamp_published :: "page_status \<Rightarrow> instant \<Rightarrow> content_page \<Rightarrow> content_page" where
  "stamp_published status_before now p =
     (if page_status p = PAGE_PUBLISHED \<and> status_before \<noteq> PAGE_PUBLISHED \<and> page_published_at p = None
      then p\<lparr>page_published_at := Some now\<rparr> else p)"

definition patched_page :: "page_update \<Rightarrow> instant \<Rightarrow> content_page \<Rightarrow> content_page" where
  "patched_page d now p = stamp_published (page_status p) now
     (p\<lparr>page_slug := or_else (patch_get (pgu_slug d)) (page_slug p),
        page_title := patched (pgu_title d) (page_title p),
        page_blocks := (case pgu_blocks d of Unset \<Rightarrow> page_blocks p
          | SetTo bs \<Rightarrow> map dump_block (or_else bs [])),
        page_seo_meta := (case pgu_seo_meta d of Unset \<Rightarrow> page_seo_meta p | SetTo m \<Rightarrow> dump_seo m),
        page_status := or_else (patch_get (pgu_status d)) (page_status p)\<rparr>)"

definition update_page :: "tenant_context \<Rightarrow> uuid \<Rightarrow> page_update \<Rightarrow> instant \<Rightarrow> (db, content_page) action" where
  "update_page ten i raw now =
     andthen (lift_res (parse_page_update raw)) (\<lambda>d.
     andthen (page_or_404 ten i) (\<lambda>p.
     andthen (gets (page_slug_taken (tenant_id ten) (page_slug (patched_page d now p)) i)) (\<lambda>taken.
     andthen (check (\<not> taken) (ConflictError ''A page with this slug already exists.'')) (\<lambda>_.
     andthen (page_write i (patched_page d now)) (\<lambda>_.
     andthen (invalidate_public_after_commit (tenant_id ten) ''content_page'') (\<lambda>_.
     ret (patched_page d now p)))))))"

text \<open>
  The route answers with \<open>PageOut\<close>, which wants a title: its exception undoes the request.
\<close>

definition update_page_route :: "tenant_context \<Rightarrow> uuid \<Rightarrow> page_update \<Rightarrow> instant \<Rightarrow> (db, content_page) action" where
  "update_page_route ten i raw now = andthen (update_page ten i raw now) (\<lambda>p.
     if page_title p = None then raise ValueError else ret p)"

definition published_page :: "instant \<Rightarrow> content_page \<Rightarrow> content_page" where
  "published_page now p = p\<lparr>page_status := PAGE_PUBLISHED,
     page_published_at := (if page_published_at p = None then Some now else page_published_at p)\<rparr>"

definition publish_page :: "tenant_context \<Rightarrow> uuid \<Rightarrow> instant \<Rightarrow> (db, unit) action" where
  "publish_page ten i now = andthen (page_or_404 ten i) (\<lambda>p.
     if page_status p \<noteq> PAGE_PUBLISHED
     then andthen (page_write i (published_page now)) (\<lambda>_. invalidate_public_after_commit (tenant_id ten) ''content_page'')
     else ret ())"

definition unpublish_page :: "tenant_context \<Rightarrow> uuid \<Rightarrow> (db, unit) action" where
  "unpublish_page ten i = andthen (page_or_404 ten i) (\<lambda>p.
     if page_status p \<noteq> PAGE_DRAFT
     then andthen (page_write i (\<lambda>p. p\<lparr>page_status := PAGE_DRAFT\<rparr>)) (\<lambda>_.
       invalidate_public_after_commit (tenant_id ten) ''content_page'')
     else ret ())"

definition delete_page :: "tenant_context \<Rightarrow> uuid \<Rightarrow> (db, unit) action" where
  "delete_page ten i = andthen (page_or_404 ten i) (\<lambda>_.
     andthen (modify (\<lambda>s. s\<lparr>content_pages := del_rows (\<lambda>p. page_id p = i) (content_pages s)\<rparr>)) (\<lambda>_.
     invalidate_public_after_commit (tenant_id ten) ''content_page''))"

text \<open>Preview tokens: the value a signature carries is the tenant and the page.\<close>

definition PREVIEW_PURPOSE :: string where
  "PREVIEW_PURPOSE = ''page-preview''"


definition preview_token :: "mac \<Rightarrow> string \<Rightarrow> world \<Rightarrow> tenant_context \<Rightarrow> content_page \<Rightarrow> string" where
  "preview_token mac secret w ten p =
     sign_value mac secret PREVIEW_PURPOSE (uuid_text w (tenant_id ten) @ '':'' @ uuid_text w (page_id p))"

definition get_public_page :: "tenant_context \<Rightarrow> string \<Rightarrow> (db, content_page) action" where
  "get_public_page ten slug = andthen (gets (get_published_page_by_slug (tenant_id ten) slug)) (\<lambda>found. case found of
      None \<Rightarrow> raise (NotFoundError ''Page not found.'')
    | Some p \<Rightarrow> ret p)"

definition get_preview_page ::
  "mac \<Rightarrow> string \<Rightarrow> world \<Rightarrow> tenant_context \<Rightarrow> string \<Rightarrow> string \<Rightarrow> (db, content_page) action" where
  "get_preview_page mac secret w ten slug token =
     (case unsign_value mac secret PREVIEW_PURPOSE token of
        Inl e \<Rightarrow> raise e
      | Inr None \<Rightarrow> raise (NotFoundError ''Page not found.'')
      | Inr (Some v) \<Rightarrow>
          if CHR '':'' \<notin> set v \<or> fst (str_partition (CHR '':'') v) \<noteq> uuid_text w (tenant_id ten)
          then raise (NotFoundError ''Page not found.'')
          else (case uuid_of_text w (snd (str_partition (CHR '':'') v)) of
              None \<Rightarrow> raise (NotFoundError ''Page not found.'')
            | Some i \<Rightarrow> andthen (gets (page_get (tenant_id ten) i)) (\<lambda>found. case found of
                None \<Rightarrow> raise (NotFoundError ''Page not found.'')
              | Some p \<Rightarrow> if page_slug p \<noteq> slug then raise (NotFoundError ''Page not found.'') else ret p)))"

definition SITEMAP_MAX_PAGES :: nat where
  "SITEMAP_MAX_PAGES = 10000"

definition sitemap_pages :: "tenant_context \<Rightarrow> db \<Rightarrow> content_page list" where
  "sitemap_pages ten s = published_pages_for_sitemap (tenant_id ten) SITEMAP_MAX_PAGES s"

section \<open>Legal pages\<close>

record legal_create =
  lgc_kind :: legal_kind
  lgc_body :: i18n_text
  lgc_effective_at :: "instant option"

definition parse_legal_create :: "legal_create \<Rightarrow> error + legal_create" where
  "parse_legal_create d = map_sum id (\<lambda>b. d\<lparr>lgc_body := or_else b []\<rparr>)
     (validate_i18n 100000 True (Some (lgc_body d)))"

definition legal_of :: "uuid \<Rightarrow> legal_kind \<Rightarrow> legal_page \<Rightarrow> bool" where
  "legal_of t k p \<longleftrightarrow> legal_tenant p = t \<and> legal_kind p = k"

definition get_current_legal :: "uuid \<Rightarrow> legal_kind \<Rightarrow> db \<Rightarrow> error + legal_page option" where
  "get_current_legal t k s = one_or_none (filter (\<lambda>p. legal_of t k p \<and> legal_is_current p) (legal_pages s))"

definition legal_kind_value :: "legal_kind \<Rightarrow> string" where
  "legal_kind_value k = (case k of PRIVACY \<Rightarrow> ''privacy'' | TERMS \<Rightarrow> ''terms''
     | FAIR_TREATMENT \<Rightarrow> ''fair_treatment'' | LICENSE_DISCLOSURE \<Rightarrow> ''license_disclosure'')"

definition legal_kind_rank :: "legal_kind \<Rightarrow> nat" where
  "legal_kind_rank k = (case k of FAIR_TREATMENT \<Rightarrow> 0 | LICENSE_DISCLOSURE \<Rightarrow> 1 | PRIVACY \<Rightarrow> 2 | TERMS \<Rightarrow> 3)"

definition list_current_legal :: "uuid \<Rightarrow> db \<Rightarrow> legal_page list" where
  "list_current_legal t s = sort_key (\<lambda>p. legal_kind_rank (legal_kind p))
     (filter (\<lambda>p. legal_tenant p = t \<and> legal_is_current p) (legal_pages s))"

definition list_legal_history :: "uuid \<Rightarrow> legal_kind \<Rightarrow> db \<Rightarrow> legal_page list" where
  "list_legal_history t k s = rev (sort_key legal_version (filter (legal_of t k) (legal_pages s)))"

definition max_legal_version :: "uuid \<Rightarrow> legal_kind \<Rightarrow> db \<Rightarrow> int" where
  "max_legal_version t k s = (case map legal_version (filter (legal_of t k) (legal_pages s)) of
      [] \<Rightarrow> 0 | v # vs \<Rightarrow> fold max vs v)"

text \<open>Both unique constraints of the table, checked at the flush.\<close>

definition legal_clash :: "legal_page \<Rightarrow> db \<Rightarrow> bool" where
  "legal_clash p s \<longleftrightarrow> list_ex (\<lambda>q. legal_of (legal_tenant p) (legal_kind p) q
     \<and> (legal_version q = legal_version p \<or> (legal_is_current q \<and> legal_is_current p))) (legal_pages s)"

definition publish_legal_version ::
  "tenant_context \<Rightarrow> legal_create \<Rightarrow> uuid \<Rightarrow> instant \<Rightarrow> (db, legal_page) action" where
  "publish_legal_version ten raw new_id now =
     andthen (lift_res (parse_legal_create raw)) (\<lambda>d.
     andthen (gets (get_current_legal (tenant_id ten) (lgc_kind d))) (\<lambda>found.
     andthen (lift_res found) (\<lambda>current.
     andthen (case current of None \<Rightarrow> ret () | Some c \<Rightarrow> modify (\<lambda>s. s\<lparr>legal_pages :=
         upd_rows (\<lambda>p. legal_id p = legal_id c) (\<lambda>p. p\<lparr>legal_is_current := False\<rparr>) (legal_pages s)\<rparr>)) (\<lambda>_.
     andthen (gets (max_legal_version (tenant_id ten) (lgc_kind d))) (\<lambda>version.
     let p = \<lparr>legal_id = new_id, legal_tenant = tenant_id ten, legal_kind = lgc_kind d,
           legal_version = version + 1, legal_body = lgc_body d,
           legal_effective_at = or_else (lgc_effective_at d) now, legal_is_current = True\<rparr> in
     andthen (gets (legal_clash p)) (\<lambda>clash.
     andthen (check (\<not> clash) (ConflictError ''A newer version was just published; retry.'')) (\<lambda>_.
     andthen (modify (\<lambda>s. s\<lparr>legal_pages := legal_pages s @ [p]\<rparr>)) (\<lambda>_.
     andthen (invalidate_public_after_commit (tenant_id ten) ''legal'') (\<lambda>_. ret p)))))))))"

definition get_current_legal_page :: "tenant_context \<Rightarrow> legal_kind \<Rightarrow> (db, legal_page) action" where
  "get_current_legal_page ten k = andthen (gets (get_current_legal (tenant_id ten) k)) (\<lambda>found.
     andthen (lift_res found) (\<lambda>p. case p of
       None \<Rightarrow> raise (NotFoundError ''Legal page not found.'')
     | Some p \<Rightarrow> ret p))"

section \<open>Market reports\<close>

record report_create =
  rpc_slug :: string
  rpc_title :: i18n_text
  rpc_stats :: json_obj

definition parse_report_create :: "report_create \<Rightarrow> error + report_create" where
  "parse_report_create d = (if \<not> slug_ok (rpc_slug d) then Inl (ValidationError ''invalid slug'')
     else map_sum id (\<lambda>t. d\<lparr>rpc_title := or_else t []\<rparr>) (validate_i18n 200 True (Some (rpc_title d))))"

record report_update =
  rpu_slug :: "string option patch"
  rpu_title :: "i18n_text option patch"
  rpu_stats :: "json_obj option patch"

definition parse_report_update :: "report_update \<Rightarrow> error + report_update" where
  "parse_report_update d =
     (if rpu_slug d = SetTo None \<or> rpu_title d = SetTo None \<or> rpu_stats d = SetTo None
      then Inl (ValidationError ''fields cannot be set to null'')
      else if \<not> (case patch_get (rpu_slug d) of None \<Rightarrow> True | Some v \<Rightarrow> slug_ok v)
      then Inl (ValidationError ''invalid slug'')
      else map_sum id (\<lambda>t. d\<lparr>rpu_title := (if rpu_title d = Unset then Unset else SetTo t)\<rparr>)
        (validate_i18n 200 True (patch_get (rpu_title d))))"

definition report_get :: "uuid \<Rightarrow> uuid \<Rightarrow> db \<Rightarrow> market_report option" where
  "report_get t i s = find (\<lambda>r. report_tenant r = t \<and> report_id r = i) (market_reports s)"

definition get_published_report_by_slug :: "uuid \<Rightarrow> string \<Rightarrow> db \<Rightarrow> market_report option" where
  "get_published_report_by_slug t slug s = find (\<lambda>r. report_tenant r = t \<and> report_slug r = slug
     \<and> report_status r \<in> {REPORT_PUBLISHED, REPORT_READY}) (market_reports s)"

definition report_key :: "market_report \<Rightarrow> instant \<times> uuid" where
  "report_key r = (report_created_at r, report_id r)"

definition repo_list_reports :: "uuid \<Rightarrow> (instant \<times> uuid) option \<Rightarrow> int \<Rightarrow> db \<Rightarrow> market_report list" where
  "repo_list_reports t after limit s =
     fetch_page report_key after limit (filter (\<lambda>r. report_tenant r = t) (market_reports s))"

definition count_reports :: "uuid \<Rightarrow> db \<Rightarrow> nat" where
  "count_reports t s = length (filter (\<lambda>r. report_tenant r = t) (market_reports s))"

definition report_slug_taken :: "uuid \<Rightarrow> string \<Rightarrow> uuid \<Rightarrow> db \<Rightarrow> bool" where
  "report_slug_taken t slug i s \<longleftrightarrow>
     list_ex (\<lambda>r. report_tenant r = t \<and> report_slug r = slug \<and> report_id r \<noteq> i) (market_reports s)"

definition report_write :: "uuid \<Rightarrow> (market_report \<Rightarrow> market_report) \<Rightarrow> (db, unit) action" where
  "report_write i f = modify (\<lambda>s. s\<lparr>market_reports := upd_rows (\<lambda>r. report_id r = i) f (market_reports s)\<rparr>)"

definition new_report :: "uuid \<Rightarrow> report_create \<Rightarrow> uuid \<Rightarrow> instant \<Rightarrow> market_report" where
  "new_report t d new_id now = \<lparr>report_id = new_id, report_tenant = t, report_slug = rpc_slug d,
     report_title = rpc_title d, report_stats = rpc_stats d, report_pdf_object_key = None,
     report_status = REPORT_DRAFT, report_generated_at = None, report_published_at = None, report_created_at = now\<rparr>"

definition create_report :: "tenant_context \<Rightarrow> report_create \<Rightarrow> uuid \<Rightarrow> instant \<Rightarrow> (db, market_report) action" where
  "create_report ten raw new_id now =
     andthen (lift_res (parse_report_create raw)) (\<lambda>d.
     let r = new_report (tenant_id ten) d new_id now in
     andthen (gets (report_slug_taken (tenant_id ten) (report_slug r) new_id)) (\<lambda>taken.
     andthen (check (\<not> taken) (ConflictError ''A report with this slug already exists.'')) (\<lambda>_.
     andthen (modify (\<lambda>s. s\<lparr>market_reports := market_reports s @ [r]\<rparr>)) (\<lambda>_. ret r))))"

definition report_or_404 :: "tenant_context \<Rightarrow> uuid \<Rightarrow> (db, market_report) action" where
  "report_or_404 ten i = andthen (gets (report_get (tenant_id ten) i)) (\<lambda>found. case found of
      None \<Rightarrow> raise (NotFoundError ''Report not found.'')
    | Some r \<Rightarrow> ret r)"

definition list_reports ::
  "tenant_context \<Rightarrow> (instant \<times> uuid) cursor option \<Rightarrow> int option \<Rightarrow> db \<Rightarrow>
   error + (market_report list \<times> (instant \<times> uuid) cursor option \<times> nat)" where
  "list_reports ten cursor limit s =
     (case decode_keyset cursor of
        Inl e \<Rightarrow> Inl e
      | Inr after \<Rightarrow> (let page_size = clamp_limit limit in
          case cut_page report_key page_size (repo_list_reports (tenant_id ten) after page_size s) of
            (items, next) \<Rightarrow> Inr (items, next, count_reports (tenant_id ten) s)))"

definition patched_report :: "report_update \<Rightarrow> market_report \<Rightarrow> market_report" where
  "patched_report d r = r\<lparr>report_slug := or_else (patch_get (rpu_slug d)) (report_slug r),
     report_title := or_else (patch_get (rpu_title d)) (report_title r),
     report_stats := or_else (patch_get (rpu_stats d)) (report_stats r)\<rparr>"

definition update_report :: "tenant_context \<Rightarrow> uuid \<Rightarrow> report_update \<Rightarrow> (db, market_report) action" where
  "update_report ten i raw =
     andthen (lift_res (parse_report_update raw)) (\<lambda>d.
     andthen (report_or_404 ten i) (\<lambda>r.
     andthen (gets (report_slug_taken (tenant_id ten) (report_slug (patched_report d r)) i)) (\<lambda>taken.
     andthen (check (\<not> taken) (ConflictError ''A report with this slug already exists.'')) (\<lambda>_.
     andthen (report_write i (patched_report d)) (\<lambda>_. ret (patched_report d r))))))"

definition published_report :: "instant \<Rightarrow> market_report \<Rightarrow> market_report" where
  "published_report now r = r\<lparr>report_status := REPORT_PUBLISHED,
     report_published_at := (if report_published_at r = None then Some now else report_published_at r)\<rparr>"

definition publish_report :: "tenant_context \<Rightarrow> uuid \<Rightarrow> instant \<Rightarrow> (db, unit) action" where
  "publish_report ten i now = andthen (report_or_404 ten i) (\<lambda>r.
     if report_status r = REPORT_DRAFT
     then andthen (report_write i (published_report now)) (\<lambda>_.
       on_commit (GenerateReportPdf (report_id r) (tenant_id ten)))
     else ret ())"

definition unpublish_report :: "tenant_context \<Rightarrow> uuid \<Rightarrow> (db, unit) action" where
  "unpublish_report ten i = andthen (report_or_404 ten i) (\<lambda>r.
     if report_status r \<noteq> REPORT_DRAFT then report_write i (\<lambda>r. r\<lparr>report_status := REPORT_DRAFT\<rparr>) else ret ())"

definition delete_report :: "string \<Rightarrow> tenant_context \<Rightarrow> uuid \<Rightarrow> (db, unit) action" where
  "delete_report docs_bucket ten i = andthen (report_or_404 ten i) (\<lambda>r.
     andthen (modify (\<lambda>s. s\<lparr>market_reports := del_rows (\<lambda>r. report_id r = i) (market_reports s)\<rparr>)) (\<lambda>_.
     if str_given (report_pdf_object_key r)
     then on_commit (DeleteObjects [(docs_bucket, or_else (report_pdf_object_key r) [])]) else ret ()))"

definition get_public_report :: "tenant_context \<Rightarrow> string \<Rightarrow> (db, market_report) action" where
  "get_public_report ten slug = andthen (gets (get_published_report_by_slug (tenant_id ten) slug)) (\<lambda>found.
     case found of None \<Rightarrow> raise (NotFoundError ''Report not found.'') | Some r \<Rightarrow> ret r)"

record report_download =
  rd_contact :: contact_capture
  rd_meta :: json_obj
  rd_hp :: string

text \<open>A genuine submission needs an email; a filled honeypot passes on to its fabricated answer.\<close>

definition parse_report_download :: "report_download \<Rightarrow> error + report_download" where
  "parse_report_download d = (if rd_hp d = [] \<and> \<not> str_given (cc_email (rd_contact d))
     then Inl (ValidationError ''contact.email is required to download a report'') else Inr d)"

definition request_report_download ::
  "world \<Rightarrow> (string \<Rightarrow> string \<Rightarrow> string) \<Rightarrow> tenant_context \<Rightarrow> string \<Rightarrow> report_download \<Rightarrow> uuid \<Rightarrow> uuid \<Rightarrow> instant \<Rightarrow>
   (db, string option) action" where
  "request_report_download w presign_get ten slug raw new_lead_id new_contact_id now =
     andthen (lift_res (parse_report_download raw)) (\<lambda>d.
      if rd_hp d \<noteq> [] then ret None
      else andthen (get_public_report ten slug) (\<lambda>r.
        andthen (check (report_status r = REPORT_READY \<and> str_given (report_pdf_object_key r))
          (ConflictError (''This report'' @ [CHR 0x27] @ ''s download is not ready yet.''))) (\<lambda>_.
        andthen (register_report_download_lead w ten (rd_contact d) (rd_meta d)
          [(''slug'', JStr (report_slug r)),
           (''title'', case pick_localized (report_title r) DEFAULT_LOCALE of None \<Rightarrow> JNull | Some t \<Rightarrow> JStr t)]
          new_lead_id new_contact_id now) (\<lambda>_.
        ret (Some (presign_get (or_else (report_pdf_object_key r) [])
          (''report-'' @ report_slug r @ ''.pdf'')))))))"

section \<open>The PDF task\<close>

text \<open>
  The task works in three steps, each on the state it finds: a transaction that takes a snapshot,
  the upload, and a transaction that marks the row ready, or the removal of the upload when the
  row is not published any more. The objects of the private bucket are a map from keys to bytes.
\<close>

record report_store =
  st_db :: db
  st_objects :: "string \<Rightarrow> string option"

definition report_pdf_key :: "world \<Rightarrow> uuid \<Rightarrow> uuid \<Rightarrow> string" where
  "report_pdf_key w t i = ''tenants/'' @ uuid_text w t @ ''/reports/'' @ uuid_text w i @ ''/report.pdf''"

definition pdf_snapshot :: "uuid \<Rightarrow> uuid \<Rightarrow> report_store \<Rightarrow> (string \<times> json_obj) option" where
  "pdf_snapshot t i st = (case report_get t i (st_db st) of
      None \<Rightarrow> None
    | Some r \<Rightarrow> if report_status r \<noteq> REPORT_PUBLISHED then None
        else Some (let title = pick_localized (report_title r) DEFAULT_LOCALE
          in (if str_given title then or_else title [] else ''Market Report''), report_stats r))"

definition pdf_upload ::
  "world \<Rightarrow> (string \<Rightarrow> json_obj \<Rightarrow> string) \<Rightarrow> uuid \<Rightarrow> uuid \<Rightarrow> string \<times> json_obj \<Rightarrow> report_store \<Rightarrow> report_store" where
  "pdf_upload w render t i snap st =
     st\<lparr>st_objects := (st_objects st)(report_pdf_key w t i \<mapsto> render (fst snap) (snd snap))\<rparr>"

definition ready_report :: "string \<Rightarrow> instant \<Rightarrow> market_report \<Rightarrow> market_report" where
  "ready_report key now r = r\<lparr>report_pdf_object_key := Some key, report_status := REPORT_READY,
     report_generated_at := Some now\<rparr>"

definition pdf_mark_ready :: "world \<Rightarrow> uuid \<Rightarrow> uuid \<Rightarrow> instant \<Rightarrow> report_store \<Rightarrow> bool \<times> report_store" where
  "pdf_mark_ready w t i now st = (case report_get t i (st_db st) of
      Some r \<Rightarrow> if report_status r = REPORT_PUBLISHED
        then (True, st\<lparr>st_db := (st_db st)\<lparr>market_reports := upd_rows (\<lambda>r. report_id r = i)
            (ready_report (report_pdf_key w t i) now) (market_reports (st_db st))\<rparr>\<rparr>)
        else (False, st\<lparr>st_objects := (st_objects st)(report_pdf_key w t i := None)\<rparr>)
    | None \<Rightarrow> (False, st\<lparr>st_objects := (st_objects st)(report_pdf_key w t i := None)\<rparr>))"

definition generate_report_pdf ::
  "world \<Rightarrow> (string \<Rightarrow> json_obj \<Rightarrow> string) \<Rightarrow> uuid \<Rightarrow> uuid \<Rightarrow> instant \<Rightarrow> report_store \<Rightarrow> string \<times> report_store" where
  "generate_report_pdf w render t i now st = (case pdf_snapshot t i st of
      None \<Rightarrow> (''skipped'', st)
    | Some snap \<Rightarrow> (case pdf_mark_ready w t i now (pdf_upload w render t i snap st) of
        (ok, st') \<Rightarrow> (if ok then ''ready'' else ''skipped'', st')))"

end
