(* ===== verification/Content_Desk.thy ===== *)
theory Content_Desk
  imports Content Contracts
begin

text \<open>
  What the content module promises: legal texts that are provable for ever, previews that open
  their own page only, and reports whose download exists.
\<close>

section \<open>Legal versions\<close>

text \<open>What a version says, without the mark that it is the current one.\<close>

definition legal_text :: "legal_page \<Rightarrow> (uuid \<times> uuid \<times> legal_kind) \<times> int \<times> i18n_text \<times> instant" where
  "legal_text p = ((legal_id p, legal_tenant p, legal_kind p), legal_version p, legal_body p, legal_effective_at p)"

text \<open>The versions of a kind number from one on, and the last one is the current one.\<close>

definition numbered :: "legal_page list \<Rightarrow> bool" where
  "numbered ps \<longleftrightarrow> map legal_version ps = map int [1..<Suc (length ps)]
     \<and> map legal_is_current ps = (if ps = [] then [] else replicate (length ps - 1) False @ [True])"

definition legal_ok :: "db \<Rightarrow> bool" where
  "legal_ok s \<longleftrightarrow> distinct (map legal_id (legal_pages s)) \<and> (\<forall>t k. numbered (filter (legal_of t k) (legal_pages s)))"

text \<open>
  A run: publications by any tenant, each on a fresh id, and everything else the program does,
  which writes no legal page.
\<close>

inductive legal_run :: "db \<Rightarrow> db \<Rightarrow> bool" where
  legal_start: "legal_run s s"
| legal_publish: "legal_run s t \<Longrightarrow> run_request (publish_legal_version ten d i now) t = (r, s') \<Longrightarrow>
    i \<notin> legal_id ` set (legal_pages t) \<Longrightarrow> legal_run s s'"
| legal_elsewhere: "legal_run s t \<Longrightarrow> legal_pages s' = legal_pages t \<Longrightarrow> legal_run s s'"

lemma numbered_snoc:
  "numbered (ps @ [p]) \<longleftrightarrow> map legal_version ps = map int [1..<Suc (length ps)]
     \<and> list_all (\<lambda>q. \<not> legal_is_current q) ps \<and> legal_version p = int (length ps) + 1 \<and> legal_is_current p"
proof -
  have "map legal_is_current ps = replicate (length ps) False \<longleftrightarrow> list_all (\<lambda>q. \<not> legal_is_current q) ps"
    by (induction ps) auto
  then show ?thesis by (auto simp: numbered_def)
qed

lemma current_of:
  assumes "numbered (filter (legal_of t k) (legal_pages s))"
  shows "get_current_legal t k s = Inr (if filter (legal_of t k) (legal_pages s) = [] then None
     else Some (last (filter (legal_of t k) (legal_pages s))))"
proof -
  let ?ps = "filter (legal_of t k) (legal_pages s)"
  have f: "filter (\<lambda>p. legal_of t k p \<and> legal_is_current p) (legal_pages s) = filter legal_is_current ?ps"
    by simp
  show ?thesis
  proof (cases ?ps rule: rev_cases)
    case Nil
    then show ?thesis by (simp only: get_current_legal_def f) simp
  next
    case (snoc ps p)
    with assms have "list_all (\<lambda>q. \<not> legal_is_current q) ps" "legal_is_current p"
      unfolding snoc by (simp_all add: numbered_snoc)
    then have "filter legal_is_current ?ps = [p]"
      unfolding snoc by (simp add: list_all_iff filter_empty_conv)
    then show ?thesis using snoc by (simp only: get_current_legal_def f) simp
  qed
qed

lemma fold_max_upt: "fold max (map int [2..<Suc (Suc n)]) 1 = int (Suc n)"
proof (induction n)
  case (Suc n)
  have "[2..<Suc (Suc (Suc n))] = [2..<Suc (Suc n)] @ [Suc (Suc n)]" by simp
  with Suc show ?case by simp
qed simp

lemma max_version_of:
  assumes "numbered (filter (legal_of t k) (legal_pages s))"
  shows "max_legal_version t k s = int (length (filter (legal_of t k) (legal_pages s)))"
proof -
  have v: "map legal_version (filter (legal_of t k) (legal_pages s))
      = map int [1..<Suc (length (filter (legal_of t k) (legal_pages s)))]"
    using assms by (simp add: numbered_def)
  show ?thesis
  proof (cases "length (filter (legal_of t k) (legal_pages s))")
    case (Suc n)
    have "[1..<Suc (Suc n)] = 1 # [2..<Suc (Suc n)]" by (simp add: upt_conv_Cons numeral_2_eq_2)
    then show ?thesis unfolding max_legal_version_def v Suc using fold_max_upt [of n] by simp
  qed (simp add: max_legal_version_def v)
qed

text \<open>A publication as one equation: it never finds two current rows and never clashes.\<close>

definition retired :: "uuid \<Rightarrow> legal_kind \<Rightarrow> legal_page list \<Rightarrow> legal_page list" where
  "retired t k rows = upd_rows (legal_of t k) (\<lambda>p. p\<lparr>legal_is_current := False\<rparr>) rows"

definition next_version :: "uuid \<Rightarrow> legal_create \<Rightarrow> uuid \<Rightarrow> instant \<Rightarrow> legal_page list \<Rightarrow> legal_page" where
  "next_version t d i now rows = \<lparr>legal_id = i, legal_tenant = t, legal_kind = lgc_kind d,
     legal_version = int (length (filter (legal_of t (lgc_kind d)) rows)) + 1, legal_body = lgc_body d,
     legal_effective_at = or_else (lgc_effective_at d) now, legal_is_current = True\<rparr>"

lemma legal_of_retired [simp]: "legal_of t k (p\<lparr>legal_is_current := b\<rparr>) = legal_of t k p"
  by (simp add: legal_of_def)

lemma legal_of_unique: "legal_of t k p \<Longrightarrow> legal_of t' k' p \<Longrightarrow> (t', k') = (t, k)"
  by (simp add: legal_of_def)

lemma filter_retired:
  "filter (legal_of t' k') (retired t k rows)
     = (if (t', k') = (t, k) then map (\<lambda>p. p\<lparr>legal_is_current := False\<rparr>) (filter (legal_of t k) rows)
        else filter (legal_of t' k') rows)"
proof (induction rows)
  case (Cons a rows)
  show ?case
    by (cases "legal_of t k a"; cases "legal_of t' k' a")
      (use Cons legal_of_unique [of t k a t' k'] in \<open>auto simp: retired_def upd_rows_def\<close>)
qed (simp add: retired_def)

lemma retire_current:
  assumes "legal_ok s" "filter (legal_of t k) (legal_pages s) \<noteq> []"
  shows "upd_rows (\<lambda>p. legal_id p = legal_id (last (filter (legal_of t k) (legal_pages s))))
      (\<lambda>p. p\<lparr>legal_is_current := False\<rparr>) (legal_pages s) = retired t k (legal_pages s)"
  unfolding upd_rows_def retired_def
proof (rule map_cong [OF refl])
  let ?ps = "filter (legal_of t k) (legal_pages s)"
  fix p assume p: "p \<in> set (legal_pages s)"
  obtain qs c where c: "?ps = qs @ [c]" using assms(2) by (cases ?ps rule: rev_cases) auto
  have num: "numbered (qs @ [c])" using assms(1) c by (metis legal_ok_def)
  have c_in: "c \<in> set (legal_pages s)" "legal_of t k c" using arg_cong [OF c, of set] by auto
  show "(if legal_id p = legal_id (last ?ps) then p\<lparr>legal_is_current := False\<rparr> else p)
    = (if legal_of t k p then p\<lparr>legal_is_current := False\<rparr> else p)"
  proof (cases "p = c")
    case True
    with c c_in show ?thesis by simp
  next
    case False
    then have "legal_id p \<noteq> legal_id c"
      using distinct_key_eq [OF _ p c_in(1)] assms(1) by (auto simp: legal_ok_def)
    moreover have "\<not> legal_is_current p" if "legal_of t k p"
    proof -
      have "p \<in> set ?ps" using p that by simp
      then have "p \<in> set (qs @ [c])" unfolding c .
      with False num show ?thesis by (auto simp: numbered_snoc list_all_iff)
    qed
    ultimately show ?thesis using c by simp
  qed
qed

lemma publish_run:
  assumes "legal_ok s" "parse_legal_create raw = Inr d"
  shows "publish_legal_version ten raw i now s = (Inr (next_version (tenant_id ten) d i now (legal_pages s)),
    s\<lparr>legal_pages := retired (tenant_id ten) (lgc_kind d) (legal_pages s)
        @ [next_version (tenant_id ten) d i now (legal_pages s)],
      post_commit := post_commit s @ [BumpVersion (tenant_id ten) ''legal'']\<rparr>)"
proof -
  let ?t = "tenant_id ten" and ?k = "lgc_kind d"
  let ?ps = "filter (legal_of ?t ?k) (legal_pages s)"
  define s1 where "s1 = s\<lparr>legal_pages := retired ?t ?k (legal_pages s)\<rparr>"
  have num: "numbered ?ps" using assms(1) by (simp add: legal_ok_def)
  have same: "retired ?t ?k (legal_pages s) = legal_pages s" if "?ps = []"
    using that by (auto simp: retired_def upd_rows_def filter_empty_conv intro!: map_idI)
  have max1: "max_legal_version ?t ?k s1 = int (length ?ps)"
    using max_version_of [OF num] by (simp add: max_legal_version_def s1_def filter_retired comp_def)
  have "\<not> legal_clash (next_version ?t d i now (legal_pages s)) s1"
  proof -
    have "legal_version q \<le> int (length ?ps)" if "q \<in> set ?ps" for q
    proof -
      have "legal_version q \<in> set (map legal_version ?ps)" using that by simp
      also have "map legal_version ?ps = map int [1..<Suc (length ?ps)]" using num by (simp add: numbered_def)
      finally show ?thesis by auto
    qed
    then have "legal_version q \<noteq> int (length ?ps) + 1" if "q \<in> set (legal_pages s)" "legal_of ?t ?k q" for q
      using that by fastforce
    then show ?thesis
      by (auto simp: legal_clash_def next_version_def s1_def list_ex_iff retired_def in_upd_rows)
  qed
  note clash = this
  have upd: "andthen (case (if ?ps = [] then None else Some (last ?ps)) of None \<Rightarrow> ret ()
      | Some c \<Rightarrow> modify (\<lambda>s. s\<lparr>legal_pages := upd_rows (\<lambda>p. legal_id p = legal_id c)
          (\<lambda>p. p\<lparr>legal_is_current := False\<rparr>) (legal_pages s)\<rparr>)) f s = f () s1" for f :: "unit \<Rightarrow> (db, legal_page) action"
    using retire_current [OF assms(1), of ?t ?k] same by (cases "?ps = []") (simp_all add: s1_def)
  show ?thesis
    unfolding publish_legal_version_def assms(2) andthen_lift sum.case andthen_gets current_of [OF num]
      upd Let_def max1
    using clash
    by (simp add: next_version_def s1_def ret_def invalidate_public_after_commit_def)
qed

lemma numbered_next:
  assumes "numbered ps" "p = next_version t d i now rows" "ps = filter (legal_of t (lgc_kind d)) rows"
  shows "numbered (map (\<lambda>p. p\<lparr>legal_is_current := False\<rparr>) ps @ [p])"
proof -
  have "map legal_version ps = map int [1..<Suc (length ps)]" using assms(1) by (simp add: numbered_def)
  then show ?thesis
    by (simp add: numbered_snoc comp_def list_all_iff assms(2) next_version_def assms(3) [symmetric])
qed

lemma publish_ok:
  assumes "legal_ok s" "i \<notin> legal_id ` set (legal_pages s)"
    "legal_pages s' = retired t (lgc_kind d) (legal_pages s) @ [next_version t d i now (legal_pages s)]"
  shows "legal_ok s'"
  unfolding legal_ok_def
proof (intro conjI allI)
  show "distinct (map legal_id (legal_pages s'))"
    using assms by (simp add: legal_ok_def retired_def next_version_def)
  fix t' k'
  have own: "legal_of t' k' (next_version t d i now (legal_pages s)) \<longleftrightarrow> (t', k') = (t, lgc_kind d)"
    by (auto simp: legal_of_def next_version_def)
  show "numbered (filter (legal_of t' k') (legal_pages s'))"
  proof (cases "(t', k') = (t, lgc_kind d)")
    case True
    have "numbered (filter (legal_of t (lgc_kind d)) (legal_pages s))" using assms(1) by (simp add: legal_ok_def)
    from numbered_next [OF this refl refl] True own show ?thesis by (simp add: assms(3) filter_retired)
  next
    case False
    with assms(1) own show ?thesis by (auto simp: assms(3) filter_retired legal_ok_def)
  qed
qed

lemma publish_request:
  assumes "legal_ok s" "run_request (publish_legal_version ten raw i now) s = (r, s')"
  shows "case parse_legal_create raw of
      Inl e \<Rightarrow> r = Inl e \<and> legal_pages s' = legal_pages s
    | Inr d \<Rightarrow> r = Inr (next_version (tenant_id ten) d i now (legal_pages s))
        \<and> legal_pages s' = retired (tenant_id ten) (lgc_kind d) (legal_pages s)
          @ [next_version (tenant_id ten) d i now (legal_pages s)]"
proof (cases "parse_legal_create raw")
  case (Inl e)
  with assms(2) show ?thesis by (auto simp: run_request_def publish_legal_version_def)
next
  case (Inr d)
  have "legal_ok (s\<lparr>post_commit := []\<rparr>)" using assms(1) by (simp add: legal_ok_def)
  from publish_run [OF this Inr, of ten i now] Inr assms(2) show ?thesis
    by (auto simp: run_request_def)
qed

lemma legal_run_ok: "legal_run s s' \<Longrightarrow> legal_ok s \<Longrightarrow> legal_ok s'"
proof (induction rule: legal_run.induct)
  case (legal_publish s t ten d i now r s')
  then have ok: "legal_ok t" by simp
  from publish_request [OF ok legal_publish.hyps(2)] show ?case
  proof (cases "parse_legal_create d")
    case (Inl e)
    with publish_request [OF ok legal_publish.hyps(2)] ok show ?thesis by (simp add: legal_ok_def)
  next
    case (Inr e)
    with publish_request [OF ok legal_publish.hyps(2)] publish_ok [OF ok legal_publish.hyps(3)] show ?thesis by simp
  qed
qed (auto simp: legal_ok_def)

text \<open>
  Consent texts are provable for ever. Through any history every version that was ever
  published is still there with its text, number and date, in order; the versions of each kind
  number from one without a gap; exactly the last one is current; and a valid publication always
  succeeds with the next number.
\<close>

lemma legal_history_append_only:
  assumes "legal_run s s'" "legal_ok s"
  shows "let rows = filter (legal_of t k) (legal_pages s')
    in take (length (legal_pages s)) (map legal_text (legal_pages s')) = map legal_text (legal_pages s)
      \<and> map legal_version rows = map int [1..<Suc (length rows)]
      \<and> get_current_legal t k s' = Inr (if rows = [] then None else Some (last rows))
      \<and> map_sum id legal_version (fst (run_request (publish_legal_version ten d i now) s'))
          = (case parse_legal_create d of Inl e \<Rightarrow> Inl e
             | Inr d \<Rightarrow> Inr (int (length (filter (legal_of (tenant_id ten) (lgc_kind d)) (legal_pages s'))) + 1))"
proof -
  have "\<exists>new. map legal_text (legal_pages s') = map legal_text (legal_pages s) @ new"
    using assms
  proof (induction rule: legal_run.induct)
    case (legal_publish s t ten d i now r s')
    then obtain new where new: "map legal_text (legal_pages t) = map legal_text (legal_pages s) @ new" by auto
    have same: "map legal_text (retired u k rows) = map legal_text rows" for u k rows
      by (auto simp: retired_def upd_rows_def legal_text_def)
    have ok: "legal_ok t" using legal_run_ok [OF legal_publish.hyps(1) legal_publish.prems] .
    from publish_request [OF ok legal_publish.hyps(2)] new same show ?case
      by (cases "parse_legal_create d") auto
  qed auto
  then have "take (length (legal_pages s)) (map legal_text (legal_pages s')) = map legal_text (legal_pages s)"
    by (metis append_eq_conv_conj length_map)
  moreover have ok: "legal_ok s'" by (rule legal_run_ok [OF assms])
  then have num: "numbered (filter (legal_of t k) (legal_pages s'))" by (simp add: legal_ok_def)
  moreover obtain q u where q: "run_request (publish_legal_version ten d i now) s' = (q, u)" by (metis surj_pair)
  moreover have "map_sum id legal_version q = (case parse_legal_create d of Inl e \<Rightarrow> Inl e
      | Inr d \<Rightarrow> Inr (int (length (filter (legal_of (tenant_id ten) (lgc_kind d)) (legal_pages s'))) + 1))"
    using publish_request [OF ok q] by (auto simp: next_version_def split: sum.splits)
  ultimately show ?thesis using current_of [OF num] by (simp add: Let_def numbered_def)
qed

section \<open>Previews\<close>

lemma partition_at: "c \<notin> set a \<Longrightarrow> str_partition c (a @ c # b) = (a, b)"
  by (auto simp: str_partition_def takeWhile_append dropWhile_append)

text \<open>Texts of ids: without a colon or a slash, and read back.\<close>

definition plain_uuid_texts :: "world \<Rightarrow> bool" where
  "plain_uuid_texts w \<longleftrightarrow> (\<forall>i. CHR '':'' \<notin> set (uuid_text w i) \<and> CHR ''/'' \<notin> set (uuid_text w i)
     \<and> uuid_of_text w (uuid_text w i) = Some i)"

text \<open>
  A preview link opens its own page and no other. The token of a page opens it, draft or
  not, under its slug on its tenant, and is a 404 on every other tenant and under any other
  slug; whatever opens a page by its id is a signature made for that page of that tenant.
\<close>

lemma preview_opens_own_page:
  assumes "dotless mac" "plain_uuid_texts w" "page_get t i s = Some p"
  shows "get_preview_page mac secret w ten slug (preview_token mac secret w (ten'\<lparr>tenant_id := t\<rparr>) p) s
      = ((if t = tenant_id ten \<and> slug = page_slug p then Inr p else Inl (NotFoundError ''Page not found.'')), s)
    \<and> (fst (get_preview_page mac secret w ten slug token s) = Inr q \<longrightarrow>
        page_tenant q = tenant_id ten \<and> page_slug q = slug \<and> (\<exists>text. uuid_of_text w text = Some (page_id q)
          \<and> token = sign_value mac secret PREVIEW_PURPOSE (uuid_text w (tenant_id ten) @ '':'' @ text)))"
proof
  have p: "page_id p = i" "page_tenant p = t" using assms(3) by (auto simp: page_get_def dest: find_in)
  let ?v = "uuid_text w t @ CHR '':'' # uuid_text w i"
  have v: "unsign_value mac secret PREVIEW_PURPOSE (preview_token mac secret w (ten'\<lparr>tenant_id := t\<rparr>) p) = Inr (Some ?v)"
    using unsign_iff [OF assms(1)] p(1) by (simp add: preview_token_def)
  have "CHR '':'' \<notin> set (uuid_text w t)" "uuid_of_text w (uuid_text w i) = Some i"
    using assms(2) by (simp_all add: plain_uuid_texts_def)
  moreover have "uuid_text w t = uuid_text w u \<longleftrightarrow> t = u" for u
    using assms(2) by (metis option.inject plain_uuid_texts_def)
  ultimately show "get_preview_page mac secret w ten slug (preview_token mac secret w (ten'\<lparr>tenant_id := t\<rparr>) p) s
      = ((if t = tenant_id ten \<and> slug = page_slug p then Inr p else Inl (NotFoundError ''Page not found.'')), s)"
    unfolding get_preview_page_def v sum.case option.case
    using assms(3) partition_at [of "CHR '':''" "uuid_text w t" "uuid_text w i"]
    by (cases "t = tenant_id ten") (simp_all add: raise_def ret_def)
  show "fst (get_preview_page mac secret w ten slug token s) = Inr q \<longrightarrow>
        page_tenant q = tenant_id ten \<and> page_slug q = slug \<and> (\<exists>text. uuid_of_text w text = Some (page_id q)
          \<and> token = sign_value mac secret PREVIEW_PURPOSE (uuid_text w (tenant_id ten) @ '':'' @ text))"
  proof
    assume "fst (get_preview_page mac secret w ten slug token s) = Inr q"
    then obtain v j where v: "unsign_value mac secret PREVIEW_PURPOSE token = Inr (Some v)" "CHR '':'' \<in> set v"
      "fst (str_partition (CHR '':'') v) = uuid_text w (tenant_id ten)"
      "uuid_of_text w (snd (str_partition (CHR '':'') v)) = Some j"
      "page_get (tenant_id ten) j s = Some q" "page_slug q = slug"
      by (auto simp: get_preview_page_def raise_def ret_def split: sum.splits option.splits if_splits)
    have "v = fst (str_partition (CHR '':'') v) @ CHR '':'' # snd (str_partition (CHR '':'') v)"
    proof -
      have "dropWhile (\<lambda>x. x \<noteq> CHR '':'') v \<noteq> []" using v(2) by (auto simp: dropWhile_eq_Nil_conv)
      then have "dropWhile (\<lambda>x. x \<noteq> CHR '':'') v = CHR '':'' # drop 1 (dropWhile (\<lambda>x. x \<noteq> CHR '':'') v)"
        using hd_dropWhile [of "\<lambda>x. x \<noteq> CHR '':''" v] by (cases "dropWhile (\<lambda>x. x \<noteq> CHR '':'') v") auto
      then show ?thesis
        using takeWhile_dropWhile_id [of "\<lambda>x. x \<noteq> CHR '':''" v] by (simp add: str_partition_def)
    qed
    then have "token = sign_value mac secret PREVIEW_PURPOSE (uuid_text w (tenant_id ten) @ '':'' @ snd (str_partition (CHR '':'') v))"
      using v(1,3) unsign_iff [OF assms(1)] by simp
    with v(4,5,6) show "page_tenant q = tenant_id ten \<and> page_slug q = slug \<and> (\<exists>text. uuid_of_text w text = Some (page_id q)
          \<and> token = sign_value mac secret PREVIEW_PURPOSE (uuid_text w (tenant_id ten) @ '':'' @ text))"
      by (auto simp: page_get_def dest: find_in)
  qed
qed

section \<open>Reports\<close>

definition report_ok :: "world \<Rightarrow> report_store \<Rightarrow> market_report \<Rightarrow> bool" where
  "report_ok w st r \<longleftrightarrow>
     (report_pdf_object_key r = None \<or> report_pdf_object_key r = Some (report_pdf_key w (report_tenant r) (report_id r)))
   \<and> (report_status r = REPORT_READY \<longrightarrow> report_pdf_object_key r \<noteq> None
      \<and> st_objects st (report_pdf_key w (report_tenant r) (report_id r)) \<noteq> None)"

definition store_ok :: "world \<Rightarrow> report_store \<Rightarrow> bool" where
  "store_ok w st \<longleftrightarrow> distinct (map report_id (market_reports (st_db st)))
     \<and> (\<forall>r \<in> set (market_reports (st_db st)). report_ok w st r)"

text \<open>
  Runs in which no two PDF tasks overlap: a task runs from its snapshot to its mark in one step.
  The cleanup that follows a deletion removes the object of a report that is gone.
\<close>

inductive report_step :: "world \<Rightarrow> report_store \<Rightarrow> report_store \<Rightarrow> bool" for w where
  rep_create: "run_request (create_report ten d i now) (st_db st) = (r, s') \<Longrightarrow>
    i \<notin> report_id ` set (market_reports (st_db st)) \<Longrightarrow> report_step w st (st\<lparr>st_db := s'\<rparr>)"
| rep_update: "run_request (update_report ten i u) (st_db st) = (r, s') \<Longrightarrow> report_step w st (st\<lparr>st_db := s'\<rparr>)"
| rep_publish: "run_request (publish_report ten i now) (st_db st) = (x, s') \<Longrightarrow> report_step w st (st\<lparr>st_db := s'\<rparr>)"
| rep_unpublish: "run_request (unpublish_report ten i) (st_db st) = (x, s') \<Longrightarrow> report_step w st (st\<lparr>st_db := s'\<rparr>)"
| rep_delete: "run_request (delete_report bucket ten i) (st_db st) = (x, s') \<Longrightarrow> report_step w st (st\<lparr>st_db := s'\<rparr>)"
| rep_task: "generate_report_pdf w render t i now st = (out, st') \<Longrightarrow> report_step w st st'"
| rep_cleanup: "i \<notin> report_id ` set (market_reports (st_db st)) \<Longrightarrow>
    report_step w st (st\<lparr>st_objects := (st_objects st)(report_pdf_key w t i := None)\<rparr>)"
| rep_elsewhere: "market_reports s' = market_reports (st_db st) \<Longrightarrow> report_step w st (st\<lparr>st_db := s'\<rparr>)"

inductive report_run :: "world \<Rightarrow> report_store \<Rightarrow> report_store \<Rightarrow> bool" for w where
  rep_start: "report_run w st st"
| rep_more: "report_run w st st' \<Longrightarrow> report_step w st' st'' \<Longrightarrow> report_run w st st''"

lemma report_pdf_key_inj:
  assumes "plain_uuid_texts w"
  shows "report_pdf_key w t i = report_pdf_key w t' i' \<longleftrightarrow> t = t' \<and> i = i'"
proof -
  have inj: "uuid_text w a = uuid_text w b \<longleftrightarrow> a = b" for a b
    using assms by (metis option.inject plain_uuid_texts_def)
  have cut: "takeWhile (\<lambda>c. c \<noteq> CHR ''/'') (uuid_text w a @ CHR ''/'' # v) = uuid_text w a" for a v
    using assms by (auto simp: plain_uuid_texts_def takeWhile_append)
  have "uuid_text w a @ CHR ''/'' # v = uuid_text w b @ CHR ''/'' # v' \<longleftrightarrow> a = b \<and> v = v'" for a b v v'
    using cut [of a v] cut [of b v'] inj by (metis list.sel(3) same_append_eq)
  then show ?thesis by (auto simp: report_pdf_key_def inj)
qed

lemma report_rows:
  "create_report ten raw i now s = (r, t) \<Longrightarrow> market_reports t = market_reports s
     \<or> (\<exists>d. market_reports t = market_reports s @ [new_report (tenant_id ten) d i now])"
  "update_report ten i u s = (r, t) \<Longrightarrow> market_reports t = market_reports s
     \<or> (\<exists>u. market_reports t = upd_rows (\<lambda>r. report_id r = i) (patched_report u) (market_reports s))"
  "publish_report ten i now s = (x, t) \<Longrightarrow> market_reports t = market_reports s
     \<or> market_reports t = upd_rows (\<lambda>r. report_id r = i) (published_report now) (market_reports s)"
  "unpublish_report ten i s = (x, t) \<Longrightarrow> market_reports t = market_reports s
     \<or> market_reports t = upd_rows (\<lambda>r. report_id r = i) (\<lambda>r. r\<lparr>report_status := REPORT_DRAFT\<rparr>) (market_reports s)"
  "delete_report bucket ten i s = (x, t) \<Longrightarrow> market_reports t = market_reports s
     \<or> market_reports t = del_rows (\<lambda>r. report_id r = i) (market_reports s)"
  by (auto simp: create_report_def update_report_def publish_report_def unpublish_report_def delete_report_def
      report_or_404_def report_write_def andthen_def gets_def lift_res_def raise_def ret_def modify_def check_def
      on_commit_def Let_def split: prod.splits sum.splits option.splits if_splits)

lemma request_reports:
  assumes "run_request m s = (r, s')"
  obtains "market_reports s' = market_reports s" | q t where "m (s\<lparr>post_commit := []\<rparr>) = (q, t)" "market_reports s' = market_reports t"
  using assms by (auto simp: run_request_def split: prod.splits sum.splits)

text \<open>Writes that keep a report's key and object, or make it a draft, keep the store consistent.\<close>

lemma store_upd:
  assumes "store_ok w st" "market_reports s' = upd_rows (\<lambda>r. report_id r = i) f (market_reports (st_db st))"
    "\<And>r. report_id (f r) = report_id r" "\<And>r. report_tenant (f r) = report_tenant r"
    "\<And>r. report_pdf_object_key (f r) = report_pdf_object_key r"
    "\<And>r. report_status (f r) = REPORT_READY \<Longrightarrow> report_status r = REPORT_READY"
  shows "store_ok w (st\<lparr>st_db := s'\<rparr>)"
proof -
  have "report_ok w (st\<lparr>st_db := s'\<rparr>) (f r)" if "report_ok w st r" for r
    using that assms(3-6) [of r] by (auto simp: report_ok_def)
  moreover have "report_ok w (st\<lparr>st_db := s'\<rparr>) r = report_ok w st r" for r
    by (simp add: report_ok_def)
  ultimately show ?thesis
    using assms(1,2,3) by (auto simp: store_ok_def in_upd_rows)
qed

lemma store_same: "store_ok w st \<Longrightarrow> market_reports s' = market_reports (st_db st) \<Longrightarrow> store_ok w (st\<lparr>st_db := s'\<rparr>)"
  by (simp add: store_ok_def report_ok_def)

lemma task_ok:
  assumes "plain_uuid_texts w" "store_ok w st" "generate_report_pdf w render t i now st = (out, st')"
  shows "store_ok w st'"
proof (cases "pdf_snapshot t i st")
  case None
  with assms(2,3) show ?thesis by (simp add: generate_report_pdf_def)
next
  case (Some snap)
  then obtain r where r: "report_get t i (st_db st) = Some r" "report_status r = REPORT_PUBLISHED"
    by (auto simp: pdf_snapshot_def split: option.splits if_splits)
  then have rt: "report_id r = i" "report_tenant r = t" "r \<in> set (market_reports (st_db st))"
    by (auto simp: report_get_def dest: find_in)
  have own: "report_tenant x = t" if "x \<in> set (market_reports (st_db st))" "report_id x = i" for x
    using distinct_key_eq [where key = report_id, OF _ that(1) rt(3)] that(2) rt assms(2) by (auto simp: store_ok_def)
  have st': "st' = st\<lparr>st_db := (st_db st)\<lparr>market_reports := upd_rows (\<lambda>r. report_id r = i)
      (ready_report (report_pdf_key w t i) now) (market_reports (st_db st))\<rparr>,
      st_objects := (st_objects st)(report_pdf_key w t i \<mapsto> render (fst snap) (snd snap))\<rparr>"
    using assms(3) Some r by (auto simp: generate_report_pdf_def pdf_upload_def pdf_mark_ready_def)
  have row: "report_ok w st' (if report_id x = i then ready_report (report_pdf_key w t i) now x else x)"
    if "x \<in> set (market_reports (st_db st))" for x
  proof (cases "report_id x = i")
    case True
    with own [OF that] show ?thesis by (simp add: report_ok_def ready_report_def st')
  next
    case False
    with assms(2) that show ?thesis
      by (simp add: report_ok_def store_ok_def st' report_pdf_key_inj [OF assms(1)])
  qed
  have "market_reports (st_db st') = map (\<lambda>x. if report_id x = i
      then ready_report (report_pdf_key w t i) now x else x) (market_reports (st_db st))"
    by (simp add: st' upd_rows_def)
  moreover have "distinct (map report_id (market_reports (st_db st')))"
    using assms(2) by (simp add: st' store_ok_def ready_report_def)
  ultimately show ?thesis unfolding store_ok_def
    by (simp only: set_map ball_simps) (use row in blast)
qed

lemma request_store:
  assumes "run_request m (st_db st) = (r, s')" "store_ok w st"
    "\<And>q t. m ((st_db st)\<lparr>post_commit := []\<rparr>) = (q, t) \<Longrightarrow>
       market_reports t = market_reports (st_db st) \<or> store_ok w (st\<lparr>st_db := t\<rparr>)"
  shows "store_ok w (st\<lparr>st_db := s'\<rparr>)"
  using assms(1)
proof (rule request_reports)
  fix q t assume t: "m ((st_db st)\<lparr>post_commit := []\<rparr>) = (q, t)" "market_reports s' = market_reports t"
  from assms(3) [OF t(1)] show ?thesis
  proof
    assume "store_ok w (st\<lparr>st_db := t\<rparr>)"
    with t(2) show ?thesis by (simp add: store_ok_def report_ok_def)
  qed (use t(2) store_same [OF assms(2)] in simp)
qed (rule store_same [OF assms(2)])

lemma report_step_ok:
  assumes "report_step w st st'" "plain_uuid_texts w" "store_ok w st"
  shows "store_ok w st'"
  using assms(1)
proof cases
  case (rep_create ten d i now r s')
  then have st': "st' = st\<lparr>st_db := s'\<rparr>" by simp
  show ?thesis
    unfolding st'
  proof (rule request_store [OF rep_create(2) assms(3)])
    fix q t assume "create_report ten d i now ((st_db st)\<lparr>post_commit := []\<rparr>) = (q, t)"
    from report_rows(1) [OF this] show "market_reports t = market_reports (st_db st) \<or> store_ok w (st\<lparr>st_db := t\<rparr>)"
    proof (elim disjE exE, goal_cases)
      case (2 e)
      have "report_ok w (st\<lparr>st_db := t\<rparr>) r = report_ok w st r" for r by (simp add: report_ok_def)
      moreover have "report_ok w st (new_report (tenant_id ten) e i now)" by (simp add: report_ok_def new_report_def)
      moreover have "report_id (new_report (tenant_id ten) e i now) = i" by (simp add: new_report_def)
      ultimately show ?case using 2 assms(3) rep_create(3) by (simp add: store_ok_def)
    qed simp
  qed
next
  case (rep_update ten i u r s')
  then have st': "st' = st\<lparr>st_db := s'\<rparr>" by simp
  show ?thesis
    unfolding st'
  proof (rule request_store [OF rep_update(2) assms(3)])
    fix q t assume "update_report ten i u ((st_db st)\<lparr>post_commit := []\<rparr>) = (q, t)"
    from report_rows(2) [OF this] show "market_reports t = market_reports (st_db st) \<or> store_ok w (st\<lparr>st_db := t\<rparr>)"
    proof (elim disjE exE, goal_cases)
      case (2 v)
      then have "market_reports t = upd_rows (\<lambda>r. report_id r = i) (patched_report v) (market_reports (st_db st))" by simp
      from store_upd [OF assms(3) this] show ?case by (simp add: patched_report_def)
    qed simp
  qed
next
  case (rep_publish ten i now x s')
  then have st': "st' = st\<lparr>st_db := s'\<rparr>" by simp
  show ?thesis
    unfolding st'
  proof (rule request_store [OF rep_publish(2) assms(3)])
    fix q t assume "publish_report ten i now ((st_db st)\<lparr>post_commit := []\<rparr>) = (q, t)"
    from report_rows(3) [OF this] show "market_reports t = market_reports (st_db st) \<or> store_ok w (st\<lparr>st_db := t\<rparr>)"
    proof (elim disjE exE, goal_cases)
      case 2
      then have "market_reports t = upd_rows (\<lambda>r. report_id r = i) (published_report now) (market_reports (st_db st))" by simp
      from store_upd [OF assms(3) this] show ?case by (simp add: published_report_def)
    qed simp
  qed
next
  case (rep_unpublish ten i x s')
  then have st': "st' = st\<lparr>st_db := s'\<rparr>" by simp
  show ?thesis
    unfolding st'
  proof (rule request_store [OF rep_unpublish(2) assms(3)])
    fix q t assume "unpublish_report ten i ((st_db st)\<lparr>post_commit := []\<rparr>) = (q, t)"
    from report_rows(4) [OF this] show "market_reports t = market_reports (st_db st) \<or> store_ok w (st\<lparr>st_db := t\<rparr>)"
    proof (elim disjE exE, goal_cases)
      case 2
      then have "market_reports t = upd_rows (\<lambda>r. report_id r = i) (\<lambda>r. r\<lparr>report_status := REPORT_DRAFT\<rparr>)
        (market_reports (st_db st))" by simp
      from store_upd [OF assms(3) this] show ?case by simp
    qed simp
  qed
next
  case (rep_delete bucket ten i x s')
  then have st': "st' = st\<lparr>st_db := s'\<rparr>" by simp
  show ?thesis
    unfolding st'
  proof (rule request_store [OF rep_delete(2) assms(3)])
    fix q t assume "delete_report bucket ten i ((st_db st)\<lparr>post_commit := []\<rparr>) = (q, t)"
    from report_rows(5) [OF this] show "market_reports t = market_reports (st_db st) \<or> store_ok w (st\<lparr>st_db := t\<rparr>)"
    proof (elim disjE exE, goal_cases)
      case 2
      have "report_ok w (st\<lparr>st_db := t\<rparr>) r = report_ok w st r" for r by (simp add: report_ok_def)
      with 2 assms(3) show ?case by (simp add: store_ok_def del_rows_def distinct_map_filterI)
    qed simp
  qed
next
  case (rep_task render t i now out)
  then show ?thesis using task_ok assms(2,3) by blast
next
  case (rep_cleanup i t)
  have "report_ok w st' r" if "r \<in> set (market_reports (st_db st))" for r
  proof -
    have "report_id r \<noteq> i" using that rep_cleanup(2) by auto
    with assms(3) that show ?thesis
      by (simp add: rep_cleanup(1) store_ok_def report_ok_def report_pdf_key_inj [OF assms(2)])
  qed
  with assms(3) show ?thesis by (simp add: rep_cleanup(1) store_ok_def)
next
  case (rep_elsewhere s')
  with assms(3) store_same show ?thesis by blast
qed

lemma report_run_ok: "report_run w st st' \<Longrightarrow> plain_uuid_texts w \<Longrightarrow> store_ok w st \<Longrightarrow> store_ok w st'"
  by (induction rule: report_run.induct) (auto dest: report_step_ok)

lemma download_of:
  assumes "fst (request_report_download w presign ten slug d i c now s) = Inr (Some url)"
  obtains r where "r \<in> set (market_reports s)" "report_tenant r = tenant_id ten" "report_slug r = slug"
    "report_status r = REPORT_READY" "url = presign (or_else (report_pdf_object_key r) []) (''report-'' @ slug @ ''.pdf'')"
  using assms
  by (auto simp: request_report_download_def parse_report_download_def lift_res_def get_public_report_def get_published_report_by_slug_def andthen_def
      gets_def raise_def ret_def check_def dest!: find_in simp del: append.simps
      split: option.splits if_splits prod.splits sum.splits)

text \<open>
  A download link points at a file. In any run in which PDF tasks do not overlap, a READY
  report has its PDF in the private bucket, and a link that the download form hands out is the
  presigned key of an object that exists, rendered for that very report.
\<close>

lemma download_points_at_file:
  assumes "report_run w st st'" "plain_uuid_texts w" "store_ok w st"
    "fst (request_report_download w presign ten slug d i c now (st_db st')) = Inr (Some url)"
  shows "\<exists>r bytes. r \<in> set (market_reports (st_db st')) \<and> report_slug r = slug \<and> report_tenant r = tenant_id ten
    \<and> url = presign (report_pdf_key w (tenant_id ten) (report_id r)) (''report-'' @ slug @ ''.pdf'')
    \<and> st_objects st' (report_pdf_key w (tenant_id ten) (report_id r)) = Some bytes"
proof -
  obtain r where r: "r \<in> set (market_reports (st_db st'))" "report_tenant r = tenant_id ten" "report_slug r = slug"
    "report_status r = REPORT_READY" "url = presign (or_else (report_pdf_object_key r) []) (''report-'' @ slug @ ''.pdf'')"
    using download_of [OF assms(4)] .
  have "report_ok w st' r" using report_run_ok [OF assms(1-3)] r(1) by (simp add: store_ok_def)
  with r show ?thesis by (auto simp: report_ok_def)
qed

text \<open>
  When two tasks of one report overlap (the broker delivers at least once), the second finds the
  row READY and removes the file that the first one announced.
\<close>

lemma overlapping_tasks_lose_file:
  assumes "report_get t i (st_db st) = Some r" "report_status r = REPORT_PUBLISHED"
    "pdf_snapshot t i st = Some snap"
    "first = pdf_mark_ready w t i now (pdf_upload w render t i snap st)"
    "second = pdf_mark_ready w t i later (pdf_upload w render t i snap (snd first))"
  shows "fst first \<and> \<not> fst second
    \<and> map_option report_status (report_get t i (st_db (snd second))) = Some REPORT_READY
    \<and> st_objects (snd second) (report_pdf_key w t i) = None"
proof -
  have ready: "report_get t i (st_db (snd first)) = Some (ready_report (report_pdf_key w t i) now r)"
  proof -
    have "find (\<lambda>r. report_tenant r = t \<and> report_id r = i) (upd_rows (\<lambda>r. report_id r = i)
        (ready_report (report_pdf_key w t i) now) rows) = map_option (ready_report (report_pdf_key w t i) now)
        (find (\<lambda>r. report_tenant r = t \<and> report_id r = i) rows)" for rows
      by (induction rows) (auto simp: upd_rows_def ready_report_def)
    with assms(1,2) show ?thesis
      by (simp add: assms(4) pdf_mark_ready_def pdf_upload_def report_get_def)
  qed
  have "fst first" using assms(1,2) by (simp add: assms(4) pdf_mark_ready_def pdf_upload_def)
  with ready show ?thesis by (simp add: assms(5) pdf_mark_ready_def pdf_upload_def ready_report_def)
qed

text \<open>
  An explicit null for the title passes the update schema; the answer cannot be built and the
  request ends as an unhandled error, not as a validation error.
\<close>

lemma null_title_unhandled:
  assumes "page_get (tenant_id ten) i s = Some p" "\<not> page_slug_taken (tenant_id ten) (page_slug p) i s"
  shows "fst (update_page_route ten i
    \<lparr>pgu_slug = Unset, pgu_title = SetTo None, pgu_blocks = Unset, pgu_seo_meta = Unset, pgu_status = Unset\<rparr> now s)
    = Inl ValueError"
proof -
  let ?d = "\<lparr>pgu_slug = Unset, pgu_title = SetTo None, pgu_blocks = Unset, pgu_seo_meta = Unset, pgu_status = Unset\<rparr>"
  have parsed: "parse_page_update ?d = Inr ?d"
    by (simp add: parse_page_update_def validate_i18n_def valid_seo_def)
  have same: "page_slug (patched_page ?d now p) = page_slug p" "page_title (patched_page ?d now p) = None"
    by (auto simp: patched_page_def stamp_published_def)
  have found: "page_or_404 ten i s = (Inr p, s)"
    using assms(1) by (simp add: page_or_404_def ret_def)
  show ?thesis
    unfolding update_page_route_def update_page_def parsed andthen_lift sum.case
    using assms(2) found same
    by (simp add: andthen_def gets_def check_def page_write_def modify_def invalidate_public_after_commit_def
        on_commit_def ret_def raise_def)
qed

section \<open>Witnesses\<close>

definition paper_world :: world where
  "paper_world = sample_world\<lparr>uuid_text := (\<lambda>i. replicate i CHR ''a''), uuid_of_text := (\<lambda>v. Some (length v))\<rparr>"

lemma paper_world_plain: "plain_uuid_texts paper_world"
  by (simp add: plain_uuid_texts_def paper_world_def)

definition sample_terms :: legal_create where
  "sample_terms = \<lparr>lgc_kind = TERMS, lgc_body = [(''fr'', ''CGU'')], lgc_effective_at = None\<rparr>"

definition sample_legal_db :: db where
  "sample_legal_db = snd (run_request (publish_legal_version sample_tenant sample_terms 5 0) empty_db)"

lemma legal_history_append_only_at_work:
  "map legal_version (filter (legal_of 1 TERMS) (legal_pages sample_legal_db)) = [1]
   \<and> map_sum id legal_version (fst (run_request (publish_legal_version sample_tenant sample_terms 6 1) sample_legal_db)) = Inr 2"
proof -
  have "legal_run empty_db sample_legal_db"
    unfolding sample_legal_db_def
    by (rule legal_publish [OF legal_start surjective_pairing]) (simp add: empty_db_def)
  moreover have ok: "legal_ok empty_db" by (simp add: legal_ok_def empty_db_def numbered_def)
  ultimately have "let rows = filter (legal_of 1 TERMS) (legal_pages sample_legal_db)
    in take (length (legal_pages empty_db)) (map legal_text (legal_pages sample_legal_db)) = map legal_text (legal_pages empty_db)
      \<and> map legal_version rows = map int [1..<Suc (length rows)]
      \<and> get_current_legal 1 TERMS sample_legal_db = Inr (if rows = [] then None else Some (last rows))
      \<and> map_sum id legal_version (fst (run_request (publish_legal_version sample_tenant sample_terms 6 1) sample_legal_db))
          = (case parse_legal_create sample_terms of Inl e \<Rightarrow> Inl e
             | Inr d \<Rightarrow> Inr (int (length (filter (legal_of (tenant_id sample_tenant) (lgc_kind d)) (legal_pages sample_legal_db))) + 1))"
    by (rule legal_history_append_only)
  moreover have parsed: "parse_legal_create sample_terms = Inr sample_terms"
    by (simp add: parse_legal_create_def validate_i18n_def sample_terms_def SUPPORTED_LOCALES_def str_strip_def is_space_def)
  moreover have "legal_pages sample_legal_db = [next_version 1 sample_terms 5 0 []]"
    using publish_request [where ten = sample_tenant and raw = sample_terms and i = 5 and now = 0, OF ok surjective_pairing] parsed
    by (simp add: sample_legal_db_def sample_tenant_def empty_db_def retired_def)
  moreover have "legal_of 1 TERMS (next_version 1 sample_terms 5 0 [])"
    by (simp add: legal_of_def next_version_def sample_terms_def)
  ultimately show ?thesis by (simp add: Let_def sample_tenant_def sample_terms_def)
qed

definition paper_mac :: mac where
  "paper_mac key text = (if list_ex (\<lambda>c. c = dot \<or> \<not> (of_char c :: nat) < 128) (key @ text) then [] else key @ text)"

definition sample_page :: content_page where
  "sample_page = \<lparr>page_id = 3, page_tenant = 1, page_slug = ''a-propos'', page_title = Some [(''fr'', ''A propos'')],
     page_blocks = [], page_seo_meta = [], page_status = PAGE_DRAFT, page_published_at = None, page_created_at = 0\<rparr>"

lemma preview_opens_own_page_at_work:
  "get_preview_page paper_mac ''k'' paper_world sample_tenant ''a-propos''
     (preview_token paper_mac ''k'' paper_world sample_tenant sample_page) (empty_db\<lparr>content_pages := [sample_page]\<rparr>)
     = (Inr sample_page, empty_db\<lparr>content_pages := [sample_page]\<rparr>)"
proof -
  have mac: "dotless paper_mac"
    by (auto simp: dotless_def paper_mac_def ascii_text_def list_ex_iff list_all_iff)
  have found: "page_get 1 3 (empty_db\<lparr>content_pages := [sample_page]\<rparr>) = Some sample_page"
    by (simp add: page_get_def sample_page_def)
  have t: "sample_tenant\<lparr>tenant_id := 1\<rparr> = sample_tenant" "tenant_id sample_tenant = 1"
    by (simp_all add: sample_tenant_def)
  show ?thesis
    using preview_opens_own_page [where ten = sample_tenant and ten' = sample_tenant and secret = "''k''"
      and slug = "''a-propos''", OF mac paper_world_plain found, THEN conjunct1]
    unfolding t by (simp add: sample_page_def)
qed

definition sample_report :: market_report where
  "sample_report = \<lparr>report_id = 4, report_tenant = 1, report_slug = ''q1'', report_title = [(''fr'', ''T1'')],
     report_stats = [], report_pdf_object_key = None, report_status = REPORT_PUBLISHED, report_generated_at = None,
     report_published_at = Some 0, report_created_at = 0\<rparr>"

definition sample_bucket :: report_store where
  "sample_bucket = \<lparr>st_db = sample_db\<lparr>market_reports := [sample_report]\<rparr>, st_objects = (\<lambda>_. None)\<rparr>"

definition sample_rendered :: report_store where
  "sample_rendered = snd (generate_report_pdf paper_world (\<lambda>title stats. title) 1 4 9 sample_bucket)"

definition sample_form :: report_download where
  "sample_form = \<lparr>rd_contact = \<lparr>cc_first_name = None, cc_last_name = None, cc_email = Some ''a@b.c'', cc_phone = None,
     cc_whatsapp = None, cc_marketing_consent = False\<rparr>, rd_meta = [], rd_hp = []\<rparr>"

lemma download_points_at_file_at_work:
  "fst (request_report_download paper_world (\<lambda>k f. k) sample_tenant ''q1'' sample_form 20 21 9 (st_db sample_rendered))
     = Inr (Some (report_pdf_key paper_world 1 4))
   \<and> st_objects sample_rendered (report_pdf_key paper_world 1 4) \<noteq> None"
proof -
  have step: "report_run paper_world sample_bucket sample_rendered"
    unfolding sample_rendered_def
    by (rule rep_more [OF rep_start rep_task [OF surjective_pairing]])
  have ok: "store_ok paper_world sample_bucket"
    by (simp add: store_ok_def report_ok_def sample_bucket_def sample_report_def)
  have url: "fst (request_report_download paper_world (\<lambda>k f. k) sample_tenant ''q1'' sample_form 20 21 9 (st_db sample_rendered))
      = Inr (Some (report_pdf_key paper_world 1 4))"
    by code_simp
  have t: "tenant_id sample_tenant = 1" by (simp add: sample_tenant_def)
  show ?thesis
    using url download_points_at_file [OF step paper_world_plain ok url] unfolding t by auto
qed

end
