(* ===== verification/Spec2Isabelle.thy ===== *)
theory Spec2Isabelle
  imports Auth_Desk Rate_Limit Tour_Desk Deal_Desk Usage I18n Relay_Desk Hook_Desk Sync_Desk
    Review_Desk Content_Desk
begin

text \<open>
  A verification development for the backend of a multi-tenant real-estate platform: a FastAPI
  application under \<open>src/src/app\<close> whose services keep the listings, leads, deals, agents and
  plans of many agencies (tenants) in one PostgreSQL database.

  \<^bold>\<open>How the program is put together.\<close> A request resolves its tenant (\<open>core/tenancy.py\<close>) and its user
  (\<open>core/permissions.py\<close>), opens one transaction (\<open>core/database.py\<close>) and calls one method of a
  service (\<open>modules/*/service.py\<close>), which reads and writes through a repository, writes events to
  an outbox, and registers callbacks that run after the commit. Periodic tasks (\<open>workers/tasks\<close>)
  call the same services in a transaction per tenant. What an agent sees is decided by the teams
  module (\<open>scope_user_ids_for\<close>) and applied by every repository query.

  \<^bold>\<open>How it is modelled.\<close> A service method is an \<open>action\<close>, a function from the state to an error or
  a value and a new state (Prelude). Every raise of the source is a constructor of \<open>error\<close>
  (Prelude), with the status code the HTTP layer answers. The database is the record \<open>db\<close>, one
  list of rows per table; uniqueness and foreign keys are explicit checks where the database has
  them. \<open>run_request\<close> is the transaction: an error gives the old tables back and keeps only what
  was handed to the broker at once, a return appends the registered callbacks to what was sent.
  Redis is a second store (Redis), which a rolled-back transaction does not undo; the
  authentication service runs over the pair of both. Decimals are a coefficient and an exponent
  with Python's 28-digit context (Money). Instants are integers, in microseconds; fresh ids and
  tokens, the clock, digests and signatures, the text of a uuid and the geometry of a service
  area are arguments (the records \<open>world\<close> and its counterpart of the authentication service).

  \<^bold>\<open>The theories.\<close>
  \<^item> Prelude: actions, errors, JSON values, rows of a table, the lemmas the components share.
  \<^item> Permissions, Pagination, I18n, Money: \<open>core/permissions.py\<close>, \<open>core/pagination.py\<close>,
    \<open>core/i18n.py\<close>, \<open>common/money.py\<close>.
  \<^item> Database: the rows, events and the transaction.
  \<^item> Users, Usage, Agents: accounts, plan limits and usage counters, teams and visibility.
  \<^item> Contracts: the interfaces, as locales. \<open>scoped_table\<close> is what a service relies on when it
    looks a row up under a tenant and a scope; \<open>keyset_pages\<close> what a cursor walk relies on;
    \<open>workflow\<close> and the invariant locales (\<open>lead_invariant\<close>, \<open>session_invariant\<close>, \<open>redis_invariant\<close>)
    what a module promises of its calls; \<open>quota\<close> and \<open>token_store\<close> what a counter and a
    token table promise their clients. Each is interpreted on the model's own definitions in
    the theory of the module that provides it.
  \<^item> Listings and Listing_Workflow: \<open>modules/listings\<close>, its operations and their correctness.
  \<^item> Transactions and Deal_Desk: \<open>modules/transactions\<close>, with the routes that answer with deals.
  \<^item> Leads and Lead_Desk: \<open>modules/leads\<close>.
  \<^item> Calendar, Signing, Appointments and Tour_Desk: the slot grid and availability, the signed
    action links, and the service of \<open>modules/appointments\<close> with the reminder sweep.
  \<^item> Redis, Rate_Limit, Lockout: the keys the code keeps in Redis, \<open>core/rate_limit.py\<close> and
    \<open>core/lockout.py\<close>, the failed attempts also command by command as they overlap.
  \<^item> Auth, Auth_Tokens, Auth_Desk: \<open>modules/auth\<close> (registration, login, second factor, rotated
    refresh tokens, password reset, verification, the impersonation of \<open>tenants/admin.py\<close>) and
    the properties of its sessions.
  \<^item> Net: the guard of \<open>core/net.py\<close> for URLs that a tenant supplies, with the address classes of
    \<open>ipaddress\<close> on words and the URL parser of the standard library.
  \<^item> Webhooks, Outbox, Relay_Desk, Hook_Desk: \<open>modules/webhooks\<close>, the outbox with its relay
    (\<open>core/events.py\<close>, \<open>workers/tasks/outbox.py\<close>), and what both promise. \<open>event_relay\<close> is the
    interface of the handlers a relay runs, \<open>Breaker\<close> that of a circuit breaker.
  \<^item> Syndication and Sync_Desk: \<open>modules/syndication\<close> with the adapters of
    \<open>integrations/portals\<close>.
  \<^item> Reviews and Review_Desk: \<open>modules/reviews\<close>, its moderation and its averages.
  \<^item> Content and Content_Desk: the pages, legal texts and market reports of \<open>modules/content\<close>,
    with the PDF task of \<open>workers/tasks/content.py\<close> in its separate transactions.

  \<^bold>\<open>What the lemmas show.\<close> For each module an inductive relation (\<open>listing_step\<close>, \<open>deal_step\<close>,
  \<open>lead_call\<close>, \<open>tour_call\<close>, \<open>auth_step\<close> with its closure \<open>auth_run\<close>) has one rule per method, with
  any actor, tenant, arguments and outcome, failures included, so an invariant of its closure
  holds for every history of calls: the status history of a listing replays to its status,
  quotas are exact, reference codes are unique, deals stay well-formed and
  closed deals frozen, scores stay bounded, two active tours of an agent never overlap, a
  superseded refresh token never opens a session again. For the background work the relations
  \<open>relay_run\<close>, \<open>hook_run\<close> and \<open>sync_run\<close> interleave ticks, tasks and the calls of users: the
  tables after any run of the relay are the replay of a ledger of delivered events, and a
  receiver or a portal that is down gets a bounded number of calls. Further groups state the outcome of an
  operation on every branch, the isolation of tenants and scopes (a row that is missing, foreign
  or out of scope is answered alike), that cursor pages visit every row once, that sweeps notify
  once, and where the code falls short of its own documentation.

  \<^bold>\<open>Bounds.\<close> Almost every loop of the modelled code is structural on a list, so no fuel is
  needed. The slot loop, which counts up to a bound, is a \<open>partial_function\<close> whose
  non-termination is the value \<open>None\<close>, and it is shown to return for every input the schemas
  admit. Page and batch sizes are the constants of the code. The HTTP client of the webhooks
  follows at most twenty redirects; an attempt is the list of addresses it posted to.

  \<^bold>\<open>Requests that overlap.\<close> A run takes its calls one after the other. Where the code takes a row
  lock, an advisory lock or relies on one statement of PostgreSQL or Redis (bookings, the quota
  counter, reference codes, the workflows, the outbox, the single use of a code), that order is
  the code's own. It is an assumption elsewhere, which the properties that need it state: the
  presented refresh token, the settings of a tenant, the dedupe of contacts, the periodic
  sweeps and the PDF task are read without a lock, and the lemmas
  \<open>racing_refreshes_fork_the_family\<close>, \<open>racing_replacements_lose_one\<close> and
  \<open>overlapping_tasks_lose_file\<close> show what an overlap does. The lockout is also modelled command
  by command, with every interleaving (\<open>attempts\<close>).

  \<^bold>\<open>Not modelled.\<close> Most routers, configuration and telemetry; Argon2, JWT, TOTP and OAuth, object
  storage and portal clients, which are third-party or pure I/O and appear as parameters or as
  values handed to the broker (the answers of a webhook receiver and of a portal, name
  resolution, the JSON encoder); overlapping transactions, except as said above; full-text and
  geographic search; and the modules listed as such in the manifest.
\<close>

end
